(* ===== verification/Rentmap_Prelude.thy ===== *)
theory Rentmap_Prelude
  imports Complex_Main "HOL-Library.Sublist" "HOL-Library.Multiset"
begin

text \<open>
  Shared vocabulary of the RentMap development.

  \<^item> The exceptions the Python sources can raise, as the datatype \<open>error\<close>, and the result
    type \<open>'a result\<close> (\<open>Inl\<close> an exception, \<open>Inr\<close> a value) with its sequencing
    operator \<open>and_then\<close>, which stops at the first exception as Python does.
  \<^item> Three collections of facts: \<open>rentmap_defs\<close> (definitions that proofs of a whole
    component unfold), \<open>frame_simps\<close> (rewrite rules about data frames and their rows)
    and \<open>wf_intros\<close> (well-formedness preservation, one fact per operation).
  \<^item> Generic lemmas on lists, options and rational numbers that several components use.
\<close>

section \<open>Fact collections\<close>

named_theorems rentmap_defs "definitions unfolded when a whole operation is evaluated"
named_theorems frame_simps "rewrite rules for data frames and rows"
named_theorems wf_intros "well-formedness is preserved by an operation"

section \<open>Exceptions and results\<close>

datatype error =
    KeyError "string list"
  | ValueError string
  | TypeError string
  | AttributeError string
  | FileNotFoundError string
  | EmptyDataError string
  | OSError string

type_synonym 'a result = "error + 'a"

definition and_then :: "'a result \<Rightarrow> ('a \<Rightarrow> 'b result) \<Rightarrow> 'b result" where
  "and_then r f = (case r of Inl e \<Rightarrow> Inl e | Inr x \<Rightarrow> f x)"

definition succeeds :: "'a result \<Rightarrow> bool" where
  "succeeds r = (case r of Inl _ \<Rightarrow> False | Inr _ \<Rightarrow> True)"

lemma and_then_Inl [simp]: "and_then (Inl e) f = Inl e"
  by (simp add: and_then_def)

lemma and_then_Inr [simp]: "and_then (Inr x) f = f x"
  by (simp add: and_then_def)

lemma and_then_eq_Inr_iff:
  "and_then r f = Inr y \<longleftrightarrow> (\<exists>x. r = Inr x \<and> f x = Inr y)"
  by (cases r) auto

lemma and_then_eq_Inl_iff:
  "and_then r f = Inl e \<longleftrightarrow> r = Inl e \<or> (\<exists>x. r = Inr x \<and> f x = Inl e)"
  by (cases r) auto

lemma and_then_assoc: "and_then (and_then r f) g = and_then r (\<lambda>x. and_then (f x) g)"
  by (cases r) auto

lemma and_then_Inr_right [simp]: "and_then r Inr = r"
  by (cases r) auto

lemma succeeds_simps [simp]: "succeeds (Inr x)" "\<not> succeeds (Inl e)"
  by (simp_all add: succeeds_def)

lemma succeeds_iff: "succeeds r \<longleftrightarrow> (\<exists>x. r = Inr x)"
  by (cases r) auto

section \<open>Lists\<close>

lemma length_filter_conv_removed:
  "length xs - length (filter P xs) = length (filter (\<lambda>x. \<not> P x) xs)"
  using sum_length_filter_compl [of P xs] by simp

lemma filter_id_iff: "filter P xs = xs \<longleftrightarrow> (\<forall>x \<in> set xs. P x)"
  by (induction xs) (auto dest: filter_eq_ConsD simp: filter_id_conv)

lemma map_eq_self_iff: "map f xs = xs \<longleftrightarrow> (\<forall>x \<in> set xs. f x = x)"
  by (induction xs) auto

lemma list_all_filter [simp]: "list_all P (filter P xs)"
  by (simp add: list_all_iff)

lemma sorted_nth_le_last:
  assumes "sorted xs" and "i < length xs"
  shows "xs ! i \<le> xs ! (length xs - 1)"
  using assms by (intro sorted_nth_mono) auto

lemma sorted_hd_le_nth:
  assumes "sorted xs" and "i < length xs"
  shows "xs ! 0 \<le> xs ! i"
  using assms by (intro sorted_nth_mono) auto

lemma sort_Nil_iff [simp]: "sort xs = [] \<longleftrightarrow> xs = []"
  by (metis length_0_conv length_sort)

lemma sort_cong_mset: "mset xs = mset ys \<Longrightarrow> sort xs = sort ys"
  by (metis mset_sort properties_for_sort sorted_sort)

lemma nth_sort_mem: "i < length xs \<Longrightarrow> sort xs ! i \<in> set xs"
  by (metis length_sort nth_mem set_sort)

lemma Min_le_nth_sort:
  fixes xs :: "'a::linorder list"
  assumes "i < length xs"
  shows "Min (set xs) \<le> sort xs ! i" and "sort xs ! i \<le> Max (set xs)"
  using nth_sort_mem [OF assms] by simp_all

section \<open>Options\<close>

definition somes :: "'a option list \<Rightarrow> 'a list" where
  "somes xs = List.map_filter id xs"

lemma somes_simps [simp]:
  "somes [] = []"
  "somes (None # xs) = somes xs"
  "somes (Some x # xs) = x # somes xs"
  by (simp_all add: somes_def List.map_filter_simps)

lemma set_somes: "set (somes xs) = {x. Some x \<in> set xs}"
  by (induction xs) (auto simp: somes_def List.map_filter_simps split: option.splits)

lemma somes_map_Some [simp]: "somes (map Some xs) = xs"
  by (induction xs) auto

lemma somes_append [simp]: "somes (xs @ ys) = somes xs @ somes ys"
  by (induction xs) (auto simp: somes_def List.map_filter_simps split: option.splits)

lemma somes_eq_Nil_iff: "somes xs = [] \<longleftrightarrow> (\<forall>x \<in> set xs. x = None)"
  by (induction xs) (auto simp: somes_def List.map_filter_simps split: option.splits)

lemma length_somes_le: "length (somes xs) \<le> length xs"
  by (induction xs) (auto simp: somes_def List.map_filter_simps split: option.splits)

section \<open>Rational numbers\<close>

lemma floor_numeral_div_rat [simp]:
  "\<lfloor>(numeral a :: rat) / numeral b\<rfloor> = numeral a div numeral b"
  using floor_divide_of_int_eq [of "numeral a" "numeral b", where ?'a = rat] by simp

lemma floor_neg_numeral_div_rat [simp]:
  "\<lfloor>- (numeral a :: rat) / numeral b\<rfloor> = - numeral a div numeral b"
  using floor_divide_of_int_eq [of "- numeral a" "numeral b", where ?'a = rat] by simp

lemma floor_one_div_numeral_rat [simp]:
  "\<lfloor>1 / (numeral b :: rat)\<rfloor> = 1 div numeral b"
  using floor_divide_of_int_eq [of 1 "numeral b", where ?'a = rat] by simp

lemma of_int_floor_le_rat: "of_int \<lfloor>x\<rfloor> \<le> (x :: rat)"
  by simp

lemma frac_part_bounds:
  fixes x :: rat
  shows "0 \<le> x - of_int \<lfloor>x\<rfloor>" and "x - of_int \<lfloor>x\<rfloor> < 1"
  by linarith+

lemma convex_between:
  fixes a b g :: rat
  assumes "a \<le> b" and "0 \<le> g" and "g \<le> 1"
  shows "a \<le> a + g * (b - a)" and "a + g * (b - a) \<le> b"
proof -
  from assms show "a \<le> a + g * (b - a)" by simp
  have "g * (b - a) \<le> 1 * (b - a)"
    using assms by (intro mult_right_mono) auto
  then show "a + g * (b - a) \<le> b" by simp
qed

end
