(* ===== verification/Numerics.thy ===== *)
theory Numerics
  imports Rentmap_Prelude
begin

text \<open>
  The numeric operations that \<open>src/src/data_processor.py\<close> asks pandas and numpy for:
  true division of two columns, rounding to two decimals, and the order statistics
  \<open>quantile\<close>, \<open>median\<close> and \<open>mode\<close> of a column.

  A finite cell value is an exact rational number (\<open>rat\<close>); a missing value (pandas'
  \<open>NaN\<close>) is \<open>None\<close> at the place where the cell is stored. Only the quotient of two
  columns can leave the finite numbers, so only its type \<open>fnum\<close> has the two infinities.
  Every statistic takes the list of the non-missing values of a column, as pandas
  skips missing values, and returns \<open>None\<close> where pandas returns \<open>NaN\<close>.
\<close>

section \<open>Division of two columns\<close>

datatype fnum = Fin rat | PosInf | NegInf

definition fdiv :: "rat \<Rightarrow> rat \<Rightarrow> fnum option" where
  "fdiv p a =
     (if a \<noteq> 0 then Some (Fin (p / a))
      else if 0 < p then Some PosInf
      else if p < 0 then Some NegInf
      else None)"

definition is_finite :: "fnum \<Rightarrow> bool" where
  "is_finite v = (case v of Fin _ \<Rightarrow> True | _ \<Rightarrow> False)"

lemma is_finite_simps [simp]:
  "is_finite (Fin q)" "\<not> is_finite PosInf" "\<not> is_finite NegInf"
  by (simp_all add: is_finite_def)

lemma fdiv_nonzero [simp]: "a \<noteq> 0 \<Longrightarrow> fdiv p a = Some (Fin (p / a))"
  by (simp add: fdiv_def)

lemma fdiv_zero:
  "fdiv p 0 = (if 0 < p then Some PosInf else if p < 0 then Some NegInf else None)"
  by (simp add: fdiv_def)

lemma fdiv_finite_iff: "(\<exists>q. fdiv p a = Some (Fin q)) \<longleftrightarrow> a \<noteq> 0"
  by (auto simp: fdiv_def)

lemma fdiv_None_iff: "fdiv p a = None \<longleftrightarrow> a = 0 \<and> p = 0"
  by (auto simp: fdiv_def)

text \<open>The order of floats: \<open>-inf\<close> below and \<open>inf\<close> above every number.\<close>

instantiation fnum :: linorder
begin

definition level_fnum :: "fnum \<Rightarrow> nat \<times> rat" where
  "level_fnum v = (case v of NegInf \<Rightarrow> (0, 0) | Fin q \<Rightarrow> (1, q) | PosInf \<Rightarrow> (2, 0))"

definition less_eq_fnum :: "fnum \<Rightarrow> fnum \<Rightarrow> bool" where
  "less_eq_fnum a b =
     (fst (level_fnum a) < fst (level_fnum b)
      \<or> fst (level_fnum a) = fst (level_fnum b) \<and> snd (level_fnum a) \<le> snd (level_fnum b))"

definition less_fnum :: "fnum \<Rightarrow> fnum \<Rightarrow> bool" where
  "less_fnum a b =
     (fst (level_fnum a) < fst (level_fnum b)
      \<or> fst (level_fnum a) = fst (level_fnum b) \<and> snd (level_fnum a) < snd (level_fnum b))"

instance
proof
  fix a b :: fnum
  show "a \<le> b \<Longrightarrow> b \<le> a \<Longrightarrow> a = b"
    by (cases a; cases b) (simp_all add: less_eq_fnum_def level_fnum_def)
qed (auto simp: less_eq_fnum_def less_fnum_def level_fnum_def split: fnum.splits)

end

lemma fnum_le_simps [simp]:
  "Fin p \<le> Fin q \<longleftrightarrow> p \<le> q" "NegInf \<le> v" "v \<le> PosInf"
  "Fin p \<le> NegInf \<longleftrightarrow> False" "PosInf \<le> Fin q \<longleftrightarrow> False" "PosInf \<le> NegInf \<longleftrightarrow> False"
  by (simp_all add: less_eq_fnum_def level_fnum_def split: fnum.splits)

lemma fnum_less_simps [simp]:
  "Fin p < Fin q \<longleftrightarrow> p < q" "Fin q < PosInf" "NegInf < Fin q" "NegInf < PosInf"
  by (simp_all add: less_fnum_def level_fnum_def)

section \<open>Rounding to two decimals\<close>

text \<open>
  \<open>rint\<close> rounds to the nearest integer and a tie to the even neighbour, as numpy's
  \<open>rint\<close> does; \<open>round2\<close> is \<open>round(2)\<close>: scale by 100, round, scale back.
\<close>

definition rint :: "rat \<Rightarrow> int" where
  "rint x =
     (let f = \<lfloor>x\<rfloor>; d = x - of_int f
      in if d < 1 / 2 then f
         else if 1 / 2 < d then f + 1
         else if even f then f else f + 1)"

definition round2 :: "rat \<Rightarrow> rat" where
  "round2 x = of_int (rint (x * 100)) / 100"

definition fround2 :: "fnum \<Rightarrow> fnum" where
  "fround2 v = (case v of Fin q \<Rightarrow> Fin (round2 q) | PosInf \<Rightarrow> PosInf | NegInf \<Rightarrow> NegInf)"

lemma fround2_simps [simp]:
  "fround2 (Fin q) = Fin (round2 q)" "fround2 PosInf = PosInf" "fround2 NegInf = NegInf"
  by (simp_all add: fround2_def)

lemma rint_of_int [simp]: "rint (of_int n) = n"
  by (simp add: rint_def)

lemma rint_numeral [simp]: "rint (numeral n) = numeral n"
  using rint_of_int [of "numeral n"] by simp

lemma rint_cases:
  "rint x = \<lfloor>x\<rfloor> \<or> rint x = \<lfloor>x\<rfloor> + 1"
  by (simp add: rint_def Let_def)

lemma rint_lower: "x - 1 / 2 \<le> of_int (rint x)"
proof -
  have "of_int \<lfloor>x\<rfloor> \<le> x" "x < of_int \<lfloor>x\<rfloor> + 1"
    by linarith+
  then show ?thesis
    by (auto simp: rint_def Let_def)
qed

lemma rint_upper: "of_int (rint x) \<le> x + 1 / 2"
proof -
  have "of_int \<lfloor>x\<rfloor> \<le> x" "x < of_int \<lfloor>x\<rfloor> + 1"
    by linarith+
  then show ?thesis
    unfolding rint_def Let_def by (simp; linarith)
qed

lemma rint_error: "\<bar>of_int (rint x) - x\<bar> \<le> 1 / 2"
  using rint_lower [of x] rint_upper [of x] by linarith

lemma rint_mono:
  assumes "x \<le> y"
  shows "rint x \<le> rint y"
proof (cases "\<lfloor>x\<rfloor> = \<lfloor>y\<rfloor>")
  case True
  with assms show ?thesis
    by (auto simp: rint_def Let_def)
next
  case False
  with assms have "\<lfloor>x\<rfloor> + 1 \<le> \<lfloor>y\<rfloor>"
    using floor_mono [of x y] by linarith
  moreover have "rint x \<le> \<lfloor>x\<rfloor> + 1" "\<lfloor>y\<rfloor> \<le> rint y"
    using rint_cases [of x] rint_cases [of y] by auto
  ultimately show ?thesis by linarith
qed

lemma round2_idem [simp]: "round2 (round2 x) = round2 x"
  by (simp add: round2_def)

lemma round2_error: "\<bar>round2 x - x\<bar> \<le> 1 / 200"
proof -
  have "\<bar>of_int (rint (x * 100)) - x * 100\<bar> \<le> 1 / 2"
    by (rule rint_error)
  then have "\<bar>(of_int (rint (x * 100)) - x * 100) / 100\<bar> \<le> (1 / 2) / 100"
    by (simp add: abs_le_iff)
  then show ?thesis
    by (simp add: round2_def diff_divide_distrib)
qed

lemma round2_mono: "x \<le> y \<Longrightarrow> round2 x \<le> round2 y"
  by (simp add: round2_def divide_right_mono rint_mono)

lemma round2_hundredths: "round2 x * 100 \<in> \<int>"
  by (simp add: round2_def)

lemma round2_of_hundredths [simp]: "round2 (of_int n / 100) = of_int n / 100"
  by (simp add: round2_def)

lemma round2_zero [simp]: "round2 0 = 0"
  by (simp add: round2_def rint_def)

lemma round2_nonneg: "0 \<le> x \<Longrightarrow> 0 \<le> round2 x"
  using round2_mono [of 0 x] by simp

section \<open>Quantiles\<close>

text \<open>
  \<open>Series.quantile(q)\<close> with the default linear interpolation: the sorted values are
  the points \<open>(i, s ! i)\<close>, the position is \<open>h = q * (n - 1)\<close>, and the result lies
  on the segment between the points at \<open>\<lfloor>h\<rfloor>\<close> and \<open>\<lfloor>h\<rfloor> + 1\<close>. An empty column has the
  quantile \<open>NaN\<close>.
\<close>

definition interp :: "rat list \<Rightarrow> rat \<Rightarrow> rat" where
  "interp s h =
     (let lo = nat \<lfloor>h\<rfloor>; hi = min (lo + 1) (length s - 1); g = h - of_int \<lfloor>h\<rfloor>
      in s ! lo + g * (s ! hi - s ! lo))"

definition quantile :: "rat \<Rightarrow> rat list \<Rightarrow> rat option" where
  "quantile q xs =
     (if xs = [] then None
      else Some (interp (sort xs) (q * of_nat (length xs - 1))))"

lemma nat_floor_le_pred:
  fixes h :: rat
  assumes "0 \<le> h" and "h \<le> of_nat (n - 1)"
  shows "nat \<lfloor>h\<rfloor> \<le> n - 1"
proof -
  have "\<lfloor>h\<rfloor> \<le> \<lfloor>(of_nat (n - 1) :: rat)\<rfloor>"
    using assms(2) by (rule floor_mono)
  then show ?thesis by simp
qed

lemma interp_between:
  assumes "sorted s" and "s \<noteq> []" and "0 \<le> h" and "h \<le> of_nat (length s - 1)"
  shows "s ! nat \<lfloor>h\<rfloor> \<le> interp s h"
    and "interp s h \<le> s ! min (nat \<lfloor>h\<rfloor> + 1) (length s - 1)"
proof -
  let ?lo = "nat \<lfloor>h\<rfloor>" and ?g = "h - of_int \<lfloor>h\<rfloor>"
  let ?hi = "min (?lo + 1) (length s - 1)"
  have lo: "?lo \<le> length s - 1"
    using assms(3,4) by (rule nat_floor_le_pred)
  then have "?lo \<le> ?hi" and "?hi < length s"
    using assms(2) by (auto simp: min_def)
  then have le: "s ! ?lo \<le> s ! ?hi"
    using assms(1) by (simp add: sorted_nth_mono)
  have g: "0 \<le> ?g" "?g \<le> 1"
    using frac_part_bounds [of h] by simp_all
  show "s ! ?lo \<le> interp s h"
    using convex_between(1) [OF le g] by (simp add: interp_def Let_def)
  show "interp s h \<le> s ! ?hi"
    using convex_between(2) [OF le g] by (simp add: interp_def Let_def)
qed

lemma interp_mono:
  assumes "sorted s" and "s \<noteq> []" and "0 \<le> h" and "h \<le> h'"
    and "h' \<le> of_nat (length s - 1)"
  shows "interp s h \<le> interp s h'"
proof (cases "\<lfloor>h\<rfloor> = \<lfloor>h'\<rfloor>")
  case True
  let ?lo = "nat \<lfloor>h\<rfloor>"
  let ?hi = "min (?lo + 1) (length s - 1)"
  have "?lo \<le> length s - 1"
    using assms(3-5) by (intro nat_floor_le_pred) auto
  then have "?lo \<le> ?hi" and "?hi < length s"
    using assms(2) by (auto simp: min_def)
  then have "0 \<le> s ! ?hi - s ! ?lo"
    using assms(1) by (simp add: sorted_nth_mono)
  moreover have "h - of_int \<lfloor>h\<rfloor> \<le> h' - of_int \<lfloor>h'\<rfloor>"
    using True assms(4) by simp
  ultimately have "(h - of_int \<lfloor>h\<rfloor>) * (s ! ?hi - s ! ?lo)
      \<le> (h' - of_int \<lfloor>h'\<rfloor>) * (s ! ?hi - s ! ?lo)"
    by (rule mult_right_mono [rotated])
  then show ?thesis
    using True by (simp add: interp_def Let_def)
next
  case False
  have h': "0 \<le> h'" using assms(3,4) by simp
  have h: "h \<le> of_nat (length s - 1)" using assms(4,5) by simp
  from False assms(4) have "\<lfloor>h\<rfloor> < \<lfloor>h'\<rfloor>"
    using floor_mono [of h h'] by linarith
  moreover have "0 \<le> \<lfloor>h\<rfloor>" using assms(3) by simp
  ultimately have lt: "nat \<lfloor>h\<rfloor> + 1 \<le> nat \<lfloor>h'\<rfloor>"
    by linarith
  have "nat \<lfloor>h'\<rfloor> \<le> length s - 1"
    using h' assms(5) by (rule nat_floor_le_pred)
  then have "nat \<lfloor>h'\<rfloor> < length s"
    using assms(2) by (cases s) auto
  with lt have "s ! min (nat \<lfloor>h\<rfloor> + 1) (length s - 1) \<le> s ! nat \<lfloor>h'\<rfloor>"
    using assms(1) by (intro sorted_nth_mono) auto
  with interp_between(2) [OF assms(1,2,3) h] interp_between(1) [OF assms(1,2) h' assms(5)]
  show ?thesis by linarith
qed

lemma quantile_Nil [simp]: "quantile q [] = None"
  by (simp add: quantile_def)

lemma quantile_eq_None_iff: "quantile q xs = None \<longleftrightarrow> xs = []"
  by (simp add: quantile_def)

lemma quantile_mset_cong: "mset xs = mset ys \<Longrightarrow> quantile q xs = quantile q ys"
  using sort_cong_mset [of xs ys] mset_eq_length [of xs ys]
  by (auto simp: quantile_def)

lemma position_bounds:
  fixes q :: rat
  assumes "0 \<le> q" and "q \<le> 1"
  shows "0 \<le> q * of_nat n" and "q * of_nat n \<le> of_nat n"
  using assms by (simp_all add: mult_left_le_one_le)

lemma quantile_mono:
  assumes "0 \<le> p" and "p \<le> q" and "q \<le> 1"
    and "quantile p xs = Some a" and "quantile q xs = Some b"
  shows "a \<le> b"
proof -
  from assms(4) have ne: "xs \<noteq> []" by (auto simp: quantile_def split: if_splits)
  let ?n = "length xs - 1"
  have "interp (sort xs) (p * of_nat ?n) \<le> interp (sort xs) (q * of_nat ?n)"
  proof (rule interp_mono)
    show "p * of_nat ?n \<le> q * of_nat ?n"
      using assms(2) by (simp add: mult_right_mono)
    show "q * of_nat ?n \<le> of_nat (length (sort xs) - 1)"
      using position_bounds(2) [of q ?n] assms by simp
  qed (use ne assms in simp_all)
  with assms(4,5) ne show ?thesis by (simp add: quantile_def)
qed

lemma quantile_bounds:
  assumes "0 \<le> q" and "q \<le> 1" and "quantile q xs = Some a"
  shows "Min (set xs) \<le> a" and "a \<le> Max (set xs)"
proof -
  from assms(3) have ne: "xs \<noteq> []" by (auto simp: quantile_def split: if_splits)
  let ?s = "sort xs" and ?h = "q * of_nat (length xs - 1)"
  have h: "0 \<le> ?h" "?h \<le> of_nat (length ?s - 1)"
    using position_bounds [of q "length xs - 1"] assms by simp_all
  have a: "a = interp ?s ?h"
    using assms(3) ne by (simp add: quantile_def)
  have lo: "nat \<lfloor>?h\<rfloor> < length xs"
    using nat_floor_le_pred [OF h] ne by (cases xs) auto
  have hi: "min (nat \<lfloor>?h\<rfloor> + 1) (length ?s - 1) < length xs"
    using ne by (cases xs) auto
  have "Min (set xs) \<le> ?s ! nat \<lfloor>?h\<rfloor>"
    using Min_le_nth_sort(1) [OF lo] .
  also have "\<dots> \<le> a"
    unfolding a using interp_between(1) [of ?s ?h] h ne by simp
  finally show "Min (set xs) \<le> a" .
  have "a \<le> ?s ! min (nat \<lfloor>?h\<rfloor> + 1) (length ?s - 1)"
    unfolding a using interp_between(2) [of ?s ?h] h ne by simp
  also have "\<dots> \<le> Max (set xs)"
    using Min_le_nth_sort(2) [OF hi] .
  finally show "a \<le> Max (set xs)" .
qed

section \<open>Quartile fences\<close>

text \<open>
  The outlier rule of the code keeps a value \<open>x\<close> when
  \<open>Q1 - 3 * IQR \<le> x \<le> Q3 + 3 * IQR\<close>. Three facts about these fences: a value
  between the quartiles is inside them; with at most four values every value is
  inside them; and some value always is.
\<close>

lemma interp_small:
  "interp [a] 0 = a"
  "interp [a, b] (1 / 4) = a + (b - a) / 4"
  "interp [a, b] (3 / 4) = a + 3 * (b - a) / 4"
  "interp [a, b, c] (1 / 2) = a + (b - a) / 2"
  "interp [a, b, c] (3 / 2) = b + (c - b) / 2"
  "interp [a, b, c, d] (3 / 4) = a + 3 * (b - a) / 4"
  "interp [a, b, c, d] (9 / 4) = c + (d - c) / 4"
  by (simp_all add: interp_def)

lemma length_le_4_cases:
  assumes "xs \<noteq> []" and "length xs \<le> 4"
  obtains a where "xs = [a]" | a b where "xs = [a, b]" | a b c where "xs = [a, b, c]"
    | a b c d where "xs = [a, b, c, d]"
proof -
  from assms obtain a xs1 where 1: "xs = a # xs1" by (cases xs) auto
  show ?thesis
  proof (cases xs1)
    case Nil with 1 that(1) show ?thesis by simp
  next
    case (Cons b xs2)
    note 2 = this
    show ?thesis
    proof (cases xs2)
      case Nil with 1 2 that(2) show ?thesis by simp
    next
      case (Cons c xs3)
      note 3 = this
      show ?thesis
      proof (cases xs3)
        case Nil with 1 2 3 that(3) show ?thesis by simp
      next
        case (Cons d xs4)
        with 1 2 3 assms(2) have "xs4 = []" by simp
        with 1 2 3 Cons that(4) show ?thesis by simp
      qed
    qed
  qed
qed

lemma fences_small:
  assumes ne: "xs \<noteq> []" and small: "length xs \<le> 4"
    and q1: "quantile (1 / 4) xs = Some q1" and q3: "quantile (3 / 4) xs = Some q3"
    and x: "x \<in> set xs"
  shows "q1 - 3 * (q3 - q1) \<le> x" and "x \<le> q3 + 3 * (q3 - q1)"
proof -
  let ?s = "sort xs"
  have s: "?s \<noteq> []" "length ?s \<le> 4" "sorted ?s" "x \<in> set ?s"
    using ne small x by simp_all
  have len: "length xs = length ?s" by simp
  have Q: "q1 = interp ?s (1 / 4 * of_nat (length ?s - 1))"
    "q3 = interp ?s (3 / 4 * of_nat (length ?s - 1))"
    using q1 q3 ne by (simp_all add: quantile_def)
  from s(1,2) have "q1 - 3 * (q3 - q1) \<le> x \<and> x \<le> q3 + 3 * (q3 - q1)"
  proof (cases rule: length_le_4_cases)
    case (1 a)
    with s Q show ?thesis by (simp add: interp_small)
  next
    case (2 a b)
    with s Q show ?thesis by (auto simp: interp_small field_simps)
  next
    case (3 a b c)
    with s Q show ?thesis by (auto simp: interp_small field_simps)
  next
    case (4 a b c d)
    with s Q show ?thesis by (auto simp: interp_small field_simps)
  qed
  then show "q1 - 3 * (q3 - q1) \<le> x" and "x \<le> q3 + 3 * (q3 - q1)" by simp_all
qed

lemma quartiles_ordered:
  assumes "quantile (1 / 4) xs = Some q1" and "quantile (3 / 4) xs = Some q3"
  shows "q1 \<le> q3"
  using quantile_mono [of "1 / 4" "3 / 4" xs q1 q3] assms by simp

lemma between_quartiles_in_fences:
  fixes q1 q3 x :: rat
  assumes "q1 \<le> x" and "x \<le> q3"
  shows "q1 - 3 * (q3 - q1) \<le> x" and "x \<le> q3 + 3 * (q3 - q1)"
proof -
  show "q1 - 3 * (q3 - q1) \<le> x" using assms by (simp add: algebra_simps)
  show "x \<le> q3 + 3 * (q3 - q1)" using assms by (simp add: algebra_simps)
qed

lemma element_between_quartiles:
  assumes n: "3 \<le> length xs"
    and q1: "quantile (1 / 4) xs = Some q1" and q3: "quantile (3 / 4) xs = Some q3"
  obtains x where "x \<in> set xs" and "q1 \<le> x" and "x \<le> q3"
proof -
  let ?s = "sort xs"
  define h1 h3 :: rat where "h1 = 1 / 4 * of_nat (length xs - 1)"
    and "h3 = 3 / 4 * of_nat (length xs - 1)"
  define lo1 lo3 where "lo1 = nat \<lfloor>h1\<rfloor>" and "lo3 = nat \<lfloor>h3\<rfloor>"
  from n have ne: "?s \<noteq> []" "xs \<noteq> []" by auto
  have Q: "q1 = interp ?s h1" "q3 = interp ?s h3"
    using q1 q3 ne by (simp_all add: quantile_def h1_def h3_def)
  from n have "2 \<le> length xs - 1" by simp
  then have two: "(2 :: rat) \<le> of_nat (length xs - 1)"
    by (metis of_nat_le_iff of_nat_numeral)
  have h: "0 \<le> h1" "h1 \<le> of_nat (length ?s - 1)" "0 \<le> h3" "h3 \<le> of_nat (length ?s - 1)"
    by (simp_all add: h1_def h3_def)
  have "h3 - h1 = of_nat (length xs - 1) / 2" by (simp add: h1_def h3_def)
  with two have "h1 + 1 \<le> h3" by linarith
  then have "\<lfloor>h1\<rfloor> + 1 \<le> \<lfloor>h3\<rfloor>"
    by (metis floor_mono floor_add_int floor_one of_int_1 add.commute)
  moreover have "0 \<le> \<lfloor>h1\<rfloor>" using h(1) by simp
  ultimately have i3: "lo1 + 1 \<le> lo3" unfolding lo1_def lo3_def by linarith
  have "lo3 \<le> length ?s - 1"
    unfolding lo3_def using h(3,4) by (rule nat_floor_le_pred)
  with ne have l3: "lo3 < length ?s" by (cases xs) auto
  with i3 have i: "lo1 + 1 < length xs" by simp
  then have m: "min (lo1 + 1) (length ?s - 1) = lo1 + 1" by simp
  have "?s ! (lo1 + 1) \<in> set xs"
    using i by (rule nth_sort_mem)
  moreover have "q1 \<le> ?s ! (lo1 + 1)"
    using interp_between(2) [OF sorted_sort ne(1) h(1,2)] unfolding Q lo1_def [symmetric] m .
  moreover have "?s ! (lo1 + 1) \<le> q3"
  proof -
    have "?s ! (lo1 + 1) \<le> ?s ! lo3"
      using i3 l3 by (intro sorted_nth_mono) simp_all
    also have "\<dots> \<le> q3"
      using interp_between(1) [OF sorted_sort ne(1) h(3,4)] unfolding Q lo3_def [symmetric] .
    finally show ?thesis .
  qed
  ultimately show ?thesis by (rule that)
qed

lemma element_in_fences:
  assumes "xs \<noteq> []"
    and q1: "quantile (1 / 4) xs = Some q1" and q3: "quantile (3 / 4) xs = Some q3"
  obtains x where "x \<in> set xs" and "q1 - 3 * (q3 - q1) \<le> x" and "x \<le> q3 + 3 * (q3 - q1)"
proof (cases "3 \<le> length xs")
  case True
  then obtain x where "x \<in> set xs" "q1 \<le> x" "x \<le> q3"
    using q1 q3 by (rule element_between_quartiles)
  with that between_quartiles_in_fences [of q1 x q3] show ?thesis by blast
next
  case False
  with assms(1) have "hd xs \<in> set xs" "length xs \<le> 4" by auto
  with that fences_small [OF assms(1) _ q1 q3] show ?thesis by blast
qed

section \<open>Median\<close>

text \<open>
  \<open>Series.median()\<close>: the middle value of the sorted non-missing values, the mean of
  the two middle values when their number is even, \<open>NaN\<close> when there is none.
\<close>

definition median :: "rat list \<Rightarrow> rat option" where
  "median xs =
     (if xs = [] then None
      else let s = sort xs; n = length s
           in if odd n then Some (s ! (n div 2))
              else Some ((s ! (n div 2 - 1) + s ! (n div 2)) / 2))"

lemma median_Nil [simp]: "median [] = None"
  by (simp add: median_def)

lemma median_eq_None_iff: "median xs = None \<longleftrightarrow> xs = []"
  unfolding median_def Let_def by (simp only: option.distinct split: if_split) simp

lemma median_single [simp]: "median [x] = Some x"
  by (simp add: median_def)

lemma median_mset_cong:
  assumes "mset xs = mset ys"
  shows "median xs = median ys"
proof -
  from assms have "sort xs = sort ys" and "xs = [] \<longleftrightarrow> ys = []"
    by (auto dest: sort_cong_mset)
  then show ?thesis
    by (simp add: median_def)
qed

lemma median_bounds:
  assumes "median xs = Some m"
  shows "Min (set xs) \<le> m" and "m \<le> Max (set xs)"
proof -
  from assms have ne: "xs \<noteq> []" by (auto simp: median_def split: if_splits)
  then have n: "0 < length xs" by simp
  let ?s = "sort xs" and ?n = "length xs"
  have hi: "?n div 2 < ?n" using n by simp
  have lo: "?n div 2 - 1 < ?n" using n by linarith
  note b1 = Min_le_nth_sort [OF hi] and b2 = Min_le_nth_sort [OF lo]
  show "Min (set xs) \<le> m"
    using assms ne b1(1) b2(1) by (auto simp: median_def Let_def split: if_splits)
  show "m \<le> Max (set xs)"
    using assms ne b1(2) b2(2) by (auto simp: median_def Let_def split: if_splits)
qed

section \<open>Mode\<close>

text \<open>
  \<open>Series.mode()\<close> returns every most frequent non-missing value, in ascending order;
  the code takes element \<open>[0]\<close> of it, the least of them. The series is empty exactly
  when the column has no value.
\<close>

definition max_count :: "'a list \<Rightarrow> nat" where
  "max_count xs = fold max (map (count_list xs) xs) 0"

definition modes :: "rat list \<Rightarrow> rat list" where
  "modes xs = filter (\<lambda>v. count_list xs v = max_count xs) (sort (remdups xs))"

lemma fold_max_ge: "a \<le> fold max ns (a::nat)"
  by (induction ns arbitrary: a) (auto intro: order_trans [OF max.cobounded2])

lemma fold_max_mem_le: "n \<in> set ns \<Longrightarrow> n \<le> fold max ns (a::nat)"
proof (induction ns arbitrary: a)
  case (Cons m ns)
  then show ?case
    using fold_max_ge [of "max m a" ns] by auto
qed simp

lemma fold_max_attained: "fold max ns (a::nat) = a \<or> fold max ns a \<in> set ns"
  by (induction ns arbitrary: a) (auto simp: max_def)

lemma count_le_max_count: "count_list xs v \<le> max_count xs"
proof (cases "v \<in> set xs")
  case True
  then show ?thesis
    by (auto simp: max_count_def intro!: fold_max_mem_le)
qed (simp add: count_list_0_iff [THEN iffD2])

lemma max_count_attained:
  assumes "xs \<noteq> []"
  shows "\<exists>v \<in> set xs. count_list xs v = max_count xs"
proof -
  from assms obtain x where x: "x \<in> set xs" by (cases xs) auto
  then have "0 < count_list xs x"
    using count_list_0_iff [of xs x] by simp
  with count_le_max_count [of xs x] have "max_count xs \<noteq> 0" by simp
  with fold_max_attained [of "map (count_list xs) xs" 0]
  show ?thesis by (auto simp: max_count_def)
qed

lemma set_modes: "set (modes xs) = {v \<in> set xs. count_list xs v = max_count xs}"
  by (auto simp: modes_def)

lemma modes_Nil [simp]: "modes [] = []"
  by (simp add: modes_def)

lemma modes_eq_Nil_iff: "modes xs = [] \<longleftrightarrow> xs = []"
proof
  assume "modes xs = []"
  then have "set (modes xs) = {}" by simp
  then show "xs = []"
    using max_count_attained [of xs] by (auto simp: set_modes)
qed simp

lemma sorted_modes: "sorted (modes xs)" and distinct_modes: "distinct (modes xs)"
  by (simp_all add: modes_def sorted_wrt_filter)

lemma modes_most_frequent:
  assumes "v \<in> set (modes xs)"
  shows "count_list xs w \<le> count_list xs v"
  using assms count_le_max_count [of xs w] by (simp add: set_modes)

lemma hd_modes_least:
  assumes "v \<in> set (modes xs)"
  shows "hd (modes xs) \<le> v"
proof -
  from assms obtain m ms where ms: "modes xs = m # ms" by (cases "modes xs") auto
  with sorted_modes [of xs] assms show ?thesis by auto
qed

end
