(* ===== verification/Text.thy ===== *)
theory Text
  imports Rentmap_Prelude
begin

text \<open>
  The string operations of \<open>DataProcessor.clean_text_fields\<close>
  (\<open>src/src/data_processor.py\<close>, lines 68 to 82): \<open>str.strip()\<close>, the substitution of
  every run of whitespace (\<open>\s+\<close>) by one blank, and \<open>str.title()\<close>.

  A string is a list of characters and a character is its code point below 256.
  Whitespace is what Python's \<open>str.isspace\<close> accepts among the ASCII characters (the
  codes 9 to 13, 28 to 31 and 32); the cased characters are the ASCII letters. Text
  outside ASCII is carried through unchanged.
\<close>

section \<open>Character classes\<close>

definition code :: "char \<Rightarrow> nat" where
  "code c = of_char c"

definition is_space :: "char \<Rightarrow> bool" where
  "is_space c = (let n = code c in (9 \<le> n \<and> n \<le> 13) \<or> (28 \<le> n \<and> n \<le> 32))"

definition is_lower :: "char \<Rightarrow> bool" where
  "is_lower c = (97 \<le> code c \<and> code c \<le> 122)"

definition is_upper :: "char \<Rightarrow> bool" where
  "is_upper c = (65 \<le> code c \<and> code c \<le> 90)"

definition is_cased :: "char \<Rightarrow> bool" where
  "is_cased c = (is_lower c \<or> is_upper c)"

definition to_upper :: "char \<Rightarrow> char" where
  "to_upper c = (if is_lower c then char_of (code c - 32) else c)"

definition to_lower :: "char \<Rightarrow> char" where
  "to_lower c = (if is_upper c then char_of (code c + 32) else c)"

lemmas char_defs = is_space_def is_lower_def is_upper_def is_cased_def to_upper_def to_lower_def

lemmas char_eval = char_defs code_def char_of_def bit_iff_odd_drop_bit

lemma code_char_of [simp]: "n < 256 \<Longrightarrow> code (char_of n) = n"
  by (simp add: code_def)

lemma char_of_code [simp]: "char_of (code c) = c"
  by (simp add: code_def)

lemma is_space_blank [simp]: "is_space CHR '' ''"
  by (simp add: is_space_def code_def)

lemma cased_not_space: "is_cased c \<Longrightarrow> \<not> is_space c"
  by (auto simp: char_defs Let_def)

lemma is_space_to_upper [simp]: "is_space (to_upper c) = is_space c"
  by (auto simp: char_defs Let_def)

lemma is_space_to_lower [simp]: "is_space (to_lower c) = is_space c"
  by (auto simp: char_defs Let_def)

lemma is_cased_to_upper [simp]: "is_cased (to_upper c) = is_cased c"
  by (auto simp: char_defs)

lemma is_cased_to_lower [simp]: "is_cased (to_lower c) = is_cased c"
  by (auto simp: char_defs)

lemma to_upper_idem [simp]: "to_upper (to_upper c) = to_upper c"
  by (auto simp: char_defs)

lemma to_lower_idem [simp]: "to_lower (to_lower c) = to_lower c"
  by (auto simp: char_defs)

lemma to_upper_blank_iff [simp]: "to_upper c = CHR '' '' \<longleftrightarrow> c = CHR '' ''"
  by (metis is_space_blank is_space_to_upper cased_not_space is_cased_def to_upper_def)

lemma to_lower_blank_iff [simp]: "to_lower c = CHR '' '' \<longleftrightarrow> c = CHR '' ''"
  by (metis is_space_blank is_space_to_lower cased_not_space is_cased_def to_lower_def)

section \<open>Stripping\<close>

definition strip :: "string \<Rightarrow> string" where
  "strip s = rev (dropWhile is_space (rev (dropWhile is_space s)))"

definition trimmed :: "string \<Rightarrow> bool" where
  "trimmed s = (s = [] \<or> (\<not> is_space (hd s) \<and> \<not> is_space (last s)))"

lemma dropWhile_space_id: "s = [] \<or> \<not> is_space (hd s) \<Longrightarrow> dropWhile is_space s = s"
  by (cases s) auto

lemma hd_dropWhile_space: "dropWhile is_space s \<noteq> [] \<Longrightarrow> \<not> is_space (hd (dropWhile is_space s))"
  by (rule hd_dropWhile)

lemma strip_trimmed_id: "trimmed s \<Longrightarrow> strip s = s"
  by (cases "s = []") (simp_all add: strip_def trimmed_def dropWhile_space_id hd_rev)

lemma last_dropWhile: "dropWhile P xs \<noteq> [] \<Longrightarrow> last (dropWhile P xs) = last xs"
  by (induction xs) (auto split: if_splits)

lemma trimmed_strip [simp]: "trimmed (strip s)"
proof (cases "strip s = []")
  case False
  let ?t = "dropWhile is_space s"
  let ?u = "dropWhile is_space (rev ?t)"
  from False have u: "?u \<noteq> []" by (simp add: strip_def)
  then have t: "?t \<noteq> []" by (metis dropWhile.simps(1) rev.simps(1))
  from u have "\<not> is_space (hd ?u)" by (rule hd_dropWhile)
  then have l: "\<not> is_space (last (strip s))"
    using u by (simp add: strip_def last_rev)
  have "hd (strip s) = last ?u"
    using u by (simp add: strip_def hd_rev)
  also have "\<dots> = last (rev ?t)"
    using u by (rule last_dropWhile)
  also have "\<dots> = hd ?t"
    using t by (simp add: last_rev)
  finally have "\<not> is_space (hd (strip s))"
    using t by (simp add: hd_dropWhile)
  with l show ?thesis by (simp add: trimmed_def)
qed (simp add: trimmed_def)

lemma strip_id_iff: "strip s = s \<longleftrightarrow> trimmed s"
  by (metis strip_trimmed_id trimmed_strip)

lemma strip_idem [simp]: "strip (strip s) = strip s"
  by (simp add: strip_trimmed_id)

lemma rev_dropWhile_takeWhile:
  "rev (dropWhile P (rev t)) @ rev (takeWhile P (rev t)) = t"
proof -
  have "rev (dropWhile P (rev t)) @ rev (takeWhile P (rev t))
      = rev (takeWhile P (rev t) @ dropWhile P (rev t))"
    by (simp only: rev_append)
  also have "\<dots> = rev (rev t)"
    by (simp only: takeWhile_dropWhile_id)
  finally show ?thesis by simp
qed

lemma strip_decomp:
  "s = takeWhile is_space s @ strip s @ rev (takeWhile is_space (rev (dropWhile is_space s)))"
proof -
  have "strip s @ rev (takeWhile is_space (rev (dropWhile is_space s))) = dropWhile is_space s"
    unfolding strip_def by (rule rev_dropWhile_takeWhile)
  then show ?thesis
    by (simp only: takeWhile_dropWhile_id)
qed

lemma strip_removes_only_space:
  obtains p q where "s = p @ strip s @ q" and "list_all is_space p" and "list_all is_space q"
proof
  show "s = takeWhile is_space s @ strip s
      @ rev (takeWhile is_space (rev (dropWhile is_space s)))"
    by (rule strip_decomp)
  show "list_all is_space (takeWhile is_space s)"
    by (auto simp: list_all_iff dest: set_takeWhileD)
  show "list_all is_space (rev (takeWhile is_space (rev (dropWhile is_space s))))"
    by (auto simp: list_all_iff dest: set_takeWhileD)
qed

section \<open>Collapsing runs of whitespace\<close>

text \<open>
  \<open>re.sub(r'\s+', ' ', s)\<close>: each maximal run of whitespace becomes one blank. The
  recursion skips the rest of a run at once, so it is by the length of the string.
\<close>

function collapse_ws :: "string \<Rightarrow> string" where
  "collapse_ws [] = []"
| "collapse_ws (c # cs) =
     (if is_space c then CHR '' '' # collapse_ws (dropWhile is_space cs)
      else c # collapse_ws cs)"
  by pat_completeness auto
termination
  by (relation "measure length") (auto simp: le_imp_less_Suc length_dropWhile_le)

fun single_spaced :: "string \<Rightarrow> bool" where
  "single_spaced [] = True"
| "single_spaced (c # cs) =
     (if is_space c then c = CHR '' '' \<and> (cs = [] \<or> \<not> is_space (hd cs)) \<and> single_spaced cs
      else single_spaced cs)"

lemma collapse_ws_Nil_iff [simp]: "collapse_ws s = [] \<longleftrightarrow> s = []"
  by (cases s) auto

lemma hd_collapse_ws: "s \<noteq> [] \<Longrightarrow> is_space (hd (collapse_ws s)) = is_space (hd s)"
  by (cases s) auto

lemma last_collapse_ws:
  "s \<noteq> [] \<Longrightarrow> \<not> is_space (last s) \<Longrightarrow> last (collapse_ws s) = last s"
proof (induction s rule: collapse_ws.induct)
  case (2 c cs)
  show ?case
  proof (cases "is_space c")
    case True
    let ?d = "dropWhile is_space cs"
    from True "2.prems" have cs: "cs \<noteq> []" by auto
    with "2.prems" have "last cs \<in> set cs" and "\<not> is_space (last cs)" by auto
    then have d: "?d \<noteq> []"
      by (auto simp: dropWhile_eq_Nil_conv)
    then have ld: "last ?d = last cs"
      by (rule last_dropWhile)
    with "2.prems" cs have "\<not> is_space (last ?d)" by simp
    with True d have "last (collapse_ws ?d) = last ?d"
      by (rule "2.IH"(1))
    with True d ld cs show ?thesis by auto
  next
    case False
    with "2.prems" "2.IH"(2) show ?thesis by (cases cs) auto
  qed
qed simp

lemma single_spaced_collapse_ws [simp]: "single_spaced (collapse_ws s)"
proof (induction s rule: collapse_ws.induct)
  case (2 c cs)
  show ?case
  proof (cases "is_space c")
    case True
    let ?d = "dropWhile is_space cs"
    have "collapse_ws ?d = [] \<or> \<not> is_space (hd (collapse_ws ?d))"
    proof (cases "?d = []")
      case False
      then have "\<not> is_space (hd ?d)" by (rule hd_dropWhile)
      with False show ?thesis by (simp add: hd_collapse_ws)
    qed simp
    with True "2.IH"(1) show ?thesis by simp
  next
    case False
    with "2.IH"(2) show ?thesis by simp
  qed
qed simp

lemma collapse_ws_single_spaced_id: "single_spaced s \<Longrightarrow> collapse_ws s = s"
  by (induction s rule: collapse_ws.induct)
     (auto simp: dropWhile_space_id split: if_splits)

lemma collapse_ws_id_iff: "collapse_ws s = s \<longleftrightarrow> single_spaced s"
  by (metis collapse_ws_single_spaced_id single_spaced_collapse_ws)

lemma collapse_ws_idem [simp]: "collapse_ws (collapse_ws s) = collapse_ws s"
  by (simp add: collapse_ws_single_spaced_id)

lemma trimmed_collapse_ws: "trimmed s \<Longrightarrow> trimmed (collapse_ws s)"
  by (cases "s = []") (auto simp: trimmed_def hd_collapse_ws last_collapse_ws)

lemma length_collapse_ws_le: "length (collapse_ws s) \<le> length s"
proof (induction s rule: collapse_ws.induct)
  case (2 c cs)
  have "length (dropWhile is_space cs) \<le> length cs"
    by (rule length_dropWhile_le)
  with 2 show ?case by (auto intro: order_trans)
qed simp

section \<open>Title case\<close>

text \<open>
  \<open>str.title()\<close> walks the string once. A character that follows a cased character
  is put in lower case, any other character in upper case; \<open>title_from\<close> carries the
  flag "the previous character was cased".
\<close>

fun title_from :: "bool \<Rightarrow> string \<Rightarrow> string" where
  "title_from prev [] = []"
| "title_from prev (c # cs) =
     (if prev then to_lower c else to_upper c) # title_from (is_cased c) cs"

definition title_str :: "string \<Rightarrow> string" where
  "title_str s = title_from False s"

lemma length_title_from [simp]: "length (title_from p s) = length s"
  by (induction s arbitrary: p) auto

lemma title_from_Nil_iff [simp]: "title_from p s = [] \<longleftrightarrow> s = []"
  by (cases s) auto

lemma map_is_space_title_from [simp]: "map is_space (title_from p s) = map is_space s"
  by (induction s arbitrary: p) auto

lemma title_from_idem [simp]: "title_from p (title_from p s) = title_from p s"
  by (induction s arbitrary: p) auto

lemma title_str_idem [simp]: "title_str (title_str s) = title_str s"
  by (simp add: title_str_def)

lemma hd_title_from: "s \<noteq> [] \<Longrightarrow> is_space (hd (title_from p s)) = is_space (hd s)"
  by (cases s) auto

lemma last_title_from: "s \<noteq> [] \<Longrightarrow> is_space (last (title_from p s)) = is_space (last s)"
  by (induction s arbitrary: p) auto

lemma trimmed_title_from [simp]: "trimmed (title_from p s) = trimmed s"
  by (cases "s = []") (auto simp: trimmed_def hd_title_from last_title_from)

lemma single_spaced_title_from [simp]: "single_spaced (title_from p s) = single_spaced s"
  by (induction s arbitrary: p) (auto simp: hd_title_from)

section \<open>The two cleaning functions\<close>

definition clean_text :: "string \<Rightarrow> string" where
  "clean_text s = collapse_ws (strip s)"

definition clean_location :: "string \<Rightarrow> string" where
  "clean_location s = title_str (clean_text s)"

definition normalized :: "string \<Rightarrow> bool" where
  "normalized s = (trimmed s \<and> single_spaced s)"

lemma normalized_clean_text [simp]: "normalized (clean_text s)"
  by (simp add: normalized_def clean_text_def trimmed_collapse_ws)

lemma clean_text_normalized_id: "normalized s \<Longrightarrow> clean_text s = s"
  by (simp add: normalized_def clean_text_def strip_trimmed_id collapse_ws_single_spaced_id)

lemma clean_text_id_iff: "clean_text s = s \<longleftrightarrow> normalized s"
  by (metis clean_text_normalized_id normalized_clean_text)

lemma clean_text_idem [simp]: "clean_text (clean_text s) = clean_text s"
  by (simp add: clean_text_normalized_id)

lemma normalized_title_str [simp]: "normalized (title_str s) = normalized s"
  by (simp add: normalized_def title_str_def)

lemma normalized_clean_location [simp]: "normalized (clean_location s)"
  by (simp add: clean_location_def)

lemma clean_location_idem [simp]: "clean_location (clean_location s) = clean_location s"
  by (simp add: clean_location_def clean_text_normalized_id)

lemma clean_text_examples:
  "clean_text ''  2 BHK   Apartment \<newline> in Dwarka  '' = ''2 BHK Apartment in Dwarka''"
  "clean_location '' vasant   kUNJ '' = ''Vasant Kunj''"
  "title_str ''o'neil 2bhk'' = ''O'Neil 2Bhk''"
  by (simp_all add: clean_location_def clean_text_def strip_def title_str_def char_eval)

end
