(* ===== verification/Frame.thy ===== *)
theory Frame
  imports Numerics Text
begin

text \<open>
  The data model: a rental listing is one row, a data frame is a list of column names
  and a list of rows. It stands for the pandas \<open>DataFrame\<close> every component passes
  around, restricted to the nine columns the sources name.

  \<^item> \<open>column\<close>: the column names; \<open>column_name\<close> gives the Python string.
  \<^item> \<open>listing\<close>: a row as a record with one optional field per column. \<open>None\<close> is a
    missing value (\<open>NaN\<close>). Text columns hold strings and numeric columns rational
    numbers; only \<open>price_per_sqft\<close>, a quotient, can be infinite.
  \<^item> \<open>frame\<close>: the columns in their order and the rows in theirs. A row of a
    well-formed frame (\<open>wf_frame\<close>) has no value in a column the frame lacks.
  \<^item> The frame operations the sources call: \<open>drop_duplicates\<close>, \<open>dropna\<close>, column
    assignment (\<open>set_column\<close>), selection by a mask (\<open>select\<close>), \<open>unique\<close>.
\<close>

section \<open>Columns and cells\<close>

datatype column =
  Title | Location | Price | Bhk | Area_sqft | Furnishing | Price_per_sqft | Latitude | Longitude

fun column_name :: "column \<Rightarrow> string" where
  "column_name Title = ''title''"
| "column_name Location = ''location''"
| "column_name Price = ''price''"
| "column_name Bhk = ''bhk''"
| "column_name Area_sqft = ''area_sqft''"
| "column_name Furnishing = ''furnishing''"
| "column_name Price_per_sqft = ''price_per_sqft''"
| "column_name Latitude = ''latitude''"
| "column_name Longitude = ''longitude''"

definition all_columns :: "column list" where
  "all_columns =
     [Title, Location, Price, Bhk, Area_sqft, Furnishing, Price_per_sqft, Latitude, Longitude]"

lemma set_all_columns [simp]: "set all_columns = UNIV"
proof -
  have "c \<in> set all_columns" for c
    by (cases c) (simp_all add: all_columns_def)
  then show ?thesis by auto
qed

lemma distinct_all_columns [simp]: "distinct all_columns"
  by (simp add: all_columns_def)

lemma inj_column_name: "inj column_name"
proof (rule injI)
  fix a b
  assume "column_name a = column_name b"
  then show "a = b" by (cases a; cases b) simp_all
qed

instantiation column :: enum
begin

definition enum_column :: "column list" where
  "enum_column = all_columns"

definition enum_all_column :: "(column \<Rightarrow> bool) \<Rightarrow> bool" where
  "enum_all_column P = list_all P all_columns"

definition enum_ex_column :: "(column \<Rightarrow> bool) \<Rightarrow> bool" where
  "enum_ex_column P = list_ex P all_columns"

instance
proof
  show "(UNIV :: column set) = set enum_class.enum"
    by (simp add: enum_column_def)
  show "distinct (enum_class.enum :: column list)"
    by (simp add: enum_column_def)
  show "enum_class.enum_all P = Ball (UNIV :: column set) P" for P
    by (simp add: enum_all_column_def list_all_iff)
  show "enum_class.enum_ex P = Bex (UNIV :: column set) P" for P
    by (simp add: enum_ex_column_def list_ex_iff)
qed

end

datatype scalar = NaN | Str string | Num rat | Flt fnum

definition of_text :: "string option \<Rightarrow> scalar" where
  "of_text v = (case v of None \<Rightarrow> NaN | Some s \<Rightarrow> Str s)"

definition of_num :: "rat option \<Rightarrow> scalar" where
  "of_num v = (case v of None \<Rightarrow> NaN | Some q \<Rightarrow> Num q)"

definition of_flt :: "fnum option \<Rightarrow> scalar" where
  "of_flt v = (case v of None \<Rightarrow> NaN | Some q \<Rightarrow> Flt q)"

lemma of_text_simps [simp]:
  "of_text None = NaN" "of_text (Some s) = Str s"
  "of_text v = NaN \<longleftrightarrow> v = None" "of_text v = Str s \<longleftrightarrow> v = Some s"
  by (auto simp: of_text_def split: option.splits)

lemma of_num_simps [simp]:
  "of_num None = NaN" "of_num (Some q) = Num q"
  "of_num v = NaN \<longleftrightarrow> v = None" "of_num v = Num q \<longleftrightarrow> v = Some q"
  by (auto simp: of_num_def split: option.splits)

lemma of_flt_simps [simp]:
  "of_flt None = NaN" "of_flt (Some x) = Flt x"
  "of_flt w = NaN \<longleftrightarrow> w = None" "of_flt w = Flt x \<longleftrightarrow> w = Some x"
  by (auto simp: of_flt_def split: option.splits)

lemma of_text_inj [simp]: "of_text a = of_text b \<longleftrightarrow> a = b"
  by (cases a; cases b) auto

lemma of_num_inj [simp]: "of_num a = of_num b \<longleftrightarrow> a = b"
  by (cases a; cases b) auto

section \<open>Rows\<close>

record listing =
  title :: "string option"
  location :: "string option"
  price :: "rat option"
  bhk :: "rat option"
  area_sqft :: "rat option"
  furnishing :: "string option"
  price_per_sqft :: "fnum option"
  latitude :: "rat option"
  longitude :: "rat option"

definition blank_listing :: listing where
  "blank_listing =
     \<lparr>title = None, location = None, price = None, bhk = None, area_sqft = None,
      furnishing = None, price_per_sqft = None, latitude = None, longitude = None\<rparr>"

fun cell :: "column \<Rightarrow> listing \<Rightarrow> scalar" where
  "cell Title r = of_text (title r)"
| "cell Location r = of_text (location r)"
| "cell Price r = of_num (price r)"
| "cell Bhk r = of_num (bhk r)"
| "cell Area_sqft r = of_num (area_sqft r)"
| "cell Furnishing r = of_text (furnishing r)"
| "cell Price_per_sqft r = of_flt (price_per_sqft r)"
| "cell Latitude r = of_num (latitude r)"
| "cell Longitude r = of_num (longitude r)"

definition notna :: "column \<Rightarrow> listing \<Rightarrow> bool" where
  "notna c r = (cell c r \<noteq> NaN)"

lemma notna_simps [simp, frame_simps]:
  "notna Title r \<longleftrightarrow> title r \<noteq> None"
  "notna Location r \<longleftrightarrow> location r \<noteq> None"
  "notna Price r \<longleftrightarrow> price r \<noteq> None"
  "notna Bhk r \<longleftrightarrow> bhk r \<noteq> None"
  "notna Area_sqft r \<longleftrightarrow> area_sqft r \<noteq> None"
  "notna Furnishing r \<longleftrightarrow> furnishing r \<noteq> None"
  "notna Price_per_sqft r \<longleftrightarrow> price_per_sqft r \<noteq> None"
  "notna Latitude r \<longleftrightarrow> latitude r \<noteq> None"
  "notna Longitude r \<longleftrightarrow> longitude r \<noteq> None"
  by (simp_all add: notna_def)

lemma listing_eq_cellI:
  assumes "\<And>c. cell c r = cell c r'"
  shows "r = (r' :: listing)"
proof -
  have "cell Title r = cell Title r'" "cell Location r = cell Location r'"
    "cell Price r = cell Price r'" "cell Bhk r = cell Bhk r'"
    "cell Area_sqft r = cell Area_sqft r'" "cell Furnishing r = cell Furnishing r'"
    "cell Price_per_sqft r = cell Price_per_sqft r'" "cell Latitude r = cell Latitude r'"
    "cell Longitude r = cell Longitude r'"
    by (rule assms)+
  then show ?thesis
    by (cases r; cases r') (auto simp: of_flt_def split: option.splits)
qed

section \<open>Frames\<close>

record frame =
  columns :: "column list"
  rows :: "listing list"

definition has_column :: "column \<Rightarrow> frame \<Rightarrow> bool" where
  "has_column c f = (c \<in> set (columns f))"

definition len :: "frame \<Rightarrow> nat" where
  "len f = length (rows f)"

definition wf_row :: "column list \<Rightarrow> listing \<Rightarrow> bool" where
  "wf_row cs r = list_all (\<lambda>c. c \<in> set cs \<or> \<not> notna c r) all_columns"

definition wf_frame :: "frame \<Rightarrow> bool" where
  "wf_frame f = (distinct (columns f) \<and> list_all (wf_row (columns f)) (rows f))"

lemma wf_row_iff: "wf_row cs r \<longleftrightarrow> (\<forall>c. notna c r \<longrightarrow> c \<in> set cs)"
  by (auto simp: wf_row_def list_all_iff)

lemma wf_frame_iff:
  "wf_frame f \<longleftrightarrow>
     distinct (columns f) \<and> (\<forall>r \<in> set (rows f). \<forall>c. notna c r \<longrightarrow> has_column c f)"
  by (auto simp: wf_frame_def wf_row_iff list_all_iff has_column_def)

lemma wf_row_mono: "wf_row cs r \<Longrightarrow> set cs \<subseteq> set cs' \<Longrightarrow> wf_row cs' r"
  by (auto simp: wf_row_iff)

lemma wf_frame_rows_subset [wf_intros]:
  assumes "wf_frame f" and "set rs \<subseteq> set (rows f)"
  shows "wf_frame (f\<lparr>rows := rs\<rparr>)"
  using assms by (auto simp: wf_frame_def list_all_iff)

lemma wf_frame_filter [wf_intros]: "wf_frame f \<Longrightarrow> wf_frame (f\<lparr>rows := filter P (rows f)\<rparr>)"
  by (rule wf_frame_rows_subset) auto

lemma has_column_rows_update [simp, frame_simps]:
  "has_column c (f\<lparr>rows := rs\<rparr>) = has_column c f"
  by (simp add: has_column_def)

lemma len_rows_update [simp, frame_simps]: "len (f\<lparr>rows := rs\<rparr>) = length rs"
  by (simp add: len_def)

section \<open>Column access\<close>

text \<open>
  \<open>missing_columns\<close> lists the labels of a \<open>subset=\<close> argument that the frame lacks;
  pandas raises \<open>KeyError\<close> with them. \<open>numbers\<close> are the non-missing values of a
  numeric column, which is what every statistic of pandas works on.
\<close>

definition missing_columns :: "column list \<Rightarrow> frame \<Rightarrow> column list" where
  "missing_columns subs f = filter (\<lambda>c. \<not> has_column c f) subs"

definition key_error :: "column list \<Rightarrow> error" where
  "key_error cs = KeyError (map column_name cs)"

definition numbers :: "(listing \<Rightarrow> rat option) \<Rightarrow> listing list \<Rightarrow> rat list" where
  "numbers sel rs = somes (map sel rs)"

definition assign :: "column \<Rightarrow> (listing \<Rightarrow> listing) \<Rightarrow> frame \<Rightarrow> frame" where
  "assign c upd f =
     \<lparr>columns = (if has_column c f then columns f else columns f @ [c]),
      rows = map upd (rows f)\<rparr>"

definition select :: "(listing \<Rightarrow> bool) \<Rightarrow> frame \<Rightarrow> frame" where
  "select P f = f\<lparr>rows := filter P (rows f)\<rparr>"

lemma missing_columns_Nil_iff:
  "missing_columns subs f = [] \<longleftrightarrow> (\<forall>c \<in> set subs. has_column c f)"
  by (auto simp: missing_columns_def filter_empty_conv)

lemma numbers_Nil [simp]: "numbers sel [] = []"
  by (simp add: numbers_def)

lemma numbers_Cons [simp]:
  "numbers sel (r # rs) = (case sel r of None \<Rightarrow> numbers sel rs | Some q \<Rightarrow> q # numbers sel rs)"
  by (simp add: numbers_def split: option.splits)

lemma set_numbers: "set (numbers sel rs) = {q. \<exists>r \<in> set rs. sel r = Some q}"
  by (induction rs) (auto split: option.splits)

lemma numbers_eq_Nil_iff: "numbers sel rs = [] \<longleftrightarrow> (\<forall>r \<in> set rs. sel r = None)"
  by (induction rs) (auto split: option.splits)

lemma length_numbers_le: "length (numbers sel rs) \<le> length rs"
  by (induction rs) (auto split: option.splits)

lemma length_numbers_all: "(\<forall>r \<in> set rs. sel r \<noteq> None) \<Longrightarrow> length (numbers sel rs) = length rs"
  by (induction rs) (auto split: option.splits)

lemma columns_select [simp, frame_simps]: "columns (select P f) = columns f"
  and rows_select [simp, frame_simps]: "rows (select P f) = filter P (rows f)"
  and has_column_select [simp, frame_simps]: "has_column c (select P f) = has_column c f"
  by (simp_all add: select_def)

lemma wf_frame_select [wf_intros]: "wf_frame f \<Longrightarrow> wf_frame (select P f)"
  unfolding select_def by (rule wf_frame_filter)

lemma len_select_le: "len (select P f) \<le> len f"
  by (simp add: len_def)

lemma rows_assign [simp, frame_simps]: "rows (assign c upd f) = map upd (rows f)"
  and len_assign [simp, frame_simps]: "len (assign c upd f) = len f"
  by (simp_all add: assign_def len_def)

lemma has_column_assign [simp, frame_simps]:
  "has_column c' (assign c upd f) \<longleftrightarrow> c' = c \<or> has_column c' f"
  by (auto simp: assign_def has_column_def)

lemma distinct_columns_assign: "distinct (columns f) \<Longrightarrow> distinct (columns (assign c upd f))"
  by (auto simp: assign_def has_column_def)

lemma wf_frame_assign [wf_intros]:
  assumes "wf_frame f"
    and "\<And>r c'. r \<in> set (rows f) \<Longrightarrow> notna c' (upd r) \<Longrightarrow> c' = c \<or> notna c' r"
  shows "wf_frame (assign c upd f)"
  using assms by (auto simp: wf_frame_iff distinct_columns_assign)

section \<open>Dropping duplicates\<close>

text \<open>
  \<open>drop_duplicates(subset, keep='first')\<close>: two rows are duplicates when they agree
  on every column of the subset, two missing values counting as equal. \<open>keep_first\<close>
  walks the rows in order and remembers the keys it has seen. The \<open>KeyError\<close> for
  columns the frame lacks lists them in the order of the subset; pandas takes them
  from a set, so their order in the exception is not fixed.
\<close>

fun keep_first :: "('a \<Rightarrow> 'k) \<Rightarrow> 'k list \<Rightarrow> 'a list \<Rightarrow> 'a list" where
  "keep_first key seen [] = []"
| "keep_first key seen (r # rs) =
     (if key r \<in> set seen then keep_first key seen rs
      else r # keep_first key (key r # seen) rs)"

text \<open>\<open>Series.unique()\<close>: the values in the order of their first appearance.\<close>

definition unique :: "'a list \<Rightarrow> 'a list" where
  "unique xs = keep_first id [] xs"

definition row_key :: "column list \<Rightarrow> listing \<Rightarrow> scalar list" where
  "row_key subs r = map (\<lambda>c. cell c r) subs"

definition drop_duplicates :: "column list \<Rightarrow> frame \<Rightarrow> frame result" where
  "drop_duplicates subs f =
     (if missing_columns subs f \<noteq> [] then Inl (key_error (missing_columns subs f))
      else Inr (f\<lparr>rows := keep_first (row_key subs) [] (rows f)\<rparr>))"

lemma keep_first_cong_seen:
  "set seen = set seen' \<Longrightarrow> keep_first key seen rs = keep_first key seen' rs"
proof (induction rs arbitrary: seen seen')
  case (Cons r rs)
  from Cons.prems have "set (key r # seen) = set (key r # seen')" by simp
  then have "keep_first key (key r # seen) rs = keep_first key (key r # seen') rs"
    by (rule Cons.IH)
  moreover have "keep_first key seen rs = keep_first key seen' rs"
    using Cons.prems by (rule Cons.IH)
  ultimately show ?case
    using Cons.prems by simp
qed simp

lemma keep_first_filter:
  "keep_first key seen rs = filter (\<lambda>r. key r \<notin> set seen) (keep_first key [] rs)"
proof (induction rs arbitrary: seen)
  case (Cons r rs)
  let ?k = "keep_first key [] rs"
  have 1: "keep_first key [key r] rs = filter (\<lambda>x. key x \<noteq> key r) ?k"
    by (subst Cons.IH) simp
  have 2: "keep_first key (key r # seen) rs
      = filter (\<lambda>x. key x \<notin> set seen) (filter (\<lambda>x. key x \<noteq> key r) ?k)"
    by (subst Cons.IH) (auto intro: filter_cong)
  have 3: "keep_first key seen rs = filter (\<lambda>x. key x \<notin> set seen) ?k"
    by (rule Cons.IH)
  show ?case
  proof (cases "key r \<in> set seen")
    case True
    then have "filter (\<lambda>x. key x \<notin> set seen) ?k
        = filter (\<lambda>x. key x \<notin> set seen) (filter (\<lambda>x. key x \<noteq> key r) ?k)"
      by (auto intro: filter_cong)
    with True 1 3 show ?thesis by simp
  next
    case False
    with 1 2 show ?thesis by simp
  qed
qed simp

lemma subseq_keep_first: "subseq (keep_first key seen rs) rs"
  by (induction rs arbitrary: seen) auto

lemma set_keep_first_subset: "set (keep_first key seen rs) \<subseteq> set rs"
  by (induction rs arbitrary: seen) (auto split: if_splits)

lemma keep_first_not_seen: "r \<in> set (keep_first key seen rs) \<Longrightarrow> key r \<notin> set seen"
  by (induction rs arbitrary: seen) (fastforce split: if_splits)+

lemma distinct_keys_keep_first [simp]: "distinct (map key (keep_first key seen rs))"
  by (induction rs arbitrary: seen) (auto dest: keep_first_not_seen)

lemma set_keys_keep_first: "key ` set (keep_first key seen rs) = key ` set rs - set seen"
  by (induction rs arbitrary: seen) auto

lemma keep_first_id:
  "distinct (map key rs) \<Longrightarrow> key ` set rs \<inter> set seen = {} \<Longrightarrow> keep_first key seen rs = rs"
  by (induction rs arbitrary: seen) auto

lemma keep_first_idem [simp]: "keep_first key [] (keep_first key [] rs) = keep_first key [] rs"
  by (rule keep_first_id) simp_all

lemma keep_first_append:
  "keep_first key seen (xs @ ys)
     = keep_first key seen xs @ keep_first key (map key xs @ seen) ys"
proof (induction xs arbitrary: seen)
  case (Cons x xs)
  have a: "keep_first key (map key xs @ key x # seen) ys
      = keep_first key (key x # map key xs @ seen) ys"
    by (rule keep_first_cong_seen) auto
  have b: "key x \<in> set seen \<Longrightarrow>
      keep_first key (map key xs @ seen) ys = keep_first key (key x # map key xs @ seen) ys"
    by (rule keep_first_cong_seen) auto
  show ?case
    using Cons.IH [of seen] Cons.IH [of "key x # seen"] a b by simp
qed simp

lemma keep_first_snoc:
  "keep_first key [] (rs @ [r])
     = keep_first key [] rs @ (if key r \<in> key ` set rs then [] else [r])"
  by (simp add: keep_first_append)

lemma keys_keep_first_remdups:
  "map key (keep_first key [] rs) = rev (remdups (rev (map key rs)))"
  by (induction rs rule: rev_induct) (simp_all add: keep_first_snoc)

lemma set_unique [simp]: "set (unique xs) = set xs"
  using set_keys_keep_first [of id "[]" xs] by (simp add: unique_def)

lemma distinct_unique [simp]: "distinct (unique xs)"
  using distinct_keys_keep_first [of id "[]" xs] by (simp add: unique_def)

lemma length_keep_first_le: "length (keep_first key seen rs) \<le> length rs"
  by (induction rs arbitrary: seen) (auto intro: le_SucI)

lemma keep_first_kept_iff:
  "r \<in> set (keep_first key [] rs)
     \<longleftrightarrow> (\<exists>xs ys. rs = xs @ r # ys \<and> key r \<notin> key ` set xs)"
proof (induction rs rule: rev_induct)
  case (snoc x rs)
  show ?case
  proof
    assume "r \<in> set (keep_first key [] (rs @ [x]))"
    then consider "r \<in> set (keep_first key [] rs)" | "r = x" "key x \<notin> key ` set rs"
      by (auto simp: keep_first_snoc split: if_splits)
    then show "\<exists>xs ys. rs @ [x] = xs @ r # ys \<and> key r \<notin> key ` set xs"
    proof cases
      case 1
      with snoc.IH obtain xs ys where "rs = xs @ r # ys" "key r \<notin> key ` set xs" by blast
      then have "rs @ [x] = xs @ r # (ys @ [x])" by simp
      with \<open>key r \<notin> key ` set xs\<close> show ?thesis by blast
    next
      case 2
      then show ?thesis by blast
    qed
  next
    assume "\<exists>xs ys. rs @ [x] = xs @ r # ys \<and> key r \<notin> key ` set xs"
    then obtain xs ys where eq: "rs @ [x] = xs @ r # ys" and new: "key r \<notin> key ` set xs"
      by blast
    show "r \<in> set (keep_first key [] (rs @ [x]))"
    proof (cases ys rule: rev_cases)
      case Nil
      with eq new show ?thesis by (simp add: keep_first_snoc)
    next
      case (snoc ys' y)
      with eq have "rs = xs @ r # ys'" by simp
      with new snoc.IH have "r \<in> set (keep_first key [] rs)" by blast
      then show ?thesis by (simp add: keep_first_snoc)
    qed
  qed
qed simp

lemma drop_duplicates_eq_Inr_iff:
  "drop_duplicates subs f = Inr f' \<longleftrightarrow>
     (\<forall>c \<in> set subs. has_column c f) \<and> f' = f\<lparr>rows := keep_first (row_key subs) [] (rows f)\<rparr>"
  by (auto simp: drop_duplicates_def missing_columns_Nil_iff)

lemma drop_duplicates_eq_Inl_iff:
  "drop_duplicates subs f = Inl e \<longleftrightarrow>
     missing_columns subs f \<noteq> [] \<and> e = key_error (missing_columns subs f)"
  by (auto simp: drop_duplicates_def)

lemma wf_frame_drop_duplicates [wf_intros]:
  "wf_frame f \<Longrightarrow> drop_duplicates subs f = Inr f' \<Longrightarrow> wf_frame f'"
  by (auto simp: drop_duplicates_eq_Inr_iff intro!: wf_frame_rows_subset set_keep_first_subset)

section \<open>Dropping rows with missing values\<close>

definition complete_in :: "column list \<Rightarrow> listing \<Rightarrow> bool" where
  "complete_in subs r = list_all (\<lambda>c. notna c r) subs"

definition dropna :: "column list \<Rightarrow> frame \<Rightarrow> frame result" where
  "dropna subs f =
     (if missing_columns subs f \<noteq> [] then Inl (key_error (missing_columns subs f))
      else Inr (select (complete_in subs) f))"

lemma dropna_eq_Inr_iff:
  "dropna subs f = Inr f' \<longleftrightarrow>
     (\<forall>c \<in> set subs. has_column c f) \<and> f' = select (complete_in subs) f"
  by (auto simp: dropna_def missing_columns_Nil_iff)

lemma dropna_eq_Inl_iff:
  "dropna subs f = Inl e \<longleftrightarrow>
     missing_columns subs f \<noteq> [] \<and> e = key_error (missing_columns subs f)"
  by (auto simp: dropna_def)

lemma wf_frame_dropna [wf_intros]: "wf_frame f \<Longrightarrow> dropna subs f = Inr f' \<Longrightarrow> wf_frame f'"
  by (auto simp: dropna_eq_Inr_iff intro: wf_frame_select)

lemma dropna_complete:
  "dropna subs f = Inr f' \<Longrightarrow> r \<in> set (rows f') \<Longrightarrow> c \<in> set subs \<Longrightarrow> notna c r"
  by (auto simp: dropna_eq_Inr_iff complete_in_def list_all_iff)

end
