(* ===== verification/World.thy ===== *)
theory World
  imports Frame
begin

text \<open>
  What the three classes and the dashboard share: the file system, standard output
  and the clock. A method of a class is a function from the object and the world to
  an outcome (a returned value or a raised exception), the object and the world after
  the call. An exception keeps every change made before it was raised.

  \<^item> \<open>line\<close>: a printed line as the pieces of its f-string (literal text, a formatted
    integer, a character given by its code point, a formatted float).
  \<^item> \<open>world\<close>: the CSV files (\<open>tables\<close>, by path, holding the frame written), the JSON
    files of the geocoder (\<open>caches\<close>), the directories that exist, the lines printed
    so far (oldest first), the seconds slept, and numpy's global random generator as
    the stream \<open>random\<close> of its raw draws with the number \<open>drawn\<close> so far.
  \<^item> \<open>mkdir_p\<close>, \<open>to_csv\<close>, \<open>read_csv\<close>, \<open>print\<close>, \<open>sleep\<close>: the calls the sources make.
    A CSV file holds text: \<open>read_csv\<close> returns the frame written with every text that
    pandas reads as a missing value replaced by one (\<open>parse_frame\<close>), and raises for a
    file written from a frame without columns.
  \<^item> \<open>outcome\<close>, \<open>action\<close>, \<open>bind\<close>, \<open>returns\<close>: the sequencing of calls.
\<close>

section \<open>Printed lines\<close>

datatype piece = S string | N nat | U nat | Fl rat

type_synonym line = "piece list"

section \<open>Geocoding results\<close>

text \<open>
  The dictionary the geocoder stores for a location: \<open>lat\<close> and \<open>lng\<close> are its keys
  \<open>'latitude'\<close> and \<open>'longitude'\<close>, named apart from the columns of a listing.
\<close>

record place =
  lat :: rat
  lng :: rat
  display_name :: "string option"

type_synonym cache = "(string \<times> place) list"

section \<open>The world\<close>

record world =
  tables :: "string \<Rightarrow> frame option"
  caches :: "string \<Rightarrow> cache option"
  dirs :: "string set"
  stdout :: "line list"
  slept :: nat
  random :: "nat \<Rightarrow> nat"
  drawn :: nat

definition empty_world :: "(nat \<Rightarrow> nat) \<Rightarrow> world" where
  "empty_world rnd =
     \<lparr>tables = (\<lambda>_. None), caches = (\<lambda>_. None), dirs = {}, stdout = [], slept = 0,
      random = rnd, drawn = 0\<rparr>"

definition print :: "line \<Rightarrow> world \<Rightarrow> world" where
  "print l w = w\<lparr>stdout := stdout w @ [l]\<rparr>"

definition sleep :: "nat \<Rightarrow> world \<Rightarrow> world" where
  "sleep n w = w\<lparr>slept := slept w + n\<rparr>"

section \<open>Paths\<close>

text \<open>
  A path is a string with \<open>/\<close> between its parts. \<open>parent\<close> is \<open>Path.parent\<close>,
  \<open>ancestors\<close> the path and every parent of it (what \<open>mkdir(parents=True)\<close> creates),
  \<open>path_join\<close> the operator \<open>/\<close> of \<open>pathlib\<close> for a relative right operand.
\<close>

fun split_path :: "string \<Rightarrow> string \<Rightarrow> string list" where
  "split_path acc [] = [rev acc]"
| "split_path acc (c # cs) =
     (if c = CHR ''/'' then rev acc # split_path [] cs else split_path (c # acc) cs)"

fun join_parts :: "string list \<Rightarrow> string" where
  "join_parts [] = []"
| "join_parts [p] = p"
| "join_parts (p # ps) = p @ ''/'' @ join_parts ps"

definition path_join :: "string \<Rightarrow> string \<Rightarrow> string" where
  "path_join d name = d @ ''/'' @ name"

definition parent :: "string \<Rightarrow> string" where
  "parent p = join_parts (butlast (split_path [] p))"

definition ancestors :: "string \<Rightarrow> string list" where
  "ancestors p = map join_parts (tl (prefixes (split_path [] p)))"

lemma path_examples:
  "ancestors ''data/processed'' = [''data'', ''data/processed'']"
  "parent ''data/processed/rentals_processed.csv'' = ''data/processed''"
  "path_join ''data/raw'' ''raw_rentals.csv'' = ''data/raw/raw_rentals.csv''"
  by (simp_all add: ancestors_def parent_def path_join_def)

lemma split_path_not_Nil [simp]: "split_path acc cs \<noteq> []"
  by (induction cs arbitrary: acc) auto

lemma join_parts_Cons: "ps \<noteq> [] \<Longrightarrow> join_parts (p # ps) = p @ ''/'' @ join_parts ps"
  by (cases ps) auto

lemma join_split_path: "join_parts (split_path acc cs) = rev acc @ cs"
  by (induction cs arbitrary: acc) (auto simp: join_parts_Cons)

lemma ancestors_self: "p \<in> set (ancestors p)"
proof -
  let ?ps = "split_path [] p"
  have "?ps \<in> set (tl (prefixes ?ps))"
    by (cases ?ps rule: rev_cases) (auto simp: prefixes_snoc)
  then have "join_parts ?ps \<in> set (ancestors p)"
    unfolding ancestors_def by (metis imageI set_map)
  then show ?thesis by (simp add: join_split_path)
qed

section \<open>Outcomes and methods\<close>

datatype 'a outcome = Returned 'a | Raised error

type_synonym ('s, 'a) action = "'s \<Rightarrow> world \<Rightarrow> 'a outcome \<times> 's \<times> world"

definition bind :: "('s, 'a) action \<Rightarrow> ('a \<Rightarrow> ('s, 'b) action) \<Rightarrow> ('s, 'b) action" where
  "bind m f = (\<lambda>s w. case m s w of
      (Returned a, s', w') \<Rightarrow> f a s' w'
    | (Raised e, s', w') \<Rightarrow> (Raised e, s', w'))"

definition returns :: "'a \<Rightarrow> ('s, 'a) action" where
  "returns a = (\<lambda>s w. (Returned a, s, w))"

definition raises :: "error \<Rightarrow> ('s, 'a) action" where
  "raises e = (\<lambda>s w. (Raised e, s, w))"

definition printing :: "line \<Rightarrow> ('s, unit) action" where
  "printing l = (\<lambda>s w. (Returned (), s, print l w))"

definition outcome_of :: "'a result \<Rightarrow> 'a outcome" where
  "outcome_of r = (case r of Inl e \<Rightarrow> Raised e | Inr x \<Rightarrow> Returned x)"

definition result_of :: "'a outcome \<times> 's \<times> world \<Rightarrow> 'a outcome" where
  "result_of r = fst r"

definition object_of :: "'a outcome \<times> 's \<times> world \<Rightarrow> 's" where
  "object_of r = fst (snd r)"

definition world_of :: "'a outcome \<times> 's \<times> world \<Rightarrow> world" where
  "world_of r = snd (snd r)"

lemma projections [simp]:
  "result_of (a, s, w) = a" "object_of (a, s, w) = s" "world_of (a, s, w) = w"
  by (simp_all add: result_of_def object_of_def world_of_def)

lemma outcome_of_simps [simp]:
  "outcome_of (Inl e) = Raised e" "outcome_of (Inr x) = Returned x"
  by (simp_all add: outcome_of_def)

lemma bind_Returned [simp]: "m s w = (Returned a, s', w') \<Longrightarrow> bind m f s w = f a s' w'"
  by (simp add: bind_def)

lemma bind_Raised [simp]: "m s w = (Raised e, s', w') \<Longrightarrow> bind m f s w = (Raised e, s', w')"
  by (simp add: bind_def)

lemma bind_returns [simp]: "bind (returns a) f = f a"
  by (simp add: bind_def returns_def)

lemma bind_raises [simp]: "bind (raises e) f = raises e"
  by (simp add: bind_def raises_def)

lemma bind_assoc: "bind (bind m f) g = bind m (\<lambda>a. bind (f a) g)"
  by (auto simp: bind_def fun_eq_iff split: prod.splits outcome.splits)

lemma bind_eq_Returned_iff:
  "bind m f s w = (Returned b, s'', w'') \<longleftrightarrow>
     (\<exists>a s' w'. m s w = (Returned a, s', w') \<and> f a s' w' = (Returned b, s'', w''))"
  by (auto simp: bind_def split: prod.splits outcome.splits)

lemma bind_eq_Raised_iff:
  "bind m f s w = (Raised e, s'', w'') \<longleftrightarrow>
     m s w = (Raised e, s'', w'')
     \<or> (\<exists>a s' w'. m s w = (Returned a, s', w') \<and> f a s' w' = (Raised e, s'', w''))"
  by (auto simp: bind_def split: prod.splits outcome.splits)

section \<open>Random choices\<close>

text \<open>
  \<open>np.random.choice(options, size=n)\<close>: \<open>n\<close> independent draws, each an element of
  \<open>options\<close>; the generator moves on by \<open>n\<close> draws.
\<close>

definition choice :: "'a list \<Rightarrow> nat \<Rightarrow> world \<Rightarrow> 'a list" where
  "choice options n w = map (\<lambda>i. options ! (random w (drawn w + i) mod length options)) [0..<n]"

definition advance :: "nat \<Rightarrow> world \<Rightarrow> world" where
  "advance n w = w\<lparr>drawn := drawn w + n\<rparr>"

lemma length_choice [simp]: "length (choice options n w) = n"
  by (simp add: choice_def)

lemma choice_mem: "options \<noteq> [] \<Longrightarrow> v \<in> set (choice options n w) \<Longrightarrow> v \<in> set options"
  by (auto simp: choice_def)

lemma advance_simps [simp]:
  "drawn (advance n w) = drawn w + n" "random (advance n w) = random w"
  "tables (advance n w) = tables w" "caches (advance n w) = caches w"
  "dirs (advance n w) = dirs w" "stdout (advance n w) = stdout w" "slept (advance n w) = slept w"
  by (simp_all add: advance_def)

section \<open>Files\<close>

definition mkdir_p :: "string \<Rightarrow> world \<Rightarrow> world" where
  "mkdir_p d w = w\<lparr>dirs := dirs w \<union> set (ancestors d)\<rparr>"

definition to_csv :: "string \<Rightarrow> frame \<Rightarrow> world \<Rightarrow> world result" where
  "to_csv path f w =
     (if parent path \<in> dirs w \<or> parent path = [] then Inr (w\<lparr>tables := (tables w)(path \<mapsto> f)\<rparr>)
      else Inl (OSError (parent path)))"

text \<open>
  \<open>to_csv(path, index=False)\<close> writes a line with the labels of the columns and a line
  for every row; a missing value and the empty string are both written as an empty
  field. \<open>read_csv\<close> with its default arguments reads a field as a missing value when
  its text is one of \<open>na_values\<close>, and raises \<open>EmptyDataError\<close> when the file has no line
  with labels, which is the file written from a frame without columns. Numbers are read
  as they were written. (pandas also infers the type of a column from its fields: a
  text column in which every field reads as a number would come back as numbers. The
  columns of the model are typed, so that a frame with such a column is outside it.)
\<close>

definition na_values :: "string list" where
  "na_values =
     ['''', ''#N/A'', ''#N/A N/A'', ''#NA'', ''-1.#IND'', ''-1.#QNAN'', ''-NaN'', ''-nan'',
      ''1.#IND'', ''1.#QNAN'', ''<NA>'', ''N/A'', ''NA'', ''NULL'', ''NaN'', ''None'', ''n/a'',
      ''nan'', ''null'']"

definition parse_text :: "string option \<Rightarrow> string option" where
  "parse_text v = (case v of None \<Rightarrow> None | Some s \<Rightarrow> if s \<in> set na_values then None else Some s)"

definition parse_row :: "listing \<Rightarrow> listing" where
  "parse_row r =
     r\<lparr>title := parse_text (title r), location := parse_text (location r),
       furnishing := parse_text (furnishing r)\<rparr>"

definition parse_frame :: "frame \<Rightarrow> frame" where
  "parse_frame f = f\<lparr>rows := map parse_row (rows f)\<rparr>"

definition read_csv :: "string \<Rightarrow> world \<Rightarrow> frame result" where
  "read_csv path w =
     (case tables w path of
        None \<Rightarrow> Inl (FileNotFoundError path)
      | Some f \<Rightarrow>
          if columns f = [] then Inl (EmptyDataError ''No columns to parse from file'')
          else Inr (parse_frame f))"

text \<open>A frame that a file returns as it was written.\<close>

definition readable_text :: "string option \<Rightarrow> bool" where
  "readable_text v = (case v of None \<Rightarrow> True | Some s \<Rightarrow> s \<notin> set na_values)"

definition survives_csv :: "frame \<Rightarrow> bool" where
  "survives_csv f =
     (columns f \<noteq> []
      \<and> list_all (\<lambda>r. readable_text (title r) \<and> readable_text (location r)
            \<and> readable_text (furnishing r)) (rows f))"

lemma stdout_print [simp]: "stdout (print l w) = stdout w @ [l]"
  and tables_print [simp]: "tables (print l w) = tables w"
  and dirs_print [simp]: "dirs (print l w) = dirs w"
  and caches_print [simp]: "caches (print l w) = caches w"
  and slept_print [simp]: "slept (print l w) = slept w"
  and random_print [simp]: "random (print l w) = random w"
  and drawn_print [simp]: "drawn (print l w) = drawn w"
  by (simp_all add: print_def)

lemma slept_sleep [simp]: "slept (sleep n w) = slept w + n"
  and stdout_sleep [simp]: "stdout (sleep n w) = stdout w"
  and tables_sleep [simp]: "tables (sleep n w) = tables w"
  and caches_sleep [simp]: "caches (sleep n w) = caches w"
  and dirs_sleep [simp]: "dirs (sleep n w) = dirs w"
  by (simp_all add: sleep_def)

lemma choice_print [simp]: "choice options n (print l w) = choice options n w"
  by (simp add: choice_def)

lemma mkdir_p_simps [simp]:
  "dirs (mkdir_p d w) = dirs w \<union> set (ancestors d)"
  "tables (mkdir_p d w) = tables w" "caches (mkdir_p d w) = caches w"
  "stdout (mkdir_p d w) = stdout w" "slept (mkdir_p d w) = slept w"
  by (simp_all add: mkdir_p_def)

lemma mkdir_p_idem [simp]: "mkdir_p d (mkdir_p d w) = mkdir_p d w"
  by (simp add: mkdir_p_def)

section \<open>Reading what was written\<close>

lemma parse_text_simps [simp]:
  "parse_text None = None"
  "parse_text (Some s) = (if s \<in> set na_values then None else Some s)"
  by (simp_all add: parse_text_def)

lemma parse_text_idem [simp]: "parse_text (parse_text v) = parse_text v"
  by (cases v) simp_all

lemma parse_text_eq_Some_iff: "parse_text v = Some s \<longleftrightarrow> v = Some s \<and> s \<notin> set na_values"
  by (cases v) auto

lemma parse_text_eq_self_iff: "parse_text v = v \<longleftrightarrow> readable_text v"
  by (cases v) (simp_all add: readable_text_def)

lemma parse_row_simps [simp]:
  "title (parse_row r) = parse_text (title r)" "location (parse_row r) = parse_text (location r)"
  "furnishing (parse_row r) = parse_text (furnishing r)" "price (parse_row r) = price r"
  "bhk (parse_row r) = bhk r" "area_sqft (parse_row r) = area_sqft r"
  "price_per_sqft (parse_row r) = price_per_sqft r" "latitude (parse_row r) = latitude r"
  "longitude (parse_row r) = longitude r"
  by (simp_all add: parse_row_def)

lemma parse_row_idem [simp]: "parse_row (parse_row r) = parse_row r"
  by (simp add: parse_row_def)

lemma parse_row_eq_self_iff:
  "parse_row r = r \<longleftrightarrow>
     readable_text (title r) \<and> readable_text (location r) \<and> readable_text (furnishing r)"
proof -
  have "parse_row r = r \<longleftrightarrow>
      parse_text (title r) = title r \<and> parse_text (location r) = location r
      \<and> parse_text (furnishing r) = furnishing r"
    by (cases r) (auto simp: parse_row_def)
  then show ?thesis by (simp add: parse_text_eq_self_iff)
qed

lemma parse_frame_simps [simp]:
  "columns (parse_frame f) = columns f" "rows (parse_frame f) = map parse_row (rows f)"
  "len (parse_frame f) = len f" "has_column c (parse_frame f) = has_column c f"
  by (simp_all add: parse_frame_def len_def has_column_def)

lemma parse_frame_idem [simp]: "parse_frame (parse_frame f) = parse_frame f"
  by (simp add: parse_frame_def)

lemma numbers_parse_row [simp]:
  "numbers price (map parse_row rs) = numbers price rs"
  "numbers area_sqft (map parse_row rs) = numbers area_sqft rs"
  "numbers bhk (map parse_row rs) = numbers bhk rs"
  by (simp_all add: numbers_def comp_def)

lemma has_column_columns: "has_column c f \<Longrightarrow> columns f \<noteq> []"
  by (auto simp: has_column_def)

lemma survives_csv_iff:
  "survives_csv f \<longleftrightarrow>
     columns f \<noteq> [] \<and> (\<forall>v \<in> set (map title (rows f)). readable_text v)
     \<and> (\<forall>v \<in> set (map location (rows f)). readable_text v)
     \<and> (\<forall>v \<in> set (map furnishing (rows f)). readable_text v)"
  by (auto simp: survives_csv_def list_all_iff)

lemma parse_frame_survives: "survives_csv f \<Longrightarrow> parse_frame f = f"
  by (simp add: survives_csv_def parse_frame_def list_all_iff map_eq_self_iff
      parse_row_eq_self_iff)

lemma readable_parse_text [simp]: "readable_text (parse_text v)"
  by (cases v) (simp_all add: readable_text_def)

lemma survives_csv_parse_frame: "columns f \<noteq> [] \<Longrightarrow> survives_csv (parse_frame f)"
  by (simp add: survives_csv_def list_all_iff)

lemma read_csv_eq_Inr_iff:
  "read_csv path w = Inr d \<longleftrightarrow>
     (\<exists>f. tables w path = Some f \<and> columns f \<noteq> [] \<and> d = parse_frame f)"
  by (auto simp: read_csv_def split: option.splits)

lemma read_csv_eq_Inl_iff:
  "read_csv path w = Inl e \<longleftrightarrow>
     (tables w path = None \<and> e = FileNotFoundError path)
     \<or> (\<exists>f. tables w path = Some f \<and> columns f = []
           \<and> e = EmptyDataError ''No columns to parse from file'')"
  by (auto simp: read_csv_def split: option.splits)

lemma read_csv_stored:
  "tables w path = Some f \<Longrightarrow> survives_csv f \<Longrightarrow> read_csv path w = Inr f"
  by (simp add: read_csv_def parse_frame_survives) (simp add: survives_csv_def)

text \<open>
  The round trip through a file: reading returns the written frame up to the texts
  that stand for a missing value, and exactly the written frame when it has none.
\<close>

lemma read_csv_to_csv:
  "to_csv path f w = Inr w' \<Longrightarrow>
   read_csv path w'
     = (if columns f = [] then Inl (EmptyDataError ''No columns to parse from file'')
        else Inr (parse_frame f))"
  by (auto simp: to_csv_def read_csv_def split: if_splits)

lemma read_csv_to_csv_survives:
  "to_csv path f w = Inr w' \<Longrightarrow> survives_csv f \<Longrightarrow> read_csv path w' = Inr f"
  by (auto simp: to_csv_def intro: read_csv_stored split: if_splits)

lemma read_csv_to_csv_other:
  "to_csv path f w = Inr w' \<Longrightarrow> path' \<noteq> path \<Longrightarrow> read_csv path' w' = read_csv path' w"
  by (auto simp: to_csv_def read_csv_def split: if_splits)

end
