(* ===== verification/Data_Processor.thy ===== *)
theory Data_Processor
  imports World
begin

text \<open>
  The class \<open>DataProcessor\<close> of \<open>src/src/data_processor.py\<close>, the core of RentMap.

  \<^item> \<open>processor\<close> is the object: its attributes \<open>input_file\<close> and \<open>df\<close> (\<open>None\<close> until
    \<open>load_data\<close> has run).
  \<^item> Each method is a definition of the same name of type \<open>(processor, _) action\<close>. It
    raises what the Python raises: \<open>TypeError\<close> or \<open>AttributeError\<close> when \<open>df\<close> is
    \<open>None\<close>, \<open>KeyError\<close> for a column the frame lacks or for \<open>mode()[0]\<close> of a column
    without a value, \<open>ValueError\<close> when no file is named.
  \<^item> The work a method does on the frame is a function on frames of its own
    (\<open>impute_bhk\<close>, \<open>impute_area\<close>, \<open>remove_outliers\<close>, \<open>normalize_text\<close>,
    \<open>derive_metrics\<close>, \<open>backfill_furnishing\<close>, \<open>validation_issues\<close>); the theory
    \<open>Pipeline\<close> composes them and shows that \<open>process_all\<close> computes the composition.
  \<^item> The properties of a stage follow the definitions, each applied to one of the example
    frames in the last section.
  \<^item> \<open>fillna(..., inplace=True)\<close> on a column is taken to update the frame, as it does
    in pandas before copy-on-write.
\<close>

section \<open>The object\<close>

record processor =
  input_file :: "string option"
  df :: "frame option"

definition init :: "string option \<Rightarrow> processor" where
  "init file = \<lparr>input_file = file, df = None\<rparr>"

section \<open>Loading\<close>

definition truthy :: "string option \<Rightarrow> bool" where
  "truthy v = (case v of None \<Rightarrow> False | Some s \<Rightarrow> s \<noteq> [])"

definition chosen_file :: "string option \<Rightarrow> processor \<Rightarrow> string option" where
  "chosen_file filepath self =
     (if truthy filepath then filepath
      else if truthy (input_file self) then input_file self
      else None)"

definition load_data :: "string option \<Rightarrow> (processor, frame) action" where
  "load_data filepath self w =
     (case chosen_file filepath self of
        None \<Rightarrow> (Raised (ValueError ''No input file specified''), self, w)
      | Some p \<Rightarrow>
          (case read_csv p w of
             Inl e \<Rightarrow> (Raised e, self, w)
           | Inr f \<Rightarrow> (Returned f, self\<lparr>df := Some f\<rparr>, w)))"

section \<open>Duplicates\<close>

definition identity_key :: "column list" where
  "identity_key = [Title, Location]"

definition remove_duplicates :: "(processor, frame) action" where
  "remove_duplicates self w =
     (case df self of
        None \<Rightarrow> (Raised (TypeError ''object of type 'NoneType' has no len()''), self, w)
      | Some d \<Rightarrow>
          (case drop_duplicates identity_key d of
             Inl e \<Rightarrow> (Raised e, self, w)
           | Inr d' \<Rightarrow>
               (Returned d', self\<lparr>df := Some d'\<rparr>,
                print [S ''Removed '', N (len d - len d'), S '' duplicates''] w)))"

section \<open>Missing values\<close>

definition critical_fields :: "column list" where
  "critical_fields = [Title, Price, Location]"

definition fill_bhk :: "rat \<Rightarrow> listing \<Rightarrow> listing" where
  "fill_bhk m r = (if bhk r = None then r\<lparr>bhk := Some m\<rparr> else r)"

definition fill_area :: "rat \<Rightarrow> listing \<Rightarrow> listing" where
  "fill_area m r = (if area_sqft r = None then r\<lparr>area_sqft := Some m\<rparr> else r)"

definition impute_bhk :: "frame \<Rightarrow> frame result" where
  "impute_bhk f =
     (if has_column Bhk f then
        (case modes (numbers bhk (rows f)) of
           [] \<Rightarrow> Inl (KeyError [''0''])
         | m # _ \<Rightarrow> Inr (f\<lparr>rows := map (fill_bhk m) (rows f)\<rparr>))
      else Inr f)"

definition impute_area :: "frame \<Rightarrow> frame" where
  "impute_area f =
     (if has_column Area_sqft f then
        (case median (numbers area_sqft (rows f)) of
           None \<Rightarrow> f
         | Some m \<Rightarrow> f\<lparr>rows := map (fill_area m) (rows f)\<rparr>)
      else f)"

definition handle_missing_values :: "(processor, frame) action" where
  "handle_missing_values self w =
     (case df self of
        None \<Rightarrow> (Raised (AttributeError ''dropna''), self, w)
      | Some d \<Rightarrow>
          (case dropna critical_fields d of
             Inl e \<Rightarrow> (Raised e, self, w)
           | Inr d1 \<Rightarrow>
               (case impute_bhk d1 of
                  Inl e \<Rightarrow> (Raised e, self\<lparr>df := Some d1\<rparr>, w)
                | Inr d2 \<Rightarrow>
                    (let d3 = impute_area d2
                     in (Returned d3, self\<lparr>df := Some d3\<rparr>,
                         print [S ''Handled missing values. Remaining records: '', N (len d3)]
                           w)))))"

section \<open>Price outliers\<close>

definition price_bounds :: "listing list \<Rightarrow> (rat \<times> rat) option" where
  "price_bounds rs =
     (case (quantile (1 / 4) (numbers price rs), quantile (3 / 4) (numbers price rs)) of
        (Some q1, Some q3) \<Rightarrow>
          (let iqr = q3 - q1 in Some (q1 - 3 * iqr, q3 + 3 * iqr))
      | _ \<Rightarrow> None)"

definition in_bounds :: "(rat \<times> rat) option \<Rightarrow> listing \<Rightarrow> bool" where
  "in_bounds b r =
     (case (b, price r) of
        (Some (lower_bound, upper_bound), Some p) \<Rightarrow> lower_bound \<le> p \<and> p \<le> upper_bound
      | _ \<Rightarrow> False)"

definition remove_outliers :: "frame \<Rightarrow> frame" where
  "remove_outliers f = select (in_bounds (price_bounds (rows f))) f"

definition clean_price :: "(processor, frame) action" where
  "clean_price self w =
     (case df self of
        None \<Rightarrow> (Raised (AttributeError ''columns''), self, w)
      | Some d \<Rightarrow>
          (if \<not> has_column Price d then (Returned d, self, w)
           else
             (let d' = remove_outliers d
              in (Returned d', self\<lparr>df := Some d'\<rparr>,
                  print [S ''Removed '', N (len d - len d'), S '' price outliers''] w))))"

section \<open>Text fields\<close>

definition clean_title :: "listing \<Rightarrow> listing" where
  "clean_title r = r\<lparr>title := map_option clean_text (title r)\<rparr>"

definition clean_place :: "listing \<Rightarrow> listing" where
  "clean_place r = r\<lparr>location := map_option clean_location (location r)\<rparr>"

definition normalize_text :: "frame \<Rightarrow> frame" where
  "normalize_text f =
     (let f1 = (if has_column Title f then f\<lparr>rows := map clean_title (rows f)\<rparr> else f)
      in if has_column Location f1 then f1\<lparr>rows := map clean_place (rows f1)\<rparr> else f1)"

definition clean_text_fields :: "(processor, frame) action" where
  "clean_text_fields self w =
     (case df self of
        None \<Rightarrow> (Raised (AttributeError ''columns''), self, w)
      | Some d \<Rightarrow> (let d' = normalize_text d in (Returned d', self\<lparr>df := Some d'\<rparr>, w)))"

section \<open>Derived metrics\<close>

definition ratio :: "listing \<Rightarrow> fnum option" where
  "ratio r =
     (case (price r, area_sqft r) of
        (Some p, Some a) \<Rightarrow> map_option fround2 (fdiv p a)
      | _ \<Rightarrow> None)"

definition with_ratio :: "listing \<Rightarrow> listing" where
  "with_ratio r = r\<lparr>price_per_sqft := ratio r\<rparr>"

definition derive_metrics :: "frame \<Rightarrow> frame" where
  "derive_metrics f =
     (if has_column Price f \<and> has_column Area_sqft f then assign Price_per_sqft with_ratio f
      else f)"

definition calculate_derived_metrics :: "(processor, frame) action" where
  "calculate_derived_metrics self w =
     (case df self of
        None \<Rightarrow> (Raised (AttributeError ''columns''), self, w)
      | Some d \<Rightarrow> (let d' = derive_metrics d in (Returned d', self\<lparr>df := Some d'\<rparr>, w)))"

section \<open>Furnishing\<close>

definition furnishing_options :: "string list" where
  "furnishing_options = [''Unfurnished'', ''Semi-Furnished'', ''Fully Furnished'']"

definition backfill_furnishing :: "string list \<Rightarrow> frame \<Rightarrow> frame" where
  "backfill_furnishing vs f =
     \<lparr>columns = columns f @ [Furnishing],
      rows = map (\<lambda>(r, v). r\<lparr>furnishing := Some v\<rparr>) (zip (rows f) vs)\<rparr>"

definition add_furnishing_status :: "(processor, frame) action" where
  "add_furnishing_status self w =
     (case df self of
        None \<Rightarrow> (Raised (AttributeError ''columns''), self, w)
      | Some d \<Rightarrow>
          (if \<not> has_column Furnishing d then
             (let d' = backfill_furnishing (choice furnishing_options (len d) w) d
              in (Returned d', self\<lparr>df := Some d'\<rparr>, advance (len d) w))
           else (Returned d, self, w)))"

section \<open>Validation\<close>

definition any_price :: "(rat \<Rightarrow> bool) \<Rightarrow> frame \<Rightarrow> bool" where
  "any_price P f = list_ex (\<lambda>r. case price r of None \<Rightarrow> False | Some p \<Rightarrow> P p) (rows f)"

definition any_area :: "(rat \<Rightarrow> bool) \<Rightarrow> frame \<Rightarrow> bool" where
  "any_area P f = list_ex (\<lambda>r. case area_sqft r of None \<Rightarrow> False | Some a \<Rightarrow> P a) (rows f)"

definition validation_issues :: "frame \<Rightarrow> string list" where
  "validation_issues f =
     (if any_price (\<lambda>p. p < 0) f then [''Negative prices found''] else [])
     @ (if has_column Area_sqft f \<and> any_area (\<lambda>a. a < 0) f
        then [''Negative area values found''] else [])
     @ (if any_price (\<lambda>p. p < 1000) f then [''Suspiciously low prices found''] else [])
     @ (if any_price (\<lambda>p. 10000000 < p) f then [''Suspiciously high prices found''] else [])"

definition report :: "string list \<Rightarrow> line list" where
  "report issues =
     (if issues \<noteq> [] then
        [S ''Data validation warnings:''] # map (\<lambda>issue. [S ''  - '', S issue]) issues
      else [[S ''Data validation passed '', U 10003]])"

definition print_all :: "line list \<Rightarrow> world \<Rightarrow> world" where
  "print_all ls w = fold print ls w"

definition validate_data :: "(processor, frame) action" where
  "validate_data self w =
     (case df self of
        None \<Rightarrow> (Raised (TypeError '''NoneType' object is not subscriptable''), self, w)
      | Some d \<Rightarrow>
          (if \<not> has_column Price d then (Raised (key_error [Price]), self, w)
           else (Returned d, self, print_all (report (validation_issues d)) w)))"

section \<open>The pipeline\<close>

definition current_df :: "(processor, frame) action" where
  "current_df self w =
     (case df self of
        None \<Rightarrow> (Raised (TypeError ''object of type 'NoneType' has no len()''), self, w)
      | Some d \<Rightarrow> (Returned d, self, w))"

definition process_all :: "(processor, frame) action" where
  "process_all =
     bind (printing [S ''Starting data processing pipeline...'']) (\<lambda>_.
     bind remove_duplicates (\<lambda>_.
     bind handle_missing_values (\<lambda>_.
     bind clean_price (\<lambda>_.
     bind clean_text_fields (\<lambda>_.
     bind calculate_derived_metrics (\<lambda>_.
     bind add_furnishing_status (\<lambda>_.
     bind validate_data (\<lambda>_.
     bind current_df (\<lambda>d.
     bind (printing [S ''Processing complete. Final dataset: '', N (len d), S '' records''])
       (\<lambda>_. returns d))))))))))"

section \<open>Saving\<close>

definition save_processed_data :: "string \<Rightarrow> (processor, string) action" where
  "save_processed_data filename self w =
     (let w1 = mkdir_p ''data/processed'' w;
          filepath = path_join ''data/processed'' filename
      in case df self of
           None \<Rightarrow> (Raised (AttributeError ''to_csv''), self, w1)
         | Some d \<Rightarrow>
             (case to_csv filepath d w1 of
                Inl e \<Rightarrow> (Raised e, self, w1)
              | Inr w2 \<Rightarrow>
                  (Returned filepath, self,
                   print [S ''Processed data saved to '', S filepath] w2)))"

section \<open>The example run\<close>

definition sample_row :: "string \<Rightarrow> rat \<Rightarrow> string \<Rightarrow> rat \<Rightarrow> rat \<Rightarrow> listing" where
  "sample_row t p l b a =
     blank_listing\<lparr>title := Some t, price := Some p, location := Some l, bhk := Some b,
       area_sqft := Some a\<rparr>"

definition sample_data :: frame where
  "sample_data =
     \<lparr>columns = [Title, Price, Location, Bhk, Area_sqft],
      rows =
       [sample_row ''2 BHK Apartment in Vasant Kunj'' 35000 ''Vasant Kunj'' 2 1200,
        sample_row ''3 BHK Villa in Defence Colony'' 75000 ''Defence Colony'' 3 2500,
        sample_row ''1 BHK Flat in Karol Bagh'' 18000 ''Karol Bagh'' 1 600,
        sample_row ''2 BHK Apartment in Dwarka'' 28000 ''Dwarka'' 2 1100,
        sample_row ''3 BHK Penthouse in Greater Kailash'' 95000 ''Greater Kailash'' 3 2800,
        sample_row ''1 BHK Studio in Lajpat Nagar'' 15000 ''Lajpat Nagar'' 1 500,
        sample_row ''2 BHK Apartment in Rohini'' 25000 ''Rohini'' 2 1000,
        sample_row ''4 BHK Villa in Chanakyapuri'' 150000 ''Chanakyapuri'' 4 3500]\<rparr>"

definition main :: "world \<Rightarrow> string outcome \<times> processor \<times> world" where
  "main w =
     (let w1 = mkdir_p ''data/raw'' w
      in case to_csv ''data/raw/raw_rentals.csv'' sample_data w1 of
           Inl e \<Rightarrow> (Raised e, init None, w1)
         | Inr w2 \<Rightarrow>
             bind (load_data None) (\<lambda>_.
             bind process_all (\<lambda>_.
             bind (save_processed_data ''rentals_processed.csv'') (\<lambda>path.
             bind (printing [U 10, S ''Sample processed data:'']) (\<lambda>_.
             bind current_df (\<lambda>d.
             bind (printing [S ''head'', N (min 5 (len d))]) (\<lambda>_. returns path))))))
               (init (Some ''data/raw/raw_rentals.csv'')) w2)"

lemmas action_defs =
  load_data_def remove_duplicates_def handle_missing_values_def clean_price_def
  clean_text_fields_def calculate_derived_metrics_def add_furnishing_status_def
  validate_data_def current_df_def save_processed_data_def process_all_def
  printing_def returns_def raises_def bind_def

section \<open>Notions used in the properties\<close>

text \<open>
  \<open>keys_of\<close> are the identity keys of the rows, \<open>has_critical\<close> says that a row has
  its three required fields, \<open>imputed\<close> is a row with its optional fields filled,
  \<open>clean_row\<close> what \<open>normalize_text\<close> does to one row, and \<open>all_issues\<close> the
  warnings in the order \<open>validate_data\<close> tests for them.
\<close>

definition keys_of :: "frame \<Rightarrow> scalar list list" where
  "keys_of f = map (row_key identity_key) (rows f)"

definition has_critical :: "listing \<Rightarrow> bool" where
  "has_critical r = (title r \<noteq> None \<and> price r \<noteq> None \<and> location r \<noteq> None)"

definition imputed :: "rat \<Rightarrow> rat option \<Rightarrow> listing \<Rightarrow> listing" where
  "imputed m a r =
     r\<lparr>bhk := Some (case bhk r of None \<Rightarrow> m | Some b \<Rightarrow> b),
       area_sqft := (case area_sqft r of None \<Rightarrow> a | Some x \<Rightarrow> Some x)\<rparr>"

definition clean_row :: "frame \<Rightarrow> listing \<Rightarrow> listing" where
  "clean_row f r =
     (let r1 = (if has_column Title f then clean_title r else r)
      in if has_column Location f then clean_place r1 else r1)"

definition all_issues :: "string list" where
  "all_issues = [''Negative prices found'', ''Negative area values found'',
     ''Suspiciously low prices found'', ''Suspiciously high prices found'']"

section \<open>Example data\<close>

text \<open>
  The frames the properties are applied to. \<open>scenario_a\<close> to \<open>scenario_d\<close> are the
  end-to-end scenarios of the specification; \<open>scenario_e\<close> has two titles that differ
  in a trailing space only; \<open>scenario_m\<close> has rows with missing fields, and
  \<open>scenario_m_out\<close> is what \<open>handle_missing_values\<close> makes of it.
\<close>

definition loaded :: "frame \<Rightarrow> processor" where
  "loaded f = \<lparr>input_file = None, df = Some f\<rparr>"

definition empty_frame :: "column list \<Rightarrow> frame" where
  "empty_frame cs = \<lparr>columns = cs, rows = []\<rparr>"

definition scenario_a :: frame where
  "scenario_a =
     \<lparr>columns = [Title, Location, Price, Area_sqft],
      rows = replicate 2
        (blank_listing\<lparr>title := Some ''A'', location := Some ''X'', price := Some 35000,
           area_sqft := Some 1200\<rparr>)\<rparr>"

definition priced :: "rat \<Rightarrow> listing" where
  "priced p = blank_listing\<lparr>price := Some p\<rparr>"

definition scenario_b :: frame where
  "scenario_b =
     \<lparr>columns = [Price],
      rows = map priced
        [15000, 18000, 25000, 28000, 35000, 68000, 75000, 95000, 150000, 5000000]\<rparr>"

definition scenario_c :: frame where
  "scenario_c =
     \<lparr>columns = [Price, Area_sqft, Title, Location],
      rows = [blank_listing\<lparr>title := Some ''t'', location := Some ''l'', price := Some 800,
                area_sqft := Some 500\<rparr>]\<rparr>"

definition scenario_c_out :: frame where
  "scenario_c_out =
     \<lparr>columns = [Price, Area_sqft, Title, Location, Price_per_sqft, Furnishing],
      rows = [blank_listing\<lparr>title := Some ''t'', location := Some ''L'', price := Some 800,
                area_sqft := Some 500, furnishing := Some ''Unfurnished'',
                price_per_sqft := Some (Fin (8 / 5))\<rparr>]\<rparr>"

definition scenario_d :: frame where
  "scenario_d =
     \<lparr>columns = [Title, Location, Price, Area_sqft],
      rows = [blank_listing\<lparr>title := Some ''t'', location := Some ''l'', price := Some 20000,
                area_sqft := Some 0\<rparr>]\<rparr>"

definition scenario_e :: frame where
  "scenario_e =
     \<lparr>columns = [Title, Location, Price],
      rows = [blank_listing\<lparr>title := Some ''A'', location := Some ''X'', price := Some 35000\<rparr>,
              blank_listing\<lparr>title := Some ''A '', location := Some ''X'', price := Some 36000\<rparr>]\<rparr>"

definition scenario_m :: frame where
  "scenario_m =
     \<lparr>columns = [Title, Price, Location, Bhk, Area_sqft],
      rows =
       [sample_row ''a'' 20000 ''X'' 2 900,
        (sample_row ''b'' 30000 ''Y'' 3 1400)\<lparr>price := None\<rparr>,
        (sample_row ''c'' 25000 ''Z'' 2 1000)\<lparr>bhk := None, area_sqft := None\<rparr>,
        sample_row ''d'' 40000 ''X'' 3 1100,
        sample_row ''e'' 22000 ''Y'' 3 800,
        (sample_row ''f'' 21000 ''Z'' 1 5000)\<lparr>title := None\<rparr>]\<rparr>"

definition scenario_m_out :: frame where
  "scenario_m_out =
     \<lparr>columns = [Title, Price, Location, Bhk, Area_sqft],
      rows =
       [sample_row ''a'' 20000 ''X'' 2 900,
        sample_row ''c'' 25000 ''Z'' 3 900,
        sample_row ''d'' 40000 ''X'' 3 1100,
        sample_row ''e'' 22000 ''Y'' 3 800]\<rparr>"

definition scenario_a_out :: frame where
  "scenario_a_out =
     \<lparr>columns = [Title, Location, Price, Area_sqft, Price_per_sqft, Furnishing],
      rows = [blank_listing\<lparr>title := Some ''A'', location := Some ''X'', price := Some 35000,
                area_sqft := Some 1200, furnishing := Some ''Unfurnished'',
                price_per_sqft := Some (Fin (2917 / 100))\<rparr>]\<rparr>"

definition scenario_e_out :: frame where
  "scenario_e_out =
     \<lparr>columns = [Title, Location, Price, Furnishing],
      rows = [blank_listing\<lparr>title := Some ''A'', location := Some ''X'', price := Some 35000,
                furnishing := Some ''Unfurnished''\<rparr>,
              blank_listing\<lparr>title := Some ''A'', location := Some ''X'', price := Some 36000,
                furnishing := Some ''Semi-Furnished''\<rparr>]\<rparr>"

text \<open>Two listings, one with a location that a CSV file does not keep.\<close>

definition scenario_n :: frame where
  "scenario_n =
     \<lparr>columns = [Title, Location, Price, Bhk],
      rows = [blank_listing\<lparr>title := Some ''A'', location := Some ''N/A'', price := Some 35000,
                bhk := Some 2\<rparr>,
              blank_listing\<lparr>title := Some ''B'', location := Some ''Saket'', price := Some 36000,
                bhk := Some 3\<rparr>]\<rparr>"

lemmas frame_eval =
  drop_duplicates_def dropna_def missing_columns_def has_column_def identity_key_def
  critical_fields_def row_key_def blank_listing_def impute_bhk_def impute_area_def select_def
  complete_in_def median_def remove_outliers_def price_bounds_def in_bounds_def quantile_def
  interp_def normalize_text_def derive_metrics_def assign_def with_ratio_def ratio_def fdiv_def
  fround2_def round2_def rint_def clean_title_def clean_place_def clean_text_def
  clean_location_def strip_def title_str_def backfill_furnishing_def choice_def
  furnishing_options_def empty_world_def len_def fill_bhk_def fill_area_def sample_row_def
  loaded_def Let_def

section \<open>Characteristic equations of the methods\<close>

lemma remove_duplicates_Returned_iff:
  "remove_duplicates self w = (Returned d', self', w') \<longleftrightarrow>
     (\<exists>d. df self = Some d \<and> drop_duplicates identity_key d = Inr d'
        \<and> self' = self\<lparr>df := Some d'\<rparr>
        \<and> w' = print [S ''Removed '', N (len d - len d'), S '' duplicates''] w)"
  by (auto simp: remove_duplicates_def split: option.splits sum.splits)

lemma remove_duplicates_Raised_iff:
  "remove_duplicates self w = (Raised e, self', w') \<longleftrightarrow>
     self' = self \<and> w' = w \<and>
     (case df self of
        None \<Rightarrow> e = TypeError ''object of type 'NoneType' has no len()''
      | Some d \<Rightarrow> drop_duplicates identity_key d = Inl e)"
  by (auto simp: remove_duplicates_def split: option.splits sum.splits)

lemma row_key_identity [simp]:
  "row_key identity_key r = row_key identity_key r' \<longleftrightarrow> title r = title r' \<and> location r = location r'"
  by (simp add: row_key_def identity_key_def)

text \<open>
  C2. When remove_duplicates returns, the frame it returns is the object's df and no
  two of its rows have the same title and location.
\<close>

theorem remove_duplicates_distinct:
  assumes "remove_duplicates self w = (Returned d, self', w')"
  shows "df self' = Some d \<and> distinct (keys_of d)"
  using assms
  by (auto simp: remove_duplicates_Returned_iff drop_duplicates_eq_Inr_iff keys_of_def)

lemma scenario_a_run:
  "remove_duplicates (loaded scenario_a) (empty_world id)
     = (Returned (scenario_a\<lparr>rows := [hd (rows scenario_a)]\<rparr>),
        loaded (scenario_a\<lparr>rows := [hd (rows scenario_a)]\<rparr>),
        print [S ''Removed '', N 1, S '' duplicates''] (empty_world id))"
  by (simp add: remove_duplicates_def drop_duplicates_def missing_columns_def has_column_def
      scenario_a_def loaded_def identity_key_def row_key_def blank_listing_def len_def
      numeral_2_eq_2)

theorem remove_duplicates_distinct_witness:
  "df (loaded (scenario_a\<lparr>rows := [hd (rows scenario_a)]\<rparr>))
      = Some (scenario_a\<lparr>rows := [hd (rows scenario_a)]\<rparr>)
   \<and> distinct (keys_of (scenario_a\<lparr>rows := [hd (rows scenario_a)]\<rparr>))"
  by (rule remove_duplicates_distinct [OF scenario_a_run])

section \<open>Properties of the deduplicator: what is kept\<close>

lemma len_drop_duplicates_le: "drop_duplicates subs f = Inr f' \<Longrightarrow> len f' \<le> len f"
  by (auto simp: drop_duplicates_eq_Inr_iff len_def length_keep_first_le)

text \<open>
  remove_duplicates keeps a row exactly when no earlier row of the frame has the
  same title and location: the first occurrence of every key survives.
\<close>

theorem remove_duplicates_keeps_first:
  assumes "remove_duplicates self w = (Returned d', self', w')" and "df self = Some d"
  shows "r \<in> set (rows d') \<longleftrightarrow>
    (\<exists>xs ys. rows d = xs @ r # ys
       \<and> (\<forall>x \<in> set xs. title x \<noteq> title r \<or> location x \<noteq> location r))"
proof -
  from assms have "rows d' = keep_first (row_key identity_key) [] (rows d)"
    by (auto simp: remove_duplicates_Returned_iff drop_duplicates_eq_Inr_iff)
  then show ?thesis
    by (simp add: keep_first_kept_iff image_iff) (metis row_key_identity)
qed

lemma remove_duplicates_report:
  assumes "remove_duplicates self w = (Returned d', self', w')" and "df self = Some d"
  shows "stdout w' = stdout w @ [[S ''Removed '', N (len d - len d'), S '' duplicates'']]"
    and "len d' \<le> len d" and "subseq (rows d') (rows d)" and "columns d' = columns d"
  using assms
  by (auto simp: remove_duplicates_Returned_iff drop_duplicates_eq_Inr_iff len_def
      length_keep_first_le subseq_keep_first)

section \<open>Properties of the missing-value resolver\<close>

lemma fill_bhk_simps [simp, frame_simps]:
  "bhk (fill_bhk m r) = (case bhk r of None \<Rightarrow> Some m | Some b \<Rightarrow> Some b)"
  "title (fill_bhk m r) = title r" "location (fill_bhk m r) = location r"
  "price (fill_bhk m r) = price r" "area_sqft (fill_bhk m r) = area_sqft r"
  "furnishing (fill_bhk m r) = furnishing r" "price_per_sqft (fill_bhk m r) = price_per_sqft r"
  "latitude (fill_bhk m r) = latitude r" "longitude (fill_bhk m r) = longitude r"
  by (simp_all add: fill_bhk_def split: option.splits)

lemma fill_area_simps [simp, frame_simps]:
  "area_sqft (fill_area m r) = (case area_sqft r of None \<Rightarrow> Some m | Some a \<Rightarrow> Some a)"
  "title (fill_area m r) = title r" "location (fill_area m r) = location r"
  "price (fill_area m r) = price r" "bhk (fill_area m r) = bhk r"
  "furnishing (fill_area m r) = furnishing r" "price_per_sqft (fill_area m r) = price_per_sqft r"
  "latitude (fill_area m r) = latitude r" "longitude (fill_area m r) = longitude r"
  by (simp_all add: fill_area_def split: option.splits)

lemma notna_fill_bhk [simp]: "notna c (fill_bhk m r) \<longleftrightarrow> c = Bhk \<or> notna c r"
  by (cases c) (auto split: option.splits)

lemma notna_fill_area [simp]: "notna c (fill_area m r) \<longleftrightarrow> c = Area_sqft \<or> notna c r"
  by (cases c) (auto split: option.splits)

lemma modes_numbers_Nil_iff:
  "modes (numbers sel rs) = [] \<longleftrightarrow> (\<forall>r \<in> set rs. sel r = None)"
  by (simp add: modes_eq_Nil_iff numbers_eq_Nil_iff)

lemma impute_bhk_eq_Inr_iff:
  "impute_bhk f = Inr f' \<longleftrightarrow>
     (if has_column Bhk f then
        numbers bhk (rows f) \<noteq> []
        \<and> f' = f\<lparr>rows := map (fill_bhk (hd (modes (numbers bhk (rows f))))) (rows f)\<rparr>
      else f' = f)"
  by (auto simp: impute_bhk_def modes_eq_Nil_iff split: list.splits)

lemma impute_bhk_eq_Inl_iff:
  "impute_bhk f = Inl e \<longleftrightarrow>
     has_column Bhk f \<and> (\<forall>r \<in> set (rows f). bhk r = None) \<and> e = KeyError [''0'']"
  using modes_numbers_Nil_iff [of bhk "rows f"]
  by (cases "modes (numbers bhk (rows f))") (auto simp: impute_bhk_def)

lemma impute_bhk_columns: "impute_bhk f = Inr f' \<Longrightarrow> columns f' = columns f"
  and impute_bhk_len: "impute_bhk f = Inr f' \<Longrightarrow> len f' = len f"
  by (auto simp: impute_bhk_eq_Inr_iff len_def split: if_splits)

lemma wf_frame_impute_bhk [wf_intros]:
  "wf_frame f \<Longrightarrow> impute_bhk f = Inr f' \<Longrightarrow> wf_frame f'"
  by (auto simp: impute_bhk_eq_Inr_iff wf_frame_iff has_column_def split: if_splits)

lemma impute_area_rows:
  "rows (impute_area f) =
     (if has_column Area_sqft f then
        (case median (numbers area_sqft (rows f)) of
           None \<Rightarrow> rows f | Some m \<Rightarrow> map (fill_area m) (rows f))
      else rows f)"
  and impute_area_columns [simp]: "columns (impute_area f) = columns f"
  and impute_area_len [simp]: "len (impute_area f) = len f"
  by (auto simp: impute_area_def len_def split: option.splits)

lemma wf_frame_impute_area [wf_intros]: "wf_frame f \<Longrightarrow> wf_frame (impute_area f)"
  by (auto simp: impute_area_def wf_frame_iff has_column_def split: option.splits)

lemma handle_missing_values_Returned_iff:
  "handle_missing_values self w = (Returned d3, self', w') \<longleftrightarrow>
     (\<exists>d d1 d2. df self = Some d \<and> dropna critical_fields d = Inr d1
        \<and> impute_bhk d1 = Inr d2 \<and> d3 = impute_area d2
        \<and> self' = self\<lparr>df := Some d3\<rparr>
        \<and> w' = print [S ''Handled missing values. Remaining records: '', N (len d3)] w)"
  by (auto simp: handle_missing_values_def Let_def split: option.splits sum.splits)

lemma handle_missing_values_Raised_iff:
  "handle_missing_values self w = (Raised e, self', w') \<longleftrightarrow>
     w' = w \<and>
     (case df self of
        None \<Rightarrow> e = AttributeError ''dropna'' \<and> self' = self
      | Some d \<Rightarrow>
          (case dropna critical_fields d of
             Inl e' \<Rightarrow> e = e' \<and> self' = self
           | Inr d1 \<Rightarrow> impute_bhk d1 = Inl e \<and> self' = self\<lparr>df := Some d1\<rparr>))"
  by (auto simp: handle_missing_values_def Let_def split: option.splits sum.splits)

lemma complete_in_critical [simp]: "complete_in critical_fields = has_critical"
  by (auto simp: complete_in_def critical_fields_def has_critical_def fun_eq_iff)

lemma has_critical_fill [simp]:
  "has_critical (fill_bhk m r) = has_critical r" "has_critical (fill_area m r) = has_critical r"
  by (simp_all add: has_critical_def)

lemma has_critical_impute_bhk:
  "impute_bhk f = Inr f' \<Longrightarrow> list_all has_critical (rows f') = list_all has_critical (rows f)"
  by (auto simp: impute_bhk_eq_Inr_iff list_all_iff split: if_splits)

lemma has_critical_impute_area:
  "list_all has_critical (rows (impute_area f)) = list_all has_critical (rows f)"
  by (auto simp: impute_area_rows list_all_iff split: option.splits)

text \<open>
  C3. When handle_missing_values returns, the frame it returns is the object's df and
  every row of it has a title, a price and a location.
\<close>

theorem handle_missing_values_critical:
  assumes "handle_missing_values self w = (Returned d, self', w')"
  shows "df self' = Some d \<and> list_all has_critical (rows d)"
proof -
  from assms obtain d0 d1 d2 where "dropna critical_fields d0 = Inr d1"
    and "impute_bhk d1 = Inr d2" and d: "d = impute_area d2" and "self' = self\<lparr>df := Some d\<rparr>"
    unfolding handle_missing_values_Returned_iff by blast
  moreover from this have "list_all has_critical (rows d1)"
    by (simp add: dropna_eq_Inr_iff)
  ultimately show ?thesis
    by (simp add: has_critical_impute_area has_critical_impute_bhk)
qed

lemma numbers_map_cong: "(\<And>r. r \<in> set rs \<Longrightarrow> sel (g r) = sel r) \<Longrightarrow> numbers sel (map g rs) = numbers sel rs"
  by (induction rs) (auto split: option.splits)

lemma fill_bhk_imputed: "fill_bhk m r = imputed m None r"
  by (cases r) (auto simp: fill_bhk_def imputed_def split: option.splits)

lemma fill_area_imputed: "fill_area a (imputed m None r) = imputed m (Some a) r"
  by (cases r) (auto simp: fill_area_def imputed_def split: option.splits)

text \<open>
  C5. With columns bhk and area_sqft, handle_missing_values keeps the rows that have
  the critical fields, in order, and fills a missing bhk with the least most frequent
  bhk and a missing area with the median area, both statistics taken over the kept rows
  only.
\<close>

theorem handle_missing_values_imputes:
  assumes run: "handle_missing_values self w = (Returned d, self', w')"
    and d0: "df self = Some d0" and cols: "has_column Bhk d0" "has_column Area_sqft d0"
  shows "rows d =
    (let kept = filter has_critical (rows d0)
     in map (imputed (hd (modes (numbers bhk kept))) (median (numbers area_sqft kept))) kept)"
proof -
  let ?kept = "filter has_critical (rows d0)"
  let ?m = "hd (modes (numbers bhk ?kept))"
  from run d0 obtain d1 d2 where d1: "dropna critical_fields d0 = Inr d1"
    and d2: "impute_bhk d1 = Inr d2" and d: "d = impute_area d2"
    unfolding handle_missing_values_Returned_iff by auto
  from d1 have k: "rows d1 = ?kept" and c1: "has_column Bhk d1" "has_column Area_sqft d1"
    using cols by (auto simp: dropna_eq_Inr_iff)
  with d2 have r2: "rows d2 = map (fill_bhk ?m) ?kept" and c2: "has_column Area_sqft d2"
    by (auto simp: impute_bhk_eq_Inr_iff has_column_def)
  have n: "numbers area_sqft (map (fill_bhk ?m) ?kept) = numbers area_sqft ?kept"
    by (rule numbers_map_cong) simp
  show ?thesis
    unfolding d Let_def
    by (cases "median (numbers area_sqft ?kept)")
       (simp_all add: impute_area_rows c2 n r2 fill_area_imputed fill_bhk_imputed)
qed

text \<open>
  C18. On a frame with the column bhk in which no row that has the critical fields has
  a bhk (an empty frame among them), handle_missing_values raises KeyError 0, from
  mode()[0], and leaves the object with the rows that have the critical fields.
\<close>

theorem handle_missing_values_no_bhk_raises:
  assumes "df self = Some d0" and "\<forall>c \<in> set critical_fields. has_column c d0"
    and "has_column Bhk d0" and "\<forall>r \<in> set (rows d0). has_critical r \<longrightarrow> bhk r = None"
  shows "handle_missing_values self w
    = (Raised (KeyError [''0'']), self\<lparr>df := Some (select has_critical d0)\<rparr>, w)"
proof -
  from assms(2) have "dropna critical_fields d0 = Inr (select has_critical d0)"
    by (simp add: dropna_eq_Inr_iff)
  moreover from assms(3,4) have "impute_bhk (select has_critical d0) = Inl (KeyError [''0''])"
    by (simp add: impute_bhk_eq_Inl_iff)
  ultimately show ?thesis
    using assms(1) by (simp add: handle_missing_values_Raised_iff)
qed

theorem handle_missing_values_no_bhk_raises_witness:
  "handle_missing_values (loaded (empty_frame [Title, Price, Location, Bhk])) (empty_world id)
    = (Raised (KeyError [''0'']),
       loaded (empty_frame [Title, Price, Location, Bhk])
         \<lparr>df := Some (select has_critical (empty_frame [Title, Price, Location, Bhk]))\<rparr>,
       empty_world id)"
  by (rule handle_missing_values_no_bhk_raises)
     (simp_all add: loaded_def empty_frame_def critical_fields_def has_column_def)

section \<open>Properties of the outlier filter\<close>

lemma price_bounds_eq_None_iff: "price_bounds rs = None \<longleftrightarrow> numbers price rs = []"
  by (auto simp: price_bounds_def quantile_def Let_def)

lemma price_bounds_eq_Some_iff:
  "price_bounds rs = Some (lo, hi) \<longleftrightarrow>
     (\<exists>q1 q3. quantile (1 / 4) (numbers price rs) = Some q1
        \<and> quantile (3 / 4) (numbers price rs) = Some q3
        \<and> lo = q1 - 3 * (q3 - q1) \<and> hi = q3 + 3 * (q3 - q1))"
  by (auto simp: price_bounds_def Let_def split: option.splits)

lemma price_bounds_ordered:
  assumes "price_bounds rs = Some (lo, hi)"
  shows "lo \<le> hi"
proof -
  from assms obtain q1 q3 where q: "quantile (1 / 4) (numbers price rs) = Some q1"
    "quantile (3 / 4) (numbers price rs) = Some q3"
    and b: "lo = q1 - 3 * (q3 - q1)" "hi = q3 + 3 * (q3 - q1)"
    unfolding price_bounds_eq_Some_iff by blast
  from q have "q1 \<le> q3" by (rule quartiles_ordered)
  with b show ?thesis by (simp add: algebra_simps)
qed

lemma in_bounds_iff:
  "in_bounds b r \<longleftrightarrow> (\<exists>lo hi p. b = Some (lo, hi) \<and> price r = Some p \<and> lo \<le> p \<and> p \<le> hi)"
  by (auto simp: in_bounds_def split: option.splits)

lemma price_mem_numbers: "r \<in> set rs \<Longrightarrow> price r = Some p \<Longrightarrow> p \<in> set (numbers price rs)"
  by (auto simp: set_numbers)

lemma rows_remove_outliers [simp, frame_simps]:
  "rows (remove_outliers f) = filter (in_bounds (price_bounds (rows f))) (rows f)"
  and columns_remove_outliers [simp, frame_simps]: "columns (remove_outliers f) = columns f"
  and has_column_remove_outliers [simp, frame_simps]:
    "has_column c (remove_outliers f) = has_column c f"
  by (simp_all add: remove_outliers_def)

lemma wf_frame_remove_outliers [wf_intros]: "wf_frame f \<Longrightarrow> wf_frame (remove_outliers f)"
  unfolding remove_outliers_def by (rule wf_frame_select)

lemma clean_price_Returned_iff:
  "clean_price self w = (Returned d', self', w') \<longleftrightarrow>
     (\<exists>d. df self = Some d \<and>
        (if has_column Price d then
           d' = remove_outliers d \<and> self' = self\<lparr>df := Some d'\<rparr>
           \<and> w' = print [S ''Removed '', N (len d - len d'), S '' price outliers''] w
         else d' = d \<and> self' = self \<and> w' = w))"
  by (auto simp: clean_price_def Let_def split: option.splits)

lemma clean_price_Raised_iff:
  "clean_price self w = (Raised e, self', w') \<longleftrightarrow>
     df self = None \<and> e = AttributeError ''columns'' \<and> self' = self \<and> w' = w"
  by (auto simp: clean_price_def Let_def split: option.splits)

text \<open>
  C4. Every row that clean_price keeps has a price between Q1 - 3 IQR and Q3 + 3 IQR,
  the quartiles being those of the prices before the filter.
\<close>

theorem clean_price_within_bounds:
  assumes "clean_price self w = (Returned d', self', w')"
    and "df self = Some d" and "has_column Price d" and "r \<in> set (rows d')"
  shows "\<exists>q1 q3 p. quantile (1 / 4) (numbers price (rows d)) = Some q1
    \<and> quantile (3 / 4) (numbers price (rows d)) = Some q3
    \<and> price r = Some p \<and> q1 - 3 * (q3 - q1) \<le> p \<and> p \<le> q3 + 3 * (q3 - q1)"
proof -
  from assms have "in_bounds (price_bounds (rows d)) r"
    by (auto simp: clean_price_Returned_iff)
  then obtain lo hi p where "price_bounds (rows d) = Some (lo, hi)"
    and "price r = Some p" "lo \<le> p" "p \<le> hi"
    unfolding in_bounds_iff by blast
  then show ?thesis
    unfolding price_bounds_eq_Some_iff by blast
qed

lemma clean_price_keeps_exactly:
  assumes "clean_price self w = (Returned d', self', w')"
    and "df self = Some d" and "has_column Price d"
  shows "rows d' = filter (in_bounds (price_bounds (rows d))) (rows d)"
    and "stdout w' = stdout w @ [[S ''Removed '', N (len d - len d'), S '' price outliers'']]"
    and "len d - len d' = length (filter (\<lambda>r. \<not> in_bounds (price_bounds (rows d)) r) (rows d))"
  using assms
  by (auto simp: clean_price_Returned_iff len_def length_filter_conv_removed)

lemma small_sample_in_bounds:
  assumes "length (numbers price rs) \<le> 4" and "r \<in> set rs" and "price r = Some p"
  shows "in_bounds (price_bounds rs) r"
proof -
  let ?ps = "numbers price rs"
  from assms(2,3) have p: "p \<in> set ?ps" by (rule price_mem_numbers)
  then have ne: "?ps \<noteq> []" by auto
  then obtain q1 q3 where q: "quantile (1 / 4) ?ps = Some q1" "quantile (3 / 4) ?ps = Some q3"
    by (auto simp: quantile_def)
  from fences_small [OF ne assms(1) q p] q assms(3) show ?thesis
    by (auto simp: in_bounds_iff price_bounds_eq_Some_iff)
qed

text \<open>
  C20. On a frame with at most four prices clean_price removes no row that has a price.
\<close>

theorem clean_price_small_sample:
  assumes "clean_price self w = (Returned d', self', w')"
    and "df self = Some d" and "has_column Price d"
    and "length (numbers price (rows d)) \<le> 4"
  shows "rows d' = filter (\<lambda>r. price r \<noteq> None) (rows d)"
proof -
  have "in_bounds (price_bounds (rows d)) r \<longleftrightarrow> price r \<noteq> None" if "r \<in> set (rows d)" for r
    using small_sample_in_bounds [OF assms(4) that] by (auto simp: in_bounds_iff)
  then have "filter (in_bounds (price_bounds (rows d))) (rows d)
      = filter (\<lambda>r. price r \<noteq> None) (rows d)"
    by (intro filter_cong) auto
  with assms(1-3) show ?thesis
    by (simp add: clean_price_Returned_iff)
qed

lemma clean_price_keeps_a_row:
  assumes "clean_price self w = (Returned d', self', w')"
    and "df self = Some d" and "has_column Price d"
    and "\<exists>r \<in> set (rows d). price r \<noteq> None"
  shows "rows d' \<noteq> []"
proof -
  let ?ps = "numbers price (rows d)"
  from assms(4) have ne: "?ps \<noteq> []" by (auto simp: numbers_eq_Nil_iff)
  then obtain q1 q3 where q: "quantile (1 / 4) ?ps = Some q1" "quantile (3 / 4) ?ps = Some q3"
    by (auto simp: quantile_def)
  from ne q obtain p where "p \<in> set ?ps"
    and "q1 - 3 * (q3 - q1) \<le> p" "p \<le> q3 + 3 * (q3 - q1)"
    by (rule element_in_fences)
  moreover from this obtain r where "r \<in> set (rows d)" "price r = Some p"
    by (auto simp: set_numbers)
  ultimately have "r \<in> set (filter (in_bounds (price_bounds (rows d))) (rows d))"
    using q by (auto simp: in_bounds_iff price_bounds_eq_Some_iff)
  then have "filter (in_bounds (price_bounds (rows d))) (rows d) \<noteq> []"
    by (metis empty_iff empty_set)
  with assms(1-3) show ?thesis
    by (simp add: clean_price_Returned_iff)
qed

text \<open>
  clean_price keeps every row whose price lies between the first and the third
  quartile.
\<close>

theorem clean_price_keeps_interquartile:
  assumes "clean_price self w = (Returned d', self', w')"
    and "df self = Some d" and "has_column Price d"
    and "quantile (1 / 4) (numbers price (rows d)) = Some q1"
    and "quantile (3 / 4) (numbers price (rows d)) = Some q3"
    and "r \<in> set (rows d)" and "price r = Some p" and "q1 \<le> p" and "p \<le> q3"
  shows "r \<in> set (rows d')"
  using assms between_quartiles_in_fences [of q1 p q3]
  by (auto simp: clean_price_Returned_iff in_bounds_iff price_bounds_eq_Some_iff)

section \<open>Properties of the text normalizer\<close>

lemma clean_title_simps [simp, frame_simps]:
  "title (clean_title r) = map_option clean_text (title r)"
  "location (clean_title r) = location r" "price (clean_title r) = price r"
  "bhk (clean_title r) = bhk r" "area_sqft (clean_title r) = area_sqft r"
  "furnishing (clean_title r) = furnishing r" "price_per_sqft (clean_title r) = price_per_sqft r"
  "latitude (clean_title r) = latitude r" "longitude (clean_title r) = longitude r"
  by (simp_all add: clean_title_def)

lemma clean_place_simps [simp, frame_simps]:
  "location (clean_place r) = map_option clean_location (location r)"
  "title (clean_place r) = title r" "price (clean_place r) = price r"
  "bhk (clean_place r) = bhk r" "area_sqft (clean_place r) = area_sqft r"
  "furnishing (clean_place r) = furnishing r" "price_per_sqft (clean_place r) = price_per_sqft r"
  "latitude (clean_place r) = latitude r" "longitude (clean_place r) = longitude r"
  by (simp_all add: clean_place_def)

lemma clean_title_idem [simp]: "clean_title (clean_title r) = clean_title r"
  by (cases "title r") (simp_all add: clean_title_def)

lemma clean_place_idem [simp]: "clean_place (clean_place r) = clean_place r"
  by (cases "location r") (simp_all add: clean_place_def)

lemma clean_place_clean_title: "clean_place (clean_title r) = clean_title (clean_place r)"
  by (simp add: clean_place_def clean_title_def)

lemma notna_clean [simp]:
  "notna c (clean_title r) = notna c r" "notna c (clean_place r) = notna c r"
  by (cases c; simp)+

lemma normalize_text_eq: "normalize_text f = f\<lparr>rows := map (clean_row f) (rows f)\<rparr>"
  by (cases f) (simp add: normalize_text_def clean_row_def Let_def has_column_def map_idI)

lemma columns_normalize_text [simp, frame_simps]: "columns (normalize_text f) = columns f"
  and rows_normalize_text [frame_simps]: "rows (normalize_text f) = map (clean_row f) (rows f)"
  and len_normalize_text [simp, frame_simps]: "len (normalize_text f) = len f"
  and has_column_normalize_text [simp, frame_simps]:
    "has_column c (normalize_text f) = has_column c f"
  by (simp_all add: normalize_text_eq len_def has_column_def)

lemma clean_row_columns_cong: "columns f = columns g \<Longrightarrow> clean_row f = clean_row g"
  by (simp add: clean_row_def has_column_def fun_eq_iff)

lemma clean_row_idem [simp]: "clean_row f (clean_row f r) = clean_row f r"
  by (simp add: clean_row_def Let_def clean_place_clean_title)

lemma notna_clean_row [simp]: "notna c (clean_row f r) = notna c r"
  by (simp add: clean_row_def Let_def)

lemma normalize_text_idem [simp]: "normalize_text (normalize_text f) = normalize_text f"
proof -
  have "clean_row (normalize_text f) = clean_row f"
    by (rule clean_row_columns_cong) simp
  then show ?thesis
    by (simp add: normalize_text_eq [of "normalize_text f"] rows_normalize_text)
qed

lemma wf_frame_normalize_text [wf_intros]: "wf_frame f \<Longrightarrow> wf_frame (normalize_text f)"
  by (auto simp: wf_frame_iff rows_normalize_text)

lemma clean_text_fields_Returned_iff:
  "clean_text_fields self w = (Returned d', self', w') \<longleftrightarrow>
     (\<exists>d. df self = Some d \<and> d' = normalize_text d \<and> self' = self\<lparr>df := Some d'\<rparr> \<and> w' = w)"
  by (auto simp: clean_text_fields_def Let_def split: option.splits)

lemma clean_text_fields_Raised_iff:
  "clean_text_fields self w = (Raised e, self', w') \<longleftrightarrow>
     df self = None \<and> e = AttributeError ''columns'' \<and> self' = self \<and> w' = w"
  by (auto simp: clean_text_fields_def Let_def split: option.splits)

text \<open>
  C21. clean_text_fields is idempotent: called again on its own result it returns the
  same frame and leaves the object and the world as they are.
\<close>

theorem clean_text_fields_idempotent:
  assumes "clean_text_fields self w = (Returned d, self', w')"
  shows "clean_text_fields self' w' = (Returned d, self', w')"
  using assms by (auto simp: clean_text_fields_Returned_iff)

lemma clean_text_fields_normalized:
  assumes "clean_text_fields self w = (Returned d, self', w')" and "r \<in> set (rows d)"
  shows "has_column Title d \<and> title r = Some t \<longrightarrow> normalized t"
    and "has_column Location d \<and> location r = Some l \<longrightarrow> normalized l \<and> title_str l = l"
  using assms
  by (auto simp: clean_text_fields_Returned_iff rows_normalize_text clean_row_def Let_def
      clean_location_def)

section \<open>Properties of the derived metric\<close>

lemma with_ratio_simps [simp, frame_simps]:
  "price_per_sqft (with_ratio r) = ratio r"
  "title (with_ratio r) = title r" "location (with_ratio r) = location r"
  "price (with_ratio r) = price r" "bhk (with_ratio r) = bhk r"
  "area_sqft (with_ratio r) = area_sqft r" "furnishing (with_ratio r) = furnishing r"
  "latitude (with_ratio r) = latitude r" "longitude (with_ratio r) = longitude r"
  by (simp_all add: with_ratio_def)

lemma ratio_with_ratio [simp]: "ratio (with_ratio r) = ratio r"
  by (simp add: ratio_def)

lemma notna_with_ratio: "notna c (with_ratio r) \<Longrightarrow> c = Price_per_sqft \<or> notna c r"
  by (cases c) auto

lemma ratio_positive_area:
  "price r = Some p \<Longrightarrow> area_sqft r = Some a \<Longrightarrow> a \<noteq> 0 \<Longrightarrow> ratio r = Some (Fin (round2 (p / a)))"
  by (simp add: ratio_def)

lemma ratio_zero_area:
  "price r = Some p \<Longrightarrow> area_sqft r = Some 0 \<Longrightarrow>
     ratio r = (if 0 < p then Some PosInf else if p < 0 then Some NegInf else None)"
  by (simp add: ratio_def fdiv_zero)

lemma ratio_missing: "price r = None \<or> area_sqft r = None \<Longrightarrow> ratio r = None"
  by (auto simp: ratio_def split: option.splits)

lemma rows_derive_metrics:
  "rows (derive_metrics f) =
     (if has_column Price f \<and> has_column Area_sqft f then map with_ratio (rows f) else rows f)"
  and len_derive_metrics [simp, frame_simps]: "len (derive_metrics f) = len f"
  and has_column_derive_metrics:
    "has_column c (derive_metrics f) \<longleftrightarrow>
       has_column c f \<or> (c = Price_per_sqft \<and> has_column Price f \<and> has_column Area_sqft f)"
  by (auto simp: derive_metrics_def len_def)

lemma wf_frame_derive_metrics [wf_intros]: "wf_frame f \<Longrightarrow> wf_frame (derive_metrics f)"
  unfolding derive_metrics_def by (auto intro!: wf_frame_assign dest: notna_with_ratio)

lemma derive_metrics_idem [simp]: "derive_metrics (derive_metrics f) = derive_metrics f"
  by (auto simp: derive_metrics_def assign_def has_column_def with_ratio_def ratio_def)

lemma calculate_derived_metrics_Returned_iff:
  "calculate_derived_metrics self w = (Returned d', self', w') \<longleftrightarrow>
     (\<exists>d. df self = Some d \<and> d' = derive_metrics d \<and> self' = self\<lparr>df := Some d'\<rparr> \<and> w' = w)"
  by (auto simp: calculate_derived_metrics_def Let_def split: option.splits)

lemma calculate_derived_metrics_Raised_iff:
  "calculate_derived_metrics self w = (Raised e, self', w') \<longleftrightarrow>
     df self = None \<and> e = AttributeError ''columns'' \<and> self' = self \<and> w' = w"
  by (auto simp: calculate_derived_metrics_def Let_def split: option.splits)

text \<open>
  C6. For a row with a price p and an area a other than 0, calculate_derived_metrics
  sets price_per_sqft to p / a rounded to two decimals: a number of hundredths within
  0.005 of p / a.
\<close>

theorem calculate_derived_metrics_accurate:
  assumes "calculate_derived_metrics self w = (Returned d', self', w')"
    and "df self = Some d" and "has_column Price d" and "has_column Area_sqft d"
    and "i < len d" and "price (rows d ! i) = Some p" and "area_sqft (rows d ! i) = Some a"
    and "a \<noteq> 0"
  shows "\<exists>v. price_per_sqft (rows d' ! i) = Some (Fin v) \<and> v = round2 (p / a)
    \<and> \<bar>v - p / a\<bar> \<le> 1 / 200 \<and> v * 100 \<in> \<int>"
  using assms round2_error [of "p / a"] round2_hundredths [of "p / a"]
  by (auto simp: calculate_derived_metrics_Returned_iff rows_derive_metrics len_def
      ratio_positive_area)

text \<open>
  C19. For a row with a positive price and an area of 0, calculate_derived_metrics sets
  price_per_sqft to positive infinity: the division is not guarded.
\<close>

theorem calculate_derived_metrics_zero_area:
  assumes "calculate_derived_metrics self w = (Returned d', self', w')"
    and "df self = Some d" and "has_column Price d" and "has_column Area_sqft d"
    and "i < len d" and "price (rows d ! i) = Some p" and "area_sqft (rows d ! i) = Some 0"
    and "0 < p"
  shows "price_per_sqft (rows d' ! i) = Some PosInf"
  using assms
  by (auto simp: calculate_derived_metrics_Returned_iff rows_derive_metrics len_def
      ratio_zero_area)

lemma calculate_derived_metrics_unset:
  assumes "calculate_derived_metrics self w = (Returned d', self', w')"
    and "df self = Some d" and "has_column Price d" and "has_column Area_sqft d"
    and "i < len d" and "price (rows d ! i) = None \<or> area_sqft (rows d ! i) = None"
  shows "price_per_sqft (rows d' ! i) = None"
  using assms
  by (auto simp: calculate_derived_metrics_Returned_iff rows_derive_metrics len_def
      ratio_missing)

section \<open>Properties of the furnishing backfill\<close>

lemma furnishing_options_nonempty [simp]: "furnishing_options \<noteq> []"
  by (simp add: furnishing_options_def)

lemma columns_backfill_furnishing [simp, frame_simps]:
  "columns (backfill_furnishing vs f) = columns f @ [Furnishing]"
  and has_column_backfill_furnishing [simp, frame_simps]:
  "has_column c (backfill_furnishing vs f) \<longleftrightarrow> c = Furnishing \<or> has_column c f"
  by (auto simp: backfill_furnishing_def has_column_def)

lemma len_backfill_furnishing [simp, frame_simps]:
  "len (backfill_furnishing vs f) = min (len f) (length vs)"
  by (simp add: backfill_furnishing_def len_def)

lemma nth_backfill_furnishing:
  "i < len f \<Longrightarrow> i < length vs \<Longrightarrow>
     rows (backfill_furnishing vs f) ! i = (rows f ! i)\<lparr>furnishing := Some (vs ! i)\<rparr>"
  by (simp add: backfill_furnishing_def len_def)

lemma backfill_furnishing_row:
  assumes "r' \<in> set (rows (backfill_furnishing vs f))"
  obtains r v where "r \<in> set (rows f)" "v \<in> set vs" "r' = r\<lparr>furnishing := Some v\<rparr>"
  using assms by (auto simp: backfill_furnishing_def dest: set_zip_leftD set_zip_rightD)

lemma map_backfill_furnishing:
  assumes "length vs = len f" and "\<And>r v. sel (r\<lparr>furnishing := Some v\<rparr>) = sel r"
  shows "map sel (rows (backfill_furnishing vs f)) = map sel (rows f)"
  using assms by (auto simp: backfill_furnishing_def len_def list_eq_iff_nth_eq)

lemma wf_frame_backfill_furnishing [wf_intros]:
  assumes "wf_frame f" and "\<not> has_column Furnishing f"
  shows "wf_frame (backfill_furnishing vs f)"
proof -
  have "c = Furnishing \<or> has_column c f"
    if "r \<in> set (rows f)" "notna c (r\<lparr>furnishing := Some v\<rparr>)" for r v c
    using that assms by (cases c) (auto simp: wf_frame_iff)
  with assms show ?thesis
    by (auto simp: wf_frame_iff has_column_def elim!: backfill_furnishing_row)
qed

lemma add_furnishing_status_Returned_iff:
  "add_furnishing_status self w = (Returned d', self', w') \<longleftrightarrow>
     (\<exists>d. df self = Some d \<and>
        (if has_column Furnishing d then d' = d \<and> self' = self \<and> w' = w
         else d' = backfill_furnishing (choice furnishing_options (len d) w) d
            \<and> self' = self\<lparr>df := Some d'\<rparr> \<and> w' = advance (len d) w))"
  by (auto simp: add_furnishing_status_def Let_def split: option.splits)

lemma add_furnishing_status_Raised_iff:
  "add_furnishing_status self w = (Raised e, self', w') \<longleftrightarrow>
     df self = None \<and> e = AttributeError ''columns'' \<and> self' = self \<and> w' = w"
  by (auto simp: add_furnishing_status_def Let_def split: option.splits)

text \<open>
  C7. On a frame without the column furnishing, add_furnishing_status adds it, gives
  every row one of the three furnishing options and changes nothing else of a row; the
  generator moves on by one draw per row.
\<close>

theorem add_furnishing_status_fills:
  assumes "add_furnishing_status self w = (Returned d', self', w')"
    and "df self = Some d" and "\<not> has_column Furnishing d"
  shows "has_column Furnishing d' \<and> len d' = len d \<and> drawn w' = drawn w + len d
    \<and> (\<forall>i < len d. \<exists>v \<in> set furnishing_options.
          rows d' ! i = (rows d ! i)\<lparr>furnishing := Some v\<rparr>)"
proof -
  let ?vs = "choice furnishing_options (len d) w"
  from assms have d': "d' = backfill_furnishing ?vs d" and w': "w' = advance (len d) w"
    by (auto simp: add_furnishing_status_Returned_iff)
  have "?vs ! i \<in> set furnishing_options" if "i < len d" for i
    using that choice_mem [of furnishing_options "?vs ! i" "len d" w] by simp
  then show ?thesis
    unfolding d' w' by (auto simp: nth_backfill_furnishing)
qed

text \<open>
  C22. On a frame that has the column furnishing, add_furnishing_status changes
  nothing, missing values of the column included.
\<close>

theorem add_furnishing_status_present:
  assumes "df self = Some d" and "has_column Furnishing d"
  shows "add_furnishing_status self w = (Returned d, self, w)"
  using assms by (simp add: add_furnishing_status_def)

section \<open>Properties of the validator\<close>

lemma any_price_iff:
  "any_price P f \<longleftrightarrow> (\<exists>r \<in> set (rows f). \<exists>p. price r = Some p \<and> P p)"
  by (auto simp: any_price_def list_ex_iff split: option.splits)

lemma any_area_iff:
  "any_area P f \<longleftrightarrow> (\<exists>r \<in> set (rows f). \<exists>a. area_sqft r = Some a \<and> P a)"
  by (auto simp: any_area_def list_ex_iff split: option.splits)

lemma any_price_mono: "any_price P f \<Longrightarrow> (\<And>p. P p \<Longrightarrow> Q p) \<Longrightarrow> any_price Q f"
  by (auto simp: any_price_iff)

lemma any_price_cong_rows:
  "map price (rows f) = map price (rows g) \<Longrightarrow> any_price P f = any_price P g"
  unfolding any_price_iff by (metis (no_types, opaque_lifting) image_iff list.set_map)

lemma set_if_single: "set (if c then [x] else []) = (if c then {x} else {})"
  by (cases c) simp_all

lemma set_validation_issues:
  "set (validation_issues f) =
     (if any_price (\<lambda>p. p < 0) f then {''Negative prices found''} else {})
     \<union> (if has_column Area_sqft f \<and> any_area (\<lambda>a. a < 0) f
        then {''Negative area values found''} else {})
     \<union> (if any_price (\<lambda>p. p < 1000) f then {''Suspiciously low prices found''} else {})
     \<union> (if any_price (\<lambda>p. 10000000 < p) f then {''Suspiciously high prices found''} else {})"
  by (simp only: validation_issues_def set_append set_if_single Un_assoc)

lemma validate_data_Returned_iff:
  "validate_data self w = (Returned d, self', w') \<longleftrightarrow>
     df self = Some d \<and> has_column Price d \<and> self' = self
     \<and> w' = print_all (report (validation_issues d)) w"
  by (auto simp: validate_data_def split: option.splits)

lemma validate_data_Raised_iff:
  "validate_data self w = (Raised e, self', w') \<longleftrightarrow>
     self' = self \<and> w' = w \<and>
     (case df self of
        None \<Rightarrow> e = TypeError '''NoneType' object is not subscriptable''
      | Some d \<Rightarrow> \<not> has_column Price d \<and> e = key_error [Price])"
  by (auto simp: validate_data_def split: option.splits)

lemma print_all_simps [simp]:
  "stdout (print_all ls w) = stdout w @ ls" "tables (print_all ls w) = tables w"
  "dirs (print_all ls w) = dirs w" "caches (print_all ls w) = caches w"
  "slept (print_all ls w) = slept w" "random (print_all ls w) = random w"
  "drawn (print_all ls w) = drawn w"
  unfolding print_all_def by (induction ls arbitrary: w) simp_all

text \<open>
  C8. Each of the four warnings of validate_data is in the list of issues exactly when
  a row gives rise to it: a negative price, a negative area in a frame with the column
  area_sqft, a price below 1000, a price above 10000000.
\<close>

theorem validation_issues_collects_all:
  "(''Negative prices found'' \<in> set (validation_issues f)
      \<longleftrightarrow> (\<exists>r \<in> set (rows f). \<exists>p. price r = Some p \<and> p < 0))
   \<and> (''Negative area values found'' \<in> set (validation_issues f)
      \<longleftrightarrow> has_column Area_sqft f
          \<and> (\<exists>r \<in> set (rows f). \<exists>a. area_sqft r = Some a \<and> a < 0))
   \<and> (''Suspiciously low prices found'' \<in> set (validation_issues f)
      \<longleftrightarrow> (\<exists>r \<in> set (rows f). \<exists>p. price r = Some p \<and> p < 1000))
   \<and> (''Suspiciously high prices found'' \<in> set (validation_issues f)
      \<longleftrightarrow> (\<exists>r \<in> set (rows f). \<exists>p. price r = Some p \<and> 10000000 < p))"
  by (simp add: set_validation_issues any_price_iff any_area_iff)

theorem validation_issues_in_order:
  "subseq (validation_issues f) all_issues \<and> distinct (validation_issues f)"
  by (simp add: validation_issues_def all_issues_def)

text \<open>
  C23. validate_data finds no issue exactly when every price is between 1000 and
  10000000 and, in a frame with the column area_sqft, no area is negative.
\<close>

theorem validation_passes_iff:
  "validation_issues f = [] \<longleftrightarrow>
     (\<forall>r \<in> set (rows f).
        (\<forall>p. price r = Some p \<longrightarrow> 1000 \<le> p \<and> p \<le> 10000000)
        \<and> (has_column Area_sqft f \<longrightarrow> (\<forall>a. area_sqft r = Some a \<longrightarrow> 0 \<le> a)))"
  (is "?l \<longleftrightarrow> ?r")
proof
  assume ?l
  then have "set (validation_issues f) = {}" by simp
  then show ?r
    unfolding set_validation_issues any_price_iff any_area_iff
    by (auto split: if_splits simp: not_less)
next
  assume r: ?r
  have "\<not> any_price (\<lambda>p. p < 0) f" "\<not> any_price (\<lambda>p. p < 1000) f"
    "\<not> any_price (\<lambda>p. 10000000 < p) f"
    using r by (fastforce simp: any_price_iff)+
  moreover have "\<not> (has_column Area_sqft f \<and> any_area (\<lambda>a. a < 0) f)"
    using r by (fastforce simp: any_area_iff)
  ultimately show ?l by (simp add: validation_issues_def)
qed

text \<open>
  C24. validate_data returns the object's frame unchanged, leaves the object, the files
  and the generator as they are, and prints the report of the issues.
\<close>

theorem validate_data_read_only:
  assumes "validate_data self w = (Returned d, self', w')"
  shows "df self = Some d \<and> self' = self \<and> tables w' = tables w \<and> drawn w' = drawn w
    \<and> stdout w' = stdout w @ report (validation_issues d)"
  using assms by (simp add: validate_data_Returned_iff)

lemma negative_price_also_low:
  assumes "''Negative prices found'' \<in> set (validation_issues f)"
  shows "''Suspiciously low prices found'' \<in> set (validation_issues f)"
  using assms by (auto simp: set_validation_issues intro: any_price_mono split: if_splits)

section \<open>The properties at the example data\<close>

lemma price_bounds_scenario_b: "price_bounds (rows scenario_b) = Some (- 167000, 282750)"
  by (simp add: scenario_b_def priced_def price_bounds_def quantile_def interp_def Let_def)

lemma scenario_b_run:
  "clean_price (loaded scenario_b) (empty_world id)
     = (Returned (scenario_b\<lparr>rows := butlast (rows scenario_b)\<rparr>),
        loaded (scenario_b\<lparr>rows := butlast (rows scenario_b)\<rparr>),
        print [S ''Removed '', N 1, S '' price outliers''] (empty_world id))"
  by (simp add: clean_price_def loaded_def remove_outliers_def select_def
      price_bounds_scenario_b has_column_def len_def Let_def)
     (simp add: scenario_b_def priced_def in_bounds_def)

lemma df_loaded: "df (loaded f) = Some f"
  by (simp add: loaded_def)

theorem remove_duplicates_keeps_first_witness:
  "hd (rows scenario_a) \<in> set (rows (scenario_a\<lparr>rows := [hd (rows scenario_a)]\<rparr>)) \<longleftrightarrow>
    (\<exists>xs ys. rows scenario_a = xs @ hd (rows scenario_a) # ys
       \<and> (\<forall>x \<in> set xs. title x \<noteq> title (hd (rows scenario_a))
             \<or> location x \<noteq> location (hd (rows scenario_a))))"
  by (rule remove_duplicates_keeps_first [OF scenario_a_run df_loaded])

lemma modes_scenario_m: "modes [2, 3, 3 :: rat] = [3]"
  by (simp add: modes_def max_count_def)

lemma scenario_m_run:
  "handle_missing_values (loaded scenario_m) (empty_world id)
     = (Returned scenario_m_out, loaded scenario_m_out,
        print [S ''Handled missing values. Remaining records: '', N 4] (empty_world id))"
  by (simp add: handle_missing_values_def scenario_m_def scenario_m_out_def frame_eval
      modes_scenario_m)

theorem handle_missing_values_critical_witness:
  "df (loaded scenario_m_out) = Some scenario_m_out \<and> list_all has_critical (rows scenario_m_out)"
  by (rule handle_missing_values_critical [OF scenario_m_run])

theorem handle_missing_values_imputes_witness:
  "rows scenario_m_out =
    (let kept = filter has_critical (rows scenario_m)
     in map (imputed (hd (modes (numbers bhk kept))) (median (numbers area_sqft kept))) kept)"
  by (rule handle_missing_values_imputes [OF scenario_m_run df_loaded])
     (simp_all add: scenario_m_def has_column_def)

theorem clean_price_within_bounds_witness:
  "\<exists>q1 q3 p. quantile (1 / 4) (numbers price (rows scenario_b)) = Some q1
    \<and> quantile (3 / 4) (numbers price (rows scenario_b)) = Some q3
    \<and> price (priced 150000) = Some p \<and> q1 - 3 * (q3 - q1) \<le> p \<and> p \<le> q3 + 3 * (q3 - q1)"
  by (rule clean_price_within_bounds [OF scenario_b_run df_loaded])
     (simp_all add: scenario_b_def has_column_def)

lemma scenario_a_clean_price:
  "clean_price (loaded scenario_a) (empty_world id)
     = (Returned scenario_a, loaded scenario_a,
        print [S ''Removed '', N 0, S '' price outliers''] (empty_world id))"
  by (simp add: clean_price_def scenario_a_def frame_eval numeral_2_eq_2)

theorem clean_price_small_sample_witness:
  "rows scenario_a = filter (\<lambda>r. price r \<noteq> None) (rows scenario_a)"
  by (rule clean_price_small_sample [OF scenario_a_clean_price df_loaded])
     (simp_all add: scenario_a_def frame_eval numeral_2_eq_2)

theorem clean_price_keeps_interquartile_witness:
  "priced 28000 \<in> set (rows (scenario_b\<lparr>rows := butlast (rows scenario_b)\<rparr>))"
  by (rule clean_price_keeps_interquartile [OF scenario_b_run df_loaded, of "25750" "90000" _ 28000])
     (simp_all add: scenario_b_def frame_eval priced_def)

lemma scenario_e_clean_text:
  "clean_text_fields (loaded scenario_e) (empty_world id)
     = (Returned (normalize_text scenario_e), loaded (normalize_text scenario_e), empty_world id)"
  by (simp add: clean_text_fields_def loaded_def Let_def)

theorem clean_text_fields_idempotent_witness:
  "clean_text_fields (loaded (normalize_text scenario_e)) (empty_world id)
     = (Returned (normalize_text scenario_e), loaded (normalize_text scenario_e), empty_world id)"
  by (rule clean_text_fields_idempotent [OF scenario_e_clean_text])

lemma sample_metrics:
  "calculate_derived_metrics (loaded sample_data) (empty_world id)
     = (Returned (derive_metrics sample_data), loaded (derive_metrics sample_data),
        empty_world id)"
  by (simp add: calculate_derived_metrics_def loaded_def Let_def)

theorem calculate_derived_metrics_accurate_witness:
  "\<exists>v. price_per_sqft (rows (derive_metrics sample_data) ! 0) = Some (Fin v)
    \<and> v = round2 (35000 / 1200) \<and> \<bar>v - 35000 / 1200\<bar> \<le> 1 / 200 \<and> v * 100 \<in> \<int>"
  by (rule calculate_derived_metrics_accurate [OF sample_metrics df_loaded])
     (simp_all add: sample_data_def frame_eval)

lemma scenario_d_metrics:
  "calculate_derived_metrics (loaded scenario_d) (empty_world id)
     = (Returned (derive_metrics scenario_d), loaded (derive_metrics scenario_d),
        empty_world id)"
  by (simp add: calculate_derived_metrics_def loaded_def Let_def)

theorem calculate_derived_metrics_zero_area_witness:
  "price_per_sqft (rows (derive_metrics scenario_d) ! 0) = Some PosInf"
  by (rule calculate_derived_metrics_zero_area [OF scenario_d_metrics df_loaded, where p = 20000])
     (simp_all add: scenario_d_def frame_eval)

lemma scenario_c_furnishing:
  "add_furnishing_status (loaded scenario_c) (empty_world id)
     = (Returned (backfill_furnishing [''Unfurnished''] scenario_c),
        loaded (backfill_furnishing [''Unfurnished''] scenario_c),
        advance 1 (empty_world id))"
  by (simp add: add_furnishing_status_def scenario_c_def frame_eval)

theorem add_furnishing_status_fills_witness:
  "has_column Furnishing (backfill_furnishing [''Unfurnished''] scenario_c)
    \<and> len (backfill_furnishing [''Unfurnished''] scenario_c) = len scenario_c
    \<and> drawn (advance 1 (empty_world id)) = drawn (empty_world id) + len scenario_c
    \<and> (\<exists>v \<in> set furnishing_options.
          rows (backfill_furnishing [''Unfurnished''] scenario_c) ! 0
            = (rows scenario_c ! 0)\<lparr>furnishing := Some v\<rparr>)"
  using add_furnishing_status_fills [OF scenario_c_furnishing df_loaded]
  by (simp add: scenario_c_def has_column_def len_def)

theorem add_furnishing_status_present_witness:
  "add_furnishing_status (loaded scenario_c_out) (empty_world id)
     = (Returned scenario_c_out, loaded scenario_c_out, empty_world id)"
  by (rule add_furnishing_status_present [OF df_loaded])
     (simp add: scenario_c_out_def has_column_def)

theorem validation_passes_iff_witness: "validation_issues scenario_a = []"
  using validation_passes_iff [of scenario_a]
  by (simp add: scenario_a_def blank_listing_def has_column_def)

lemma scenario_c_validate:
  "validate_data (loaded scenario_c_out) (empty_world id)
     = (Returned scenario_c_out, loaded scenario_c_out,
        print_all (report (validation_issues scenario_c_out)) (empty_world id))"
  by (simp add: validate_data_def loaded_def scenario_c_out_def has_column_def)

theorem validate_data_read_only_witness:
  "df (loaded scenario_c_out) = Some scenario_c_out \<and> loaded scenario_c_out = loaded scenario_c_out
    \<and> tables (print_all (report (validation_issues scenario_c_out)) (empty_world id))
        = tables (empty_world id)
    \<and> drawn (print_all (report (validation_issues scenario_c_out)) (empty_world id))
        = drawn (empty_world id)
    \<and> stdout (print_all (report (validation_issues scenario_c_out)) (empty_world id))
        = stdout (empty_world id) @ report (validation_issues scenario_c_out)"
  by (rule validate_data_read_only [OF scenario_c_validate])

theorem validation_issues_collects_all_witness:
  "''Suspiciously low prices found'' \<in> set (validation_issues scenario_c_out)
    \<and> ''Suspiciously high prices found'' \<notin> set (validation_issues scenario_c_out)"
  using validation_issues_collects_all [of scenario_c_out]
  by (simp add: scenario_c_out_def blank_listing_def)

end
