(* ===== verification/Pipeline.thy ===== *)
theory Pipeline
  imports Data_Processor
begin

text \<open>
  \<open>DataProcessor.process_all\<close> of \<open>src/src/data_processor.py\<close> as a function on frames.

  \<^item> \<open>resolve\<close> is what \<open>remove_duplicates\<close> and \<open>handle_missing_values\<close> do to the
    frame, \<open>enrich\<close> what the later stages do, and \<open>pipeline\<close> the two in sequence;
    \<open>process_all_run\<close> shows that the method computes \<open>pipeline\<close>, with the exceptions
    of the stages as its errors.
  \<^item> The lemmas after it are the guarantees of a whole run: what every row of the result
    has, what the run prints, and what it does not guarantee.
\<close>

section \<open>The pipeline as a function on frames\<close>

definition resolve :: "frame \<Rightarrow> frame result" where
  "resolve f =
     and_then (drop_duplicates identity_key f) (\<lambda>f1.
     and_then (dropna critical_fields f1) (\<lambda>f2.
     and_then (impute_bhk f2) (\<lambda>f3. Inr (impute_area f3))))"

definition enrich :: "world \<Rightarrow> frame \<Rightarrow> frame" where
  "enrich w f =
     (let f1 = derive_metrics (normalize_text (remove_outliers f))
      in if has_column Furnishing f1 then f1
         else backfill_furnishing (choice furnishing_options (len f1) w) f1)"

definition pipeline :: "world \<Rightarrow> frame \<Rightarrow> frame result" where
  "pipeline w f = and_then (resolve f) (\<lambda>f'. Inr (enrich w f'))"

text \<open>The calls of \<open>process_all\<close> after \<open>handle_missing_values\<close>.\<close>

definition finishing :: "(processor, frame) action" where
  "finishing =
     bind clean_price (\<lambda>_.
     bind clean_text_fields (\<lambda>_.
     bind calculate_derived_metrics (\<lambda>_.
     bind add_furnishing_status (\<lambda>_.
     bind validate_data (\<lambda>_.
     bind current_df (\<lambda>d.
     bind (printing [S ''Processing complete. Final dataset: '', N (len d), S '' records''])
       (\<lambda>_. returns d)))))))"

text \<open>The row of the result that a row reaching \<open>clean_text_fields\<close> becomes.\<close>

definition final_row :: "frame \<Rightarrow> listing \<Rightarrow> listing" where
  "final_row f r =
     (let r1 = clean_row f r
      in if has_column Price f \<and> has_column Area_sqft f then with_ratio r1 else r1)"

lemma process_all_finishing:
  "process_all =
     bind (printing [S ''Starting data processing pipeline...'']) (\<lambda>_.
     bind remove_duplicates (\<lambda>_. bind handle_missing_values (\<lambda>_. finishing)))"
  by (simp add: process_all_def finishing_def)

section \<open>Columns through the stages\<close>

lemma dropna_critical_columns:
  assumes "dropna critical_fields f = Inr f'"
  shows "has_column Title f'" "has_column Price f'" "has_column Location f'"
  using assms by (auto simp: dropna_eq_Inr_iff critical_fields_def)

lemma has_column_impute_bhk: "impute_bhk f = Inr f' \<Longrightarrow> has_column c f' = has_column c f"
  by (simp add: has_column_def impute_bhk_columns)

lemma has_column_impute_area [simp, frame_simps]: "has_column c (impute_area f) = has_column c f"
  by (simp add: has_column_def)

lemma has_column_Furnishing_derive_metrics [simp]:
  "has_column Furnishing (derive_metrics f) = has_column Furnishing f"
  by (simp add: has_column_derive_metrics)

lemma resolve_eq_Inr_iff:
  "resolve f = Inr f' \<longleftrightarrow>
     (\<exists>f1 f2 f3. drop_duplicates identity_key f = Inr f1 \<and> dropna critical_fields f1 = Inr f2
        \<and> impute_bhk f2 = Inr f3 \<and> f' = impute_area f3)"
  by (auto simp: resolve_def and_then_eq_Inr_iff)

lemma resolve_eq_Inl_iff:
  "resolve f = Inl e \<longleftrightarrow>
     drop_duplicates identity_key f = Inl e
     \<or> (\<exists>f1. drop_duplicates identity_key f = Inr f1 \<and>
           (dropna critical_fields f1 = Inl e
            \<or> (\<exists>f2. dropna critical_fields f1 = Inr f2 \<and> impute_bhk f2 = Inl e)))"
  by (auto simp: resolve_def and_then_eq_Inl_iff)

lemma pipeline_eq_Inr_iff: "pipeline w f = Inr d' \<longleftrightarrow> (\<exists>f'. resolve f = Inr f' \<and> d' = enrich w f')"
  by (auto simp: pipeline_def and_then_eq_Inr_iff)

lemma pipeline_eq_Inl_iff: "pipeline w f = Inl e \<longleftrightarrow> resolve f = Inl e"
  by (auto simp: pipeline_def and_then_eq_Inl_iff)

lemma has_column_resolve:
  assumes "resolve f = Inr f'"
  shows "has_column c f' = has_column c f"
    and "has_column Title f" "has_column Price f" "has_column Location f"
  using assms
  by (auto simp: resolve_eq_Inr_iff has_column_impute_bhk drop_duplicates_eq_Inr_iff
      dest: dropna_critical_columns) (auto simp: dropna_eq_Inr_iff critical_fields_def)

section \<open>The method computes the pipeline\<close>

lemma enrich_print [simp]: "enrich (print l w) f = enrich w f"
  by (simp add: enrich_def Let_def)

lemma finishing_run:
  assumes "df self = Some f" and "has_column Price f"
  shows "\<exists>w'. finishing self w = (Returned (enrich w f), self\<lparr>df := Some (enrich w f)\<rparr>, w')
    \<and> stdout w' = stdout w
        @ [[S ''Removed '', N (len f - len (remove_outliers f)), S '' price outliers'']]
        @ report (validation_issues (enrich w f))
        @ [[S ''Processing complete. Final dataset: '', N (len (enrich w f)), S '' records'']]
    \<and> tables w' = tables w
    \<and> drawn w' = drawn w + (if has_column Furnishing f then 0 else len (remove_outliers f))"
  using assms
  by (simp add: finishing_def action_defs enrich_def Let_def has_column_derive_metrics)

lemma process_all_unfold:
  assumes "df self = Some d"
  shows "process_all self w =
    (let w0 = print [S ''Starting data processing pipeline...''] w
     in case drop_duplicates identity_key d of
          Inl e \<Rightarrow> (Raised e, self, w0)
        | Inr f1 \<Rightarrow>
            (let w1 = print [S ''Removed '', N (len d - len f1), S '' duplicates''] w0
             in case dropna critical_fields f1 of
                  Inl e \<Rightarrow> (Raised e, self\<lparr>df := Some f1\<rparr>, w1)
                | Inr f2 \<Rightarrow>
                    (case impute_bhk f2 of
                       Inl e \<Rightarrow> (Raised e, self\<lparr>df := Some f2\<rparr>, w1)
                     | Inr f3 \<Rightarrow>
                         finishing (self\<lparr>df := Some (impute_area f3)\<rparr>)
                           (print [S ''Handled missing values. Remaining records: '',
                              N (len (impute_area f3))] w1))))"
  using assms
  by (simp add: process_all_finishing printing_def bind_def remove_duplicates_def
      handle_missing_values_def Let_def split: sum.splits)

lemma process_all_run:
  assumes "df self = Some d"
  shows "\<exists>self' w'. process_all self w = (outcome_of (pipeline w d), self', w')
    \<and> (\<forall>d'. pipeline w d = Inr d' \<longrightarrow> self' = self\<lparr>df := Some d'\<rparr>)"
proof (cases "resolve d")
  case (Inl e)
  with assms have "\<exists>self' w'. process_all self w = (Raised e, self', w')"
    by (auto simp: process_all_unfold resolve_eq_Inl_iff Let_def)
  with Inl show ?thesis
    by (auto simp: pipeline_def)
next
  case (Inr f)
  then obtain f1 f2 f3 where f: "drop_duplicates identity_key d = Inr f1"
    "dropna critical_fields f1 = Inr f2" "impute_bhk f2 = Inr f3" "f = impute_area f3"
    by (auto simp: resolve_eq_Inr_iff)
  then have "has_column Price f"
    by (simp add: has_column_impute_bhk dropna_critical_columns)
  from finishing_run [of "self\<lparr>df := Some f\<rparr>" f
      "print [S ''Handled missing values. Remaining records: '', N (len f)]
        (print [S ''Removed '', N (len d - len f1), S '' duplicates'']
          (print [S ''Starting data processing pipeline...''] w))", OF _ this]
    assms f Inr show ?thesis
    by (auto simp: process_all_unfold pipeline_def Let_def)
qed

lemma process_all_ReturnedD:
  assumes "process_all self w = (Returned d', self', w')" and "df self = Some d"
  shows "pipeline w d = Inr d'" and "self' = self\<lparr>df := Some d'\<rparr>"
  using process_all_run [OF assms(2), of w] assms(1)
  by (cases "pipeline w d"; auto)+

lemma process_all_RaisedD:
  assumes "process_all self w = (Raised e, self', w')" and "df self = Some d"
  shows "pipeline w d = Inl e"
  using process_all_run [OF assms(2), of w] assms(1)
  by (cases "pipeline w d"; auto)

section \<open>Rows of the result\<close>

lemma clean_row_simps [simp, frame_simps]:
  "title (clean_row f r) = (if has_column Title f then map_option clean_text (title r) else title r)"
  "location (clean_row f r)
     = (if has_column Location f then map_option clean_location (location r) else location r)"
  "price (clean_row f r) = price r" "bhk (clean_row f r) = bhk r"
  "area_sqft (clean_row f r) = area_sqft r" "furnishing (clean_row f r) = furnishing r"
  "price_per_sqft (clean_row f r) = price_per_sqft r"
  "latitude (clean_row f r) = latitude r" "longitude (clean_row f r) = longitude r"
  by (simp_all add: clean_row_def Let_def)

lemma ratio_cong: "price r = price r' \<Longrightarrow> area_sqft r = area_sqft r' \<Longrightarrow> ratio r = ratio r'"
  by (simp add: ratio_def)

lemma final_row_simps [simp, frame_simps]:
  "title (final_row f r) = title (clean_row f r)"
  "location (final_row f r) = location (clean_row f r)"
  "price (final_row f r) = price r" "bhk (final_row f r) = bhk r"
  "area_sqft (final_row f r) = area_sqft r" "furnishing (final_row f r) = furnishing r"
  "price_per_sqft (final_row f r)
     = (if has_column Price f \<and> has_column Area_sqft f then ratio r else price_per_sqft r)"
  "latitude (final_row f r) = latitude r" "longitude (final_row f r) = longitude r"
  by (auto simp: final_row_def Let_def intro: ratio_cong)

lemma notna_final_row: "notna c (final_row f r) \<Longrightarrow> notna c r \<or> has_column c (derive_metrics f)"
  by (cases c) (auto simp: has_column_derive_metrics split: if_splits)

lemma rows_before_backfill:
  "rows (derive_metrics (normalize_text (remove_outliers f)))
     = map (final_row f) (rows (remove_outliers f))"
proof -
  have "clean_row (remove_outliers f) = clean_row f"
    by (rule clean_row_columns_cong) simp
  then show ?thesis
    by (auto simp: rows_derive_metrics rows_normalize_text final_row_def Let_def)
qed

lemma enrich_rowE:
  assumes "r' \<in> set (rows (enrich w f))"
  obtains r where "r \<in> set (rows f)" and "in_bounds (price_bounds (rows f)) r"
    and "(has_column Furnishing f \<and> r' = final_row f r)
         \<or> (\<not> has_column Furnishing f
            \<and> (\<exists>v \<in> set furnishing_options. r' = (final_row f r)\<lparr>furnishing := Some v\<rparr>))"
proof (cases "has_column Furnishing f")
  case True
  with assms that show ?thesis
    by (auto simp: enrich_def Let_def rows_before_backfill)
next
  case False
  with assms obtain r1 v where
    "r1 \<in> set (rows (derive_metrics (normalize_text (remove_outliers f))))"
    and "v \<in> set furnishing_options" and "r' = r1\<lparr>furnishing := Some v\<rparr>"
    by (auto simp: enrich_def Let_def elim!: backfill_furnishing_row dest: choice_mem [rotated])
  with False that show ?thesis
    by (auto simp: rows_before_backfill)
qed

lemma map_rows_enrich:
  assumes "\<And>r v. sel (r\<lparr>furnishing := Some v\<rparr>) = sel r"
  shows "map sel (rows (enrich w f)) = map (sel \<circ> final_row f) (rows (remove_outliers f))"
  using assms
  by (simp add: enrich_def Let_def map_backfill_furnishing rows_before_backfill del: rows_remove_outliers)

lemma has_column_enrich:
  "has_column c (enrich w f) \<longleftrightarrow>
     has_column c f \<or> c = Furnishing
     \<or> (c = Price_per_sqft \<and> has_column Price f \<and> has_column Area_sqft f)"
  by (auto simp: enrich_def Let_def has_column_derive_metrics)

lemma len_enrich: "len (enrich w f) = len (remove_outliers f)"
  using map_rows_enrich [of price w f] by (simp add: len_def del: rows_remove_outliers)
    (metis length_map)

lemma wf_frame_resolve: "wf_frame f \<Longrightarrow> resolve f = Inr f' \<Longrightarrow> wf_frame f'"
  unfolding resolve_eq_Inr_iff
  by (metis wf_frame_impute_area wf_frame_impute_bhk wf_frame_dropna wf_frame_drop_duplicates)

lemma wf_frame_enrich: "wf_frame f \<Longrightarrow> wf_frame (enrich w f)"
  by (auto simp: enrich_def Let_def intro!: wf_intros)

lemma resolve_map:
  assumes "resolve f = Inr f'"
    and "\<And>m r. sel (fill_bhk m r) = sel r" and "\<And>m r. sel (fill_area m r) = sel r"
  shows "map sel (rows f')
    = map sel (filter has_critical (keep_first (row_key identity_key) [] (rows f)))"
proof -
  from assms(1) obtain f3 where "impute_bhk (select has_critical
      (f\<lparr>rows := keep_first (row_key identity_key) [] (rows f)\<rparr>)) = Inr f3"
    and "f' = impute_area f3"
    by (auto simp: resolve_eq_Inr_iff drop_duplicates_eq_Inr_iff dropna_eq_Inr_iff)
  with assms(2,3) show ?thesis
    by (auto simp: impute_bhk_eq_Inr_iff impute_area_rows split: if_splits option.splits)
qed

lemma row_key_fill [simp]:
  "row_key identity_key (fill_bhk m r) = row_key identity_key r"
  "row_key identity_key (fill_area m r) = row_key identity_key r"
  by (simp_all add: row_key_def identity_key_def)

lemma resolve_rows:
  assumes "resolve f = Inr f'"
  shows "list_all has_critical (rows f')" and "subseq (map price (rows f')) (map price (rows f))"
    and "distinct (keys_of f')"
proof -
  let ?kept = "filter has_critical (keep_first (row_key identity_key) [] (rows f))"
  have "map has_critical (rows f') = map has_critical ?kept"
    using assms by (rule resolve_map) simp_all
  then have "set (map has_critical (rows f')) \<subseteq> {True}"
    by auto
  then show "list_all has_critical (rows f')"
    by (auto simp: list_all_iff)
  have "subseq ?kept (rows f)"
    by (meson subseq_filter_left subseq_keep_first subseq_order.order_trans)
  then show "subseq (map price (rows f')) (map price (rows f))"
    using resolve_map [OF assms, of price] by (simp add: subseq_map)
  show "distinct (keys_of f')"
    unfolding keys_of_def using resolve_map [OF assms, of "row_key identity_key"]
    by (simp add: distinct_map_filter)
qed

section \<open>Guarantees of a whole run\<close>

lemma process_all_ReturnedE:
  assumes "process_all self w = (Returned d', self', w')" and "df self = Some d"
  obtains f where "resolve d = Inr f" and "d' = enrich w f" and "self' = self\<lparr>df := Some d'\<rparr>"
  using process_all_ReturnedD [OF assms] by (auto simp: pipeline_eq_Inr_iff)

text \<open>
  C1. Whenever a frame is loaded, process_all returns exactly what the function
  pipeline computes from that frame (deduplicate, drop and impute, filter outliers,
  normalise text, derive the metric, backfill furnishing), and raises exactly the
  exception at which pipeline stops.
\<close>

theorem process_all_refines:
  assumes "df self = Some d"
  shows "result_of (process_all self w) = outcome_of (pipeline w d)"
  using process_all_run [OF assms, of w] by auto

text \<open>
  C9. After a run of process_all that returns, the returned frame is the object's df,
  it has the columns title, price and location, and every row has a value in each of
  them.
\<close>

theorem process_all_critical:
  assumes "process_all self w = (Returned d', self', w')" and "df self = Some d"
  shows "df self' = Some d' \<and> list_all has_critical (rows d')
    \<and> has_column Title d' \<and> has_column Price d' \<and> has_column Location d'"
proof -
  from assms obtain f where f: "resolve d = Inr f" and d': "d' = enrich w f"
    and self': "self' = self\<lparr>df := Some d'\<rparr>"
    by (rule process_all_ReturnedE)
  have "has_critical r" if "r \<in> set (rows d')" for r
    using that resolve_rows(1) [OF f] unfolding d'
    by (auto simp: list_all_iff has_critical_def elim!: enrich_rowE)
  with has_column_resolve [OF f] show ?thesis
    by (simp add: self' d' has_column_enrich list_all_iff)
qed

text \<open>
  C10. After a run of process_all that returns, every price lies between Q1 - 3 IQR and
  Q3 + 3 IQR of the prices of the frame that reached the outlier filter.
\<close>

theorem process_all_within_fences:
  assumes "process_all self w = (Returned d', self', w')" and "df self = Some d"
    and "r \<in> set (rows d')"
  shows "\<exists>f q1 q3 p. resolve d = Inr f
    \<and> quantile (1 / 4) (numbers price (rows f)) = Some q1
    \<and> quantile (3 / 4) (numbers price (rows f)) = Some q3
    \<and> price r = Some p \<and> q1 - 3 * (q3 - q1) \<le> p \<and> p \<le> q3 + 3 * (q3 - q1)"
proof -
  from assms(1,2) obtain f where f: "resolve d = Inr f" and d': "d' = enrich w f"
    by (rule process_all_ReturnedE)
  from assms(3) obtain r0 where "in_bounds (price_bounds (rows f)) r0" "price r = price r0"
    unfolding d' by (auto elim!: enrich_rowE)
  with f show ?thesis
    by (auto simp: in_bounds_iff price_bounds_eq_Some_iff)
qed

text \<open>
  C13. After a run of process_all that returns, every title and location is trimmed and
  has single spaces only, and every location is in title case.
\<close>

theorem process_all_text_normalized:
  assumes "process_all self w = (Returned d', self', w')" and "df self = Some d"
    and "r \<in> set (rows d')"
  shows "\<exists>t l. title r = Some t \<and> location r = Some l \<and> normalized t \<and> normalized l
    \<and> title_str l = l"
proof -
  from assms(1,2) obtain f where f: "resolve d = Inr f" and d': "d' = enrich w f"
    by (rule process_all_ReturnedE)
  from assms(3) obtain r0 where "r0 \<in> set (rows f)" "title r = title (clean_row f r0)"
    "location r = location (clean_row f r0)"
    unfolding d' by (auto elim!: enrich_rowE)
  with resolve_rows(1) [OF f] has_column_resolve [OF f] show ?thesis
    by (auto simp: list_all_iff has_critical_def clean_location_def)
qed

text \<open>
  C14. After a run of process_all on a frame with the column area_sqft, the result has
  the column price_per_sqft, and in every row it is the ratio of that row's price and
  area.
\<close>

theorem process_all_metric_consistent:
  assumes "process_all self w = (Returned d', self', w')" and "df self = Some d"
    and "has_column Area_sqft d" and "r \<in> set (rows d')"
  shows "has_column Price_per_sqft d' \<and> price_per_sqft r = ratio r"
proof -
  from assms(1,2) obtain f where f: "resolve d = Inr f" and d': "d' = enrich w f"
    by (rule process_all_ReturnedE)
  from assms(4) obtain r0 where "price_per_sqft r = price_per_sqft (final_row f r0)"
    "price r = price r0" "area_sqft r = area_sqft r0"
    unfolding d' by (auto elim!: enrich_rowE)
  with has_column_resolve [OF f] assms(3) show ?thesis
    by (auto simp: d' has_column_enrich intro: ratio_cong)
qed

text \<open>
  C15. After a run of process_all on a frame without the column furnishing, the result
  has the column and every row has one of the three furnishing options.
\<close>

theorem process_all_furnishing:
  assumes "process_all self w = (Returned d', self', w')" and "df self = Some d"
    and "\<not> has_column Furnishing d" and "r \<in> set (rows d')"
  shows "has_column Furnishing d' \<and> (\<exists>v \<in> set furnishing_options. furnishing r = Some v)"
proof -
  from assms(1,2) obtain f where f: "resolve d = Inr f" and d': "d' = enrich w f"
    by (rule process_all_ReturnedE)
  with assms(3,4) has_column_resolve(1) [OF f, of Furnishing] show ?thesis
    by (auto simp: has_column_enrich elim!: enrich_rowE)
qed

text \<open>
  process_all preserves well-formedness: if the values of the input sit in its
  columns and no column is listed twice, the same holds of the result.
\<close>

theorem process_all_wf_frame:
  assumes "process_all self w = (Returned d', self', w')" and "df self = Some d"
    and "wf_frame d"
  shows "wf_frame d'"
proof -
  from assms(1,2) obtain f where "resolve d = Inr f" and "d' = enrich w f"
    by (rule process_all_ReturnedE)
  with assms(3) show ?thesis
    by (simp add: wf_frame_enrich wf_frame_resolve [of d f])
qed

text \<open>
  A run of process_all only removes rows: the prices of the result are a
  subsequence of the prices of the input, in their order.
\<close>

theorem process_all_only_removes:
  assumes "process_all self w = (Returned d', self', w')" and "df self = Some d"
  shows "subseq (map price (rows d')) (map price (rows d)) \<and> len d' \<le> len d"
proof -
  from assms(1,2) obtain f where f: "resolve d = Inr f" and d': "d' = enrich w f"
    by (rule process_all_ReturnedE)
  have "map price (rows d') = map price (rows (remove_outliers f))"
    unfolding d' by (simp add: map_rows_enrich del: rows_remove_outliers)
  also have "subseq \<dots> (map price (rows f))"
    by (simp add: subseq_map)
  finally have "subseq (map price (rows d')) (map price (rows d))"
    using resolve_rows(2) [OF f] by (rule subseq_order.order_trans)
  then show ?thesis
    by (metis len_def length_map subseq_same_length linorder_le_cases list_emb_length)
qed

lemma len_resolve:
  assumes "drop_duplicates identity_key d = Inr f1" and "dropna critical_fields f1 = Inr f2"
    and "impute_bhk f2 = Inr f3"
  shows "len (impute_area f3) \<le> len f1" and "len f1 \<le> len d"
  using assms len_select_le [of has_critical f1]
  by (auto simp: dropna_eq_Inr_iff impute_bhk_len len_drop_duplicates_le)

text \<open>
  A run of process_all that returns prints, in this order, the start line, the
  number of duplicates removed, the number of records after the missing values, the
  number of outliers removed, the validation report of the result and the final count;
  the counts add up, and no file is written.
\<close>

theorem process_all_report:
  assumes "process_all self w = (Returned d', self', w')" and "df self = Some d"
  shows "\<exists>n m. stdout w' = stdout w
        @ [[S ''Starting data processing pipeline...''],
           [S ''Removed '', N n, S '' duplicates''],
           [S ''Handled missing values. Remaining records: '', N (len d' + m)],
           [S ''Removed '', N m, S '' price outliers'']]
        @ report (validation_issues d')
        @ [[S ''Processing complete. Final dataset: '', N (len d'), S '' records'']]
    \<and> n + m + len d' \<le> len d \<and> tables w' = tables w"
proof -
  from assms(1,2) obtain f where f: "resolve d = Inr f" and d': "d' = enrich w f"
    by (rule process_all_ReturnedE)
  then obtain f1 f2 f3 where s: "drop_duplicates identity_key d = Inr f1"
    "dropna critical_fields f1 = Inr f2" "impute_bhk f2 = Inr f3" "f = impute_area f3"
    by (auto simp: resolve_eq_Inr_iff)
  let ?w = "print [S ''Handled missing values. Remaining records: '', N (len f)]
    (print [S ''Removed '', N (len d - len f1), S '' duplicates'']
      (print [S ''Starting data processing pipeline...''] w))"
  have "has_column Price f"
    using has_column_resolve [OF f] by simp
  from finishing_run [of "self\<lparr>df := Some f\<rparr>" f ?w, OF _ this] assms s
  have out: "stdout w' = stdout ?w
      @ [[S ''Removed '', N (len f - len (remove_outliers f)), S '' price outliers'']]
      @ report (validation_issues d')
      @ [[S ''Processing complete. Final dataset: '', N (len d'), S '' records'']]"
    and "tables w' = tables w"
    by (auto simp: process_all_unfold Let_def d')
  moreover have kept: "len d' + (len f - len (remove_outliers f)) = len f"
    using len_select_le [of "in_bounds (price_bounds (rows f))" f]
    by (simp add: d' len_enrich remove_outliers_def)
  moreover have "len f \<le> len f1" "len f1 \<le> len d"
    using len_resolve [OF s(1-3)] by (simp_all only: s(4))
  then have "len d - len f1 + (len f - len (remove_outliers f)) + len d' \<le> len d"
    using kept by linarith
  ultimately show ?thesis
    by (intro exI [of _ "len d - len f1"] exI [of _ "len f - len (remove_outliers f)"]) simp
qed

lemma keys_of_enrich:
  assumes "\<forall>r \<in> set (rows f). row_key identity_key (clean_row f r) = row_key identity_key r"
  shows "keys_of (enrich w f) = keys_of (remove_outliers f)"
proof -
  have "map (row_key identity_key) (rows (enrich w f))
      = map (row_key identity_key \<circ> final_row f) (rows (remove_outliers f))"
    by (rule map_rows_enrich) (simp add: row_key_def identity_key_def)
  also have "\<dots> = map (row_key identity_key) (rows (remove_outliers f))"
    using assms by (auto simp: row_key_def identity_key_def)
  finally show ?thesis by (simp add: keys_of_def)
qed

text \<open>
  C16. If the titles and locations of the input are already normalised, no two rows of
  the result of process_all have the same title and location.
\<close>

theorem process_all_unique_when_clean:
  assumes "process_all self w = (Returned d', self', w')" and "df self = Some d"
    and "\<forall>r \<in> set (rows d). map_option clean_text (title r) = title r
          \<and> map_option clean_location (location r) = location r"
  shows "distinct (keys_of d')"
proof -
  from assms(1,2) obtain f where f: "resolve d = Inr f" and d': "d' = enrich w f"
    by (rule process_all_ReturnedE)
  have "set (map (\<lambda>r. (title r, location r)) (rows f))
      \<subseteq> set (map (\<lambda>r. (title r, location r)) (rows d))"
    using resolve_map [OF f, of "\<lambda>r. (title r, location r)"] set_keep_first_subset
    by (simp add: image_mono subset_trans) fastforce
  with assms(3) have "\<forall>r \<in> set (rows f).
      row_key identity_key (clean_row f r) = row_key identity_key r"
    by (fastforce simp: row_key_def identity_key_def)
  then have "keys_of d' = map (row_key identity_key) (filter (in_bounds (price_bounds (rows f)))
      (rows f))"
    by (simp add: d' keys_of_enrich) (simp add: keys_of_def)
  with resolve_rows(3) [OF f] show ?thesis
    by (simp add: keys_of_def distinct_map_filter)
qed

lemma normalised_keys:
  assumes "has_column Title f" and "has_column Location f"
  shows "keys_of (enrich w f)
    = map (\<lambda>r. [of_text (map_option clean_text (title r)),
                 of_text (map_option clean_location (location r))]) (rows (remove_outliers f))"
proof -
  have "map (row_key identity_key) (rows (enrich w f))
      = map (row_key identity_key \<circ> final_row f) (rows (remove_outliers f))"
    by (rule map_rows_enrich) (simp add: row_key_def identity_key_def)
  with assms show ?thesis
    by (simp add: keys_of_def row_key_def identity_key_def comp_def del: rows_remove_outliers)
qed

lemma distinct_rows_if_keys: "distinct (keys_of f) \<Longrightarrow> distinct (rows f)"
  by (simp add: keys_of_def distinct_map)

text \<open>
  C17. The result of process_all has no two rows with the same title and location
  exactly when no two of the rows that reach clean_text_fields (the rows of
  remove_outliers f, where f is the frame after remove_duplicates and
  handle_missing_values) have the same title and location after normalisation: listings
  that differ only in white space, or in the case of the location, survive
  remove_duplicates and leave the pipeline as duplicates.
\<close>

theorem duplicates_survive:
  assumes "process_all self w = (Returned d', self', w')" and "df self = Some d"
    and "resolve d = Inr f"
  shows "distinct (keys_of d') \<longleftrightarrow>
     inj_on (\<lambda>r. (map_option clean_text (title r), map_option clean_location (location r)))
       (set (rows (remove_outliers f)))"
proof -
  let ?key = "\<lambda>r. [of_text (map_option clean_text (title r)),
    of_text (map_option clean_location (location r))]"
  from assms have d': "d' = enrich w f"
    by (auto elim: process_all_ReturnedE)
  from has_column_resolve [OF assms(3)] have "has_column Title f" "has_column Location f"
    by simp_all
  note keys = normalised_keys [OF this, of w]
  from resolve_rows(3) [OF assms(3)] have "distinct (rows (remove_outliers f))"
    by (simp add: distinct_rows_if_keys)
  then have "distinct (keys_of d') \<longleftrightarrow> inj_on ?key (set (rows (remove_outliers f)))"
    unfolding d' keys by (simp add: distinct_map del: rows_remove_outliers)
  then show ?thesis
    by (simp add: inj_on_def del: rows_remove_outliers)
qed

section \<open>The scenarios, run\<close>

lemma resolve_scenario_c: "resolve scenario_c = Inr scenario_c"
  by (simp add: resolve_def scenario_c_def frame_eval)

lemma enrich_scenario_c: "enrich (empty_world id) scenario_c = scenario_c_out"
  by (simp add: enrich_def scenario_c_def scenario_c_out_def frame_eval char_eval)

lemma scenario_c_run:
  "process_all (loaded scenario_c) (empty_world id)
     = (Returned scenario_c_out, loaded scenario_c_out,
        world_of (process_all (loaded scenario_c) (empty_world id)))"
  using process_all_run [of "loaded scenario_c" scenario_c "empty_world id"]
  by (auto simp: pipeline_def resolve_scenario_c enrich_scenario_c loaded_def)

lemma scenario_c_row: "hd (rows scenario_c_out) \<in> set (rows scenario_c_out)"
  by (simp add: scenario_c_out_def)

lemma scenario_c_loaded: "df (loaded scenario_c) = Some scenario_c"
  by (simp add: loaded_def)

lemma pipeline_scenario_e: "pipeline (empty_world id) scenario_e = Inr scenario_e_out"
  by (simp add: pipeline_def resolve_def enrich_def scenario_e_def scenario_e_out_def
      frame_eval char_eval)

lemma resolve_scenario_e: "resolve scenario_e = Inr scenario_e"
  by (simp add: resolve_def scenario_e_def frame_eval)

lemma scenario_e_run:
  "process_all (loaded scenario_e) (empty_world id)
     = (Returned scenario_e_out, loaded scenario_e_out,
        world_of (process_all (loaded scenario_e) (empty_world id)))"
  using process_all_run [of "loaded scenario_e" scenario_e "empty_world id"]
  by (auto simp: pipeline_scenario_e loaded_def)

lemma pipeline_scenario_n: "pipeline w scenario_n = Inr (enrich w scenario_n)"
  by (simp add: pipeline_def resolve_def scenario_n_def modes_def max_count_def frame_eval)

lemma locations_scenario_n:
  "map location (rows (enrich w scenario_n)) = [Some ''N/A'', Some ''Saket'']"
  using map_rows_enrich [of location w scenario_n]
  by (simp add: comp_def clean_row_def scenario_n_def frame_eval char_eval)

theorem duplicates_survive_witness:
  "distinct (keys_of scenario_e) \<and> \<not> distinct (keys_of scenario_e_out)"
proof -
  have "\<not> inj_on (\<lambda>r. (map_option clean_text (title r), map_option clean_location (location r)))
      (set (rows (remove_outliers scenario_e)))"
    by (simp add: scenario_e_def frame_eval char_eval)
  with duplicates_survive [OF scenario_e_run df_loaded resolve_scenario_e]
  have "\<not> distinct (keys_of scenario_e_out)"
    by simp
  moreover have "distinct (keys_of scenario_e)"
    by (simp add: keys_of_def scenario_e_def frame_eval)
  ultimately show ?thesis by simp
qed

theorem process_all_refines_witness:
  "result_of (process_all (loaded scenario_c) (empty_world id)) = Returned scenario_c_out"
  using process_all_refines [OF df_loaded, of scenario_c "empty_world id"]
  by (simp add: pipeline_def resolve_scenario_c enrich_scenario_c)

theorem process_all_critical_witness:
  "df (loaded scenario_c_out) = Some scenario_c_out \<and> list_all has_critical (rows scenario_c_out)
    \<and> has_column Title scenario_c_out \<and> has_column Price scenario_c_out
    \<and> has_column Location scenario_c_out"
  by (rule process_all_critical [OF scenario_c_run df_loaded])

theorem process_all_within_fences_witness:
  "\<exists>f q1 q3 p. resolve scenario_c = Inr f
    \<and> quantile (1 / 4) (numbers price (rows f)) = Some q1
    \<and> quantile (3 / 4) (numbers price (rows f)) = Some q3
    \<and> price (hd (rows scenario_c_out)) = Some p
    \<and> q1 - 3 * (q3 - q1) \<le> p \<and> p \<le> q3 + 3 * (q3 - q1)"
  by (rule process_all_within_fences [OF scenario_c_run df_loaded scenario_c_row])

theorem process_all_text_normalized_witness:
  "\<exists>t l. title (hd (rows scenario_c_out)) = Some t \<and> location (hd (rows scenario_c_out)) = Some l
    \<and> normalized t \<and> normalized l \<and> title_str l = l"
  by (rule process_all_text_normalized [OF scenario_c_run df_loaded scenario_c_row])

theorem process_all_metric_consistent_witness:
  "has_column Price_per_sqft scenario_c_out
    \<and> price_per_sqft (hd (rows scenario_c_out)) = ratio (hd (rows scenario_c_out))"
  by (rule process_all_metric_consistent [OF scenario_c_run df_loaded _ scenario_c_row])
     (simp add: scenario_c_def has_column_def)

theorem process_all_furnishing_witness:
  "has_column Furnishing scenario_c_out
    \<and> (\<exists>v \<in> set furnishing_options. furnishing (hd (rows scenario_c_out)) = Some v)"
  by (rule process_all_furnishing [OF scenario_c_run df_loaded _ scenario_c_row])
     (simp add: scenario_c_def has_column_def)

theorem process_all_wf_frame_witness: "wf_frame scenario_c_out"
  by (rule process_all_wf_frame [OF scenario_c_run df_loaded])
     (simp add: scenario_c_def wf_frame_def wf_row_def all_columns_def blank_listing_def)

theorem process_all_only_removes_witness:
  "subseq (map price (rows scenario_c_out)) (map price (rows scenario_c))
    \<and> len scenario_c_out \<le> len scenario_c"
  by (rule process_all_only_removes [OF scenario_c_run df_loaded])

theorem process_all_report_witness:
  "\<exists>n m. stdout (world_of (process_all (loaded scenario_c) (empty_world id)))
      = stdout (empty_world id)
        @ [[S ''Starting data processing pipeline...''],
           [S ''Removed '', N n, S '' duplicates''],
           [S ''Handled missing values. Remaining records: '', N (len scenario_c_out + m)],
           [S ''Removed '', N m, S '' price outliers'']]
        @ report (validation_issues scenario_c_out)
        @ [[S ''Processing complete. Final dataset: '', N (len scenario_c_out), S '' records'']]
    \<and> n + m + len scenario_c_out \<le> len scenario_c
    \<and> tables (world_of (process_all (loaded scenario_c) (empty_world id)))
        = tables (empty_world id)"
  by (rule process_all_report [OF scenario_c_run df_loaded])

lemma pipeline_scenario_a: "pipeline (empty_world id) scenario_a = Inr scenario_a_out"
  by (simp add: pipeline_def resolve_def enrich_def scenario_a_def scenario_a_out_def
      frame_eval char_eval numeral_2_eq_2)

lemma scenario_a_process:
  "process_all (loaded scenario_a) (empty_world id)
     = (Returned scenario_a_out, loaded scenario_a_out,
        world_of (process_all (loaded scenario_a) (empty_world id)))"
  using process_all_run [OF df_loaded, of scenario_a "empty_world id"]
  by (auto simp: pipeline_scenario_a loaded_def)

theorem process_all_unique_when_clean_witness: "distinct (keys_of scenario_a_out)"
  by (rule process_all_unique_when_clean [OF scenario_a_process df_loaded])
     (simp add: scenario_a_def frame_eval char_eval)

end
