(* ===== verification/Geocoder.thy ===== *)
theory Geocoder
  imports World "HOL-Library.AList"
begin

text \<open>
  The class \<open>LocationGeocoder\<close> of \<open>src/src/geocoder.py\<close>.

  \<^item> \<open>geocoder\<close> is the object: the client of the geocoding service, the path of the
    cache file and the cache, a dictionary in insertion order. The service is outside
    the program: \<open>geolocator\<close> gives its answer to an address at the \<open>n\<close>-th request the
    object makes, and \<open>requests\<close> counts the requests made.
  \<^item> \<open>geocode_location\<close> is the method with its three attempts; it catches the two
    exceptions of the service and raises nothing, so it is a function to the value it
    returns, the object and the world. \<open>response\<close> has the four answers the method
    handles; another exception of the client, or one of writing the cache, would leave
    the method and has no counterpart in the model.
  \<^item> \<open>geocode_dataframe\<close> and \<open>add_sample_coordinates\<close> change the frame they are given
    in place, so their state is the object together with that frame; the column of
    locations is the default one, \<open>location\<close>.
  \<^item> Coordinates are exact rationals; \<open>28.6139 + idx * 0.01\<close> is computed without the
    rounding of floats.
\<close>

section \<open>The service and the object\<close>

datatype response =
    Found rat rat string
  | NotFound
  | TimedOut string
  | ServiceError string

record geocoder =
  geolocator :: "string \<Rightarrow> nat \<Rightarrow> response"
  requests :: nat
  cache_file :: string
  cache :: cache

definition load_cache :: "string \<Rightarrow> world \<Rightarrow> cache" where
  "load_cache file w = (case caches w file of Some c \<Rightarrow> c | None \<Rightarrow> [])"

definition new_geocoder :: "(string \<Rightarrow> nat \<Rightarrow> response) \<Rightarrow> string \<Rightarrow> world \<Rightarrow> geocoder" where
  "new_geocoder service file w =
     \<lparr>geolocator = service, requests = 0, cache_file = file, cache = load_cache file w\<rparr>"

definition save_cache :: "geocoder \<Rightarrow> world \<Rightarrow> world" where
  "save_cache self w =
     (mkdir_p (parent (cache_file self)) w)
       \<lparr>caches := (caches w)(cache_file self \<mapsto> cache self)\<rparr>"

section \<open>One location\<close>

definition max_retries :: nat where
  "max_retries = 3"

definition cache_key :: "string \<Rightarrow> string \<Rightarrow> string \<Rightarrow> string" where
  "cache_key loc city country = loc @ '', '' @ city @ '', '' @ country"

text \<open>
  \<open>attempts n\<close> is the loop with \<open>n\<close> attempts left, so the attempt it makes has the
  number \<open>max_retries - n\<close>, counted from 0.
\<close>

primrec attempts ::
  "nat \<Rightarrow> string \<Rightarrow> string \<Rightarrow> string \<Rightarrow> geocoder \<Rightarrow> world \<Rightarrow> place option \<times> geocoder \<times> world"
where
  "attempts 0 loc city country self w = (None, self, w)"
| "attempts (Suc n) loc city country self w =
     (let full_address = cache_key loc city country;
          self1 = self\<lparr>requests := requests self + 1\<rparr>;
          failed = (\<lambda>e. attempts n loc city country self1
            (sleep 2 (print [S ''Geocoding error (attempt '', N (max_retries - n), S ''/'',
               N max_retries, S ''): '', S e] w)))
      in case geolocator self full_address (requests self) of
           Found la lo address \<Rightarrow>
             (let result = \<lparr>lat = la, lng = lo, display_name = Some address\<rparr>;
                  self2 = self1\<lparr>cache := AList.update full_address result (cache self1)\<rparr>
              in (Some result, self2, sleep 1 (save_cache self2 w)))
         | NotFound \<Rightarrow> (None, self1, print [S ''Location not found: '', S loc] w)
         | TimedOut e \<Rightarrow> failed e
         | ServiceError e \<Rightarrow> failed e)"

definition geocode_location ::
  "string \<Rightarrow> string \<Rightarrow> string \<Rightarrow> geocoder \<Rightarrow> world \<Rightarrow> place option \<times> geocoder \<times> world"
where
  "geocode_location loc city country self w =
     (case map_of (cache self) (cache_key loc city country) of
        Some result \<Rightarrow> (Some result, self, w)
      | None \<Rightarrow> attempts max_retries loc city country self w)"

section \<open>A frame of listings\<close>

definition blank_coordinates :: "frame \<Rightarrow> frame" where
  "blank_coordinates df =
     assign Longitude (\<lambda>r. r\<lparr>longitude := None\<rparr>)
       (assign Latitude (\<lambda>r. r\<lparr>latitude := None\<rparr>) df)"

definition shown :: "string option \<Rightarrow> string" where
  "shown loc = (case loc of None \<Rightarrow> ''nan'' | Some s \<Rightarrow> s)"

definition default_coords :: "nat \<Rightarrow> place" where
  "default_coords idx =
     \<lparr>lat = 286139 / 10000 + of_nat idx * (1 / 100),
      lng = 77209 / 1000 + of_nat idx * (1 / 100), display_name = None\<rparr>"

fun geocode_each ::
  "string \<Rightarrow> string \<Rightarrow> nat \<Rightarrow> nat \<Rightarrow> string option list \<Rightarrow> (string option \<times> place) list
    \<Rightarrow> geocoder \<Rightarrow> world \<Rightarrow> (string option \<times> place) list \<times> geocoder \<times> world"
where
  "geocode_each city country idx n [] location_coords self w = (location_coords, self, w)"
| "geocode_each city country idx n (loc # rest) location_coords self w =
     (let w1 = print [S ''Geocoding ('', N idx, S ''/'', N n, S ''): '', S (shown loc)] w
      in case geocode_location (shown loc) city country self w1 of
           (Some coords, self', w2) \<Rightarrow>
             geocode_each city country (idx + 1) n rest
               (location_coords @ [(loc, coords)]) self'
               (print [S ''  '', U 10003, S '' Found: ('', Fl (lat coords), S '', '',
                  Fl (lng coords), S '')''] w2)
         | (None, self', w2) \<Rightarrow>
             geocode_each city country (idx + 1) n rest
               (location_coords @ [(loc, default_coords idx)]) self'
               (print [S ''  '', U 9888, S '' Using default coordinates''] w2))"

definition set_coords :: "string option \<Rightarrow> rat \<Rightarrow> rat \<Rightarrow> listing \<Rightarrow> listing" where
  "set_coords loc la lo r =
     (if loc \<noteq> None \<and> location r = loc then r\<lparr>latitude := Some la, longitude := Some lo\<rparr>
      else r)"

text \<open>
  The loop \<open>for location, coords in ....items()\<close> that both methods end with: one
  masked assignment per entry, in the order of the dictionary.
\<close>

definition locate_rows :: "(string option \<times> rat \<times> rat) list \<Rightarrow> frame \<Rightarrow> frame" where
  "locate_rows entries df =
     fold (\<lambda>(loc, la, lo) d. d\<lparr>rows := map (set_coords loc la lo) (rows d)\<rparr>) entries df"

definition apply_coords :: "(string option \<times> place) list \<Rightarrow> frame \<Rightarrow> frame" where
  "apply_coords location_coords df =
     locate_rows (map (\<lambda>(loc, coords). (loc, lat coords, lng coords)) location_coords) df"

definition geocode_dataframe :: "string \<Rightarrow> string \<Rightarrow> (geocoder \<times> frame, frame) action" where
  "geocode_dataframe city country = (\<lambda>(self, df) w.
     (let w1 = print [S ''Starting geocoding for '', N (len df), S '' locations...''] w;
          df1 = blank_coordinates df
      in if \<not> has_column Location df1 then (Raised (key_error [Location]), (self, df1), w1)
         else
           (let unique_locations = unique (map location (rows df1));
                w2 = print [S ''Found '', N (length unique_locations), S '' unique locations''] w1;
                (location_coords, self', w3) =
                  geocode_each city country 1 (length unique_locations) unique_locations []
                    self w2;
                df2 = apply_coords location_coords df1
            in (Returned df2, (self', df2),
                print [S ''Geocoding complete. '', N (length location_coords),
                  S '' locations processed.''] w3))))"

section \<open>Sample coordinates\<close>

definition delhi_coords :: "(string \<times> rat \<times> rat) list" where
  "delhi_coords =
     [(''Vasant Kunj'', 285217 / 10000, 771587 / 10000),
      (''Defence Colony'', 285675 / 10000, 772376 / 10000),
      (''Karol Bagh'', 286517 / 10000, 771905 / 10000),
      (''Dwarka'', 285921 / 10000, 770460 / 10000),
      (''Greater Kailash'', 285494 / 10000, 772466 / 10000),
      (''Lajpat Nagar'', 285678 / 10000, 772434 / 10000),
      (''Rohini'', 287489 / 10000, 771177 / 10000),
      (''Chanakyapuri'', 285983 / 10000, 771892 / 10000),
      (''Janakpuri'', 286219 / 10000, 770919 / 10000),
      (''Saket'', 285244 / 10000, 772066 / 10000),
      (''Connaught Place'', 286304 / 10000, 772177 / 10000),
      (''Nehru Place'', 285494 / 10000, 772501 / 10000),
      (''Pitampura'', 287000 / 10000, 771311 / 10000),
      (''Mayur Vihar'', 286078 / 10000, 772952 / 10000),
      (''Noida'', 285355 / 10000, 773910 / 10000)]"

definition fill_missing_coords :: "listing \<Rightarrow> listing" where
  "fill_missing_coords r =
     (if latitude r = None then r\<lparr>latitude := Some (286139 / 10000), longitude := Some (77209 / 1000)\<rparr>
      else r)"

definition sample_coordinates :: "frame \<Rightarrow> frame" where
  "sample_coordinates df1 =
     (let df2 = locate_rows (map (\<lambda>(loc, coords). (Some loc, coords)) delhi_coords) df1
      in df2\<lparr>rows := map fill_missing_coords (rows df2)\<rparr>)"

definition add_sample_coordinates :: "(geocoder \<times> frame, frame) action" where
  "add_sample_coordinates = (\<lambda>(self, df) w.
     (let df1 = blank_coordinates df
      in if \<not> has_column Location df1 then (Raised (key_error [Location]), (self, df1), w)
         else (let df2 = sample_coordinates df1 in (Returned df2, (self, df2), w))))"

section \<open>The example run\<close>

definition geocoder_main :: "(string \<Rightarrow> nat \<Rightarrow> response) \<Rightarrow> world \<Rightarrow> unit outcome \<times> world" where
  "geocoder_main service w =
     (case read_csv ''data/processed/rentals_processed.csv'' w of
        Inl e \<Rightarrow> (Raised e, w)
      | Inr df \<Rightarrow>
          (case add_sample_coordinates (new_geocoder service ''data/geocode_cache.json'' w, df) w of
             (Raised e, _, w1) \<Rightarrow> (Raised e, w1)
           | (Returned df', _, w1) \<Rightarrow>
               (case to_csv ''data/processed/rentals_processed.csv'' df' w1 of
                  Inl e \<Rightarrow> (Raised e, w1)
                | Inr w2 \<Rightarrow>
                    (Returned (),
                     print [S ''head'', N (min 5 (len df'))]
                       (print [U 10, S ''Sample:'']
                         (print [U 10, S ''Data with coordinates saved!''] w2))))))"

section \<open>Notions used in the properties, and example data\<close>

text \<open>
  \<open>located entries r\<close> is the row \<open>r\<close> after the masked assignments of \<open>entries\<close>.
  \<open>unreachable\<close> is a service that always times out, \<open>flaky\<close> one that fails twice and
  then finds every address at the coordinates of Saket; \<open>fresh service\<close> is a new object
  in a world without a cache file. \<open>places\<close> is a frame with a known, an unknown and a
  missing location.
\<close>

definition located :: "(string option \<times> rat \<times> rat) list \<Rightarrow> listing \<Rightarrow> listing" where
  "located entries r = fold (\<lambda>(loc, la, lo). set_coords loc la lo) entries r"

definition unreachable :: "string \<Rightarrow> nat \<Rightarrow> response" where
  "unreachable address n = TimedOut ''timed out''"

definition flaky :: "string \<Rightarrow> nat \<Rightarrow> response" where
  "flaky address n =
     (if n < 2 then ServiceError ''503'' else Found (285244 / 10000) (772066 / 10000) address)"

definition fresh :: "(string \<Rightarrow> nat \<Rightarrow> response) \<Rightarrow> geocoder" where
  "fresh service = new_geocoder service ''data/geocode_cache.json'' (empty_world id)"

definition saket :: place where
  "saket = \<lparr>lat = 285244 / 10000, lng = 772066 / 10000,
     display_name = Some ''Saket, Delhi, India''\<rparr>"

definition places :: frame where
  "places =
     \<lparr>columns = [Title, Location],
      rows = [blank_listing\<lparr>title := Some ''a'', location := Some ''Saket''\<rparr>,
              blank_listing\<lparr>title := Some ''b'', location := Some ''Mars''\<rparr>,
              blank_listing\<lparr>title := Some ''c''\<rparr>,
              blank_listing\<lparr>title := Some ''d'', location := Some ''Saket''\<rparr>]\<rparr>"

definition places_sampled :: frame where
  "places_sampled =
     \<lparr>columns = [Title, Location, Latitude, Longitude],
      rows = [blank_listing\<lparr>title := Some ''a'', location := Some ''Saket'',
                latitude := Some (285244 / 10000), longitude := Some (772066 / 10000)\<rparr>,
              blank_listing\<lparr>title := Some ''b'', location := Some ''Mars'',
                latitude := Some (286139 / 10000), longitude := Some (77209 / 1000)\<rparr>,
              blank_listing\<lparr>title := Some ''c'',
                latitude := Some (286139 / 10000), longitude := Some (77209 / 1000)\<rparr>,
              blank_listing\<lparr>title := Some ''d'', location := Some ''Saket'',
                latitude := Some (285244 / 10000), longitude := Some (772066 / 10000)\<rparr>]\<rparr>"

section \<open>The cache\<close>

lemma load_cache_save_cache [simp]: "load_cache (cache_file self) (save_cache self w) = cache self"
  by (simp add: load_cache_def save_cache_def)

lemma save_cache_simps [simp]:
  "caches (save_cache self w) = (caches w)(cache_file self \<mapsto> cache self)"
  "tables (save_cache self w) = tables w" "stdout (save_cache self w) = stdout w"
  "slept (save_cache self w) = slept w"
  "dirs (save_cache self w) = dirs w \<union> set (ancestors (parent (cache_file self)))"
  by (simp_all add: save_cache_def)

lemma new_geocoder_after_save:
  "cache (new_geocoder service (cache_file self) (save_cache self w)) = cache self"
  by (simp add: new_geocoder_def)

section \<open>One location: the attempts\<close>

lemma attempts_frame:
  assumes "attempts n loc city country self w = (r, self', w')"
  shows "geolocator self' = geolocator self \<and> cache_file self' = cache_file self
    \<and> tables w' = tables w"
  using assms
  by (induction n arbitrary: self w)
     (auto simp: Let_def split: response.splits)

lemma attempts_bounded:
  assumes "attempts n loc city country self w = (r, self', w')"
  shows "requests self \<le> requests self' \<and> requests self' \<le> requests self + n
    \<and> slept w \<le> slept w' \<and> slept w' \<le> slept w + 2 * n"
  using assms
proof (induction n arbitrary: self w)
  case 0
  then show ?case by simp
next
  case (Suc n)
  show ?case
  proof (cases "geolocator self (cache_key loc city country) (requests self)")
    case (TimedOut e)
    with Suc.prems Suc.IH [of "self\<lparr>requests := requests self + 1\<rparr>"] show ?thesis
      by (fastforce simp: Let_def)
  next
    case (ServiceError e)
    with Suc.prems Suc.IH [of "self\<lparr>requests := requests self + 1\<rparr>"] show ?thesis
      by (fastforce simp: Let_def)
  qed (use Suc.prems in \<open>auto simp: Let_def\<close>)
qed

lemma attempts_Some:
  assumes "attempts n loc city country self w = (Some p, self', w')"
  shows "map_of (cache self') (cache_key loc city country) = Some p
    \<and> caches w' (cache_file self') = Some (cache self')"
  using assms
  by (induction n arbitrary: self w)
     (auto simp: Let_def update_conv split: response.splits)

lemma attempts_None:
  assumes "attempts n loc city country self w = (None, self', w')"
  shows "cache self' = cache self \<and> caches w' = caches w"
  using assms
  by (induction n arbitrary: self w)
     (auto simp: Let_def split: response.splits)

lemma geocode_location_hit:
  "map_of (cache self) (cache_key loc city country) = Some p
    \<Longrightarrow> geocode_location loc city country self w = (Some p, self, w)"
  by (simp add: geocode_location_def)

lemma geocode_location_Some:
  assumes "geocode_location loc city country self w = (Some p, self', w')"
  shows "map_of (cache self') (cache_key loc city country) = Some p"
  using assms attempts_Some [of max_retries loc city country self w p self' w']
  by (auto simp: geocode_location_def split: option.splits)

lemma geocode_location_costs:
  assumes "geocode_location loc city country self w = (r, self', w')"
  shows "requests self' \<le> requests self + max_retries"
    and "slept w' \<le> slept w + 2 * max_retries" and "tables w' = tables w"
  using assms attempts_bounded [of max_retries loc city country self w r self' w']
    attempts_frame [of max_retries loc city country self w r self' w']
  by (auto simp: geocode_location_def split: option.splits)

text \<open>
  C37. A call of geocode_location makes at most max_retries = 3 requests, sleeps at
  most 6 seconds and writes no table.
\<close>

theorem geocode_location_bounded:
  assumes "geocode_location loc city country self w = (r, self', w')"
  shows "requests self' \<le> requests self + max_retries \<and> slept w' \<le> slept w + 2 * max_retries
    \<and> tables w' = tables w"
  using geocode_location_costs [OF assms] by simp

text \<open>
  A location that geocode_location has found is in the cache: asking again returns
  the same place without a request, a sleep or a printed line.
\<close>

theorem geocode_location_cached_again:
  assumes "geocode_location loc city country self w = (Some p, self', w')"
  shows "geocode_location loc city country self' w2 = (Some p, self', w2)"
  using geocode_location_Some [OF assms] by (rule geocode_location_hit)

lemma attempts_all_fail:
  assumes "\<forall>k < n. \<exists>e. geolocator self (cache_key loc city country) (requests self + k)
      \<in> {TimedOut e, ServiceError e}"
  shows "\<exists>w'. attempts n loc city country self w
      = (None, self\<lparr>requests := requests self + n\<rparr>, w')
    \<and> slept w' = slept w + 2 * n \<and> length (stdout w') = length (stdout w) + n
    \<and> caches w' = caches w"
  using assms
proof (induction n arbitrary: self w)
  case 0
  then show ?case by simp
next
  case (Suc n)
  let ?self = "self\<lparr>requests := requests self + 1\<rparr>"
  from Suc.prems have "\<forall>k < n. \<exists>e. geolocator self (cache_key loc city country)
      (requests self + Suc k) \<in> {TimedOut e, ServiceError e}"
    by (metis Suc_less_eq)
  then have later: "\<forall>k < n. \<exists>e. geolocator ?self (cache_key loc city country)
      (requests ?self + k) \<in> {TimedOut e, ServiceError e}"
    by simp
  from Suc.prems obtain e where e:
    "geolocator self (cache_key loc city country) (requests self) \<in> {TimedOut e, ServiceError e}"
    by (metis add.right_neutral zero_less_Suc)
  let ?w = "sleep 2 (print [S ''Geocoding error (attempt '', N (max_retries - n), S ''/'',
    N max_retries, S ''): '', S e] w)"
  from e have step: "attempts (Suc n) loc city country self w = attempts n loc city country ?self ?w"
    by (auto simp: Let_def)
  have same: "?self\<lparr>requests := requests ?self + n\<rparr> = self\<lparr>requests := requests self + Suc n\<rparr>"
    by simp
  from Suc.IH [OF later, of ?w] show ?case
    unfolding step same by (auto simp: sleep_def print_def)
qed

text \<open>
  C38. If the location is not cached and the service fails on three requests in a row,
  geocode_location returns None after exactly three requests and six seconds of sleep.
\<close>

theorem geocode_location_gives_up:
  assumes "map_of (cache self) (cache_key loc city country) = None"
    and "\<forall>k < max_retries. \<exists>e. geolocator self (cache_key loc city country) (requests self + k)
      \<in> {TimedOut e, ServiceError e}"
  shows "\<exists>w'. geocode_location loc city country self w
      = (None, self\<lparr>requests := requests self + max_retries\<rparr>, w')
    \<and> slept w' = slept w + 2 * max_retries"
  using attempts_all_fail [OF assms(2), of w] assms(1)
  by (auto simp: geocode_location_def)

section \<open>Coordinates of a frame\<close>

lemma set_coords_simps [simp, frame_simps]:
  "location (set_coords loc la lo r) = location r" "title (set_coords loc la lo r) = title r"
  "price (set_coords loc la lo r) = price r" "bhk (set_coords loc la lo r) = bhk r"
  "area_sqft (set_coords loc la lo r) = area_sqft r"
  "furnishing (set_coords loc la lo r) = furnishing r"
  "price_per_sqft (set_coords loc la lo r) = price_per_sqft r"
  by (simp_all add: set_coords_def)

lemma located_Nil [simp]: "located [] r = r"
  and located_snoc [simp]:
    "located (entries @ [(loc, la, lo)]) r = set_coords loc la lo (located entries r)"
  by (simp_all add: located_def)

lemma located_keeps:
  assumes "\<And>loc la lo r. sel (set_coords loc la lo r) = sel r"
  shows "sel (located entries r) = sel r"
  by (induction entries rule: rev_induct) (auto simp: assms)

lemma located_simps [simp, frame_simps]:
  "location (located entries r) = location r" "title (located entries r) = title r"
  "price (located entries r) = price r" "bhk (located entries r) = bhk r"
  "area_sqft (located entries r) = area_sqft r" "furnishing (located entries r) = furnishing r"
  "price_per_sqft (located entries r) = price_per_sqft r"
  by (simp_all add: located_keeps)

lemma located_coords:
  "(latitude (located entries r), longitude (located entries r)) =
     (case (if location r = None then None else map_of (rev entries) (location r)) of
        None \<Rightarrow> (latitude r, longitude r)
      | Some (la, lo) \<Rightarrow> (Some la, Some lo))"
proof (induction entries rule: rev_induct)
  case Nil
  then show ?case by simp
next
  case (snoc e entries)
  obtain loc la lo where e: "e = (loc, la, lo)" by (cases e)
  with snoc show ?case
    by (auto simp: set_coords_def split: option.splits)
qed

lemma rows_locate_rows [simp, frame_simps]:
  "rows (locate_rows entries df) = map (located entries) (rows df)"
  and columns_locate_rows [simp, frame_simps]: "columns (locate_rows entries df) = columns df"
proof -
  have "locate_rows entries df = df\<lparr>rows := map (located entries) (rows df)\<rparr>"
    unfolding locate_rows_def located_def
    by (induction entries arbitrary: df) (auto simp: comp_def split: prod.splits)
  then show "rows (locate_rows entries df) = map (located entries) (rows df)"
    and "columns (locate_rows entries df) = columns df"
    by simp_all
qed

lemma blank_coordinates_simps [simp, frame_simps]:
  "rows (blank_coordinates df) = map (\<lambda>r. r\<lparr>latitude := None, longitude := None\<rparr>) (rows df)"
  "has_column c (blank_coordinates df) \<longleftrightarrow> c = Latitude \<or> c = Longitude \<or> has_column c df"
  "len (blank_coordinates df) = len df"
  by (auto simp: blank_coordinates_def len_def)

lemma geocode_each_keys:
  assumes "geocode_each city country idx n locs acc self w = (cs, self', w')"
  shows "map fst cs = map fst acc @ locs \<and> tables w' = tables w
    \<and> requests self' \<le> requests self + max_retries * length locs"
  using assms
proof (induction locs arbitrary: idx acc self w)
  case Nil
  then show ?case by simp
next
  case (Cons loc locs)
  obtain r self1 w1 where g: "geocode_location (shown loc) city country self
      (print [S ''Geocoding ('', N idx, S ''/'', N n, S ''): '', S (shown loc)] w) = (r, self1, w1)"
    by (metis prod_cases3)
  from geocode_location_costs(1,3) [OF g]
  have "requests self1 \<le> requests self + max_retries" "tables w1 = tables w"
    by simp_all
  with Cons.prems g Cons.IH [of "idx + 1" _ self1] show ?case
    by (cases r) (fastforce simp: Let_def)+
qed

lemma map_of_located:
  assumes "loc \<in> fst ` set entries"
  shows "map_of (rev entries) loc \<noteq> None"
  using assms by (simp add: map_of_eq_None_iff)

lemma located_blank:
  assumes "latitude r = None" and "longitude r = None"
  shows "latitude (located entries r) \<noteq> None \<longleftrightarrow> location r \<noteq> None \<and> location r \<in> fst ` set entries"
    and "longitude (located entries r) \<noteq> None \<longleftrightarrow> location r \<noteq> None \<and> location r \<in> fst ` set entries"
  using located_coords [of entries r] assms map_of_eq_None_iff [of "rev entries" "location r"]
  by (auto split: option.splits if_splits)

lemma located_cong:
  assumes "location r = location r'" and "latitude r = latitude r'" and "longitude r = longitude r'"
  shows "latitude (located entries r) = latitude (located entries r')"
    and "longitude (located entries r) = longitude (located entries r')"
  using located_coords [of entries r] located_coords [of entries r'] assms
  by (auto split: option.splits if_splits)

lemma geocode_dataframe_Returned:
  assumes "geocode_dataframe city country (self, df) w = (Returned df', (self', df2), w')"
  shows "\<exists>cs. df2 = df' \<and> has_column Location df
    \<and> df' = apply_coords cs (blank_coordinates df)
    \<and> map fst cs = unique (map location (rows df)) \<and> tables w' = tables w
    \<and> requests self' \<le> requests self + max_retries * length cs"
proof -
  let ?locs = "unique (map location (rows df))"
  let ?w = "print [S ''Found '', N (length ?locs), S '' unique locations'']
    (print [S ''Starting geocoding for '', N (len df), S '' locations...''] w)"
  obtain cs self1 w1 where g: "geocode_each city country 1 (length ?locs) ?locs [] self ?w
      = (cs, self1, w1)"
    by (metis prod_cases3)
  from geocode_each_keys [OF g] have "length cs = length ?locs"
    by (metis append_Nil length_map list.simps(8))
  with assms g geocode_each_keys [OF g] show ?thesis
    by (auto simp: geocode_dataframe_def Let_def comp_def split: if_splits)
qed

text \<open>
  C39. geocode_dataframe keeps the rows, adds the two columns and gives coordinates to
  exactly the rows that have a location: a row whose location is missing stays without
  coordinates.
\<close>

theorem geocode_dataframe_covers:
  assumes "geocode_dataframe city country (self, df) w = (Returned df', (self', df2), w')"
    and "i < len df"
  shows "len df' = len df \<and> has_column Latitude df' \<and> has_column Longitude df'
    \<and> location (rows df' ! i) = location (rows df ! i)
    \<and> price (rows df' ! i) = price (rows df ! i)
    \<and> (latitude (rows df' ! i) \<noteq> None \<longleftrightarrow> location (rows df ! i) \<noteq> None)
    \<and> (longitude (rows df' ! i) \<noteq> None \<longleftrightarrow> location (rows df ! i) \<noteq> None)"
proof -
  from assms(1) obtain cs where df': "df' = apply_coords cs (blank_coordinates df)"
    and keys: "map fst cs = unique (map location (rows df))"
    using geocode_dataframe_Returned by blast
  let ?entries = "map (\<lambda>(loc, coords). (loc, lat coords, lng coords)) cs"
  let ?r = "(rows df ! i)\<lparr>latitude := None, longitude := None\<rparr>"
  have "fst ` set ?entries = set (map fst cs)"
    by (force simp: image_iff)
  with keys assms(2) have "location ?r \<in> fst ` set ?entries"
    by (simp add: len_def)
  with located_blank [of ?r ?entries] assms(2) show ?thesis
    by (simp add: df' apply_coords_def len_def has_column_def blank_coordinates_def assign_def)
qed

text \<open>
  After geocode_dataframe two rows with the same location have the same
  coordinates.
\<close>

theorem geocode_dataframe_same_place:
  assumes "geocode_dataframe city country (self, df) w = (Returned df', (self', df2), w')"
    and "i < len df" and "j < len df" and "location (rows df ! i) = location (rows df ! j)"
  shows "latitude (rows df' ! i) = latitude (rows df' ! j)
    \<and> longitude (rows df' ! i) = longitude (rows df' ! j)"
proof -
  from assms(1) obtain cs where "df' = apply_coords cs (blank_coordinates df)"
    using geocode_dataframe_Returned by blast
  with assms(2-4) show ?thesis
    by (auto simp: apply_coords_def len_def blank_coordinates_def assign_def intro: located_cong)
qed

theorem geocode_dataframe_no_location_column:
  assumes "\<not> has_column Location df"
  shows "geocode_dataframe city country (self, df) w
    = (Raised (key_error [Location]), (self, blank_coordinates df),
       print [S ''Starting geocoding for '', N (len df), S '' locations...''] w)"
  using assms by (simp add: geocode_dataframe_def Let_def)

section \<open>Sample coordinates\<close>

lemma distinct_delhi_coords: "distinct (map fst delhi_coords)"
  by (simp add: delhi_coords_def)

lemma map_of_rev_distinct: "distinct (map fst xs) \<Longrightarrow> map_of (rev xs) = map_of xs"
  by (subst map_of_inject_set) (simp_all add: rev_map [symmetric])

lemma map_of_Some_keys: "map_of (map (\<lambda>(k, v). (Some k, v)) xs) (Some l) = map_of xs l"
  by (induction xs) auto

lemma map_of_sample_entries:
  "map_of (rev (map (\<lambda>(loc, coords). (Some loc, coords)) delhi_coords)) (Some l)
     = map_of delhi_coords l"
proof -
  have "distinct (map fst (map (\<lambda>(loc, coords). (Some loc, coords)) delhi_coords))"
    using distinct_delhi_coords by (simp add: comp_def case_prod_unfold distinct_map inj_on_def)
  then show ?thesis
    by (simp add: map_of_rev_distinct map_of_Some_keys)
qed

lemma sample_coordinates_row:
  assumes "latitude r = None" and "longitude r = None"
  shows "(let r' = fill_missing_coords
            (located (map (\<lambda>(loc, coords). (Some loc, coords)) delhi_coords) r)
          in (latitude r', longitude r')) =
     (case (case location r of None \<Rightarrow> None | Some l \<Rightarrow> map_of delhi_coords l) of
        None \<Rightarrow> (Some (286139 / 10000), Some (77209 / 1000))
      | Some (la, lo) \<Rightarrow> (Some la, Some lo))"
  using located_coords [of "map (\<lambda>(loc, coords). (Some loc, coords)) delhi_coords" r] assms
  by (cases "location r")
     (auto simp: fill_missing_coords_def map_of_sample_entries Let_def split: option.splits)

text \<open>
  add_sample_coordinates gives every row coordinates: those of the table
  delhi_coords for a location in it, and 28.6139, 77.2090 for any other or a missing
  location; it changes neither the object nor the world.
\<close>

theorem add_sample_coordinates_total:
  assumes "add_sample_coordinates (self, df) w = (Returned df', (self', df2), w')"
    and "i < len df"
  shows "w' = w \<and> self' = self \<and> df2 = df' \<and> len df' = len df
    \<and> location (rows df' ! i) = location (rows df ! i)
    \<and> (latitude (rows df' ! i), longitude (rows df' ! i)) =
       (case (case location (rows df ! i) of None \<Rightarrow> None | Some l \<Rightarrow> map_of delhi_coords l) of
          None \<Rightarrow> (Some (286139 / 10000), Some (77209 / 1000))
        | Some (la, lo) \<Rightarrow> (Some la, Some lo))"
proof -
  let ?r = "(rows df ! i)\<lparr>latitude := None, longitude := None\<rparr>"
  from assms(1) have df': "df' = sample_coordinates (blank_coordinates df)" and "w' = w"
    "self' = self" "df2 = df'"
    by (auto simp: add_sample_coordinates_def Let_def split: if_splits)
  moreover have "location (fill_missing_coords r) = location r" for r
    by (simp add: fill_missing_coords_def)
  ultimately show ?thesis
    using sample_coordinates_row [of ?r] assms(2)
    by (simp add: sample_coordinates_def Let_def len_def)
qed

section \<open>The properties at example data\<close>

lemmas geocoder_eval =
  geocode_location_def max_retries_def numeral_3_eq_3 Let_def new_geocoder_def load_cache_def
  empty_world_def cache_key_def fresh_def flaky_def unreachable_def saket_def

lemma flaky_run:
  "geocode_location ''Saket'' ''Delhi'' ''India'' (fresh flaky) (empty_world id)
     = (Some saket,
        (fresh flaky)\<lparr>requests := 3, cache := [(''Saket, Delhi, India'', saket)]\<rparr>,
        snd (snd (geocode_location ''Saket'' ''Delhi'' ''India'' (fresh flaky) (empty_world id))))"
  by (simp add: geocoder_eval)

theorem geocode_location_bounded_witness:
  "requests ((fresh flaky)\<lparr>requests := 3, cache := [(''Saket, Delhi, India'', saket)]\<rparr>)
      \<le> requests (fresh flaky) + max_retries
    \<and> slept (snd (snd (geocode_location ''Saket'' ''Delhi'' ''India'' (fresh flaky)
        (empty_world id)))) \<le> slept (empty_world id) + 2 * max_retries
    \<and> tables (snd (snd (geocode_location ''Saket'' ''Delhi'' ''India'' (fresh flaky)
        (empty_world id)))) = tables (empty_world id)"
  by (rule geocode_location_bounded [OF flaky_run])

theorem geocode_location_cached_again_witness:
  "geocode_location ''Saket'' ''Delhi'' ''India''
      ((fresh flaky)\<lparr>requests := 3, cache := [(''Saket, Delhi, India'', saket)]\<rparr>)
      (empty_world id)
     = (Some saket,
        (fresh flaky)\<lparr>requests := 3, cache := [(''Saket, Delhi, India'', saket)]\<rparr>,
        empty_world id)"
  by (rule geocode_location_cached_again [OF flaky_run])

theorem geocode_location_gives_up_witness:
  "\<exists>w'. geocode_location ''Saket'' ''Delhi'' ''India'' (fresh unreachable) (empty_world id)
      = (None, (fresh unreachable)\<lparr>requests := requests (fresh unreachable) + max_retries\<rparr>, w')
    \<and> slept w' = slept (empty_world id) + 2 * max_retries"
  by (rule geocode_location_gives_up) (simp_all add: geocoder_eval)

lemma places_sampled_run:
  "add_sample_coordinates (fresh flaky, places) (empty_world id)
     = (Returned places_sampled, (fresh flaky, places_sampled), empty_world id)"
  by (simp add: add_sample_coordinates_def sample_coordinates_def locate_rows_def
      blank_coordinates_def assign_def has_column_def places_def places_sampled_def
      delhi_coords_def set_coords_def fill_missing_coords_def blank_listing_def Let_def)

theorem add_sample_coordinates_total_witness:
  "empty_world id = empty_world id \<and> fresh flaky = fresh flaky \<and> places_sampled = places_sampled
    \<and> len places_sampled = len places
    \<and> location (rows places_sampled ! 1) = location (rows places ! 1)
    \<and> (latitude (rows places_sampled ! 1), longitude (rows places_sampled ! 1)) =
       (case (case location (rows places ! 1) of None \<Rightarrow> None | Some l \<Rightarrow> map_of delhi_coords l) of
          None \<Rightarrow> (Some (286139 / 10000), Some (77209 / 1000))
        | Some (la, lo) \<Rightarrow> (Some la, Some lo))"
  by (rule add_sample_coordinates_total [OF places_sampled_run]) (simp add: places_def len_def)

lemma places_geocoded_run:
  "geocode_dataframe ''Delhi'' ''India'' (fresh flaky, places) (empty_world id)
     = (Returned (snd (fst (snd (geocode_dataframe ''Delhi'' ''India'' (fresh flaky, places)
          (empty_world id))))),
        (fst (fst (snd (geocode_dataframe ''Delhi'' ''India'' (fresh flaky, places)
           (empty_world id)))),
         snd (fst (snd (geocode_dataframe ''Delhi'' ''India'' (fresh flaky, places)
           (empty_world id))))),
        snd (snd (geocode_dataframe ''Delhi'' ''India'' (fresh flaky, places) (empty_world id))))"
  by (simp add: geocode_dataframe_def Let_def case_prod_unfold places_def blank_coordinates_def
      assign_def has_column_def)

theorem geocode_dataframe_covers_witness:
  "len (snd (fst (snd (geocode_dataframe ''Delhi'' ''India'' (fresh flaky, places)
      (empty_world id))))) = len places
    \<and> latitude (rows (snd (fst (snd (geocode_dataframe ''Delhi'' ''India'' (fresh flaky, places)
        (empty_world id))))) ! 2) = None
    \<and> latitude (rows (snd (fst (snd (geocode_dataframe ''Delhi'' ''India'' (fresh flaky, places)
        (empty_world id))))) ! 1) \<noteq> None"
  using geocode_dataframe_covers [OF places_geocoded_run, of 2]
    geocode_dataframe_covers [OF places_geocoded_run, of 1]
  by (simp add: places_def len_def blank_listing_def)

theorem geocode_dataframe_same_place_witness:
  "latitude (rows (snd (fst (snd (geocode_dataframe ''Delhi'' ''India'' (fresh flaky, places)
      (empty_world id))))) ! 0)
     = latitude (rows (snd (fst (snd (geocode_dataframe ''Delhi'' ''India'' (fresh flaky, places)
        (empty_world id))))) ! 3)
   \<and> longitude (rows (snd (fst (snd (geocode_dataframe ''Delhi'' ''India'' (fresh flaky, places)
      (empty_world id))))) ! 0)
     = longitude (rows (snd (fst (snd (geocode_dataframe ''Delhi'' ''India'' (fresh flaky, places)
        (empty_world id))))) ! 3)"
  by (rule geocode_dataframe_same_place [OF places_geocoded_run])
     (simp_all add: places_def len_def blank_listing_def)

theorem geocode_dataframe_no_location_column_witness:
  "geocode_dataframe ''Delhi'' ''India'' (fresh flaky, places\<lparr>columns := [Title]\<rparr>) (empty_world id)
    = (Raised (key_error [Location]), (fresh flaky, blank_coordinates (places\<lparr>columns := [Title]\<rparr>)),
       print [S ''Starting geocoding for '', N (len (places\<lparr>columns := [Title]\<rparr>)),
         S '' locations...''] (empty_world id))"
  by (rule geocode_dataframe_no_location_column) (simp add: has_column_def places_def)

end
