(* ===== verification/Scraper.thy ===== *)
theory Scraper
  imports World
begin

text \<open>
  The class \<open>RentalScraper\<close> of \<open>src/src/scraper.py\<close>.

  \<^item> The three \<open>extract_\<close> methods are functions on text. Their regular expressions are
    modelled by \<open>find_run\<close>, which returns the first maximal run of characters of a
    class that is followed by what the expression requires; for these expressions that
    is the first match of \<open>re.findall\<close>, because a match cannot start inside a run that
    fails nor end before the run does.
  \<^item> \<open>int_of\<close> is \<open>int\<close> on the strings that reach it: decimal digits, or nothing, for
    which it raises \<open>ValueError\<close>. (CPython from 3.11 on also raises for more than
    4300 digits; the model converts a run of any length.)
  \<^item> A page is the list of its \<open>.listing-item\<close> elements, and an element the texts of
    the four elements \<open>parse_listing\<close> selects in it. The site is the function \<open>web\<close>
    of the object, from a URL to a page or to the message of the exception that
    \<open>scrape_page\<close> catches.
\<close>

section \<open>Numbers in text\<close>

definition is_digit :: "char \<Rightarrow> bool" where
  "is_digit c = (48 \<le> code c \<and> code c \<le> 57)"

definition digit_val :: "char \<Rightarrow> nat" where
  "digit_val c = code c - 48"

definition digit_char :: "nat \<Rightarrow> char" where
  "digit_char d = char_of (48 + d)"

definition int_of :: "string \<Rightarrow> nat result" where
  "int_of s =
     (if s \<noteq> [] \<and> list_all is_digit s then Inr (foldl (\<lambda>a c. 10 * a + digit_val c) 0 s)
      else Inl (ValueError (''invalid literal for int() with base 10: '' @ [CHR 0x27] @ s @ [CHR 0x27])))"

function str_nat :: "nat \<Rightarrow> string" where
  "str_nat n = (if n < 10 then [digit_char n] else str_nat (n div 10) @ [digit_char (n mod 10)])"
  by pat_completeness auto
termination
  by (relation "measure id") auto

section \<open>The regular expressions\<close>

function find_run :: "(char \<Rightarrow> bool) \<Rightarrow> (string \<Rightarrow> bool) \<Rightarrow> string \<Rightarrow> string option" where
  "find_run cls follows [] = None"
| "find_run cls follows (c # cs) =
     (if cls c then
        (if follows (dropWhile cls cs) then Some (c # takeWhile cls cs)
         else find_run cls follows (dropWhile cls cs))
      else find_run cls follows cs)"
  by pat_completeness auto
termination
  by (relation "measure (\<lambda>(cls, follows, s). length s)")
     (auto simp: le_imp_less_Suc length_dropWhile_le)

definition digit_or_comma :: "char \<Rightarrow> bool" where
  "digit_or_comma c = (is_digit c \<or> c = CHR '','')"

definition bhk_follows :: "string \<Rightarrow> bool" where
  "bhk_follows s = prefix ''BHK'' (dropWhile is_space s)"

definition unit_follows :: "string \<Rightarrow> bool" where
  "unit_follows s =
     (let s1 = dropWhile is_space s;
          s2 = drop 2 s1;
          s3 = (if s2 \<noteq> [] \<and> hd s2 = CHR ''.'' then tl s2 else s2)
      in (prefix ''sq'' s1 \<and> prefix ''ft'' (dropWhile is_space s3)) \<or> prefix ''sqft'' s1)"

section \<open>The extractors\<close>

definition extract_price :: "string \<Rightarrow> nat option result" where
  "extract_price text =
     (if text = [] then Inr None
      else case find_run digit_or_comma (\<lambda>_. True) (filter (\<lambda>c. c \<noteq> CHR '','') text) of
             None \<Rightarrow> Inr None
           | Some first \<Rightarrow> and_then (int_of first) (\<lambda>n. Inr (Some n)))"

definition extract_bhk :: "string \<Rightarrow> nat option result" where
  "extract_bhk text =
     (if text = [] then Inr None
      else case find_run is_digit bhk_follows (map to_upper text) of
             None \<Rightarrow> Inr None
           | Some first \<Rightarrow> and_then (int_of first) (\<lambda>n. Inr (Some n)))"

definition extract_area :: "string \<Rightarrow> nat option result" where
  "extract_area text =
     (if text = [] then Inr None
      else case find_run digit_or_comma unit_follows (map to_lower text) of
             None \<Rightarrow> Inr None
           | Some first \<Rightarrow>
               and_then (int_of (filter (\<lambda>c. c \<noteq> CHR '','') first)) (\<lambda>n. Inr (Some n)))"

section \<open>Pages and listings\<close>

record element =
  listing_title :: "string option"
  price_text :: "string option"
  location_text :: "string option"
  details :: "string option"

datatype fetched = Page "element list" | Failure string

record scraper =
  base_url :: "string option"
  web :: "string \<Rightarrow> fetched"

definition new_scraper :: "string option \<Rightarrow> (string \<Rightarrow> fetched) \<Rightarrow> scraper" where
  "new_scraper url site = \<lparr>base_url = url, web = site\<rparr>"

definition scrape_page :: "string \<Rightarrow> scraper \<Rightarrow> world \<Rightarrow> element list option \<times> world" where
  "scrape_page url self w =
     (case web self url of
        Page items \<Rightarrow> (Some items, w)
      | Failure e \<Rightarrow> (None, print [S ''Error scraping '', S url, S '': '', S e] w))"

definition optionally :: "('a \<Rightarrow> 'b option result) \<Rightarrow> 'a option \<Rightarrow> 'b option result" where
  "optionally f x = (case x of None \<Rightarrow> Inr None | Some v \<Rightarrow> f v)"

definition listing_fields :: "element \<Rightarrow> listing result" where
  "listing_fields e =
     and_then (optionally extract_price (price_text e)) (\<lambda>p.
     and_then (optionally extract_bhk (details e)) (\<lambda>b.
     and_then (optionally extract_area (details e)) (\<lambda>a.
       Inr (blank_listing\<lparr>title := map_option strip (listing_title e),
              price := map_option of_nat p,
              location := map_option strip (location_text e),
              bhk := map_option of_nat b,
              area_sqft := map_option of_nat a\<rparr>))))"

definition message :: "error \<Rightarrow> string" where
  "message e =
     (case e of ValueError m \<Rightarrow> m | KeyError ks \<Rightarrow> concat ks | TypeError m \<Rightarrow> m
      | AttributeError m \<Rightarrow> m | FileNotFoundError m \<Rightarrow> m | EmptyDataError m \<Rightarrow> m
      | OSError m \<Rightarrow> m)"

definition parse_listing :: "element \<Rightarrow> world \<Rightarrow> listing option \<times> world" where
  "parse_listing e w =
     (case listing_fields e of
        Inr parsed \<Rightarrow> (Some parsed, w)
      | Inl err \<Rightarrow> (None, print [S ''Error parsing listing: '', S (message err)] w))"

definition parse_all :: "element list \<Rightarrow> listing list \<Rightarrow> world \<Rightarrow> listing list \<times> world" where
  "parse_all items all_listings w =
     fold (\<lambda>item (acc, w'). case parse_listing item w' of
               (Some parsed, w'') \<Rightarrow> (acc @ [parsed], w'')
             | (None, w'') \<Rightarrow> (acc, w''))
       items (all_listings, w)"

definition scrape_one :: "string \<Rightarrow> scraper \<Rightarrow> nat \<Rightarrow> listing list \<times> world \<Rightarrow> listing list \<times> world" where
  "scrape_one url0 self page = (\<lambda>(all_listings, w).
     (let w1 = print [S ''Scraping page '', N page, S ''...''] w;
          url = url0 @ ''?page='' @ str_nat page
      in case scrape_page url self w1 of
           (None, w2) \<Rightarrow> (all_listings, w2)
         | (Some items, w2) \<Rightarrow>
             (let (all', w3) = parse_all items all_listings w2 in (all', sleep 2 w3))))"

definition data_frame :: "listing list \<Rightarrow> frame" where
  "data_frame records =
     (if records = [] then \<lparr>columns = [], rows = []\<rparr>
      else \<lparr>columns = [Title, Price, Location, Bhk, Area_sqft], rows = records\<rparr>)"

definition scrape_multiple_pages :: "string \<Rightarrow> nat \<Rightarrow> scraper \<Rightarrow> world \<Rightarrow> frame \<times> world" where
  "scrape_multiple_pages url0 num_pages self w =
     (let (all_listings, w') = fold (scrape_one url0 self) [1..<num_pages + 1] ([], w)
      in (data_frame all_listings, w'))"

section \<open>Saving\<close>

definition save_data :: "frame \<Rightarrow> string \<Rightarrow> (scraper, string) action" where
  "save_data df filename self w =
     (let w1 = mkdir_p ''data/raw'' w;
          filepath = path_join ''data/raw'' filename
      in case to_csv filepath df w1 of
           Inl e \<Rightarrow> (Raised e, self, w1)
         | Inr w2 \<Rightarrow> (Returned filepath, self, print [S ''Data saved to '', S filepath] w2))"

definition scraped_row :: "string \<Rightarrow> rat \<Rightarrow> string \<Rightarrow> rat \<Rightarrow> rat \<Rightarrow> listing" where
  "scraped_row t p l b a =
     blank_listing\<lparr>title := Some t, price := Some p, location := Some l, bhk := Some b,
       area_sqft := Some a\<rparr>"

definition scraper_sample :: frame where
  "scraper_sample =
     \<lparr>columns = [Title, Price, Location, Bhk, Area_sqft],
      rows =
       [scraped_row ''2 BHK Apartment in Vasant Kunj'' 35000 ''Vasant Kunj'' 2 1200,
        scraped_row ''3 BHK Villa in Defence Colony'' 75000 ''Defence Colony'' 3 2500,
        scraped_row ''1 BHK Flat in Karol Bagh'' 18000 ''Karol Bagh'' 1 600,
        scraped_row ''2 BHK Apartment in Dwarka'' 28000 ''Dwarka'' 2 1100,
        scraped_row ''3 BHK Penthouse in Greater Kailash'' 95000 ''Greater Kailash'' 3 2800]\<rparr>"

definition scraper_main :: "(string \<Rightarrow> fetched) \<Rightarrow> world \<Rightarrow> string outcome \<times> scraper \<times> world" where
  "scraper_main site w =
     bind (save_data scraper_sample ''raw_rentals.csv'') (\<lambda>path.
     bind (printing [S ''Sample data generated successfully!'']) (\<lambda>_. returns path))
       (new_scraper None site) w"

section \<open>Notions used in the properties, and example data\<close>

text \<open>
  \<open>fetches url0 self page\<close>: the site answers the request for that page. \<open>offline\<close> is a
  site that answers nothing; \<open>one_page\<close> has a first page with two listings, the second
  of them with an area that is a comma.
\<close>

definition fetches :: "string \<Rightarrow> scraper \<Rightarrow> nat \<Rightarrow> bool" where
  "fetches url0 self page = (\<exists>items. web self (url0 @ ''?page='' @ str_nat page) = Page items)"

definition offline :: "string \<Rightarrow> fetched" where
  "offline url = Failure ''connection refused''"

definition good_item :: element where
  "good_item =
     \<lparr>listing_title = Some '' 2 BHK Flat in Saket '', price_text = Some ''Rs 35,000/month'',
      location_text = Some ''Saket '', details = Some ''2 bhk, 1,200 sq. ft''\<rparr>"

definition bad_item :: element where
  "bad_item =
     \<lparr>listing_title = Some ''Plot'', price_text = Some ''Rs 9,000'',
      location_text = Some ''Rohini'', details = Some ''area: , sqft''\<rparr>"

definition one_page :: "string \<Rightarrow> fetched" where
  "one_page url =
     (if url = ''http://site?page=1'' then Page [good_item, bad_item] else Failure ''404'')"

definition scraped :: frame where
  "scraped =
     \<lparr>columns = [Title, Price, Location, Bhk, Area_sqft],
      rows = [scraped_row ''2 BHK Flat in Saket'' 35000 ''Saket'' 2 1200]\<rparr>"

section \<open>Decimal numbers\<close>

lemma digit_char_simps [simp]:
  "d < 10 \<Longrightarrow> is_digit (digit_char d)" "d < 10 \<Longrightarrow> digit_val (digit_char d) = d"
  by (simp_all add: is_digit_def digit_val_def digit_char_def)

declare str_nat.simps [simp del]

lemma str_nat_digits: "str_nat n \<noteq> [] \<and> list_all is_digit (str_nat n)"
  by (induction n rule: str_nat.induct) (subst (1 2) str_nat.simps, simp)

lemma foldl_str_nat: "foldl (\<lambda>a c. 10 * a + digit_val c) 0 (str_nat n) = n"
  by (induction n rule: str_nat.induct) (subst str_nat.simps, simp)

theorem int_of_str_nat: "int_of (str_nat n) = Inr n"
  by (simp add: int_of_def str_nat_digits foldl_str_nat)

lemma int_of_eq_Inr_iff:
  "int_of s = Inr n \<longleftrightarrow>
     s \<noteq> [] \<and> list_all is_digit s \<and> n = foldl (\<lambda>a c. 10 * a + digit_val c) 0 s"
  by (auto simp: int_of_def)

lemma int_of_digits: "s \<noteq> [] \<Longrightarrow> list_all is_digit s \<Longrightarrow> \<exists>n. int_of s = Inr n"
  by (simp add: int_of_def)

section \<open>Runs\<close>

lemma find_run_cases:
  assumes "find_run cls follows (c # cs) = Some r"
  obtains (skip) "\<not> cls c" "find_run cls follows cs = Some r"
    | (hit) "cls c" "follows (dropWhile cls cs)" "r = c # takeWhile cls cs"
    | (miss) "cls c" "\<not> follows (dropWhile cls cs)"
        "find_run cls follows (dropWhile cls cs) = Some r"
  using assms by (auto split: if_splits)

lemma find_run_Some:
  assumes "find_run cls follows s = Some r"
  shows "r \<noteq> [] \<and> list_all cls r \<and> set r \<subseteq> set s"
  using assms
proof (induction cls follows s rule: find_run.induct)
  case (2 cls follows c cs)
  from "2.prems" show ?case
  proof (cases rule: find_run_cases)
    case skip
    with "2.IH" show ?thesis by auto
  next
    case hit
    moreover have "list_all cls (takeWhile cls cs)"
      by (auto simp: list_all_iff dest: set_takeWhileD)
    moreover have "set (takeWhile cls cs) \<subseteq> set cs"
      by (auto dest: set_takeWhileD)
    ultimately show ?thesis by auto
  next
    case miss
    with "2.IH" have "r \<noteq> [] \<and> list_all cls r \<and> set r \<subseteq> set (dropWhile cls cs)"
      by simp
    moreover have "set (dropWhile cls cs) \<subseteq> set (c # cs)"
      by (auto dest: set_dropWhileD)
    ultimately show ?thesis by blast
  qed
qed simp

lemma find_run_decomp:
  assumes "find_run cls follows s = Some r"
  shows "\<exists>before after. s = before @ r @ after \<and> follows after
    \<and> (before = [] \<or> \<not> cls (last before)) \<and> (after = [] \<or> \<not> cls (hd after))"
  using assms
proof (induction cls follows s rule: find_run.induct)
  case (2 cls follows c cs)
  let ?rest = "dropWhile cls cs"
  from "2.prems" show ?case
  proof (cases rule: find_run_cases)
    case skip
    with 2 obtain before after where d: "cs = before @ r @ after" "follows after"
      "before = [] \<or> \<not> cls (last before)" "after = [] \<or> \<not> cls (hd after)"
      by auto
    from d(1) have "c # cs = (c # before) @ r @ after"
      by simp
    moreover from skip(1) d(3) have "\<not> cls (last (c # before))"
      by auto
    ultimately show ?thesis
      using d(2,4) by blast
  next
    case hit
    have "c # cs = [] @ r @ ?rest"
      by (simp add: hit)
    moreover have "?rest = [] \<or> \<not> cls (hd ?rest)"
      by (metis hd_dropWhile)
    ultimately show ?thesis
      using hit(2) by blast
  next
    case miss
    with 2 obtain before after where d: "?rest = before @ r @ after" "follows after"
      "before = [] \<or> \<not> cls (last before)" "after = [] \<or> \<not> cls (hd after)"
      by auto
    from find_run_Some [OF miss(3)] have "r \<noteq> []" "cls (hd r)"
      by (auto simp: list_all_iff)
    moreover have "?rest \<noteq> [] \<Longrightarrow> \<not> cls (hd ?rest)"
      by (rule hd_dropWhile)
    ultimately have "before \<noteq> []"
      using d(1) by (cases before) auto
    with d(3) have "\<not> cls (last (c # takeWhile cls cs @ before))"
      by simp
    moreover have "c # cs = c # takeWhile cls cs @ ?rest"
      by (simp only: takeWhile_dropWhile_id)
    then have "c # cs = (c # takeWhile cls cs @ before) @ r @ after"
      by (simp only: d(1) append_Cons append_assoc)
    ultimately show ?thesis
      using d(2,4) by blast
  qed
qed simp

lemma find_first_run:
  "find_run cls (\<lambda>_. True) s =
     (let s' = dropWhile (\<lambda>c. \<not> cls c) s in if s' = [] then None else Some (takeWhile cls s'))"
  by (induction s) (auto simp: Let_def)

section \<open>The extractors\<close>

lemma digits_of_run:
  assumes "list_all digit_or_comma r"
  shows "list_all is_digit (filter (\<lambda>c. c \<noteq> CHR '','') r)"
  using assms by (auto simp: list_all_iff digit_or_comma_def)

theorem extract_price_total: "\<exists>r. extract_price text = Inr r"
proof (cases "find_run digit_or_comma (\<lambda>_. True) (filter (\<lambda>c. c \<noteq> CHR '','') text)")
  case None
  then show ?thesis by (simp add: extract_price_def)
next
  case (Some r)
  from find_run_Some [OF Some] have "r \<noteq> []" "list_all is_digit r"
    by (auto simp: list_all_iff digit_or_comma_def)
  then obtain n where "int_of r = Inr n"
    using int_of_digits by blast
  with Some show ?thesis by (simp add: extract_price_def)
qed

theorem extract_bhk_total: "\<exists>r. extract_bhk text = Inr r"
proof (cases "find_run is_digit bhk_follows (map to_upper text)")
  case None
  then show ?thesis by (simp add: extract_bhk_def)
next
  case (Some r)
  from find_run_Some [OF Some] obtain n where "int_of r = Inr n"
    using int_of_digits by blast
  with Some show ?thesis by (simp add: extract_bhk_def)
qed

text \<open>
  C40. extract_area raises exactly when the first run of digits and commas before the
  unit consists of commas only, and then it raises the ValueError of int('').
\<close>

theorem extract_area_raises_iff:
  "extract_area text = Inl e \<longleftrightarrow>
     (\<exists>r. find_run digit_or_comma unit_follows (map to_lower text) = Some r
        \<and> set r = {CHR '',''}
        \<and> e = ValueError (''invalid literal for int() with base 10: '' @ [CHR 0x27, CHR 0x27]))"
proof (cases "find_run digit_or_comma unit_follows (map to_lower text)")
  case None
  then show ?thesis by (simp add: extract_area_def)
next
  case (Some r)
  let ?d = "filter (\<lambda>c. c \<noteq> CHR '','') r"
  from find_run_Some [OF Some] have r: "r \<noteq> []" "list_all digit_or_comma r"
    by simp_all
  then have "?d = [] \<longleftrightarrow> set r = {CHR '',''}"
    by (cases r) (auto simp: filter_empty_conv)
  moreover have "list_all is_digit ?d"
    using r(2) by (rule digits_of_run)
  moreover from Some have "text \<noteq> []"
    by (cases "text") auto
  ultimately show ?thesis
    using Some by (auto simp: extract_area_def int_of_def)
qed

lemmas scraper_eval =
  extract_price_def extract_bhk_def extract_area_def int_of_def is_digit_def digit_val_def
  digit_or_comma_def bhk_follows_def unit_follows_def Let_def and_then_def

lemma extract_examples:
  "extract_price ''Rs 35,000/month'' = Inr (Some 35000)"
  "extract_price ''Price on request'' = Inr None"
  "extract_price ''Rs 1.5 lakh'' = Inr (Some 1)"
  "extract_bhk ''Spacious 2 bhk flat'' = Inr (Some 2)"
  "extract_bhk ''Flat 12, 3BHK'' = Inr (Some 3)"
  "extract_area ''2 BHK, 1,200 sq. ft'' = Inr (Some 1200)"
  "extract_area ''950sqft'' = Inr (Some 950)"
  by (simp_all add: scraper_eval char_eval)

section \<open>Listings and pages\<close>

lemma optionally_total:
  assumes "\<And>x. \<exists>r. f x = Inr r"
  shows "\<exists>r. optionally f v = Inr r"
  using assms by (cases v) (auto simp: optionally_def)

lemma listing_fields_eq_Inl_iff:
  "listing_fields e = Inl err \<longleftrightarrow> (\<exists>d. details e = Some d \<and> extract_area d = Inl err)"
proof -
  obtain p b where "optionally extract_price (price_text e) = Inr p"
    "optionally extract_bhk (details e) = Inr b"
    using optionally_total [of extract_price] optionally_total [of extract_bhk]
      extract_price_total extract_bhk_total by metis
  then show ?thesis
    by (cases "details e") (auto simp: listing_fields_def optionally_def and_then_eq_Inl_iff)
qed

theorem parse_listing_None_iff:
  "fst (parse_listing e w) = None \<longleftrightarrow>
     (\<exists>d err. details e = Some d \<and> extract_area d = Inl err)"
proof (cases "listing_fields e")
  case (Inl err)
  with listing_fields_eq_Inl_iff [of e err] show ?thesis
    by (auto simp: parse_listing_def)
next
  case (Inr parsed)
  with listing_fields_eq_Inl_iff [of e] show ?thesis
    by (auto simp: parse_listing_def)
qed

lemma parse_listing_world:
  "tables (snd (parse_listing e w)) = tables w" "slept (snd (parse_listing e w)) = slept w"
  "dirs (snd (parse_listing e w)) = dirs w"
  by (cases "listing_fields e"; simp add: parse_listing_def)+

lemma parse_all_world:
  "parse_all items acc w = (all', w') \<Longrightarrow>
     tables w' = tables w \<and> slept w' = slept w \<and> prefix acc all'
     \<and> length all' \<le> length acc + length items"
proof (induction items arbitrary: acc w)
  case Nil
  then show ?case by (simp add: parse_all_def)
next
  case (Cons item items)
  obtain r w1 where p: "parse_listing item w = (r, w1)"
    by (cases "parse_listing item w")
  with parse_listing_world [of item w] have w1: "tables w1 = tables w" "slept w1 = slept w"
    by simp_all
  from Cons.prems p have "parse_all items (case r of None \<Rightarrow> acc | Some x \<Rightarrow> acc @ [x]) w1
      = (all', w')"
    by (cases r) (simp_all add: parse_all_def)
  from Cons.IH [OF this] w1 show ?case
    by (cases r) (auto dest: append_prefixD)
qed

lemma scrape_one_world:
  assumes "scrape_one url0 self page (acc, w) = (all', w')"
  shows "tables w' = tables w \<and> prefix acc all'
    \<and> slept w' = slept w + (if fetches url0 self page then 2 else 0)
    \<and> (\<not> fetches url0 self page \<longrightarrow> all' = acc)"
proof (cases "web self (url0 @ ''?page='' @ str_nat page)")
  case (Failure e)
  with assms show ?thesis
    by (auto simp: scrape_one_def scrape_page_def fetches_def Let_def)
next
  case (Page items)
  let ?w = "print [S ''Scraping page '', N page, S ''...''] w"
  obtain a w1 where p: "parse_all items acc ?w = (a, w1)"
    by (cases "parse_all items acc ?w")
  from parse_all_world [OF p] Page assms p show ?thesis
    by (auto simp: scrape_one_def scrape_page_def fetches_def Let_def)
qed

lemma fold_scrape_one:
  assumes "fold (scrape_one url0 self) pages (acc, w) = (all', w')"
  shows "tables w' = tables w \<and> prefix acc all'
    \<and> slept w' = slept w + 2 * length (filter (fetches url0 self) pages)
    \<and> ((\<forall>p \<in> set pages. \<not> fetches url0 self p) \<longrightarrow> all' = acc)"
  using assms
proof (induction pages arbitrary: acc w)
  case Nil
  then show ?case by simp
next
  case (Cons page pages)
  obtain a w1 where s: "scrape_one url0 self page (acc, w) = (a, w1)"
    by (cases "scrape_one url0 self page (acc, w)")
  with Cons.prems have "fold (scrape_one url0 self) pages (a, w1) = (all', w')"
    by simp
  from Cons.IH [OF this] scrape_one_world [OF s] show ?case
    by (auto dest: prefix_order.order_trans)
qed

theorem scrape_multiple_pages_sleeps:
  assumes "scrape_multiple_pages url0 num_pages self w = (df, w')"
  shows "slept w' = slept w + 2 * length (filter (fetches url0 self) [1..<num_pages + 1])
    \<and> tables w' = tables w"
proof -
  obtain a where "fold (scrape_one url0 self) [1..<num_pages + 1] ([], w) = (a, w')"
    using assms by (auto simp: scrape_multiple_pages_def split: prod.splits)
  from fold_scrape_one [OF this] show ?thesis by simp
qed

theorem scrape_multiple_pages_nothing:
  assumes "\<forall>p. 1 \<le> p \<and> p \<le> num_pages \<longrightarrow> \<not> fetches url0 self p"
  shows "fst (scrape_multiple_pages url0 num_pages self w) = \<lparr>columns = [], rows = []\<rparr>"
proof -
  obtain a w' where f: "fold (scrape_one url0 self) [1..<num_pages + 1] ([], w) = (a, w')"
    by (metis surj_pair)
  from fold_scrape_one [OF f] assms have "a = []"
    by auto
  with f show ?thesis
    by (simp add: scrape_multiple_pages_def data_frame_def)
qed

lemma save_data_Returned:
  assumes "CHR ''/'' \<notin> set filename"
  shows "\<exists>w'. save_data df filename self w = (Returned (''data/raw/'' @ filename), self, w')
    \<and> tables w' = (tables w)(''data/raw/'' @ filename \<mapsto> df)"
proof -
  have "split_path acc filename = [rev acc @ filename]" for acc
    using assms by (induction filename arbitrary: acc) auto
  then have "parent (''data/raw/'' @ filename) = ''data/raw''"
    by (simp add: parent_def)
  moreover have "''data/raw'' \<in> set (ancestors ''data/raw'')"
    by (rule ancestors_self)
  ultimately show ?thesis
    by (simp add: save_data_def to_csv_def path_join_def Let_def)
qed

section \<open>The properties at the example data\<close>

lemma str_nat_small: "n < 10 \<Longrightarrow> str_nat n = [digit_char n]"
  by (subst str_nat.simps) simp

lemma first_pages: "[Suc 0..<3] = [1, 2]"
  by (simp add: upt_conv_Cons numeral_3_eq_3 numeral_2_eq_2)

lemma parse_examples:
  "parse_listing good_item w = (Some (hd (rows scraped)), w)"
  "parse_listing bad_item w
     = (None, print [S ''Error parsing listing: '',
          S (''invalid literal for int() with base 10: '' @ [CHR 0x27, CHR 0x27])] w)"
  by (simp_all add: parse_listing_def listing_fields_def optionally_def good_item_def
      bad_item_def scraped_def scraped_row_def message_def strip_def scraper_eval char_eval)

lemma one_page_run:
  "scrape_multiple_pages ''http://site'' 2 (new_scraper None one_page) (empty_world id)
     = (scraped,
        snd (scrape_multiple_pages ''http://site'' 2 (new_scraper None one_page) (empty_world id)))"
  by (simp add: scrape_multiple_pages_def scrape_one_def scrape_page_def parse_all_def
      parse_examples new_scraper_def one_page_def str_nat_small digit_char_def data_frame_def
      scraped_def Let_def char_eval first_pages)

theorem scrape_multiple_pages_sleeps_witness:
  "slept (snd (scrape_multiple_pages ''http://site'' 2 (new_scraper None one_page)
      (empty_world id)))
     = slept (empty_world id)
       + 2 * length (filter (fetches ''http://site'' (new_scraper None one_page)) [1..<2 + 1])
   \<and> tables (snd (scrape_multiple_pages ''http://site'' 2 (new_scraper None one_page)
      (empty_world id))) = tables (empty_world id)"
  by (rule scrape_multiple_pages_sleeps [OF one_page_run])

theorem scrape_multiple_pages_nothing_witness:
  "fst (scrape_multiple_pages ''http://site'' 5 (new_scraper None offline) (empty_world id))
     = \<lparr>columns = [], rows = []\<rparr>"
  by (rule scrape_multiple_pages_nothing) (simp add: fetches_def new_scraper_def offline_def)

end
