(* ===== verification/Aggregate.thy ===== *)
theory Aggregate
  imports Frame "HOL-Library.List_Lexorder" "HOL-Library.Char_ord"
    "HOL-Library.Product_Lexorder"
begin

text \<open>
  The calls of pandas that the dashboard makes on a frame: the statistics of a column,
  \<open>groupby\<close> with its aggregations, \<open>sort_values\<close>, \<open>idxmax\<close> and \<open>idxmin\<close>, and Python's
  \<open>sorted\<close> on the values of a column.

  \<^item> A statistic skips missing values; of no value at all it is missing (\<open>None\<close>).
  \<^item> \<open>groupby\<close> drops the rows whose key is missing and lists the groups by ascending
    key; the rows of a group keep their order. Strings are ordered as Python orders
    them, character by character (\<open>List_Lexorder\<close>, \<open>Char_ord\<close>), pairs of keys
    lexicographically (\<open>Product_Lexorder\<close>).
  \<^item> \<open>sort_values\<close> puts missing values last. Rows with equal values keep their order;
    pandas guarantees that for \<open>kind='stable'\<close> only, numpy's default sort keeps it for
    at most 16 rows.
  \<^item> The lemmas show that the groups partition the rows that have a key, that a mean
    lies between the minimum and the maximum, that \<open>sort_values\<close> permutes and orders
    its rows, and that \<open>idxmax\<close> names the first row with the greatest value.
\<close>

section \<open>Statistics of a column\<close>

definition series :: "column \<Rightarrow> (listing \<Rightarrow> 'a) \<Rightarrow> frame \<Rightarrow> 'a list result" where
  "series c sel d = (if has_column c d then Inr (map sel (rows d)) else Inl (key_error [c]))"

definition mean :: "rat list \<Rightarrow> rat option" where
  "mean xs = (if xs = [] then None else Some (sum_list xs / of_nat (length xs)))"

definition minimum :: "rat list \<Rightarrow> rat option" where
  "minimum xs = (if xs = [] then None else Some (Min (set xs)))"

definition maximum :: "rat list \<Rightarrow> rat option" where
  "maximum xs = (if xs = [] then None else Some (Max (set xs)))"

definition nunique :: "'a option list \<Rightarrow> nat" where
  "nunique vs = length (remdups (somes vs))"

text \<open>
  The mean of a float column that may hold infinities: the sum of \<open>inf\<close> and \<open>-inf\<close> is
  \<open>nan\<close>, any other sum with an infinity is that infinity.
\<close>

definition finites :: "fnum list \<Rightarrow> rat list" where
  "finites xs = List.map_filter (\<lambda>v. case v of Fin q \<Rightarrow> Some q | _ \<Rightarrow> None) xs"

definition fmean :: "fnum list \<Rightarrow> fnum option" where
  "fmean xs =
     (if PosInf \<in> set xs \<and> NegInf \<in> set xs then None
      else if PosInf \<in> set xs then Some PosInf
      else if NegInf \<in> set xs then Some NegInf
      else map_option Fin (mean (finites xs)))"

section \<open>Sorted unique values\<close>

text \<open>
  \<open>sorted(df[c].unique())\<close>. \<open>unique\<close> keeps a missing value as one \<open>nan\<close>. Python
  cannot compare \<open>nan\<close>, a float, with a string: sorting raises \<open>TypeError\<close> as soon as
  there is a string beside it. Numbers compare with \<open>nan\<close>, every comparison being
  false; the order Python's sort leaves then depends on the comparisons it happens to
  make, and \<open>sorted_numbers\<close> keeps the order of first appearance in that case. The
  pages use the result as the options of a widget, where only its elements matter.
\<close>

definition sorted_texts :: "string option list \<Rightarrow> string option list result" where
  "sorted_texts vs =
     (let u = unique vs
      in if None \<notin> set u then Inr (map Some (sort (somes u)))
         else if somes u = [] then Inr u
         else Inl (TypeError ''< not supported between instances of float and str''))"

definition sorted_numbers :: "rat option list \<Rightarrow> rat option list" where
  "sorted_numbers vs =
     (let u = unique vs in if None \<in> set u then u else map Some (sort (somes u)))"

section \<open>Grouping\<close>

definition group_keys :: "('k::linorder) option list \<Rightarrow> 'k list" where
  "group_keys ks = sort (remdups (somes ks))"

definition groupby ::
  "(listing \<Rightarrow> ('k::linorder) option) \<Rightarrow> listing list \<Rightarrow> ('k \<times> listing list) list" where
  "groupby key rs = map (\<lambda>k. (k, filter (\<lambda>r. key r = Some k) rs)) (group_keys (map key rs))"

definition both :: "'a option \<Rightarrow> 'b option \<Rightarrow> ('a \<times> 'b) option" where
  "both a b = (case (a, b) of (Some x, Some y) \<Rightarrow> Some (x, y) | _ \<Rightarrow> None)"

definition aggregate :: "(listing list \<Rightarrow> 'v) \<Rightarrow> ('k \<times> listing list) list \<Rightarrow> ('k \<times> 'v) list" where
  "aggregate f gs = map (\<lambda>(k, rs). (k, f rs)) gs"

definition counted :: "(listing \<Rightarrow> 'a option) \<Rightarrow> listing list \<Rightarrow> nat" where
  "counted sel rs = length (somes (map sel rs))"

section \<open>Sorting and the extremes\<close>

definition sort_values :: "bool \<Rightarrow> ('a \<Rightarrow> ('v::linorder) option) \<Rightarrow> 'a list \<Rightarrow> 'a list" where
  "sort_values ascending col xs =
     (let present = List.map_filter (\<lambda>x. map_option (\<lambda>v. (v, x)) (col x)) xs;
          missing = filter (\<lambda>x. col x = None) xs
      in map snd (if ascending then sort_key fst present else rev (sort_key fst (rev present)))
         @ missing)"

definition idxmax :: "('k \<times> rat option) list \<Rightarrow> 'k option" where
  "idxmax kvs =
     (case maximum (somes (map snd kvs)) of
        None \<Rightarrow> None
      | Some m \<Rightarrow> map_option fst (find (\<lambda>kv. snd kv = Some m) kvs))"

definition idxmin :: "('k \<times> rat option) list \<Rightarrow> 'k option" where
  "idxmin kvs =
     (case minimum (somes (map snd kvs)) of
        None \<Rightarrow> None
      | Some m \<Rightarrow> map_option fst (find (\<lambda>kv. snd kv = Some m) kvs))"

section \<open>Statistics\<close>

lemma series_eq_Inr_iff: "series c sel d = Inr vs \<longleftrightarrow> has_column c d \<and> vs = map sel (rows d)"
  by (auto simp: series_def)

lemma series_eq_Inl_iff: "series c sel d = Inl e \<longleftrightarrow> \<not> has_column c d \<and> e = key_error [c]"
  by (auto simp: series_def)

lemma mean_Nil [simp]: "mean [] = None"
  and minimum_Nil [simp]: "minimum [] = None"
  and maximum_Nil [simp]: "maximum [] = None"
  by (simp_all add: mean_def minimum_def maximum_def)

lemma mean_eq_None_iff [simp]: "mean xs = None \<longleftrightarrow> xs = []"
  and minimum_eq_None_iff [simp]: "minimum xs = None \<longleftrightarrow> xs = []"
  and maximum_eq_None_iff [simp]: "maximum xs = None \<longleftrightarrow> xs = []"
  by (simp_all add: mean_def minimum_def maximum_def)

lemma mean_single [simp]: "mean [x] = Some x"
  by (simp add: mean_def)

lemma sum_list_bounds:
  fixes xs :: "rat list"
  assumes "\<forall>x \<in> set xs. a \<le> x \<and> x \<le> b"
  shows "of_nat (length xs) * a \<le> sum_list xs \<and> sum_list xs \<le> of_nat (length xs) * b"
  using assms by (induction xs) (auto simp: algebra_simps add_mono)

lemma mean_between:
  assumes "mean xs = Some m" and "\<forall>x \<in> set xs. a \<le> x \<and> x \<le> b"
  shows "a \<le> m \<and> m \<le> b"
proof -
  from assms(1) have ne: "xs \<noteq> []" and m: "m = sum_list xs / of_nat (length xs)"
    by (auto simp: mean_def split: if_splits)
  then have pos: "(0 :: rat) < of_nat (length xs)" by simp
  from sum_list_bounds [OF assms(2)] pos show ?thesis
    by (simp add: m pos_le_divide_eq pos_divide_le_eq mult.commute)
qed

lemma mean_bounds:
  assumes "mean xs = Some m"
  shows "\<exists>lo hi. minimum xs = Some lo \<and> maximum xs = Some hi \<and> lo \<le> m \<and> m \<le> hi"
proof -
  from assms have ne: "xs \<noteq> []" by (auto simp: mean_def split: if_splits)
  have "Min (set xs) \<le> m \<and> m \<le> Max (set xs)"
    by (rule mean_between [OF assms]) simp
  with ne show ?thesis by (simp add: minimum_def maximum_def)
qed

lemma mean_mset_cong: "mset xs = mset ys \<Longrightarrow> mean xs = mean ys"
  by (metis mean_def mset_eq_length mset_zero_iff sum_mset_sum_list)

lemma minimum_le: "minimum xs = Some lo \<Longrightarrow> x \<in> set xs \<Longrightarrow> lo \<le> x"
  and maximum_ge: "maximum xs = Some hi \<Longrightarrow> x \<in> set xs \<Longrightarrow> x \<le> hi"
  by (auto simp: minimum_def maximum_def split: if_splits)

lemma minimum_mem: "minimum xs = Some lo \<Longrightarrow> lo \<in> set xs"
  and maximum_mem: "maximum xs = Some hi \<Longrightarrow> hi \<in> set xs"
  by (auto simp: minimum_def maximum_def split: if_splits intro: Min_in Max_in)

lemma set_finites: "set (finites xs) = {q. Fin q \<in> set xs}"
  by (induction xs) (auto simp: finites_def List.map_filter_simps split: fnum.splits)

lemma finites_map_Fin [simp]: "finites (map Fin qs) = qs"
  by (induction qs) (auto simp: finites_def List.map_filter_simps)

lemma fmean_finite: "fmean (map Fin qs) = map_option Fin (mean qs)"
  by (auto simp: fmean_def)

lemma nunique_le: "nunique vs \<le> length vs"
  unfolding nunique_def
  by (meson le_trans length_remdups_leq length_somes_le)

section \<open>Sorted unique values\<close>

lemma Some_image_somes: "None \<notin> set vs \<Longrightarrow> Some ` set (somes vs) = set vs"
  by (auto simp: set_somes image_iff) (metis not_None_eq)

lemma set_sorted_numbers [simp]: "set (sorted_numbers vs) = set vs"
  by (auto simp: sorted_numbers_def Let_def Some_image_somes)

lemma distinct_somes: "distinct xs \<Longrightarrow> distinct (somes xs)"
proof (induction xs)
  case Nil
  then show ?case by simp
next
  case (Cons a xs)
  then show ?case by (cases a) (simp_all add: set_somes)
qed

lemma distinct_map_Some [simp]: "distinct (map Some xs) = distinct xs"
  by (simp add: distinct_map)

lemma distinct_sorted_numbers [simp]: "distinct (sorted_numbers vs)"
  by (simp add: sorted_numbers_def Let_def distinct_somes)

lemma sorted_texts_eq_Inl_iff:
  "(\<exists>e. sorted_texts vs = Inl e) \<longleftrightarrow> None \<in> set vs \<and> (\<exists>s. Some s \<in> set vs)"
  by (auto simp: sorted_texts_def Let_def somes_eq_Nil_iff)

lemma sorted_texts_mixed:
  assumes "None \<in> set vs" and "Some s \<in> set vs"
  shows "\<exists>m. sorted_texts vs = Inl (TypeError m)"
  using assms by (auto simp: sorted_texts_def Let_def somes_eq_Nil_iff)

lemma sorted_texts_complete:
  assumes "None \<notin> set vs"
  shows "sorted_texts vs = Inr (map Some (sort (remdups (somes vs))))"
proof -
  have "distinct (somes (unique vs))" "distinct (remdups (somes vs))"
    by (simp_all add: distinct_somes)
  moreover have "set (somes (unique vs)) = set (remdups (somes vs))"
    by (simp add: set_somes)
  ultimately have "mset (somes (unique vs)) = mset (remdups (somes vs))"
    using set_eq_iff_mset_eq_distinct by blast
  from sort_cong_mset [OF this] assms show ?thesis
    by (simp add: sorted_texts_def Let_def)
qed

lemma set_sorted_texts: "sorted_texts vs = Inr ts \<Longrightarrow> set ts = set vs"
  using Some_image_somes [of "unique vs"]
  by (auto simp: sorted_texts_def Let_def split: if_splits)

section \<open>Groups\<close>

lemma sorted_group_keys [simp]: "sorted (group_keys ks)"
  and distinct_group_keys [simp]: "distinct (group_keys ks)"
  and set_group_keys [simp]: "set (group_keys ks) = {k. Some k \<in> set ks}"
  by (simp_all add: group_keys_def set_somes)

lemma set_group_keys_map: "set (group_keys (map key rs)) = {k. \<exists>r \<in> set rs. key r = Some k}"
  by (auto simp: image_iff) metis

lemma map_fst_groupby [simp]: "map fst (groupby key rs) = group_keys (map key rs)"
  by (simp add: groupby_def comp_def)

lemma groupby_Nil [simp]: "groupby key [] = []"
  by (simp add: groupby_def group_keys_def)

lemma groupby_member:
  "(k, g) \<in> set (groupby key rs) \<longleftrightarrow>
     g = filter (\<lambda>r. key r = Some k) rs \<and> (\<exists>r \<in> set rs. key r = Some k)"
  unfolding groupby_def set_map set_group_keys_map by auto

lemma group_not_empty: "(k, g) \<in> set (groupby key rs) \<Longrightarrow> g \<noteq> []"
  by (auto simp: groupby_member filter_empty_conv)

lemma group_rows: "(k, g) \<in> set (groupby key rs) \<Longrightarrow> r \<in> set g \<Longrightarrow> r \<in> set rs \<and> key r = Some k"
  by (auto simp: groupby_member)

lemma map_of_groupby:
  "map_of (groupby key rs) k
     = (if \<exists>r \<in> set rs. key r = Some k then Some (filter (\<lambda>r. key r = Some k) rs) else None)"
  unfolding groupby_def map_of_map_restrict restrict_map_def set_group_keys_map by auto

lemma sum_length_filter_keys:
  assumes "distinct ks"
  shows "(\<Sum>k\<leftarrow>ks. length (filter (\<lambda>r. key r = Some k) rs))
    = length (filter (\<lambda>r. \<exists>k \<in> set ks. key r = Some k) rs)"
  using assms
proof (induction ks)
  case Nil
  then show ?case by simp
next
  case (Cons k ks)
  have "length (filter (\<lambda>r. key r = Some k \<or> (\<exists>k' \<in> set ks. key r = Some k')) rs)
      = length (filter (\<lambda>r. key r = Some k) rs)
        + length (filter (\<lambda>r. \<exists>k' \<in> set ks. key r = Some k') rs)"
    using Cons.prems by (induction rs) auto
  with Cons show ?case by simp
qed

lemma groupby_sizes:
  "(\<Sum>(k, g)\<leftarrow>groupby key rs. length g) = length (filter (\<lambda>r. key r \<noteq> None) rs)"
proof -
  have "(\<Sum>(k, g)\<leftarrow>groupby key rs. length g)
      = (\<Sum>k\<leftarrow>group_keys (map key rs). length (filter (\<lambda>r. key r = Some k) rs))"
    by (simp add: groupby_def comp_def)
  also have "\<dots> = length (filter (\<lambda>r. \<exists>k \<in> set (group_keys (map key rs)). key r = Some k) rs)"
    by (rule sum_length_filter_keys) simp
  also have "\<dots> = length (filter (\<lambda>r. key r \<noteq> None) rs)"
    unfolding set_group_keys_map
    by (intro arg_cong [where f = length] filter_cong) auto
  finally show ?thesis .
qed

lemma aggregate_keys [simp]: "map fst (aggregate f gs) = map fst gs"
  by (simp add: aggregate_def comp_def case_prod_unfold)

lemma aggregate_member:
  "(k, v) \<in> set (aggregate f gs) \<longleftrightarrow> (\<exists>g. (k, g) \<in> set gs \<and> v = f g)"
  by (auto simp: aggregate_def)

lemma map_of_aggregate: "map_of (aggregate f gs) k = map_option f (map_of gs k)"
  by (induction gs) (auto simp: aggregate_def)

lemma length_aggregate [simp]: "length (aggregate f gs) = length gs"
  by (simp add: aggregate_def)

lemma counted_le_length: "counted sel rs \<le> length rs"
  by (simp add: counted_def length_somes_le [of "map sel rs", simplified])

lemma counted_all: "(\<forall>r \<in> set rs. sel r \<noteq> None) \<Longrightarrow> counted sel rs = length rs"
  by (induction rs) (auto simp: counted_def)

lemma counted_numbers: "counted sel rs = length (numbers sel rs)"
  by (simp add: counted_def numbers_def)

section \<open>Sorting\<close>

lemma present_pairs:
  "map snd (List.map_filter (\<lambda>x. map_option (\<lambda>v. (v, x)) (col x)) xs) = filter (\<lambda>x. col x \<noteq> None) xs"
  "map fst (List.map_filter (\<lambda>x. map_option (\<lambda>v. (v, x)) (col x)) xs) = somes (map col xs)"
  "\<forall>p \<in> set (List.map_filter (\<lambda>x. map_option (\<lambda>v. (v, x)) (col x)) xs). col (snd p) = Some (fst p)"
  by (induction xs) (auto simp: List.map_filter_simps split: option.splits)

lemma mset_filter_split: "mset (filter P xs) + mset (filter (\<lambda>x. \<not> P x) xs) = mset xs"
  by (induction xs) auto

lemma mset_sort_values [simp]: "mset (sort_values ascending col xs) = mset xs"
proof -
  let ?p = "List.map_filter (\<lambda>x. map_option (\<lambda>v. (v, x)) (col x)) xs"
  have "mset (map snd (if ascending then sort_key fst ?p else rev (sort_key fst (rev ?p))))
      = mset (map snd ?p)"
    by simp
  also have "\<dots> = mset (filter (\<lambda>x. col x \<noteq> None) xs)"
    by (simp only: present_pairs)
  finally have "mset (sort_values ascending col xs)
      = mset (filter (\<lambda>x. col x \<noteq> None) xs) + mset (filter (\<lambda>x. \<not> col x \<noteq> None) xs)"
    unfolding sort_values_def Let_def by (simp del: not_None_eq mset_map mset_filter)
  then show ?thesis by (simp only: mset_filter_split)
qed

lemma set_sort_values [simp]: "set (sort_values ascending col xs) = set xs"
  by (metis mset_sort_values set_mset_mset)

lemma length_sort_values [simp]: "length (sort_values ascending col xs) = length xs"
  by (metis mset_sort_values size_mset)

lemma somes_by_pairs:
  assumes "\<forall>p \<in> set ps. col (snd p) = Some (fst p)"
  shows "somes (map col (map snd ps)) = map fst ps"
  using assms by (induction ps) auto

lemma somes_by_missing: "somes (map col (filter (\<lambda>x. col x = None) xs)) = []"
  by (induction xs) auto

lemma sorted_sort_values_ascending: "sorted (somes (map col (sort_values True col xs)))"
proof -
  let ?p = "List.map_filter (\<lambda>x. map_option (\<lambda>v. (v, x)) (col x)) xs"
  have "\<forall>p \<in> set (sort_key fst ?p). col (snd p) = Some (fst p)"
    using present_pairs(3) [of "col" xs] by simp
  from somes_by_pairs [OF this] show ?thesis
    by (simp add: sort_values_def somes_by_missing)
qed

lemma sorted_sort_values_descending: "sorted (rev (somes (map col (sort_values False col xs))))"
proof -
  let ?p = "List.map_filter (\<lambda>x. map_option (\<lambda>v. (v, x)) (col x)) xs"
  have "\<forall>p \<in> set (rev (sort_key fst (rev ?p))). col (snd p) = Some (fst p)"
    using present_pairs(3) [of "col" xs] by simp
  from somes_by_pairs [OF this] show ?thesis
    by (simp add: sort_values_def somes_by_missing rev_map [symmetric])
qed

lemma sort_values_missing_last:
  "\<exists>ps ms. sort_values ascending col xs = ps @ ms
     \<and> (\<forall>x \<in> set ps. col x \<noteq> None) \<and> (\<forall>x \<in> set ms. col x = None)"
proof -
  let ?q = "List.map_filter (\<lambda>x. map_option (\<lambda>v. (v, x)) (col x)) xs"
  let ?p = "map snd (if ascending then sort_key fst ?q else rev (sort_key fst (rev ?q)))"
  have "set ?p = set (map snd ?q)" by simp
  then have "\<forall>x \<in> set ?p. col x \<noteq> None"
    unfolding present_pairs by simp
  moreover have "sort_values ascending col xs = ?p @ filter (\<lambda>x. col x = None) xs"
    by (simp add: sort_values_def)
  ultimately show ?thesis
    by (intro exI [of _ ?p] exI [of _ "filter (\<lambda>x. col x = None) xs"]) simp
qed

lemma set_drop_distinct:
  assumes "distinct xs"
  shows "set (drop n xs) = set xs - set (take n xs)"
proof -
  from assms have "distinct (take n xs @ drop n xs)" by simp
  then have "set (take n xs) \<inter> set (drop n xs) = {}"
    by (simp only: distinct_append)
  moreover have "set xs = set (take n xs) \<union> set (drop n xs)"
    by (metis append_take_drop_id set_append)
  ultimately show ?thesis by blast
qed

lemma distinct_sort_values [simp]: "distinct (sort_values ascending col xs) = distinct xs"
  by (rule mset_eq_imp_distinct_iff) simp

lemma sort_values_take_highest:
  assumes "x \<in> set (take n (sort_values False col xs))"
    and "y \<in> set (drop n (sort_values False col xs))"
    and "col x = Some a" and "col y = Some b"
  shows "b \<le> a"
proof -
  let ?s = "sort_values False col xs"
  have "somes (map col ?s) = somes (map col (take n ?s)) @ somes (map col (drop n ?s))"
    by (metis append_take_drop_id map_append somes_append)
  with sorted_sort_values_descending [of "col" xs]
  have "\<forall>q \<in> set (somes (map col (drop n ?s))). \<forall>p \<in> set (somes (map col (take n ?s))). q \<le> p"
    by (simp add: sorted_append)
  moreover from assms have "a \<in> set (somes (map col (take n ?s)))"
    "b \<in> set (somes (map col (drop n ?s)))"
    by (force simp: set_somes)+
  ultimately show ?thesis by blast
qed

section \<open>The extremes\<close>

lemma somes_snd_mem: "m \<in> set (somes (map snd kvs)) \<longleftrightarrow> (\<exists>k. (k, Some m) \<in> set kvs)"
  unfolding set_somes by force

lemma find_value:
  "find (\<lambda>kv. snd kv = Some m) kvs = Some kv \<Longrightarrow> (fst kv, Some m) \<in> set kvs"
  by (induction kvs) (auto split: if_splits)

lemma find_value_None:
  "find (\<lambda>kv. snd kv = Some m) kvs = None \<longleftrightarrow> (\<forall>k. (k, Some m) \<notin> set kvs)"
  by (induction kvs) auto

lemma idxmax_Some:
  assumes "idxmax kvs = Some k"
  shows "\<exists>m. (k, Some m) \<in> set kvs \<and> (\<forall>k' v. (k', Some v) \<in> set kvs \<longrightarrow> v \<le> m)"
proof -
  from assms obtain m kv where m: "maximum (somes (map snd kvs)) = Some m"
    and kv: "find (\<lambda>kv. snd kv = Some m) kvs = Some kv" and k: "k = fst kv"
    by (auto simp: idxmax_def split: option.splits)
  have "v \<le> m" if "(k', Some v) \<in> set kvs" for k' v
    using that by (intro maximum_ge [OF m]) (auto simp: somes_snd_mem)
  with find_value [OF kv] show ?thesis unfolding k by blast
qed

lemma idxmin_Some:
  assumes "idxmin kvs = Some k"
  shows "\<exists>m. (k, Some m) \<in> set kvs \<and> (\<forall>k' v. (k', Some v) \<in> set kvs \<longrightarrow> m \<le> v)"
proof -
  from assms obtain m kv where m: "minimum (somes (map snd kvs)) = Some m"
    and kv: "find (\<lambda>kv. snd kv = Some m) kvs = Some kv" and k: "k = fst kv"
    by (auto simp: idxmin_def split: option.splits)
  have "m \<le> v" if "(k', Some v) \<in> set kvs" for k' v
    using that by (intro minimum_le [OF m]) (auto simp: somes_snd_mem)
  with find_value [OF kv] show ?thesis unfolding k by blast
qed

lemma idxmax_eq_None_iff: "idxmax kvs = None \<longleftrightarrow> (\<forall>kv \<in> set kvs. snd kv = None)"
proof (cases "maximum (somes (map snd kvs))")
  case None
  then have "\<forall>v \<in> set (map snd kvs). v = None" by (simp add: somes_eq_Nil_iff)
  with None show ?thesis by (simp add: idxmax_def)
next
  case (Some m)
  from maximum_mem [OF Some] obtain k where "(k, Some m) \<in> set kvs"
    by (auto simp: somes_snd_mem)
  with Some show ?thesis
    by (force simp: idxmax_def find_value_None)
qed

lemma idxmin_eq_None_iff: "idxmin kvs = None \<longleftrightarrow> (\<forall>kv \<in> set kvs. snd kv = None)"
proof (cases "minimum (somes (map snd kvs))")
  case None
  then have "\<forall>v \<in> set (map snd kvs). v = None" by (simp add: somes_eq_Nil_iff)
  with None show ?thesis by (simp add: idxmin_def)
next
  case (Some m)
  from minimum_mem [OF Some] obtain k where "(k, Some m) \<in> set kvs"
    by (auto simp: somes_snd_mem)
  with Some show ?thesis
    by (force simp: idxmin_def find_value_None)
qed

end
