(* ===== verification/Dashboard.thy ===== *)
theory Dashboard
  imports Data_Processor Aggregate
begin

text \<open>
  What \<open>src/app.py\<close> and the two pages under \<open>src/pages\<close> share: loading the
  processed file, the filters, and the values a page puts on the screen. The theories
  \<open>Home_Page\<close>, \<open>Explorer_Page\<close> and \<open>Compare_Page\<close> model the three scripts on top.

  \<^item> \<open>app_load_data\<close>, \<open>page_load_data\<close>: the three \<open>load_data\<close> functions. Each reads the
    processed file and, when reading raises, builds a sample frame; the one of \<open>app.py\<close>
    also writes the sample to the file. \<open>st.cache_data\<close> is not modelled: a call is one
    evaluation.
  \<^item> \<open>element\<close>: what a call of Streamlit shows, as the values computed from the frame
    that the call is given (\<open>content\<close>: a value together with the format it is shown
    in). Constant text, style sheets and the layout in columns are left out.
  \<^item> \<open>render\<close>: a script is a list of steps, each showing elements or raising; what is
    on the screen when the script ends is what the steps before the first exception
    showed, together with that exception.
  \<^item> \<open>multiselect\<close>, \<open>slider\<close>, \<open>radio\<close>: a widget returns its default on the first run
    and the stored choice of the user afterwards.
  \<^item> \<open>explorer_filter\<close>, \<open>compare_filter\<close>: the masks the pages apply to the frame.
  \<^item> \<open>marker_color\<close>: the colour of a marker on the map.
  \<^item> \<open>display_df\<close>, \<open>listing_table\<close>: the selection of the columns of the listing
    tables, with the \<open>KeyError\<close> for a column the frame lacks, and the table shown.
\<close>

section \<open>Loading\<close>

definition processed_file :: string where
  "processed_file = ''data/processed/rentals_processed.csv''"

definition shown_row ::
  "string \<Rightarrow> rat \<Rightarrow> rat \<Rightarrow> rat \<Rightarrow> string \<Rightarrow> rat \<Rightarrow> rat \<Rightarrow> string \<Rightarrow> listing" where
  "shown_row t b p a l la lo f =
     blank_listing\<lparr>title := Some t, bhk := Some b, price := Some p, area_sqft := Some a,
       location := Some l, latitude := Some la, longitude := Some lo, furnishing := Some f\<rparr>"

definition sample_columns :: "column list" where
  "sample_columns = [Title, Bhk, Price, Area_sqft, Location, Latitude, Longitude, Furnishing]"

definition app_rows :: "listing list" where
  "app_rows =
     [shown_row ''2 BHK Apartment in Vasant Kunj'' 2 35000 1200 ''Vasant Kunj''
        (285217 / 10000) (771587 / 10000) ''Semi-Furnished'',
      shown_row ''3 BHK Villa in Defence Colony'' 3 75000 2500 ''Defence Colony''
        (285675 / 10000) (772376 / 10000) ''Furnished'',
      shown_row ''1 BHK Flat in Karol Bagh'' 1 18000 600 ''Karol Bagh''
        (286517 / 10000) (771905 / 10000) ''Unfurnished'',
      shown_row ''2 BHK Apartment in Dwarka'' 2 28000 1100 ''Dwarka''
        (285921 / 10000) (770460 / 10000) ''Semi-Furnished'',
      shown_row ''3 BHK Penthouse in Greater Kailash'' 3 95000 2800 ''Greater Kailash''
        (285494 / 10000) (772466 / 10000) ''Fully Furnished'',
      shown_row ''1 BHK Studio in Lajpat Nagar'' 1 15000 500 ''Lajpat Nagar''
        (285678 / 10000) (772434 / 10000) ''Semi-Furnished'',
      shown_row ''2 BHK Apartment in Rohini'' 2 25000 1000 ''Rohini''
        (287489 / 10000) (771177 / 10000) ''Unfurnished'',
      shown_row ''4 BHK Villa in Chanakyapuri'' 4 150000 3500 ''Chanakyapuri''
        (285983 / 10000) (771892 / 10000) ''Fully Furnished'']"

definition page_rows :: "listing list" where
  "page_rows = app_rows @
     [shown_row ''2 BHK Flat in Janakpuri'' 2 30000 1150 ''Janakpuri''
        (286219 / 10000) (770919 / 10000) ''Semi-Furnished'',
      shown_row ''3 BHK Apartment in Saket'' 3 68000 2200 ''Saket''
        (285244 / 10000) (772066 / 10000) ''Furnished'']"

definition sample_frame :: "listing list \<Rightarrow> frame" where
  "sample_frame rs =
     assign Price_per_sqft with_ratio \<lparr>columns = sample_columns, rows = rs\<rparr>"

definition app_load_data :: "world \<Rightarrow> frame result \<times> world" where
  "app_load_data w =
     (case read_csv processed_file w of
        Inr d \<Rightarrow> (Inr d, w)
      | Inl _ \<Rightarrow>
          (let d = sample_frame app_rows;
               w1 = mkdir_p ''data/processed'' w
           in case to_csv processed_file d w1 of
                Inl e \<Rightarrow> (Inl e, w1)
              | Inr w2 \<Rightarrow> (Inr d, w2)))"

definition page_load_data :: "world \<Rightarrow> frame" where
  "page_load_data w =
     (case read_csv processed_file w of
        Inr d \<Rightarrow> d
      | Inl _ \<Rightarrow> sample_frame page_rows)"

section \<open>What a page shows\<close>

text \<open>
  \<open>content\<close> is a value in a template or a cell of a table: a text (\<open>nan\<close> when
  missing), an integer, a number as \<open>str\<close> prints it (with or without the grouping of
  its digits), a float as \<open>str\<close> prints it, a number in the format \<open>.0f\<close> (rounded to an
  integer, a tie to the even neighbour), a float in the format \<open>.2f\<close>, and the text
  \<open>N/A\<close>.
\<close>

datatype content =
    Label "string option"
  | Count nat
  | Number "rat option"
  | Float "fnum option"
  | Whole "int option"
  | Cents "fnum option"
  | Not_available

datatype level = Warning | Error | Info | Success

datatype chart = Bar | Box | Scatter

datatype color = Green | Orange | Red

record marker =
  position :: "rat option \<times> rat option"
  popup :: "content list"
  tooltip :: "content list"
  icon :: color

datatype element =
    Metric line content
  | Card "content list"
  | Notice level "content list"
  | Chart chart "content list list"
  | Table "content list list"
  | Map_view "rat option \<times> rat option" "(rat option \<times> rat option \<times> rat option) list"
      "marker list"

type_synonym screen = "element list \<times> error option"

definition whole :: "rat option \<Rightarrow> content" where
  "whole x = Whole (map_option rint x)"

definition cents :: "fnum option \<Rightarrow> content" where
  "cents x = Cents (map_option fround2 x)"

fun render :: "element list result list \<Rightarrow> screen" where
  "render [] = ([], None)"
| "render (Inl e # steps) = ([], Some e)"
| "render (Inr es # steps) = (es @ fst (render steps), snd (render steps))"

definition showing :: "'a result \<Rightarrow> ('a \<Rightarrow> element list) \<Rightarrow> element list result" where
  "showing r f = and_then r (\<lambda>x. Inr (f x))"

section \<open>Widgets\<close>

text \<open>
  The state of a widget is \<open>None\<close> before the user has touched it and the stored choice
  afterwards. Streamlit keeps a stored choice within the options of the widget (and a
  multiselect with \<open>max_selections\<close> within that number); the model admits every stored
  choice, so what is proved for every state of the widgets holds for those Streamlit
  can be in. \<open>slider\<close> returns for every pair of limits; a version of Streamlit that
  rejects \<open>min_value = max_value\<close> raises where the prices of the frame all coincide.
\<close>

datatype viz = Markers | Heatmap | Both

definition multiselect :: "'a list \<Rightarrow> 'a list \<Rightarrow> 'a list option \<Rightarrow> 'a list" where
  "multiselect opts initial chosen = (case chosen of None \<Rightarrow> initial | Some xs \<Rightarrow> xs)"

definition slider :: "rat \<times> rat \<Rightarrow> (rat \<times> rat) option \<Rightarrow> rat \<times> rat" where
  "slider initial chosen = (case chosen of None \<Rightarrow> initial | Some limits \<Rightarrow> limits)"

definition radio :: "viz \<Rightarrow> viz option \<Rightarrow> viz" where
  "radio initial chosen = (case chosen of None \<Rightarrow> initial | Some v \<Rightarrow> v)"

section \<open>Filters\<close>

text \<open>
  \<open>Series.isin(values)\<close>: a missing value is in \<open>values\<close> when \<open>nan\<close> is one of them. A
  comparison with a missing value is false.
\<close>

definition isin :: "'a option \<Rightarrow> 'a option list \<Rightarrow> bool" where
  "isin v selected = (v \<in> set selected)"

definition in_range :: "rat option \<Rightarrow> rat \<times> rat \<Rightarrow> bool" where
  "in_range v limits = (case v of None \<Rightarrow> False | Some x \<Rightarrow> fst limits \<le> x \<and> x \<le> snd limits)"

definition explorer_mask ::
  "rat option list \<Rightarrow> rat \<times> rat \<Rightarrow> string option list \<Rightarrow> string option list \<Rightarrow> listing \<Rightarrow> bool"
  where
  "explorer_mask selected_bhk price_range selected_locations selected_furnishing r =
     (isin (bhk r) selected_bhk \<and> in_range (price r) price_range
      \<and> isin (location r) selected_locations \<and> isin (furnishing r) selected_furnishing)"

definition explorer_filter ::
  "rat option list \<Rightarrow> rat \<times> rat \<Rightarrow> string option list \<Rightarrow> string option list \<Rightarrow> frame
    \<Rightarrow> frame result" where
  "explorer_filter selected_bhk price_range selected_locations selected_furnishing d =
     (case missing_columns [Bhk, Price, Location, Furnishing] d of
        [] \<Rightarrow> Inr (select (explorer_mask selected_bhk price_range selected_locations
                 selected_furnishing) d)
      | c # _ \<Rightarrow> Inl (key_error [c]))"

definition compare_filter :: "string option list \<Rightarrow> rat option list \<Rightarrow> frame \<Rightarrow> frame result" where
  "compare_filter selected_locations selected_bhk d =
     (case missing_columns [Location, Bhk] d of
        [] \<Rightarrow> Inr (select (\<lambda>r. isin (location r) selected_locations \<and> isin (bhk r) selected_bhk) d)
      | c # _ \<Rightarrow> Inl (key_error [c]))"

text \<open>\<open>int(x)\<close> of a float: truncation towards zero.\<close>

definition truncated :: "rat \<Rightarrow> rat" where
  "truncated x = (if 0 \<le> x then of_int \<lfloor>x\<rfloor> else of_int \<lceil>x\<rceil>)"

definition price_limits :: "frame \<Rightarrow> (rat \<times> rat) result" where
  "price_limits d =
     (if \<not> has_column Price d then Inl (key_error [Price])
      else case numbers price (rows d) of
             [] \<Rightarrow> Inl (ValueError ''cannot convert float NaN to integer'')
           | p # ps \<Rightarrow> Inr (truncated (Min (set (p # ps))), truncated (Max (set (p # ps)))))"

section \<open>Markers and tables\<close>

definition marker_color :: "rat \<Rightarrow> color" where
  "marker_color p = (if p < 30000 then Green else if p < 60000 then Orange else Red)"

definition display_columns :: "column list" where
  "display_columns = [Title, Bhk, Price, Area_sqft, Price_per_sqft, Location, Furnishing]"

definition head :: "nat \<Rightarrow> frame \<Rightarrow> frame" where
  "head n d = d\<lparr>rows := take n (rows d)\<rparr>"

definition display_df :: "frame \<Rightarrow> frame result" where
  "display_df d =
     (case missing_columns display_columns d of
        [] \<Rightarrow> Inr (d\<lparr>columns := display_columns,
                 rows := map (\<lambda>r. r\<lparr>latitude := None, longitude := None\<rparr>) (rows d)\<rparr>)
      | cs \<Rightarrow> Inl (key_error cs))"

definition recent_listings :: "frame \<Rightarrow> frame result" where
  "recent_listings d = and_then (display_df d) (\<lambda>shown. Inr (head 10 shown))"

text \<open>
  The table a page shows: the price with its digits grouped, the price per square
  foot as \<open>str\<close> prints it, the other cells as they are.
\<close>

definition table_row :: "listing \<Rightarrow> content list" where
  "table_row r =
     [Label (title r), Number (bhk r), Number (price r), Number (area_sqft r),
      Float (price_per_sqft r), Label (location r), Label (furnishing r)]"

definition listing_table :: "frame \<Rightarrow> element list" where
  "listing_table d = [Table (map table_row (rows d))]"

section \<open>The colours in order\<close>

instantiation color :: linorder
begin

definition rank :: "color \<Rightarrow> nat" where
  "rank c = (case c of Green \<Rightarrow> 0 | Orange \<Rightarrow> 1 | Red \<Rightarrow> 2)"

definition less_eq_color :: "color \<Rightarrow> color \<Rightarrow> bool" where
  "less_eq_color a b = (rank a \<le> rank b)"

definition less_color :: "color \<Rightarrow> color \<Rightarrow> bool" where
  "less_color a b = (rank a < rank b)"

instance
proof
  fix a b :: color
  show "a \<le> b \<Longrightarrow> b \<le> a \<Longrightarrow> a = b"
    by (cases a; cases b) (simp_all add: less_eq_color_def rank_def)
qed (auto simp: less_eq_color_def less_color_def)

end

section \<open>Loading\<close>

lemma processed_parent: "parent processed_file = ''data/processed''"
  by (simp add: processed_file_def parent_def)

lemma app_load_data_present:
  "tables w processed_file = Some f \<Longrightarrow> columns f \<noteq> [] \<Longrightarrow>
   app_load_data w = (Inr (parse_frame f), w)"
  by (simp add: app_load_data_def read_csv_def)

lemma page_load_data_present:
  "tables w processed_file = Some f \<Longrightarrow> columns f \<noteq> [] \<Longrightarrow> page_load_data w = parse_frame f"
  by (simp add: page_load_data_def read_csv_def)

text \<open>
  The \<open>except\<close> of \<open>load_data\<close> catches every exception: a file that is missing and a
  file without columns alike give the sample frame.
\<close>

lemma app_load_data_absent:
  assumes "read_csv processed_file w = Inl e"
  shows "app_load_data w
    = (Inr (sample_frame app_rows),
       (mkdir_p ''data/processed'' w)
         \<lparr>tables := (tables w)(processed_file \<mapsto> sample_frame app_rows)\<rparr>)"
  using assms ancestors_self [of "''data/processed''"]
  by (simp add: app_load_data_def to_csv_def processed_parent Let_def)

lemma page_load_data_absent:
  "read_csv processed_file w = Inl e \<Longrightarrow> page_load_data w = sample_frame page_rows"
  by (simp add: page_load_data_def)

lemma survives_csv_sample_frame:
  "survives_csv (sample_frame app_rows)" "survives_csv (sample_frame page_rows)"
  by (simp_all add: survives_csv_def readable_text_def na_values_def sample_frame_def
      app_rows_def page_rows_def shown_row_def sample_columns_def assign_def blank_listing_def
      with_ratio_def)

text \<open>
  load_data of app.py never fails, and after it the processed file reads as the frame
  it returned: a second call, and load_data of the pages, return the same frame.
\<close>

theorem app_load_data_stable:
  assumes "app_load_data w = (r, w')"
  shows "\<exists>d. r = Inr d \<and> read_csv processed_file w' = Inr d
    \<and> app_load_data w' = (Inr d, w') \<and> page_load_data w' = d"
proof (cases "read_csv processed_file w")
  case (Inl e)
  from assms app_load_data_absent [OF Inl] have r: "r = Inr (sample_frame app_rows)"
    and "tables w' processed_file = Some (sample_frame app_rows)"
    by auto
  from read_csv_stored [OF this(2) survives_csv_sample_frame(1)] r show ?thesis
    by (simp add: app_load_data_def page_load_data_def)
next
  case (Inr d)
  with assms have "r = Inr d" "w' = w"
    by (simp_all add: app_load_data_def)
  with Inr show ?thesis
    by (simp add: app_load_data_def page_load_data_def)
qed

section \<open>Filters\<close>

lemma explorer_filter_eq_Inr_iff:
  "explorer_filter sb pr sl sf d = Inr d' \<longleftrightarrow>
     (\<forall>c \<in> set [Bhk, Price, Location, Furnishing]. has_column c d)
     \<and> d' = select (explorer_mask sb pr sl sf) d"
  using missing_columns_Nil_iff [of "[Bhk, Price, Location, Furnishing]" d]
  by (cases "missing_columns [Bhk, Price, Location, Furnishing] d")
     (auto simp: explorer_filter_def)

theorem explorer_filter_sound:
  assumes "explorer_filter sb pr sl sf d = Inr d'"
  shows "rows d' = filter (explorer_mask sb pr sl sf) (rows d) \<and> columns d' = columns d
    \<and> (\<forall>r \<in> set (rows d'). bhk r \<in> set sb \<and> location r \<in> set sl \<and> furnishing r \<in> set sf
          \<and> (\<exists>p. price r = Some p \<and> fst pr \<le> p \<and> p \<le> snd pr))"
  using assms
  by (auto simp: explorer_filter_eq_Inr_iff select_def explorer_mask_def isin_def in_range_def
      split: option.splits)

lemma truncated_integer: "x \<in> \<int> \<Longrightarrow> truncated x = x"
  by (auto simp: truncated_def elim!: Ints_cases)

lemma price_limits_whole:
  assumes "price_limits d = Inr limits" and "\<forall>r \<in> set (rows d). \<exists>p \<in> \<int>. price r = Some p"
  shows "has_column Price d \<and> (\<forall>r \<in> set (rows d). in_range (price r) limits)"
proof -
  let ?ps = "numbers price (rows d)"
  from assms(1) have col: "has_column Price d" and ne: "?ps \<noteq> []"
    and lim: "limits = (truncated (Min (set ?ps)), truncated (Max (set ?ps)))"
    by (auto simp: price_limits_def split: if_splits list.splits)
  from assms(2) have "set ?ps \<subseteq> \<int>"
    by (auto simp: set_numbers)
  with ne have "Min (set ?ps) \<in> \<int>" "Max (set ?ps) \<in> \<int>"
    by (meson List.finite_set Max_in Min_in set_empty subsetD)+
  then have lim': "limits = (Min (set ?ps), Max (set ?ps))"
    by (simp add: lim truncated_integer)
  have "in_range (price r) limits" if "r \<in> set (rows d)" for r
  proof -
    from that assms(2) obtain p where p: "price r = Some p" by auto
    with that have "p \<in> set ?ps" by (auto simp: set_numbers)
    then have "Min (set ?ps) \<le> p" "p \<le> Max (set ?ps)" by simp_all
    with p show ?thesis by (simp add: in_range_def lim')
  qed
  with col show ?thesis by blast
qed

text \<open>
  With every value of the three columns selected and the price range at its limits,
  the filter of the Explorer page keeps every row of a frame whose prices are whole
  numbers, rows with a missing bhk, location or furnishing included.
\<close>

lemma explorer_filter_default:
  assumes "price_limits d = Inr limits"
    and "\<forall>c \<in> set [Bhk, Location, Furnishing]. has_column c d"
    and "set sb = set (map bhk (rows d))" and "set sl = set (map location (rows d))"
    and "set sf = set (map furnishing (rows d))"
    and "\<forall>r \<in> set (rows d). \<exists>p \<in> \<int>. price r = Some p"
  shows "explorer_filter sb limits sl sf d = Inr d"
proof -
  from price_limits_whole [OF assms(1) assms(6)] assms(3-5)
  have "filter (explorer_mask sb limits sl sf) (rows d) = rows d"
    by (simp add: filter_id_iff explorer_mask_def isin_def)
  with price_limits_whole [OF assms(1) assms(6)] assms(2) show ?thesis
    by (simp add: explorer_filter_eq_Inr_iff select_def)
qed

section \<open>Rendering\<close>

lemma render_append:
  "render (steps @ steps')
     = (case render steps of
          (es, None) \<Rightarrow> (es @ fst (render steps'), snd (render steps'))
        | (es, Some e) \<Rightarrow> (es, Some e))"
  by (induction steps rule: render.induct) (auto split: prod.splits option.splits)

lemma render_no_error_iff: "snd (render steps) = None \<longleftrightarrow> (\<forall>s \<in> set steps. \<exists>es. s = Inr es)"
  by (induction steps rule: render.induct) auto

lemma render_all:
  "\<forall>s \<in> set steps. \<exists>es. s = Inr es \<Longrightarrow> render steps = (concat (map projr steps), None)"
  by (induction steps rule: render.induct) auto

lemma render_error:
  "snd (render steps) = Some e \<longleftrightarrow>
     (\<exists>i < length steps. steps ! i = Inl e \<and> (\<forall>j < i. \<exists>es. steps ! j = Inr es))"
proof (induction steps rule: render.induct)
  case 1
  then show ?case by simp
next
  case (2 e' steps)
  show ?case
  proof
    assume "snd (render (Inl e' # steps)) = Some e"
    then show "\<exists>i < length (Inl e' # steps). (Inl e' # steps) ! i = Inl e
        \<and> (\<forall>j < i. \<exists>es. (Inl e' # steps) ! j = Inr es)"
      by (intro exI [of _ 0]) simp
  next
    assume "\<exists>i < length (Inl e' # steps). (Inl e' # steps) ! i = Inl e
        \<and> (\<forall>j < i. \<exists>es. (Inl e' # steps) ! j = Inr es)"
    then obtain i where i: "(Inl e' # steps) ! i = Inl e"
      "\<forall>j < i. \<exists>es. (Inl e' # steps) ! j = Inr es" by blast
    have "i = 0"
    proof (rule ccontr)
      assume "i \<noteq> 0"
      with i(2) have "\<exists>es. (Inl e' # steps) ! 0 = Inr es" by blast
      then show False by simp
    qed
    with i(1) show "snd (render (Inl e' # steps)) = Some e" by simp
  qed
next
  case (3 es steps)
  show ?case
  proof
    assume "snd (render (Inr es # steps)) = Some e"
    with 3 obtain i where "i < length steps" "steps ! i = Inl e"
      "\<forall>j < i. \<exists>es. steps ! j = Inr es" by auto
    then show "\<exists>i < length (Inr es # steps). (Inr es # steps) ! i = Inl e
        \<and> (\<forall>j < i. \<exists>es'. (Inr es # steps) ! j = Inr es')"
      by (intro exI [of _ "Suc i"]) (auto simp: nth_Cons split: nat.splits)
  next
    assume "\<exists>i < length (Inr es # steps). (Inr es # steps) ! i = Inl e
        \<and> (\<forall>j < i. \<exists>es'. (Inr es # steps) ! j = Inr es')"
    then obtain i where i: "i < length (Inr es # steps)" "(Inr es # steps) ! i = Inl e"
      "\<forall>j < i. \<exists>es'. (Inr es # steps) ! j = Inr es'" by blast
    then obtain i' where "i = Suc i'" by (cases i) auto
    with i have "i' < length steps \<and> steps ! i' = Inl e \<and> (\<forall>j < i'. \<exists>es. steps ! j = Inr es)"
      by auto
    with 3 show "snd (render (Inr es # steps)) = Some e" by auto
  qed
qed

lemma showing_simps [simp]:
  "showing (Inr x) f = Inr (f x)" "showing (Inl e) f = Inl e"
  by (simp_all add: showing_def)

lemma showing_eq_Inr_iff: "showing r f = Inr es \<longleftrightarrow> (\<exists>x. r = Inr x \<and> es = f x)"
  by (cases r) auto

lemma showing_eq_Inl_iff: "showing r f = Inl e \<longleftrightarrow> r = Inl e"
  by (cases r) auto

lemma widget_simps [simp]:
  "multiselect opts initial None = initial" "multiselect opts initial (Some xs) = xs"
  "slider limits None = limits" "slider limits (Some chosen) = chosen"
  "radio v None = v" "radio v (Some v') = v'"
  by (simp_all add: multiselect_def slider_def radio_def)

section \<open>Markers and tables\<close>

theorem marker_color_mono: "p \<le> q \<Longrightarrow> marker_color p \<le> marker_color q"
  by (simp add: marker_color_def less_eq_color_def rank_def)

theorem display_df_eq_Inr_iff:
  "(\<exists>shown. display_df d = Inr shown) \<longleftrightarrow> (\<forall>c \<in> set display_columns. has_column c d)"
  using missing_columns_Nil_iff [of display_columns d]
  by (cases "missing_columns display_columns d") (auto simp: display_df_def)

section \<open>The properties at the sample frames\<close>

lemmas dashboard_eval =
  sample_frame_def app_rows_def page_rows_def shown_row_def sample_columns_def assign_def
  has_column_def blank_listing_def with_ratio_def ratio_def fdiv_def fround2_def round2_def
  rint_def Let_def

lemma app_first_run:
  "app_load_data (empty_world id)
    = (Inr (sample_frame app_rows),
       (mkdir_p ''data/processed'' (empty_world id))
         \<lparr>tables := (tables (empty_world id))(processed_file \<mapsto> sample_frame app_rows)\<rparr>)"
  by (rule app_load_data_absent [where e = "FileNotFoundError processed_file"])
     (simp add: read_csv_def empty_world_def)

theorem app_load_data_stable_witness:
  "\<exists>d. (Inr (sample_frame app_rows) :: frame result) = Inr d
    \<and> read_csv processed_file ((mkdir_p ''data/processed'' (empty_world id))
         \<lparr>tables := (tables (empty_world id))(processed_file \<mapsto> sample_frame app_rows)\<rparr>)
      = Inr d
    \<and> app_load_data ((mkdir_p ''data/processed'' (empty_world id))
         \<lparr>tables := (tables (empty_world id))(processed_file \<mapsto> sample_frame app_rows)\<rparr>)
      = (Inr d, (mkdir_p ''data/processed'' (empty_world id))
         \<lparr>tables := (tables (empty_world id))(processed_file \<mapsto> sample_frame app_rows)\<rparr>)
    \<and> page_load_data ((mkdir_p ''data/processed'' (empty_world id))
         \<lparr>tables := (tables (empty_world id))(processed_file \<mapsto> sample_frame app_rows)\<rparr>)
      = d"
  by (rule app_load_data_stable [OF app_first_run])

lemma price_limits_app: "price_limits (sample_frame app_rows) = Inr (15000, 150000)"
  by (simp add: price_limits_def truncated_def dashboard_eval)

lemma explorer_filter_default_example:
  "explorer_filter (map Some [1, 2, 3, 4]) (15000, 150000)
      (map location (rows (sample_frame app_rows)))
      (map Some [''Semi-Furnished'', ''Furnished'', ''Unfurnished'', ''Fully Furnished''])
      (sample_frame app_rows)
     = Inr (sample_frame app_rows)"
  by (rule explorer_filter_default [OF price_limits_app]) (simp_all add: dashboard_eval, auto)

lemma app_filtered:
  "explorer_filter [Some 2] (20000, 40000) [Some ''Dwarka'', Some ''Rohini''] [Some ''Unfurnished'']
      (sample_frame app_rows)
     = Inr (select (explorer_mask [Some 2] (20000, 40000) [Some ''Dwarka'', Some ''Rohini'']
         [Some ''Unfurnished'']) (sample_frame app_rows))"
  by (simp add: explorer_filter_def missing_columns_def dashboard_eval)

theorem explorer_filter_sound_witness:
  "rows (select (explorer_mask [Some 2] (20000, 40000) [Some ''Dwarka'', Some ''Rohini'']
      [Some ''Unfurnished'']) (sample_frame app_rows))
     = [(shown_row ''2 BHK Apartment in Rohini'' 2 25000 1000 ''Rohini''
          (287489 / 10000) (771177 / 10000) ''Unfurnished'')\<lparr>price_per_sqft := Some (Fin 25)\<rparr>]"
  using explorer_filter_sound [OF app_filtered]
  by (simp add: explorer_mask_def isin_def in_range_def dashboard_eval)

theorem marker_color_mono_witness: "marker_color 25000 \<le> marker_color 45000"
  by (rule marker_color_mono) simp

theorem display_df_eq_Inr_iff_witness: "\<exists>shown. display_df (sample_frame page_rows) = Inr shown"
  using display_df_eq_Inr_iff [of "sample_frame page_rows"]
  by (simp add: display_columns_def dashboard_eval)

end
