(* ===== verification/Home_Page.thy ===== *)
theory Home_Page
  imports Dashboard
begin

text \<open>
  The script \<open>src/app.py\<close> after \<open>load_data\<close>: the statistics of the sidebar and of the
  four cards, the chart of the average rent by bhk, the five locations with the
  highest average rent, and the table of the first ten listings.

  \<^item> Each definition is one step of the script: the elements it shows, or the
    \<open>KeyError\<close> pandas raises for a column the frame lacks. \<open>home_steps\<close> lists them in
    the order of the script, \<open>home_page\<close> loads the frame and renders them.
  \<^item> The lemmas show when the page raises, that the numbers on its cards are
    consistent with each other, and what \<open>top_locations\<close> selects.
\<close>

section \<open>Sidebar and cards\<close>

definition total_metric :: "frame \<Rightarrow> element list result" where
  "total_metric d = Inr [Metric [S ''Total Listings''] (Count (len d))]"

definition avg_rent_metric :: "frame \<Rightarrow> element list result" where
  "avg_rent_metric d =
     showing (series Price price d) (\<lambda>ps. [Metric [S ''Avg Rent''] (whole (mean (somes ps)))])"

definition areas_metric :: "frame \<Rightarrow> element list result" where
  "areas_metric d =
     showing (series Location location d) (\<lambda>ls. [Metric [S ''Areas Covered''] (Count (nunique ls))])"

definition average_card :: "frame \<Rightarrow> element list result" where
  "average_card d = showing (series Price price d) (\<lambda>ps. [Card [whole (mean (somes ps))]])"

definition range_card :: "frame \<Rightarrow> element list result" where
  "range_card d =
     showing (series Price price d)
       (\<lambda>ps. [Card [whole (minimum (somes ps)), whole (maximum (somes ps))]])"

definition locations_card :: "frame \<Rightarrow> element list result" where
  "locations_card d = showing (series Location location d) (\<lambda>ls. [Card [Count (nunique ls)]])"

definition total_card :: "frame \<Rightarrow> element list result" where
  "total_card d = Inr [Card [Count (len d)]]"

section \<open>Rent by bhk\<close>

text \<open>
  \<open>agg\<close> with a dictionary names the columns it lacks in one \<open>KeyError\<close>, in alphabetical
  order.
\<close>

definition bhk_data :: "frame \<Rightarrow> (rat \<times> rat option \<times> nat) list result" where
  "bhk_data d =
     (if \<not> has_column Bhk d then Inl (key_error [Bhk])
      else case missing_columns [Price, Title] d of
             [] \<Rightarrow> Inr (aggregate (\<lambda>g. (mean (numbers price g), counted title g))
                     (groupby bhk (rows d)))
           | cs \<Rightarrow> Inl (key_error cs))"

definition bhk_chart :: "frame \<Rightarrow> element list result" where
  "bhk_chart d =
     showing (bhk_data d)
       (\<lambda>t. [Chart Bar (map (\<lambda>(b, avg, n). [Number (Some b), Number avg, whole avg]) t)])"

section \<open>Top locations\<close>

definition rent_by_location :: "frame \<Rightarrow> (string \<times> rat option \<times> nat) list" where
  "rent_by_location d =
     aggregate (\<lambda>g. (mean (numbers price g), counted price g)) (groupby location (rows d))"

definition top_locations :: "frame \<Rightarrow> (string \<times> rat option \<times> nat) list result" where
  "top_locations d =
     (if \<not> has_column Location d then Inl (key_error [Location])
      else if \<not> has_column Price d then Inl (key_error [Price])
      else Inr (take 5 (sort_values False (\<lambda>(l, avg, n). avg) (rent_by_location d))))"

definition location_cards :: "frame \<Rightarrow> element list result" where
  "location_cards d =
     showing (top_locations d)
       (\<lambda>t. map (\<lambda>(idx, l, avg, n). Card [Count idx, Label (Some l), whole avg, Count n])
              (zip [1 ..< Suc (length t)] t))"

section \<open>Recent listings\<close>

definition recent_table :: "frame \<Rightarrow> element list result" where
  "recent_table d = showing (recent_listings d) listing_table"

section \<open>The script\<close>

definition home_steps :: "frame \<Rightarrow> element list result list" where
  "home_steps d =
     [total_metric d, avg_rent_metric d, areas_metric d,
      average_card d, range_card d, locations_card d, total_card d,
      bhk_chart d, location_cards d, recent_table d]"

definition home_page :: "world \<Rightarrow> screen \<times> world" where
  "home_page w =
     (case app_load_data w of
        (Inl e, w') \<Rightarrow> (([], Some e), w')
      | (Inr d, w') \<Rightarrow> (render (home_steps d), w'))"

lemmas home_defs =
  total_metric_def avg_rent_metric_def areas_metric_def average_card_def range_card_def
  locations_card_def total_card_def bhk_chart_def location_cards_def recent_table_def

section \<open>When the page raises\<close>

lemma bhk_data_eq_Inr_iff:
  "(\<exists>t. bhk_data d = Inr t) \<longleftrightarrow> (\<forall>c \<in> set [Bhk, Price, Title]. has_column c d)"
  using missing_columns_Nil_iff [of "[Price, Title]" d]
  by (cases "missing_columns [Price, Title] d") (auto simp: bhk_data_def)

lemma top_locations_eq_Inr_iff:
  "(\<exists>t. top_locations d = Inr t) \<longleftrightarrow> has_column Location d \<and> has_column Price d"
  by (auto simp: top_locations_def)

lemma recent_listings_eq_Inr_iff:
  "(\<exists>t. recent_listings d = Inr t) \<longleftrightarrow> (\<forall>c \<in> set display_columns. has_column c d)"
  using display_df_eq_Inr_iff [of d]
  by (auto simp: recent_listings_def and_then_eq_Inr_iff)

lemma home_steps_return:
  assumes "\<forall>c \<in> set display_columns. has_column c d"
  shows "\<forall>s \<in> set (home_steps d). \<exists>es. s = Inr es"
proof -
  from assms have cols: "has_column Title d" "has_column Bhk d" "has_column Price d"
    "has_column Location d"
    by (simp_all add: display_columns_def)
  from cols obtain t where "bhk_data d = Inr t"
    using bhk_data_eq_Inr_iff [of d] by auto
  moreover from cols obtain t' where "top_locations d = Inr t'"
    using top_locations_eq_Inr_iff [of d] by auto
  moreover from assms obtain t'' where "recent_listings d = Inr t''"
    using recent_listings_eq_Inr_iff [of d] by auto
  ultimately show ?thesis
    using cols by (simp add: home_steps_def home_defs series_def)
qed

lemma home_steps_return_iff:
  "snd (render (home_steps d)) = None \<longleftrightarrow> (\<forall>c \<in> set display_columns. has_column c d)"
proof
  assume "\<forall>c \<in> set display_columns. has_column c d"
  from home_steps_return [OF this] show "snd (render (home_steps d)) = None"
    by (simp add: render_no_error_iff)
next
  assume "snd (render (home_steps d)) = None"
  then have "\<exists>es. recent_table d = Inr es"
    by (simp add: render_no_error_iff home_steps_def)
  then have "\<exists>t. recent_listings d = Inr t"
    by (auto simp: recent_table_def showing_eq_Inr_iff)
  then show "\<forall>c \<in> set display_columns. has_column c d"
    by (simp add: recent_listings_eq_Inr_iff)
qed

section \<open>The cards are consistent\<close>

lemma whole_mono:
  "x = Some a \<Longrightarrow> y = Some b \<Longrightarrow> a \<le> b \<Longrightarrow>
   \<exists>m n. whole x = Whole (Some m) \<and> whole y = Whole (Some n) \<and> m \<le> n"
  by (simp add: whole_def rint_mono)

theorem range_card_brackets_average:
  assumes "average_card d = Inr [Card [Whole (Some avg)]]"
  shows "\<exists>lo hi. range_card d = Inr [Card [Whole (Some lo), Whole (Some hi)]]
    \<and> lo \<le> avg \<and> avg \<le> hi"
proof -
  let ?ps = "numbers price (rows d)"
  from assms have col: "has_column Price d" and "whole (mean ?ps) = Whole (Some avg)"
    by (auto simp: average_card_def showing_eq_Inr_iff series_eq_Inr_iff numbers_def)
  then obtain m where m: "mean ?ps = Some m" and avg: "avg = rint m"
    by (auto simp: whole_def)
  from mean_bounds [OF m] obtain lo hi where "minimum ?ps = Some lo" "maximum ?ps = Some hi"
    "lo \<le> m" "m \<le> hi" by blast
  with col show ?thesis
    by (simp add: range_card_def series_def whole_def numbers_def avg rint_mono)
qed

section \<open>Top locations\<close>

lemma rent_by_location_keys [simp]:
  "map fst (rent_by_location d) = group_keys (map location (rows d))"
  by (simp add: rent_by_location_def)

lemma distinct_rent_by_location: "distinct (rent_by_location d)"
proof -
  have "distinct (map fst (rent_by_location d))" by simp
  then show ?thesis by (metis distinct_map)
qed

text \<open>
  C34. top_locations of app.py holds at most five rows of the statistics by location,
  in descending order of the average rent, and no location left out has a higher
  average than one that is shown.
\<close>

theorem top_locations_highest:
  assumes "top_locations d = Inr t"
  shows "length t \<le> 5 \<and> set t \<subseteq> set (rent_by_location d)
    \<and> sorted (rev (somes (map (\<lambda>(l, avg, n). avg) t)))
    \<and> (\<forall>l a n l' b n'. (l, Some a, n) \<in> set t
          \<and> (l', Some b, n') \<in> set (rent_by_location d) - set t \<longrightarrow> b \<le> a)"
proof -
  let ?by = "\<lambda>(l :: string, avg :: rat option, n :: nat). avg"
  let ?s = "sort_values False ?by (rent_by_location d)"
  from assms have t: "t = take 5 ?s"
    by (auto simp: top_locations_def split: if_splits)
  have rest: "set (rent_by_location d) - set t = set (drop 5 ?s)"
    unfolding t by (simp add: set_drop_distinct distinct_rent_by_location)
  have "somes (map ?by ?s) = somes (map ?by (take 5 ?s)) @ somes (map ?by (drop 5 ?s))"
    by (metis append_take_drop_id map_append somes_append)
  with sorted_sort_values_descending [of ?by "rent_by_location d"]
  have "sorted (rev (somes (map ?by t)))"
    by (simp add: t sorted_append)
  moreover have "b \<le> a" if x: "(l, Some a, n) \<in> set t"
    and y: "(l', Some b, n') \<in> set (rent_by_location d) - set t" for l a n l' b n'
  proof -
    from y have "(l', Some b, n') \<in> set (drop 5 ?s)" by (simp only: rest)
    with x [unfolded t] show ?thesis
      by (rule sort_values_take_highest [where col = ?by]) simp_all
  qed
  ultimately show ?thesis
    using set_sort_values [of False ?by "rent_by_location d"]
    by (auto simp: t dest: in_set_takeD)
qed

section \<open>The properties at the sample frame\<close>

lemma average_card_sample: "average_card (sample_frame app_rows) = Inr [Card [Whole (Some 55125)]]"
  by (simp add: average_card_def series_def whole_def mean_def dashboard_eval)

theorem range_card_brackets_average_witness:
  "\<exists>lo hi. range_card (sample_frame app_rows) = Inr [Card [Whole (Some lo), Whole (Some hi)]]
    \<and> lo \<le> 55125 \<and> 55125 \<le> hi"
  by (rule range_card_brackets_average [OF average_card_sample])

lemma top_locations_sample:
  "top_locations (sample_frame app_rows)
     = Inr (take 5 (sort_values False (\<lambda>(l, avg, n). avg) (rent_by_location (sample_frame app_rows))))"
  by (simp add: top_locations_def dashboard_eval)

theorem top_locations_highest_witness:
  "length (take 5 (sort_values False (\<lambda>(l, avg, n). avg)
      (rent_by_location (sample_frame app_rows)))) \<le> 5
    \<and> sorted (rev (somes (map (\<lambda>(l, avg, n). avg)
        (take 5 (sort_values False (\<lambda>(l, avg, n). avg)
          (rent_by_location (sample_frame app_rows)))))))"
  using top_locations_highest [OF top_locations_sample] by simp

end
