(* ===== verification/Explorer_Page.thy ===== *)
theory Explorer_Page
  imports Dashboard
begin

text \<open>
  The script \<open>src/pages/1_..._Explorer.py\<close> after \<open>load_data\<close>: the widgets of the
  sidebar with their options and defaults, the filter, the four metrics, the map with
  its heat layer and its markers, the two charts and the table of the listings.

  \<^item> \<open>explorer_state\<close> is what Streamlit stores of the widgets between two runs of the
    script (nothing on the first run); \<open>explorer_widgets\<close> computes the options from the
    frame and returns the \<open>selection\<close> the script goes on with.
  \<^item> \<open>explorer_steps\<close> lists the steps after the filter in the order of the script,
    \<open>explorer_view\<close> is the script.
  \<^item> The lemmas show on which frames the page raises, that the first run shows every
    listing of the frame, and that the markers are the filtered listings, each at its
    coordinates and in the colour of its price.
  \<^item> folium and plotly validate what they are given; their exceptions are not modelled.
\<close>

section \<open>The widgets\<close>

record explorer_state =
  chosen_bhk :: "rat option list option"
  chosen_prices :: "(rat \<times> rat) option"
  chosen_locations :: "string option list option"
  chosen_furnishing :: "string option list option"
  chosen_viz :: "viz option"

definition first_run :: explorer_state where
  "first_run =
     \<lparr>chosen_bhk = None, chosen_prices = None, chosen_locations = None,
      chosen_furnishing = None, chosen_viz = None\<rparr>"

record selection =
  selected_bhk :: "rat option list"
  price_range :: "rat \<times> rat"
  selected_locations :: "string option list"
  selected_furnishing :: "string option list"
  viz_type :: viz

definition explorer_widgets :: "explorer_state \<Rightarrow> frame \<Rightarrow> selection result" where
  "explorer_widgets st d =
     and_then (series Bhk bhk d) (\<lambda>bs.
     and_then (price_limits d) (\<lambda>limits.
     and_then (and_then (series Location location d) sorted_texts) (\<lambda>locations.
     and_then (and_then (series Furnishing furnishing d) sorted_texts) (\<lambda>furnishing_options.
       Inr \<lparr>selected_bhk = multiselect (sorted_numbers bs) (sorted_numbers bs) (chosen_bhk st),
            price_range = slider limits (chosen_prices st),
            selected_locations = multiselect locations locations (chosen_locations st),
            selected_furnishing =
              multiselect furnishing_options furnishing_options (chosen_furnishing st),
            viz_type = radio Both (chosen_viz st)\<rparr>))))"

definition filtered_df :: "selection \<Rightarrow> frame \<Rightarrow> frame result" where
  "filtered_df sel d =
     explorer_filter (selected_bhk sel) (price_range sel) (selected_locations sel)
       (selected_furnishing sel) d"

section \<open>The metrics\<close>

definition listings_metric :: "frame \<Rightarrow> element list result" where
  "listings_metric f = Inr [Metric [U 128203, S '' Filtered Listings''] (Count (len f))]"

definition rent_metric :: "frame \<Rightarrow> element list result" where
  "rent_metric f =
     (if 0 < len f
      then showing (series Price price f)
             (\<lambda>ps. [Metric [U 128181, S '' Avg Rent''] (whole (mean (somes ps)))])
      else Inr [Metric [U 128181, S '' Avg Rent''] Not_available])"

definition area_metric :: "frame \<Rightarrow> element list result" where
  "area_metric f =
     (if 0 < len f
      then showing (series Area_sqft area_sqft f)
             (\<lambda>as. [Metric [U 128207, S '' Avg Area''] (whole (mean (somes as)))])
      else Inr [Metric [U 128207, S '' Avg Area''] Not_available])"

definition sqft_metric :: "frame \<Rightarrow> element list result" where
  "sqft_metric f =
     (if 0 < len f
      then showing (series Price_per_sqft price_per_sqft f)
             (\<lambda>qs. [Metric [U 128178, S '' Avg Price/sq.ft''] (cents (fmean (somes qs)))])
      else Inr [Metric [U 128178, S '' Avg Price/sq.ft''] Not_available])"

section \<open>The map\<close>

definition heat_data :: "frame \<Rightarrow> (rat option \<times> rat option \<times> rat option) list" where
  "heat_data f = map (\<lambda>r. (latitude r, longitude r, map_option (\<lambda>p. p / 1000) (price r))) (rows f)"

text \<open>
  A comparison of a missing price is false, which leaves the last branch: the marker
  of a listing without a price would be red.
\<close>

definition marker_of :: "listing \<Rightarrow> marker" where
  "marker_of r =
     \<lparr>position = (latitude r, longitude r),
      popup = [Label (title r), Number (bhk r), Number (price r), Number (area_sqft r),
               Float (price_per_sqft r), Label (location r), Label (furnishing r)],
      tooltip = [Label (title r), Number (price r)],
      icon = (case price r of None \<Rightarrow> Red | Some p \<Rightarrow> marker_color p)\<rparr>"

definition markers :: "frame \<Rightarrow> marker list result" where
  "markers f =
     (if rows f = [] then Inr []
      else case missing_columns
               [Title, Bhk, Price, Area_sqft, Price_per_sqft, Location, Furnishing] f of
             [] \<Rightarrow> Inr (map marker_of (rows f))
           | c # _ \<Rightarrow> Inl (key_error [c]))"

definition map_view :: "viz \<Rightarrow> frame \<Rightarrow> element list result" where
  "map_view viz f =
     and_then (series Latitude latitude f) (\<lambda>lats.
     and_then (series Longitude longitude f) (\<lambda>lons.
     and_then (if viz = Markers \<or> viz = Both then markers f else Inr []) (\<lambda>ms.
       Inr [Map_view (mean (somes lats), mean (somes lons))
              (if viz = Heatmap \<or> viz = Both then heat_data f else []) ms])))"

section \<open>The charts and the table\<close>

definition box_chart :: "frame \<Rightarrow> element list result" where
  "box_chart f = Inr [Chart Box (map (\<lambda>r. [Number (bhk r), Number (price r)]) (rows f))]"

definition scatter_chart :: "frame \<Rightarrow> element list result" where
  "scatter_chart f =
     Inr [Chart Scatter
            (map (\<lambda>r. [Number (area_sqft r), Number (price r), Number (bhk r),
                        Label (location r), Label (furnishing r)]) (rows f))]"

definition filtered_table :: "frame \<Rightarrow> element list result" where
  "filtered_table f = showing (display_df f) listing_table"

section \<open>The script\<close>

definition explorer_steps :: "viz \<Rightarrow> frame \<Rightarrow> element list result list" where
  "explorer_steps viz f =
     [listings_metric f, rent_metric f, area_metric f, sqft_metric f]
     @ (if len f = 0 then [Inr [Notice Warning []]]
        else [map_view viz f, box_chart f, scatter_chart f])
     @ [filtered_table f]"

definition explorer_view :: "explorer_state \<Rightarrow> frame \<Rightarrow> screen" where
  "explorer_view st d =
     (case explorer_widgets st d of
        Inl e \<Rightarrow> ([], Some e)
      | Inr sel \<Rightarrow>
          (case filtered_df sel d of
             Inl e \<Rightarrow> ([], Some e)
           | Inr f \<Rightarrow> render (explorer_steps (viz_type sel) f)))"

definition explorer_page :: "explorer_state \<Rightarrow> world \<Rightarrow> screen" where
  "explorer_page st w = explorer_view st (page_load_data w)"

lemmas explorer_defs =
  listings_metric_def rent_metric_def area_metric_def sqft_metric_def map_view_def
  box_chart_def scatter_chart_def filtered_table_def

section \<open>Notions used in the properties\<close>

text \<open>
  A frame the page can show: it has the nine columns, a price that is not missing,
  and no text column that mixes missing values with strings.
\<close>

definition sortable :: "string option list \<Rightarrow> bool" where
  "sortable vs = (None \<in> set vs \<longrightarrow> (\<forall>v \<in> set vs. v = None))"

definition presentable :: "frame \<Rightarrow> bool" where
  "presentable d =
     (list_all (\<lambda>c. has_column c d) all_columns \<and> numbers price (rows d) \<noteq> []
      \<and> sortable (map location (rows d)) \<and> sortable (map furnishing (rows d)))"

section \<open>The widgets\<close>

lemma sorted_texts_eq_Inr_iff: "(\<exists>ts. sorted_texts vs = Inr ts) \<longleftrightarrow> sortable vs"
proof -
  have "(\<exists>ts. sorted_texts vs = Inr ts) \<longleftrightarrow> \<not> (\<exists>e. sorted_texts vs = Inl e)"
    by (cases "sorted_texts vs") auto
  moreover have "(\<exists>s. Some s \<in> set vs) \<longleftrightarrow> (\<exists>v \<in> set vs. v \<noteq> None)"
    by auto
  ultimately show ?thesis
    unfolding sorted_texts_eq_Inl_iff sortable_def by blast
qed

lemma price_limits_eq_Inr_iff:
  "(\<exists>limits. price_limits d = Inr limits) \<longleftrightarrow> has_column Price d \<and> numbers price (rows d) \<noteq> []"
  by (auto simp: price_limits_def split: list.splits)

lemma explorer_widgets_eq_Inr_iff:
  "(\<exists>sel. explorer_widgets st d = Inr sel) \<longleftrightarrow>
     (\<forall>c \<in> set [Bhk, Price, Location, Furnishing]. has_column c d)
     \<and> numbers price (rows d) \<noteq> []
     \<and> sortable (map location (rows d)) \<and> sortable (map furnishing (rows d))"
  using price_limits_eq_Inr_iff [of d] sorted_texts_eq_Inr_iff [of "map location (rows d)"]
    sorted_texts_eq_Inr_iff [of "map furnishing (rows d)"]
  by (auto simp: explorer_widgets_def and_then_eq_Inr_iff series_eq_Inr_iff)

lemma explorer_widgets_first_run:
  assumes "explorer_widgets first_run d = Inr sel"
  shows "price_limits d = Inr (price_range sel) \<and> set (selected_bhk sel) = set (map bhk (rows d))
    \<and> set (selected_locations sel) = set (map location (rows d))
    \<and> set (selected_furnishing sel) = set (map furnishing (rows d)) \<and> viz_type sel = Both"
  using assms
  by (auto simp: explorer_widgets_def and_then_eq_Inr_iff series_eq_Inr_iff first_run_def
      dest!: set_sorted_texts)

section \<open>When the page raises\<close>

lemma markers_eq_Inr_iff:
  "(\<exists>ms. markers f = Inr ms) \<longleftrightarrow>
     rows f = []
     \<or> (\<forall>c \<in> set [Title, Bhk, Price, Area_sqft, Price_per_sqft, Location, Furnishing].
          has_column c f)"
  using missing_columns_Nil_iff
    [of "[Title, Bhk, Price, Area_sqft, Price_per_sqft, Location, Furnishing]" f]
  by (cases "missing_columns
         [Title, Bhk, Price, Area_sqft, Price_per_sqft, Location, Furnishing] f")
     (auto simp: markers_def)

lemma all_columns_present: "list_all (\<lambda>c. has_column c d) all_columns \<longleftrightarrow> (\<forall>c. has_column c d)"
  by (simp add: list_all_iff)

lemma explorer_steps_return:
  assumes "\<forall>c. has_column c f"
  shows "\<forall>s \<in> set (explorer_steps viz f). \<exists>es. s = Inr es"
proof -
  from assms have "\<exists>ms. markers f = Inr ms"
    by (simp add: markers_eq_Inr_iff)
  moreover from assms have "\<exists>t. display_df f = Inr t"
    by (simp add: display_df_eq_Inr_iff)
  ultimately show ?thesis
    using assms by (auto simp: explorer_steps_def explorer_defs series_def)
qed

lemma explorer_view_presentable:
  assumes "presentable d"
  shows "snd (explorer_view st d) = None"
proof -
  from assms have cols: "\<forall>c. has_column c d"
    by (simp add: presentable_def all_columns_present)
  with assms obtain sel where sel: "explorer_widgets st d = Inr sel"
    using explorer_widgets_eq_Inr_iff [of st d] by (auto simp: presentable_def)
  from cols obtain f where f: "filtered_df sel d = Inr f" and "columns f = columns d"
    by (simp add: filtered_df_def explorer_filter_eq_Inr_iff)
  with cols have "\<forall>c. has_column c f" by (simp add: has_column_def)
  from explorer_steps_return [OF this] sel f show ?thesis
    by (simp add: explorer_view_def render_no_error_iff)
qed

text \<open>
  C31. On a frame whose furnishing column holds a missing value and a string, the
  Explorer page shows nothing and raises the TypeError of sorted(), whatever the
  widgets hold.
\<close>

theorem explorer_page_mixed_furnishing:
  assumes "\<forall>c \<in> set [Bhk, Price, Location, Furnishing]. has_column c d"
    and "numbers price (rows d) \<noteq> []" and "sortable (map location (rows d))"
    and "r \<in> set (rows d)" and "furnishing r = None"
    and "r' \<in> set (rows d)" and "furnishing r' = Some s"
  shows "\<exists>m. explorer_view st d = ([], Some (TypeError m))"
proof -
  from assms(4-7) have "None \<in> set (map furnishing (rows d))"
    "Some s \<in> set (map furnishing (rows d))"
    by (metis image_eqI set_map)+
  then obtain e where "sorted_texts (map furnishing (rows d)) = Inl e"
    using sorted_texts_eq_Inl_iff [of "map furnishing (rows d)"] by blast
  moreover from this obtain m where "e = TypeError m"
    by (auto simp: sorted_texts_def Let_def split: if_splits)
  moreover from assms(1,2) obtain limits where "price_limits d = Inr limits"
    using price_limits_eq_Inr_iff [of d] by auto
  moreover from assms(3) obtain ls where "sorted_texts (map location (rows d)) = Inr ls"
    using sorted_texts_eq_Inr_iff by blast
  ultimately show ?thesis
    using assms(1) by (simp add: explorer_view_def explorer_widgets_def series_def)
qed

lemma explorer_view_mixed_location:
  assumes "has_column Bhk d" and "has_column Price d" and "has_column Location d"
    and "numbers price (rows d) \<noteq> []"
    and "None \<in> set (map location (rows d))" and "Some s \<in> set (map location (rows d))"
  shows "\<exists>m. explorer_view st d = ([], Some (TypeError m))"
proof -
  from sorted_texts_mixed [OF assms(5,6)] obtain m
    where "sorted_texts (map location (rows d)) = Inl (TypeError m)"
    by blast
  moreover from assms(2,4) obtain limits where "price_limits d = Inr limits"
    using price_limits_eq_Inr_iff [of d] by auto
  ultimately show ?thesis
    using assms(1-3) by (simp add: explorer_view_def explorer_widgets_def series_def)
qed

lemma explorer_view_without_coordinates:
  assumes "explorer_widgets st d = Inr sel" and "filtered_df sel d = Inr f" and "rows f \<noteq> []"
    and "has_column Area_sqft d" and "has_column Price_per_sqft d"
    and "\<not> has_column Latitude d"
  shows "snd (explorer_view st d) = Some (key_error [Latitude])
    \<and> length (fst (explorer_view st d)) = 4"
proof -
  from assms(2) have cols: "columns f = columns d"
    and present: "has_column Price d"
    by (auto simp: filtered_df_def explorer_filter_eq_Inr_iff)
  with assms(3-6) have
    "render (explorer_steps (viz_type sel) f)
      = ([Metric [U 128203, S '' Filtered Listings''] (Count (len f)),
          Metric [U 128181, S '' Avg Rent''] (whole (mean (somes (map price (rows f))))),
          Metric [U 128207, S '' Avg Area''] (whole (mean (somes (map area_sqft (rows f))))),
          Metric [U 128178, S '' Avg Price/sq.ft'']
            (cents (fmean (somes (map price_per_sqft (rows f)))))],
         Some (key_error [Latitude]))"
    by (simp add: explorer_steps_def explorer_defs series_def has_column_def len_def)
  with assms(1,2) show ?thesis
    by (simp add: explorer_view_def)
qed

section \<open>The first run\<close>

lemma first_run_filter:
  assumes "explorer_widgets first_run d = Inr sel"
    and "\<forall>r \<in> set (rows d). \<exists>p \<in> \<int>. price r = Some p"
  shows "filtered_df sel d = Inr d"
proof -
  note w = explorer_widgets_first_run [OF assms(1)]
  from assms(1) have "\<forall>c \<in> set [Bhk, Location, Furnishing]. has_column c d"
    using explorer_widgets_eq_Inr_iff [of first_run d] by auto
  with w assms(2) show ?thesis
    unfolding filtered_df_def by (intro explorer_filter_default) simp_all
qed

lemma explorer_view_first:
  assumes "explorer_widgets st d = Inr sel" and "filtered_df sel d = Inr f"
  shows "\<exists>es. fst (explorer_view st d)
    = Metric [U 128203, S '' Filtered Listings''] (Count (len f)) # es"
  using assms by (simp add: explorer_view_def explorer_steps_def listings_metric_def)

text \<open>
  C32. On its first run, with the defaults of the widgets, the Explorer page filters
  nothing out: on a frame it can show and whose prices are whole numbers, it raises
  nothing and its first metric is the number of rows of the frame.
\<close>

theorem explorer_first_run_shows_all:
  assumes "presentable d" and "\<forall>r \<in> set (rows d). \<exists>p \<in> \<int>. price r = Some p"
  shows "\<exists>es. explorer_view first_run d
    = (Metric [U 128203, S '' Filtered Listings''] (Count (len d)) # es, None)"
proof -
  from assms(1) obtain sel where sel: "explorer_widgets first_run d = Inr sel"
    using explorer_widgets_eq_Inr_iff [of first_run d]
    by (auto simp: presentable_def all_columns_present)
  from explorer_view_first [OF sel first_run_filter [OF sel assms(2)]]
    explorer_view_presentable [OF assms(1), of first_run]
  show ?thesis by (metis prod.collapse)
qed

section \<open>The markers\<close>

lemma marker_of_simps [simp]:
  "position (marker_of r) = (latitude r, longitude r)"
  "price r = Some p \<Longrightarrow> icon (marker_of r) = marker_color p"
  by (simp_all add: marker_of_def)

text \<open>
  C33. The markers of the map are the filtered listings in their order: each marker
  stands at the coordinates of its listing and has the colour of its price, which lies
  in the selected range.
\<close>

theorem markers_are_listings:
  assumes "filtered_df sel d = Inr f" and "markers f = Inr ms"
  shows "length ms = len f
    \<and> (\<forall>i < length ms. \<exists>p. price (rows f ! i) = Some p
          \<and> fst (price_range sel) \<le> p \<and> p \<le> snd (price_range sel)
          \<and> icon (ms ! i) = marker_color p
          \<and> position (ms ! i) = (latitude (rows f ! i), longitude (rows f ! i)))"
proof -
  from assms(2) have ms: "ms = map marker_of (rows f)"
    by (auto simp: markers_def split: if_splits list.splits)
  from explorer_filter_sound [OF assms(1) [unfolded filtered_df_def]]
  have "\<forall>r \<in> set (rows f). \<exists>p. price r = Some p \<and> fst (price_range sel) \<le> p
      \<and> p \<le> snd (price_range sel)"
    by blast
  then show ?thesis
    by (auto simp: ms len_def) (metis marker_of_simps(2) nth_mem)
qed

section \<open>An empty frame\<close>

text \<open>
  C36. On a frame without rows the Explorer page shows nothing and raises the
  ValueError of int(nan).
\<close>

theorem explorer_view_empty:
  assumes "has_column Bhk d" and "has_column Price d" and "rows d = []"
  shows "explorer_view st d = ([], Some (ValueError ''cannot convert float NaN to integer''))"
  using assms by (simp add: explorer_view_def explorer_widgets_def series_def price_limits_def)

section \<open>The properties at the sample frame\<close>

text \<open>
  \<open>gappy\<close> is a frame of two listings, the furnishing of the second missing, as the
  processor leaves a furnishing column that came with gaps.
\<close>

definition gappy :: frame where
  "gappy =
     \<lparr>columns = all_columns,
      rows = [shown_row ''2 BHK Flat in Janakpuri'' 2 30000 1150 ''Janakpuri''
                (286219 / 10000) (770919 / 10000) ''Semi-Furnished'',
              (shown_row ''3 BHK Apartment in Saket'' 3 68000 2200 ''Saket''
                (285244 / 10000) (772066 / 10000) ''Furnished'')\<lparr>furnishing := None\<rparr>]\<rparr>"

lemma presentable_sample: "presentable (sample_frame page_rows)"
  by (simp add: presentable_def sortable_def all_columns_def numbers_def dashboard_eval)

lemma whole_prices_sample: "\<forall>r \<in> set (rows (sample_frame page_rows)). \<exists>p \<in> \<int>. price r = Some p"
  by (simp add: dashboard_eval)

theorem explorer_first_run_shows_all_witness:
  "\<exists>es. explorer_view first_run (sample_frame page_rows)
    = (Metric [U 128203, S '' Filtered Listings''] (Count (len (sample_frame page_rows))) # es, None)"
  by (rule explorer_first_run_shows_all [OF presentable_sample whole_prices_sample])

theorem explorer_page_mixed_furnishing_witness:
  "\<exists>m. explorer_view first_run gappy = ([], Some (TypeError m))"
  by (rule explorer_page_mixed_furnishing [of gappy "rows gappy ! 1" "rows gappy ! 0"])
     (simp_all add: gappy_def all_columns_def has_column_def numbers_def sortable_def
       shown_row_def blank_listing_def)

theorem explorer_view_empty_witness:
  "explorer_view first_run (empty_frame all_columns)
     = ([], Some (ValueError ''cannot convert float NaN to integer''))"
  by (rule explorer_view_empty) (simp_all add: empty_frame_def has_column_def)

lemma sample_selection:
  "explorer_filter [Some 2] (20000, 40000) [Some ''Dwarka'', Some ''Rohini''] [Some ''Unfurnished'']
      (sample_frame page_rows)
     = Inr (select (explorer_mask [Some 2] (20000, 40000) [Some ''Dwarka'', Some ''Rohini'']
         [Some ''Unfurnished'']) (sample_frame page_rows))"
  by (simp add: explorer_filter_def missing_columns_def dashboard_eval)

lemma sample_markers:
  "markers (select (explorer_mask [Some 2] (20000, 40000) [Some ''Dwarka'', Some ''Rohini'']
      [Some ''Unfurnished'']) (sample_frame page_rows))
     = Inr [marker_of ((shown_row ''2 BHK Apartment in Rohini'' 2 25000 1000 ''Rohini''
          (287489 / 10000) (771177 / 10000) ''Unfurnished'')\<lparr>price_per_sqft := Some (Fin 25)\<rparr>)]"
  by (simp add: markers_def missing_columns_def select_def explorer_mask_def isin_def in_range_def
      dashboard_eval)

theorem markers_are_listings_witness:
  "icon (marker_of ((shown_row ''2 BHK Apartment in Rohini'' 2 25000 1000 ''Rohini''
          (287489 / 10000) (771177 / 10000) ''Unfurnished'')\<lparr>price_per_sqft := Some (Fin 25)\<rparr>))
     = Green"
  using markers_are_listings
    [of "\<lparr>selected_bhk = [Some 2], price_range = (20000, 40000),
         selected_locations = [Some ''Dwarka'', Some ''Rohini''],
         selected_furnishing = [Some ''Unfurnished''], viz_type = Both\<rparr>"
      "sample_frame page_rows", OF _ sample_markers]
  by (simp add: filtered_df_def sample_selection marker_color_def marker_of_def shown_row_def
      blank_listing_def)

end
