(* ===== verification/Compare_Page.thy ===== *)
theory Compare_Page
  imports Dashboard
begin

text \<open>
  The script \<open>src/pages/2_..._Compare.py\<close> after \<open>load_data\<close>: the two widgets, the two
  guards that stop the script, the statistics by location with their cards, the five
  charts, the comparison table and the insights drawn from it.

  \<^item> \<open>compare_state\<close> is what Streamlit stores of the two widgets between runs;
    \<open>compare_widgets\<close> computes the options and returns the two selections.
  \<^item> \<open>stats\<close> is a row of \<open>location_stats\<close> and of \<open>comparison_table\<close>, which hold the same
    columns in a different order; the count of the first is the number of prices, of
    the second the number of titles.
  \<^item> \<open>compare_steps\<close> lists the steps after the guards, \<open>compare_view\<close> is the script.
    \<open>st.stop()\<close> ends the script with what is on the screen.
  \<^item> \<open>idxmax\<close> of a column without any value raises \<open>ValueError\<close> (pandas 3; pandas 2
    returns \<open>nan\<close>, and the lookup of \<open>nan\<close> that follows raises \<open>KeyError\<close>).
  \<^item> The lemmas show that the two tables agree on the output of the pipeline, that the
    statistics of a location are those of its listings, what the first run compares,
    that the insights name the extremes, and on which frames the page raises.
\<close>

section \<open>The widgets and the guards\<close>

record compare_state =
  picked_locations :: "string option list option"
  picked_bhk :: "rat option list option"

definition compare_first_run :: compare_state where
  "compare_first_run = \<lparr>picked_locations = None, picked_bhk = None\<rparr>"

definition compare_widgets ::
  "compare_state \<Rightarrow> frame \<Rightarrow> (string option list \<times> rat option list) result" where
  "compare_widgets st d =
     and_then (and_then (series Location location d) sorted_texts) (\<lambda>locations.
     and_then (series Bhk bhk d) (\<lambda>bs.
       Inr (multiselect locations (take 3 locations) (picked_locations st),
            multiselect (sorted_numbers bs) (sorted_numbers bs) (picked_bhk st))))"

section \<open>Statistics by location\<close>

record stats =
  avg_rent :: "rat option"
  min_rent :: "rat option"
  max_rent :: "rat option"
  listings :: nat
  avg_area :: "rat option"
  avg_sqft :: "fnum option"

definition stats_of :: "(listing list \<Rightarrow> nat) \<Rightarrow> listing list \<Rightarrow> stats" where
  "stats_of counting g =
     \<lparr>avg_rent = map_option round2 (mean (numbers price g)),
      min_rent = map_option round2 (minimum (numbers price g)),
      max_rent = map_option round2 (maximum (numbers price g)),
      listings = counting g,
      avg_area = map_option round2 (mean (numbers area_sqft g)),
      avg_sqft = map_option fround2 (fmean (somes (map price_per_sqft g)))\<rparr>"

text \<open>
  \<open>agg\<close> with a dictionary names the columns it lacks in one \<open>KeyError\<close>, in alphabetical
  order.
\<close>

definition location_stats :: "frame \<Rightarrow> (string \<times> stats) list result" where
  "location_stats c =
     (if \<not> has_column Location c then Inl (key_error [Location])
      else case missing_columns [Area_sqft, Price, Price_per_sqft] c of
             [] \<Rightarrow> Inr (aggregate (stats_of (counted price)) (groupby location (rows c)))
           | cs \<Rightarrow> Inl (key_error cs))"

definition comparison_table :: "frame \<Rightarrow> (string \<times> stats) list result" where
  "comparison_table c =
     (if \<not> has_column Location c then Inl (key_error [Location])
      else case missing_columns [Area_sqft, Price, Price_per_sqft, Title] c of
             [] \<Rightarrow> Inr (aggregate (stats_of (counted title)) (groupby location (rows c)))
           | cs \<Rightarrow> Inl (key_error cs))"

definition stat_card :: "(string \<times> stats) list \<Rightarrow> string option \<Rightarrow> element list" where
  "stat_card t l =
     (case l of
        None \<Rightarrow> []
      | Some name \<Rightarrow>
          (case map_of t name of
             None \<Rightarrow> []
           | Some s \<Rightarrow>
               [Card [Label (Some name), whole (avg_rent s), Count (listings s),
                      whole (avg_area s), cents (avg_sqft s)]]))"

definition stat_cards :: "string option list \<Rightarrow> frame \<Rightarrow> element list result" where
  "stat_cards selected c =
     showing (location_stats c) (\<lambda>t. concat (map (stat_card t) selected))"

section \<open>The charts\<close>

definition by_location ::
  "column \<Rightarrow> (listing list \<Rightarrow> 'v) \<Rightarrow> frame \<Rightarrow> (string \<times> 'v) list result" where
  "by_location col f c =
     (if \<not> has_column Location c then Inl (key_error [Location])
      else if \<not> has_column col c then Inl (key_error [col])
      else Inr (aggregate f (groupby location (rows c))))"

definition rent_chart :: "frame \<Rightarrow> element list result" where
  "rent_chart c =
     showing (by_location Price (\<lambda>g. mean (numbers price g)) c)
       (\<lambda>t. [Chart Bar (map (\<lambda>(l, avg). [Label (Some l), Number avg])
                (sort_values False snd t))])"

definition rent_boxes :: "frame \<Rightarrow> element list result" where
  "rent_boxes c = Inr [Chart Box (map (\<lambda>r. [Label (location r), Number (price r)]) (rows c))]"

definition bhk_comparison :: "frame \<Rightarrow> ((string \<times> rat) \<times> rat option) list result" where
  "bhk_comparison c =
     (case missing_columns [Location, Bhk] c of
        [] \<Rightarrow>
          (if \<not> has_column Price c then Inl (key_error [Price])
           else Inr (aggregate (\<lambda>g. mean (numbers price g))
                  (groupby (\<lambda>r. both (location r) (bhk r)) (rows c))))
      | col # _ \<Rightarrow> Inl (key_error [col]))"

definition bhk_bars :: "frame \<Rightarrow> element list result" where
  "bhk_bars c =
     showing (bhk_comparison c)
       (\<lambda>t. [Chart Bar (map (\<lambda>((l, b), avg). [Label (Some l), Number (Some b), Number avg]) t)])"

definition area_chart :: "frame \<Rightarrow> element list result" where
  "area_chart c =
     showing (by_location Area_sqft (\<lambda>g. mean (numbers area_sqft g)) c)
       (\<lambda>t. [Chart Bar (map (\<lambda>(l, avg). [Number avg, Label (Some l)])
                (sort_values True snd t))])"

definition sqft_chart :: "frame \<Rightarrow> element list result" where
  "sqft_chart c =
     showing (by_location Price_per_sqft (\<lambda>g. fmean (somes (map price_per_sqft g))) c)
       (\<lambda>t. [Chart Bar (map (\<lambda>(l, avg). [Float avg, Label (Some l)])
                (sort_values True snd t))])"

section \<open>The table and the insights\<close>

definition table_of :: "(string \<times> stats) list \<Rightarrow> element list" where
  "table_of t =
     [Table (map (\<lambda>(l, s). [Label (Some l), whole (avg_rent s), whole (min_rent s),
                            whole (max_rent s), whole (avg_area s), cents (avg_sqft s),
                            Count (listings s)]) t)]"

definition extreme ::
  "((string \<times> rat option) list \<Rightarrow> string option) \<Rightarrow> (stats \<Rightarrow> rat option)
    \<Rightarrow> (string \<times> stats) list \<Rightarrow> string result" where
  "extreme idx col t =
     (case idx (map (\<lambda>(l, s). (l, col s)) t) of
        None \<Rightarrow> Inl (ValueError ''attempt to get argmax of an empty sequence'')
      | Some l \<Rightarrow> Inr l)"

definition loc_of :: "(string \<times> stats) list \<Rightarrow> string \<Rightarrow> stats result" where
  "loc_of t l = (case map_of t l of None \<Rightarrow> Inl (KeyError [l]) | Some s \<Rightarrow> Inr s)"

definition insights :: "(string \<times> stats) list \<Rightarrow> element list result" where
  "insights t =
     and_then (extreme idxmax avg_rent t) (\<lambda>most_expensive.
     and_then (extreme idxmin avg_rent t) (\<lambda>least_expensive.
     and_then (extreme idxmax avg_area t) (\<lambda>largest_area.
     and_then (extreme idxmax (\<lambda>s. Some (of_nat (listings s))) t) (\<lambda>most_listings.
     and_then (loc_of t most_expensive) (\<lambda>high.
     and_then (loc_of t least_expensive) (\<lambda>low.
     and_then (loc_of t largest_area) (\<lambda>large.
     and_then (loc_of t most_listings) (\<lambda>many.
       Inr [Notice Info [Label (Some most_expensive), whole (avg_rent high),
                         Label (Some least_expensive), whole (avg_rent low)],
            Notice Success [Label (Some largest_area), whole (avg_area large),
                            Label (Some most_listings), Count (listings many)]]))))))))"

section \<open>The script\<close>

definition compare_steps :: "string option list \<Rightarrow> frame \<Rightarrow> element list result list" where
  "compare_steps selected c =
     [stat_cards selected c, rent_chart c, rent_boxes c, bhk_bars c, area_chart c, sqft_chart c,
      showing (comparison_table c) table_of, and_then (comparison_table c) insights]"

definition compare_view :: "compare_state \<Rightarrow> frame \<Rightarrow> screen" where
  "compare_view st d =
     (case compare_widgets st d of
        Inl e \<Rightarrow> ([], Some e)
      | Inr (selected_locations, selected_bhk) \<Rightarrow>
          (if length selected_locations < 2 then ([Notice Warning []], None)
           else (case compare_filter selected_locations selected_bhk d of
                   Inl e \<Rightarrow> ([], Some e)
                 | Inr c \<Rightarrow>
                     (if len c = 0 then ([Notice Error []], None)
                      else render (compare_steps selected_locations c)))))"

definition compare_page :: "compare_state \<Rightarrow> world \<Rightarrow> screen" where
  "compare_page st w = compare_view st (page_load_data w)"

lemmas compare_defs =
  stat_cards_def rent_chart_def rent_boxes_def bhk_bars_def area_chart_def sqft_chart_def

section \<open>Notions used in the properties\<close>

text \<open>
  A frame the page can compare: it has the nine columns, and every listing has a
  location, a price and an area.
\<close>

definition comparable :: "frame \<Rightarrow> bool" where
  "comparable d =
     (list_all (\<lambda>c. has_column c d) all_columns
      \<and> list_all (\<lambda>r. location r \<noteq> None \<and> price r \<noteq> None \<and> area_sqft r \<noteq> None) (rows d))"

section \<open>The two tables\<close>

lemma aggregate_cong:
  "(\<And>k g. (k, g) \<in> set gs \<Longrightarrow> f g = f' g) \<Longrightarrow> aggregate f gs = aggregate f' gs"
  by (auto simp: aggregate_def)

lemma location_stats_eq_Inr_iff:
  "location_stats c = Inr t \<longleftrightarrow>
     (\<forall>col \<in> set [Location, Area_sqft, Price, Price_per_sqft]. has_column col c)
     \<and> t = aggregate (stats_of (counted price)) (groupby location (rows c))"
  using missing_columns_Nil_iff [of "[Area_sqft, Price, Price_per_sqft]" c]
  by (cases "missing_columns [Area_sqft, Price, Price_per_sqft] c")
     (auto simp: location_stats_def)

lemma comparison_table_eq_Inr_iff:
  "comparison_table c = Inr t \<longleftrightarrow>
     (\<forall>col \<in> set [Location, Area_sqft, Price, Price_per_sqft, Title]. has_column col c)
     \<and> t = aggregate (stats_of (counted title)) (groupby location (rows c))"
  using missing_columns_Nil_iff [of "[Area_sqft, Price, Price_per_sqft, Title]" c]
  by (cases "missing_columns [Area_sqft, Price, Price_per_sqft, Title] c")
     (auto simp: comparison_table_def)

text \<open>
  C12. The two aggregations of the Compare page agree: when every listing has a title
  exactly when it has a price, as after the pipeline, location_stats (which counts
  prices) equals comparison_table (which counts titles), column by column.
\<close>

theorem comparison_table_agrees:
  assumes "comparison_table c = Inr t"
    and "\<forall>r \<in> set (rows c). title r = None \<longleftrightarrow> price r = None"
  shows "location_stats c = Inr t"
proof -
  have "stats_of (counted title) g = stats_of (counted price) g"
    if "(k, g) \<in> set (groupby location (rows c))" for k g
  proof -
    from that assms(2) have "\<forall>r \<in> set g. title r = None \<longleftrightarrow> price r = None"
      by (auto simp: groupby_member)
    then have "counted title g = counted price g"
      by (induction g) (auto simp: counted_def)
    then show ?thesis by (simp add: stats_of_def)
  qed
  then have "aggregate (stats_of (counted title)) (groupby location (rows c))
      = aggregate (stats_of (counted price)) (groupby location (rows c))"
    by (rule aggregate_cong)
  with assms(1) show ?thesis
    by (simp add: comparison_table_eq_Inr_iff location_stats_eq_Inr_iff)
qed

section \<open>The statistics of a location\<close>

lemma location_stats_member:
  assumes "location_stats c = Inr t"
  shows "(l, s) \<in> set t \<longleftrightarrow>
     (\<exists>r \<in> set (rows c). location r = Some l)
     \<and> s = stats_of (counted price) (filter (\<lambda>r. location r = Some l) (rows c))"
  using assms by (auto simp: location_stats_eq_Inr_iff aggregate_member groupby_member)

theorem location_stats_ordered:
  assumes "location_stats c = Inr t" and "(l, s) \<in> set t" and "avg_rent s = Some m"
  shows "\<exists>lo hi. min_rent s = Some lo \<and> max_rent s = Some hi \<and> lo \<le> m \<and> m \<le> hi
    \<and> 0 < listings s"
proof -
  let ?g = "filter (\<lambda>r. location r = Some l) (rows c)"
  from assms(1,2) have s: "s = stats_of (counted price) ?g"
    by (simp add: location_stats_member)
  with assms(3) obtain m' where m': "mean (numbers price ?g) = Some m'" and m: "m = round2 m'"
    by (auto simp: stats_of_def)
  from mean_bounds [OF m'] obtain lo hi where "minimum (numbers price ?g) = Some lo"
    "maximum (numbers price ?g) = Some hi" "lo \<le> m'" "m' \<le> hi" by blast
  moreover from m' have "0 < counted price ?g"
    by (auto simp: counted_numbers mean_def split: if_splits)
  ultimately show ?thesis
    by (simp add: s stats_of_def m round2_mono)
qed

theorem location_stats_counts:
  assumes "location_stats c = Inr t"
  shows "(\<Sum>(l, s)\<leftarrow>t. listings s)
    = length (filter (\<lambda>r. location r \<noteq> None \<and> price r \<noteq> None) (rows c))"
proof -
  let ?gs = "groupby (\<lambda>r. if price r = None then None else location r) (rows c)"
  have count: "counted price (filter (\<lambda>r. location r = Some l) rs)
      = length (filter (\<lambda>r. (if price r = None then None else location r) = Some l) rs)"
    for l rs
    by (induction rs) (auto simp: counted_def)
  have keys: "(\<Sum>k\<leftarrow>ks. length (filter (\<lambda>r. key r = Some k) rs))
      = length (filter (\<lambda>r. \<exists>k \<in> set ks. key r = Some k) rs)"
    if "distinct ks" for ks :: "string list" and key :: "listing \<Rightarrow> string option" and rs
    using that by (rule sum_length_filter_keys)
  from assms have "(\<Sum>(l, s)\<leftarrow>t. listings s)
      = (\<Sum>l\<leftarrow>group_keys (map location (rows c)).
           counted price (filter (\<lambda>r. location r = Some l) (rows c)))"
    by (simp add: location_stats_eq_Inr_iff aggregate_def groupby_def comp_def stats_of_def)
  also have "\<dots> = length (filter (\<lambda>r. \<exists>k \<in> set (group_keys (map location (rows c))).
      (if price r = None then None else location r) = Some k) (rows c))"
    unfolding count by (rule keys) simp
  also have "\<dots> = length (filter (\<lambda>r. location r \<noteq> None \<and> price r \<noteq> None) (rows c))"
    unfolding set_group_keys_map
    by (intro arg_cong [where f = length] filter_cong) auto
  finally show ?thesis .
qed

section \<open>The widgets and the guards\<close>

lemma compare_widgets_eq_Inr_iff:
  "(\<exists>sel. compare_widgets st d = Inr sel) \<longleftrightarrow>
     has_column Location d \<and> has_column Bhk d \<and> (\<exists>ts. sorted_texts (map location (rows d)) = Inr ts)"
  by (auto simp: compare_widgets_def and_then_eq_Inr_iff series_eq_Inr_iff)

lemma compare_view_mixed_location:
  assumes "has_column Location d"
    and "None \<in> set (map location (rows d))" and "Some s \<in> set (map location (rows d))"
  shows "\<exists>m. compare_view st d = ([], Some (TypeError m))"
proof -
  from sorted_texts_mixed [OF assms(2,3)] obtain m
    where "sorted_texts (map location (rows d)) = Inl (TypeError m)"
    by blast
  with assms(1) show ?thesis
    by (simp add: compare_view_def compare_widgets_def series_def)
qed

theorem compare_first_run_selects:
  assumes "compare_widgets compare_first_run d = Inr (sl, sb)"
    and "None \<notin> set (map location (rows d))"
  shows "sl = map Some (take 3 (sort (remdups (somes (map location (rows d))))))
    \<and> set sb = set (map bhk (rows d))"
  using assms sorted_texts_complete [OF assms(2)]
  by (auto simp: compare_widgets_def and_then_eq_Inr_iff series_eq_Inr_iff compare_first_run_def
      take_map)

theorem compare_view_guards:
  assumes "compare_widgets st d = Inr (sl, sb)"
  shows "(length sl < 2 \<longrightarrow> compare_view st d = ([Notice Warning []], None))
    \<and> (2 \<le> length sl \<and> (\<forall>r \<in> set (rows d). \<not> (location r \<in> set sl \<and> bhk r \<in> set sb))
         \<longrightarrow> compare_view st d = ([Notice Error []], None))"
proof -
  from assms have cols: "missing_columns [Location, Bhk] d = []"
    using compare_widgets_eq_Inr_iff [of st d]
    by (auto simp: missing_columns_def)
  with assms show ?thesis
    by (auto simp: compare_view_def compare_filter_def select_def len_def isin_def
        filter_empty_conv)
qed

section \<open>The insights\<close>

lemma loc_of_distinct: "distinct (map fst t) \<Longrightarrow> (l, s) \<in> set t \<Longrightarrow> loc_of t l = Inr s"
  by (simp add: loc_of_def)

lemma column_member: "(l, v) \<in> set (map (\<lambda>(l, s). (l, sel s)) t) \<longleftrightarrow> (\<exists>s. (l, s) \<in> set t \<and> v = sel s)"
  by (induction t) auto

lemma extreme_idxmax:
  assumes "extreme idxmax sel t = Inr l"
  shows "\<exists>s m. (l, s) \<in> set t \<and> sel s = Some m
    \<and> (\<forall>l' s' v. (l', s') \<in> set t \<and> sel s' = Some v \<longrightarrow> v \<le> m)"
proof -
  from assms have "idxmax (map (\<lambda>(l, s). (l, sel s)) t) = Some l"
    by (auto simp: extreme_def split: option.splits)
  from idxmax_Some [OF this] show ?thesis
    unfolding column_member by metis
qed

lemma extreme_idxmin:
  assumes "extreme idxmin sel t = Inr l"
  shows "\<exists>s m. (l, s) \<in> set t \<and> sel s = Some m
    \<and> (\<forall>l' s' v. (l', s') \<in> set t \<and> sel s' = Some v \<longrightarrow> m \<le> v)"
proof -
  from assms have "idxmin (map (\<lambda>(l, s). (l, sel s)) t) = Some l"
    by (auto simp: extreme_def split: option.splits)
  from idxmin_Some [OF this] show ?thesis
    unfolding column_member by metis
qed

lemma extreme_eq_Inr_iff:
  "(\<exists>l. extreme idxmax sel t = Inr l) \<longleftrightarrow> (\<exists>l s. (l, s) \<in> set t \<and> sel s \<noteq> None)"
  "(\<exists>l. extreme idxmin sel t = Inr l) \<longleftrightarrow> (\<exists>l s. (l, s) \<in> set t \<and> sel s \<noteq> None)"
  using idxmax_eq_None_iff [of "map (\<lambda>(l, s). (l, sel s)) t"]
    idxmin_eq_None_iff [of "map (\<lambda>(l, s). (l, sel s)) t"]
  by (auto simp: extreme_def split: option.splits) force+

lemma insights_eq_Inr_iff:
  "insights t = Inr es \<longleftrightarrow>
     (\<exists>hi lo large many high low big most.
        extreme idxmax avg_rent t = Inr hi \<and> extreme idxmin avg_rent t = Inr lo
        \<and> extreme idxmax avg_area t = Inr large
        \<and> extreme idxmax (\<lambda>s. Some (of_nat (listings s))) t = Inr many
        \<and> loc_of t hi = Inr high \<and> loc_of t lo = Inr low \<and> loc_of t large = Inr big
        \<and> loc_of t many = Inr most
        \<and> es = [Notice Info [Label (Some hi), whole (avg_rent high), Label (Some lo),
                    whole (avg_rent low)],
                 Notice Success [Label (Some large), whole (avg_area big), Label (Some many),
                    Count (listings most)]])"
  unfolding insights_def and_then_eq_Inr_iff by (simp; blast)

text \<open>
  C35. When the insights of the Compare page are shown, the location named most
  expensive has the greatest and the one named most affordable the least average rent
  of the comparison table, and the amounts shown are theirs.
\<close>

theorem insights_name_extremes:
  assumes "distinct (map fst t)" and "insights t = Inr es"
  shows "\<exists>hi lo high low a b rest.
      es = [Notice Info [Label (Some hi), whole (avg_rent high), Label (Some lo), whole (avg_rent low)],
            Notice Success rest]
      \<and> (hi, high) \<in> set t \<and> (lo, low) \<in> set t
      \<and> avg_rent high = Some a \<and> avg_rent low = Some b
      \<and> (\<forall>l s v. (l, s) \<in> set t \<and> avg_rent s = Some v \<longrightarrow> b \<le> v \<and> v \<le> a)"
proof -
  from assms(2) [unfolded insights_eq_Inr_iff]
  obtain hi lo high low rest where hi: "extreme idxmax avg_rent t = Inr hi"
    and lo: "extreme idxmin avg_rent t = Inr lo"
    and high: "loc_of t hi = Inr high" and low: "loc_of t lo = Inr low"
    and es: "es = [Notice Info [Label (Some hi), whole (avg_rent high), Label (Some lo),
                     whole (avg_rent low)], Notice Success rest]"
    by blast
  from extreme_idxmax [OF hi] obtain s a where s: "(hi, s) \<in> set t" "avg_rent s = Some a"
    "\<forall>l' s' v. (l', s') \<in> set t \<and> avg_rent s' = Some v \<longrightarrow> v \<le> a" by blast
  from extreme_idxmin [OF lo] obtain s' b where s': "(lo, s') \<in> set t" "avg_rent s' = Some b"
    "\<forall>l' s'' v. (l', s'') \<in> set t \<and> avg_rent s'' = Some v \<longrightarrow> b \<le> v" by blast
  from s(1) s'(1) high low assms(1) have eq: "high = s" "low = s'"
    by (simp_all add: loc_of_distinct)
  from s(3) s'(3) have "\<forall>l s v. (l, s) \<in> set t \<and> avg_rent s = Some v \<longrightarrow> b \<le> v \<and> v \<le> a"
    by blast
  with s(1,2) s'(1,2) es show ?thesis
    unfolding eq
    by (intro exI [of _ hi] exI [of _ lo] exI [of _ s] exI [of _ s'] exI [of _ a] exI [of _ b]
        exI [of _ rest]) simp
qed

section \<open>When the page raises\<close>

lemma stats_complete:
  assumes "g \<noteq> []" and "\<forall>r \<in> set g. price r \<noteq> None \<and> area_sqft r \<noteq> None"
  shows "avg_rent (stats_of n g) \<noteq> None \<and> avg_area (stats_of n g) \<noteq> None"
  using assms by (cases g) (auto simp: stats_of_def)

lemma insights_return:
  assumes "distinct (map fst t)" and "(l, s) \<in> set t"
    and "\<And>l s. (l, s) \<in> set t \<Longrightarrow> avg_rent s \<noteq> None \<and> avg_area s \<noteq> None"
  shows "\<exists>es. insights t = Inr es"
proof -
  from assms(2,3) have "\<exists>a. extreme idxmax avg_rent t = Inr a"
    "\<exists>b. extreme idxmin avg_rent t = Inr b" "\<exists>c. extreme idxmax avg_area t = Inr c"
    "\<exists>d. extreme idxmax (\<lambda>s. Some (of_nat (listings s))) t = Inr d"
    unfolding extreme_eq_Inr_iff by blast+
  then obtain a b c d where ex: "extreme idxmax avg_rent t = Inr a"
    "extreme idxmin avg_rent t = Inr b" "extreme idxmax avg_area t = Inr c"
    "extreme idxmax (\<lambda>s. Some (of_nat (listings s))) t = Inr d"
    by blast
  from extreme_idxmax [OF ex(1)] extreme_idxmin [OF ex(2)] extreme_idxmax [OF ex(3)]
    extreme_idxmax [OF ex(4)] assms(1)
  obtain sa sb sc sd where "loc_of t a = Inr sa" "loc_of t b = Inr sb" "loc_of t c = Inr sc"
    "loc_of t d = Inr sd"
    by (metis loc_of_distinct)
  with ex show ?thesis unfolding insights_eq_Inr_iff by blast
qed

lemma compare_view_comparable:
  assumes "comparable d"
  shows "snd (compare_view st d) = None"
proof -
  from assms have cols: "\<forall>col. has_column col d"
    and full: "\<forall>r \<in> set (rows d). location r \<noteq> None \<and> price r \<noteq> None \<and> area_sqft r \<noteq> None"
    by (simp_all add: comparable_def list_all_iff)
  from full have "None \<notin> set (map location (rows d))" by auto
  from sorted_texts_complete [OF this] cols obtain sl sb where w: "compare_widgets st d = Inr (sl, sb)"
    using compare_widgets_eq_Inr_iff [of st d] by auto
  let ?c = "select (\<lambda>r. isin (location r) sl \<and> isin (bhk r) sb) d"
  from cols have f: "compare_filter sl sb d = Inr ?c"
    by (simp add: compare_filter_def missing_columns_def)
  have ccols: "\<forall>col. has_column col ?c" and sub: "set (rows ?c) \<subseteq> set (rows d)"
    using cols by (auto simp: select_def has_column_def)
  let ?t = "aggregate (stats_of (counted title)) (groupby location (rows ?c))"
  have t: "comparison_table ?c = Inr ?t"
    using ccols by (simp add: comparison_table_eq_Inr_iff)
  have "\<exists>es. insights ?t = Inr es" if "len ?c \<noteq> 0"
  proof -
    from that have "rows ?c \<noteq> []" by (simp add: len_def)
    then obtain r where r: "r \<in> set (rows ?c)" by (meson last_in_set)
    with sub full obtain l where "location r = Some l" by blast
    with r have "(l, stats_of (counted title) (filter (\<lambda>r. location r = Some l) (rows ?c))) \<in> set ?t"
      by (auto simp: aggregate_member groupby_member)
    moreover have "avg_rent s \<noteq> None \<and> avg_area s \<noteq> None" if "(l', s) \<in> set ?t" for l' s
    proof -
      from that obtain g where g: "(l', g) \<in> set (groupby location (rows ?c))"
        and s: "s = stats_of (counted title) g"
        by (auto simp: aggregate_member)
      from g have "g \<noteq> []" by (rule group_not_empty)
      moreover from g sub full have "\<forall>r \<in> set g. price r \<noteq> None \<and> area_sqft r \<noteq> None"
        by (meson group_rows subsetD)
      ultimately show ?thesis unfolding s by (rule stats_complete)
    qed
    ultimately show ?thesis by (intro insights_return [of ?t l]) simp_all
  qed
  with w f t ccols show ?thesis
    by (auto simp: compare_view_def render_no_error_iff compare_steps_def compare_defs
        location_stats_eq_Inr_iff by_location_def bhk_comparison_def missing_columns_def
        showing_eq_Inr_iff)
qed

section \<open>The properties at the sample frame\<close>

lemma comparable_sample: "comparable (sample_frame page_rows)"
  by (simp add: comparable_def all_columns_def dashboard_eval)

lemma comparison_table_sample:
  "comparison_table (sample_frame page_rows)
     = Inr (aggregate (stats_of (counted title))
         (groupby location (rows (sample_frame page_rows))))"
  by (simp add: comparison_table_eq_Inr_iff dashboard_eval)

theorem comparison_table_agrees_witness:
  "location_stats (sample_frame page_rows)
     = Inr (aggregate (stats_of (counted title))
         (groupby location (rows (sample_frame page_rows))))"
  by (rule comparison_table_agrees [OF comparison_table_sample]) (simp add: dashboard_eval)

text \<open>
  \<open>two_places\<close> is a table of two locations, as \<open>comparison_table\<close> builds it from four
  listings.
\<close>

definition two_places :: "(string \<times> stats) list" where
  "two_places =
     [(''Dwarka'', \<lparr>avg_rent = Some 28000, min_rent = Some 26000, max_rent = Some 30000,
                     listings = 2, avg_area = Some 1100, avg_sqft = Some (Fin (2545 / 100))\<rparr>),
      (''Saket'', \<lparr>avg_rent = Some 68000, min_rent = Some 66000, max_rent = Some 70000,
                    listings = 2, avg_area = Some 2200, avg_sqft = Some (Fin (3091 / 100))\<rparr>)]"

lemma insights_two_places:
  "insights two_places
     = Inr [Notice Info [Label (Some ''Saket''), Whole (Some 68000), Label (Some ''Dwarka''),
                         Whole (Some 28000)],
            Notice Success [Label (Some ''Saket''), Whole (Some 2200), Label (Some ''Dwarka''),
                            Count 2]]"
  by (simp add: insights_def extreme_def idxmax_def idxmin_def maximum_def minimum_def loc_of_def
      two_places_def whole_def)

theorem insights_name_extremes_witness:
  "\<exists>hi lo high low a b rest.
      [Notice Info [Label (Some ''Saket''), Whole (Some 68000), Label (Some ''Dwarka''),
                    Whole (Some 28000)],
       Notice Success [Label (Some ''Saket''), Whole (Some 2200), Label (Some ''Dwarka''), Count 2]]
        = [Notice Info [Label (Some hi), whole (avg_rent high), Label (Some lo), whole (avg_rent low)],
           Notice Success rest]
      \<and> (hi, high) \<in> set two_places \<and> (lo, low) \<in> set two_places
      \<and> avg_rent high = Some a \<and> avg_rent low = Some b \<and> b \<le> a"
  using insights_name_extremes [OF _ insights_two_places]
  by (simp add: two_places_def)

lemma compare_widgets_sample:
  "compare_widgets \<lparr>picked_locations = Some [Some ''Saket''], picked_bhk = Some [Some 3]\<rparr>
      (sample_frame page_rows)
     = Inr ([Some ''Saket''], [Some 3])"
  using sorted_texts_complete [of "map location (rows (sample_frame page_rows))"]
  by (simp add: compare_widgets_def series_def dashboard_eval)

theorem compare_view_guards_witness:
  "compare_view \<lparr>picked_locations = Some [Some ''Saket''], picked_bhk = Some [Some 3]\<rparr>
      (sample_frame page_rows)
     = ([Notice Warning []], None)"
  using compare_view_guards [OF compare_widgets_sample] by simp

end
