(* ===== verification/Spec2Isabelle.thy ===== *)
theory Spec2Isabelle
  imports Pipeline Geocoder Scraper Home_Page Explorer_Page Compare_Page
begin

text \<open>
  \<^bold>\<open>RentMap: a verification development.\<close>

  RentMap collects rental listings, cleans them, attaches coordinates to them and shows them
  in a dashboard. Its parts are Python scripts that meet in two CSV files: the scraper
  writes \<open>data/raw/raw_rentals.csv\<close>; the processor reads it and writes
  \<open>data/processed/rentals_processed.csv\<close>; the geocoder adds two columns to that file; the
  dashboard reads it and shows it on three pages. This development models the four parts
  and the files between them, and proves what each part guarantees and what the parts
  guarantee to each other.

  \<^bold>\<open>The theories.\<close>

  \<^descr>[\<open>Rentmap_Prelude\<close>] The exceptions as the datatype \<open>error\<close>, results \<open>error + 'a\<close> with
    \<open>and_then\<close>, the fact collections, and lemmas on lists, options and rationals.
  \<^descr>[\<open>Numerics\<close>] What pandas computes on a numeric column: \<open>quantile\<close> with linear
    interpolation, \<open>median\<close>, \<open>modes\<close> (the most frequent values in ascending order, so
    that \<open>mode()[0]\<close> is the least of them), \<open>round2\<close> (round half to even on hundredths),
    \<open>fdiv\<close> (division of floats, with infinities and NaN; the floats \<open>fnum\<close> are a linear
    order, so that they can be sorted and compared). The lemmas give bounds and
    monotonicity of the quantiles, and the facts about the fences \<open>Q1 - 3 IQR\<close> and
    \<open>Q3 + 3 IQR\<close> that the outlier filter rests on.
  \<^descr>[\<open>Text\<close>] \<open>str.strip\<close>, \<open>re.sub(r'\s+', ' ', s)\<close> and \<open>str.title\<close> on ASCII text, with
    idempotence of each and of their compositions \<open>clean_text\<close> and \<open>clean_location\<close>.
  \<^descr>[\<open>Frame\<close>] The data model: a \<open>listing\<close> is a record of the nine columns the program
    names, each optional (\<open>None\<close> is NaN); a \<open>frame\<close> is a list of column labels and a list
    of listings. \<open>drop_duplicates\<close>, \<open>dropna\<close>, \<open>select\<close> and \<open>assign\<close> are the pandas
    operations, with \<open>KeyError\<close> for a missing column; \<open>wf_frame\<close> says that values sit
    in listed columns only.
  \<^descr>[\<open>World\<close>] What the scripts share: tables and caches by path, directories,
    standard output, seconds slept, and numpy's generator; \<open>to_csv\<close> and \<open>read_csv\<close> with
    what a CSV file keeps of a frame. A method is an \<open>action\<close>: a function from the
    object and the world to an \<open>outcome\<close>, the object and the world.
  \<^descr>[\<open>Data_Processor\<close>] \<open>src/src/data_processor.py\<close>: the class \<open>DataProcessor\<close>, one
    definition per method under the method's name, and the \<open>__main__\<close> block as \<open>main\<close>.
    For every stage: the characteristic equations of the method (when it returns, when
    it raises, and what it leaves in the object), the guarantee of the stage, and
    preservation of \<open>wf_frame\<close>.
  \<^descr>[\<open>Pipeline\<close>] \<open>process_all\<close> as the function \<open>pipeline\<close> on frames, the proof that the
    method computes it (\<open>process_all_run\<close>), and the guarantees of a whole run.
  \<^descr>[\<open>Geocoder\<close>] \<open>src/src/geocoder.py\<close>: the class \<open>LocationGeocoder\<close>. The cache, the
    three attempts of \<open>geocode_location\<close> with their sleeps, \<open>geocode_dataframe\<close> with
    its fallback coordinates, \<open>add_sample_coordinates\<close>, and the \<open>__main__\<close> block.
  \<^descr>[\<open>Scraper\<close>] \<open>src/src/scraper.py\<close>: the class \<open>RentalScraper\<close>. The three extractors
    with their regular expressions, \<open>parse_listing\<close>, the loop over the pages, saving.
  \<^descr>[\<open>Aggregate\<close>] The calls of pandas that the pages make on a frame: a column as a
    \<open>series\<close> (or \<open>KeyError\<close>), \<open>mean\<close>, \<open>minimum\<close>, \<open>maximum\<close>, \<open>nunique\<close>,
    \<open>sorted(unique())\<close> as \<open>sorted_texts\<close> and \<open>sorted_numbers\<close>, \<open>groupby\<close> with
    \<open>aggregate\<close>, \<open>sort_values\<close>, \<open>idxmax\<close> and \<open>idxmin\<close>. The lemmas are the facts
    about them that the pages rest on: the mean lies between the minimum and the
    maximum, the groups partition the rows that have a key, sorting permutes and
    orders, \<open>idxmax\<close> names a greatest value.
  \<^descr>[\<open>Dashboard\<close>] What \<open>src/app.py\<close> and the pages under \<open>src/pages\<close> share: the
    \<open>load_data\<close> functions with their sample frames, the filters, the marker colours, the
    listing tables, the widgets, and the \<open>screen\<close> a script leaves: the \<open>element\<close>s its
    steps showed before the first exception, and that exception (\<open>render\<close>).
  \<^descr>[\<open>Home_Page\<close>] The script of \<open>src/app.py\<close>: \<open>home_steps\<close> lists its steps (sidebar
    statistics, the four cards, the chart by bhk, \<open>top_locations\<close>, the table of the first
    ten listings), \<open>home_page\<close> loads the frame and renders them.
  \<^descr>[\<open>Explorer_Page\<close>] The script of the Explorer page: \<open>explorer_widgets\<close> (options and
    defaults of the five widgets), \<open>filtered_df\<close>, the four metrics, \<open>map_view\<close> with
    \<open>heat_data\<close> and \<open>markers\<close>, the two charts and the table; \<open>explorer_view\<close> is the
    script on a frame, \<open>explorer_page\<close> the script after \<open>load_data\<close>.
  \<^descr>[\<open>Compare_Page\<close>] The script of the Compare page: \<open>compare_widgets\<close>, the two guards
    that end the script with \<open>st.stop()\<close>, \<open>location_stats\<close> and its cards, the five
    charts, \<open>comparison_table\<close> and the \<open>insights\<close>; \<open>compare_view\<close> and \<open>compare_page\<close> as
    for the Explorer.
  \<^descr>[\<open>Spec2Isabelle\<close>] This theory: the properties that span components.

  \<^bold>\<open>How the model corresponds to the code.\<close>

  \<^item> A method that can raise is an \<open>action\<close> and returns \<open>Raised e\<close> with the object and
    the world as they are at the \<open>raise\<close>; a method that catches what it may raise
    (\<open>geocode_location\<close>, \<open>parse_listing\<close>, \<open>scrape_page\<close>) is a function to its value.
  \<^item> A loop is a \<open>fold\<close> or a primitive recursion over the list it runs through; the
    retry loop of the geocoder is \<open>attempts\<close>, a recursion on the attempts left, started
    with \<open>max_retries = 3\<close>. No fuel is used anywhere: every definition is total.
  \<^item> A printed line is the list of the pieces of its f-string, so that the numbers in
    the output can be stated.
  \<^item> The services outside the program are functions held by the objects: the geocoding
    service answers an address at the \<open>n\<close>-th request, the web site answers a URL.
  \<^item> A page is a script that Streamlit runs from the top at every interaction. A run
    is a function from the state of the widgets (\<open>explorer_state\<close>, \<open>compare_state\<close>:
    for each widget \<open>None\<close> before the user has touched it, the stored choice afterwards)
    and the frame to a \<open>screen\<close>. A statement that shows something is a step, a value
    of \<open>element list result\<close>: the elements with the values computed from the frame and
    the format they are shown in (\<open>whole\<close> for \<open>.0f\<close>, \<open>cents\<close> for \<open>.2f\<close>), or the
    exception the statement raises. An uncaught exception ends the run with what was
    shown before it; \<open>st.stop()\<close> ends it without an exception.

  \<^bold>\<open>What the lemmas show.\<close>

  \<^item> Stage by stage (\<open>Data_Processor\<close>): after \<open>remove_duplicates\<close> the keys are
    distinct and the first occurrences are kept; after \<open>handle_missing_values\<close> the
    critical fields are present and the optional ones are imputed from the statistics
    of the kept rows; \<open>clean_price\<close> keeps exactly the rows inside the fences, removes
    nothing from at most four prices and never removes a price between the quartiles;
    \<open>clean_text_fields\<close> is idempotent; the derived metric is the rounded ratio; the
    furnishing backfill draws from the three options; \<open>validate_data\<close> reports exactly
    the issues that are there and changes nothing.
  \<^item> End to end (\<open>Pipeline\<close>): refinement of \<open>process_all\<close> to \<open>pipeline\<close>, the invariants
    of the result, the printed report, and the one invariant of the specification that
    does not hold: \<open>duplicates_survive\<close> says exactly when the result has two rows with
    the same title and location.
  \<^item> Geocoder: a cached location costs no request; a call makes at most three requests
    and sleeps at most six seconds; every row with a location gets coordinates.
  \<^item> Scraper: \<open>extract_price\<close> and \<open>extract_bhk\<close> never raise, \<open>extract_area\<close> raises
    exactly on a run of commas, and \<open>parse_listing\<close> turns that into a dropped listing.
  \<^item> Pages: for each page the frames on which it raises nothing
    (\<open>home_steps_return_iff\<close>, \<open>explorer_view_presentable\<close>, \<open>compare_view_comparable\<close>) and
    the exceptions on the others: \<open>TypeError\<close> from \<open>sorted\<close> when a text column mixes
    missing values and strings, \<open>ValueError\<close> from \<open>int(nan)\<close> on a frame without a
    price, \<open>KeyError\<close> for a column the frame lacks. What is shown is right: the range
    card brackets the average, \<open>top_locations\<close> holds the highest averages in
    descending order, the first run of the Explorer filters nothing out, the markers
    are the filtered listings, the two aggregations of the Compare page agree
    (\<open>comparison_table_agrees\<close>), the insights name the extremes.
  \<^item> Files (\<open>World\<close>): \<open>read_csv\<close> of what \<open>to_csv\<close> wrote is \<open>parse_frame\<close> of the
    frame, which is idempotent, keeps numbers, columns and the number of rows, and is
    the identity exactly on the frames without a text of \<open>na_values\<close> (\<open>survives_csv\<close>).
  \<^item> Across components (below): a scrape that fetches nothing gives a frame on which the
    pipeline raises \<open>KeyError\<close>; what the processor loads from the file of the scraper
    is the parsed frame, or \<open>EmptyDataError\<close> for a frame without columns; a location
    that the file does not keep makes the Explorer and the Compare page raise
    (\<open>unreadable_location_breaks_pages\<close>);
    what the pipeline returns is shown by the three pages once the geocoder has added
    the coordinates (\<open>pipeline_output_is_shown\<close>), and before that the Explorer page
    raises \<open>KeyError\<close> for \<open>latitude\<close>; after the example runs of the processor and the
    geocoder the dashboard loads a frame of eight rows and the three pages show it.

  \<^bold>\<open>Assumptions.\<close>

  \<^item> Numbers are exact rationals. pandas computes in binary floating point, so a printed
    value can differ from the model in its last digits; the order of values, the
    quartile interpolation and the rounding rule are those of pandas.
  \<^item> Text is ASCII: the character classes of \<open>str.strip\<close>, \<open>\s\<close>, \<open>\d\<close> and \<open>str.title\<close>
    are their restrictions to code points below 128.
  \<^item> A CSV file holds the frame written; \<open>read_csv\<close> returns it with every text of
    \<open>na_values\<close> (the empty text, \<open>N/A\<close>, \<open>None\<close>, ...) read as a missing value, and raises
    \<open>EmptyDataError\<close> for the file of a frame without columns. What pandas infers beyond
    that is not modelled: a text column whose fields all read as numbers or truth values
    comes back with that type, and a text with a carriage return is split. Frames with
    such cells are outside the model, as are encodings and the rounding of floats in
    the file.
  \<^item> \<open>drop_duplicates\<close> and \<open>dropna\<close> name the missing columns of their subset in the order
    of the subset; pandas builds the \<open>KeyError\<close> from a set, so the order of the labels
    in it is not fixed. Only \<open>empty_scrape_breaks_pipeline\<close> states such a payload.
  \<^item> \<open>st.slider\<close> returns its default or the stored choice for every pair of limits.
    The Explorer page passes \<open>min_value = max_value\<close> when the prices of the file all
    coincide (a file with one listing, for instance); a version of Streamlit that
    rejects such limits raises there. \<open>pipeline_output_is_shown\<close>,
    \<open>explorer_first_run_shows_all\<close> and \<open>explorer_view_presentable\<close> are stated for all
    frames and hold of such a version for frames with two different prices, as the
    samples are.
  \<^item> \<open>Path.mkdir(parents=True, exist_ok=True)\<close> succeeds (no file in the way, no missing
    permission); \<open>int\<close> converts every run of digits (CPython refuses more than 4300
    digits); the geocoding service answers with a place, with nothing, or with one of
    the two exceptions \<open>geocode_location\<close> catches, and writing the cache does not fail.
  \<^item> \<open>fillna(..., inplace=True)\<close> on a column updates the frame, as in pandas without
    copy-on-write.
  \<^item> The columns of a frame are among the nine of \<open>column\<close>, with the types the program
    gives them.
  \<^item> pandas as documented: statistics skip missing values; \<open>groupby\<close> drops the rows
    without a key and lists the groups by ascending key; \<open>sort_values\<close> puts missing
    values last and, among equal values, keeps the order of the rows (pandas sorts with
    quicksort, which promises no order among equal values: what
    \<open>top_locations_highest\<close> states holds for every such order); \<open>idxmax\<close> of a column
    without a value does not give a label, so that the lookup after it raises. \<open>sorted\<close> of numbers with a missing value among
    them returns an order that depends on the position of that value: \<open>sorted_numbers\<close>
    keeps the order of \<open>unique\<close> there, and no lemma depends on the order of the options.
  \<^item> The stored choice of a widget is arbitrary, while Streamlit keeps it within the
    options: what holds for every state of the widgets holds for those that occur.
  \<^item> folium and plotly accept what they are given. (folium rejects a missing
    coordinate; after the geocoder no coordinate is missing.)

  \<^bold>\<open>Not modelled.\<close> How streamlit, folium and plotly draw what they are given; the page
  configuration, the style sheets, the constant text and HTML of the pages and their
  layout in columns; \<open>st.cache_data\<close> (a call of \<open>load_data\<close> is one evaluation); the move
  of a slider in steps of 1000; the HTTP session and the HTML parser behind
  \<open>scrape_page\<close>; the JSON text of the cache file; imports and docstrings. These parts
  compute no value from the data, or are libraries the sources only call.
\<close>


section \<open>From the scraper to the processor\<close>


text \<open>
  C30. What load_data of the processor reads from the file that save_data of the
  scraper wrote: for a frame without columns, as after a scrape that fetched nothing,
  load_data raises EmptyDataError and leaves the processor as it was; otherwise it
  returns and stores the saved frame in which every text that pandas reads as a missing
  value is one.
\<close>

theorem scraped_data_is_loaded:
  assumes "save_data d filename scr w = (Returned path, scr', w')"
  shows "load_data (Some path) self w'
    = (if columns d = []
       then (Raised (EmptyDataError ''No columns to parse from file''), self, w')
       else (Returned (parse_frame d), self\<lparr>df := Some (parse_frame d)\<rparr>, w'))"
proof -
  from assms obtain w1 w2 where "to_csv path d w1 = Inr w2" and "tables w' = tables w2"
    and "path \<noteq> []"
    by (auto simp: save_data_def Let_def path_join_def split: sum.splits)
  with read_csv_to_csv [OF this(1)] show ?thesis
    by (simp add: load_data_def chosen_file_def truthy_def read_csv_def)
qed

section \<open>From the processor to the dashboard\<close>

lemma raw_file_written:
  "to_csv ''data/raw/raw_rentals.csv'' d (mkdir_p ''data/raw'' w)
     = Inr ((mkdir_p ''data/raw'' w)\<lparr>tables := (tables w)(''data/raw/raw_rentals.csv'' \<mapsto> d)\<rparr>)"
  using ancestors_self [of "''data/raw''"] by (simp add: to_csv_def parent_def)

lemma save_processed_data_Returned:
  assumes "save_processed_data ''rentals_processed.csv'' self w = (Returned path, self', w')"
  shows "path = processed_file \<and> self' = self \<and> tables w' processed_file = df self"
  using assms ancestors_self [of "''data/processed''"]
  by (auto simp: save_processed_data_def Let_def path_join_def to_csv_def processed_file_def
      parent_def split: option.splits if_splits)

lemma survives_csv_sample_data: "survives_csv sample_data"
  by (simp add: survives_csv_def readable_text_def na_values_def sample_data_def sample_row_def
      blank_listing_def)

lemma load_sample_data:
  "tables w2 ''data/raw/raw_rentals.csv'' = Some sample_data \<Longrightarrow>
   load_data None (init (Some ''data/raw/raw_rentals.csv'')) w2
     = (Returned sample_data, (init (Some ''data/raw/raw_rentals.csv''))\<lparr>df := Some sample_data\<rparr>,
        w2)"
  by (simp add: load_data_def chosen_file_def truthy_def init_def
      read_csv_stored [OF _ survives_csv_sample_data])

lemma main_Returned:
  assumes "main w = (Returned path, self, w1)"
  shows "\<exists>wx d'. pipeline wx sample_data = Inr d' \<and> tables w1 processed_file = Some d'
    \<and> df self = Some d' \<and> path = processed_file"
proof -
  let ?w2 = "(mkdir_p ''data/raw'' w)
    \<lparr>tables := (tables w)(''data/raw/raw_rentals.csv'' \<mapsto> sample_data)\<rparr>"
  let ?self = "(init (Some ''data/raw/raw_rentals.csv''))\<lparr>df := Some sample_data\<rparr>"
  have load: "load_data None (init (Some ''data/raw/raw_rentals.csv'')) ?w2
      = (Returned sample_data, ?self, ?w2)"
    by (rule load_sample_data) simp
  obtain self3 w3 where run: "process_all ?self ?w2 = (outcome_of (pipeline ?w2 sample_data), self3, w3)"
    and self3: "\<forall>d'. pipeline ?w2 sample_data = Inr d' \<longrightarrow> self3 = ?self\<lparr>df := Some d'\<rparr>"
    using process_all_run [of ?self sample_data ?w2] by auto
  show ?thesis
  proof (cases "pipeline ?w2 sample_data")
    case (Inl e)
    with assms load run show ?thesis
      by (simp add: main_def raw_file_written Let_def)
  next
    case (Inr d')
    with self3 have s3: "self3 = ?self\<lparr>df := Some d'\<rparr>" by simp
    from assms load run Inr obtain self4 w4 where
      "save_processed_data ''rentals_processed.csv'' self3 w3 = (Returned path, self4, w4)"
      and "self = self4" "tables w1 = tables w4"
      by (auto simp: main_def raw_file_written Let_def bind_eq_Returned_iff printing_def
          returns_def current_df_def split: option.splits)
    with save_processed_data_Returned [of self3 w3 path self4 w4] s3 Inr show ?thesis
      by auto
  qed
qed

lemma pipeline_display_columns:
  assumes "pipeline wx d = Inr d'" and "has_column Bhk d" and "has_column Area_sqft d"
  shows "has_column c d' \<longleftrightarrow> has_column c d \<or> c = Furnishing \<or> c = Price_per_sqft"
proof -
  from assms(1) obtain f where f: "resolve d = Inr f" and d': "d' = enrich wx f"
    by (auto simp: pipeline_eq_Inr_iff)
  from has_column_resolve [OF f] assms(2,3) show ?thesis
    by (auto simp: d' has_column_enrich)
qed

lemma add_sample_coordinates_Returned:
  assumes "add_sample_coordinates (g, d0) w = (Returned d, st, w')"
  shows "d = sample_coordinates (blank_coordinates d0) \<and> has_column Location d0 \<and> w' = w
    \<and> st = (g, d)"
  using assms by (auto simp: add_sample_coordinates_def Let_def split: if_splits)

lemma fill_missing_coords_simps [simp]:
  "price (fill_missing_coords r) = price r" "location (fill_missing_coords r) = location r"
  "latitude (fill_missing_coords r) \<noteq> None"
  "latitude r = None \<longleftrightarrow> longitude r = None \<Longrightarrow> longitude (fill_missing_coords r) \<noteq> None"
  by (simp_all add: fill_missing_coords_def del: not_None_eq)

lemma sample_coordinates_simps:
  "columns (sample_coordinates x) = columns x" "len (sample_coordinates x) = len x"
  "i < len x \<Longrightarrow> rows (sample_coordinates x) ! i
     = fill_missing_coords
         (located (map (\<lambda>(loc, coords). (Some loc, coords)) delhi_coords) (rows x ! i))"
  by (simp_all add: sample_coordinates_def Let_def len_def)

lemma has_column_sample_coordinates [simp]:
  "has_column c (sample_coordinates x) = has_column c x"
  by (simp add: has_column_def sample_coordinates_simps)

lemma located_both:
  assumes "latitude r = None \<longleftrightarrow> longitude r = None"
  shows "latitude (located entries r) = None \<longleftrightarrow> longitude (located entries r) = None"
  using located_coords [of entries r] assms by (auto split: option.splits if_splits)

lemma geocoder_main_Returned:
  assumes "geocoder_main service w1 = (Returned (), w2)"
  shows "\<exists>d0. tables w1 processed_file = Some d0 \<and> columns d0 \<noteq> [] \<and> has_column Location d0
    \<and> tables w2 processed_file
        = Some (sample_coordinates (blank_coordinates (parse_frame d0)))"
proof -
  from assms obtain d1 where d1: "read_csv ''data/processed/rentals_processed.csv'' w1 = Inr d1"
    by (auto simp: geocoder_main_def split: sum.splits)
  then obtain d0 where d0: "tables w1 processed_file = Some d0" "columns d0 \<noteq> []"
    "d1 = parse_frame d0"
    by (auto simp: read_csv_eq_Inr_iff processed_file_def)
  let ?g = "new_geocoder service ''data/geocode_cache.json'' w1"
  from assms d1 obtain d st w' where a: "add_sample_coordinates (?g, d1) w1 = (Returned d, st, w')"
    by (auto simp: geocoder_main_def split: prod.splits outcome.splits)
  from add_sample_coordinates_Returned [OF a] assms d1 a d0 show ?thesis
    by (auto simp: geocoder_main_def processed_file_def to_csv_def split: sum.splits if_splits)
qed

text \<open>
  C26. When the example run of the processor and then that of the geocoder return, the
  dashboard loads from the processed file a frame with one row for every row the
  processor kept, with the same prices, with every column its listing tables select,
  and with coordinates in every row.
\<close>

theorem processed_file_reaches_dashboard:
  assumes "main w = (Returned path, self, w1)"
    and "geocoder_main service w1 = (Returned (), w2)"
  shows "\<exists>d0 d. df self = Some d0 \<and> app_load_data w2 = (Inr d, w2) \<and> page_load_data w2 = d
    \<and> (\<exists>shown. display_df d = Inr shown) \<and> len d = len d0
    \<and> (\<forall>i < len d. price (rows d ! i) = price (rows d0 ! i)
          \<and> latitude (rows d ! i) \<noteq> None \<and> longitude (rows d ! i) \<noteq> None)"
proof -
  from main_Returned [OF assms(1)] obtain wx d0 where p: "pipeline wx sample_data = Inr d0"
    and t1: "tables w1 processed_file = Some d0" and self: "df self = Some d0"
    by blast
  let ?x = "sample_coordinates (blank_coordinates (parse_frame d0))"
  let ?d = "parse_frame ?x"
  from geocoder_main_Returned [OF assms(2)] t1 have t2: "tables w2 processed_file = Some ?x"
    by auto
  have "has_column Latitude ?x" by simp
  then have "columns ?x \<noteq> []" by (rule has_column_columns)
  with t2
  have load: "app_load_data w2 = (Inr ?d, w2)" "page_load_data w2 = ?d"
    by (simp_all add: app_load_data_present page_load_data_present)
  have sample: "has_column c sample_data \<longleftrightarrow> c \<in> {Title, Price, Location, Bhk, Area_sqft}" for c
    by (auto simp: sample_data_def has_column_def)
  have cols: "\<forall>c \<in> set display_columns. has_column c ?d"
    using pipeline_display_columns [OF p] by (simp add: display_columns_def sample)
  have "latitude (rows ?d ! i) \<noteq> None \<and> longitude (rows ?d ! i) \<noteq> None
      \<and> price (rows ?d ! i) = price (rows d0 ! i)" if "i < len d0" for i
  proof -
    from that have "i < len (blank_coordinates (parse_frame d0))" "i < length (rows ?x)"
      using sample_coordinates_simps(2) [of "blank_coordinates (parse_frame d0)"]
      by (simp_all add: len_def)
    then show ?thesis
      using that
      by (simp add: sample_coordinates_simps len_def located_both del: not_None_eq)
  qed
  with self load cols show ?thesis
    by (simp add: display_df_eq_Inr_iff sample_coordinates_simps del: not_None_eq)
qed

section \<open>The pages on the output of the pipeline\<close>

lemma fill_missing_coords_fields [simp]:
  "title (fill_missing_coords r) = title r" "bhk (fill_missing_coords r) = bhk r"
  "area_sqft (fill_missing_coords r) = area_sqft r"
  "furnishing (fill_missing_coords r) = furnishing r"
  "price_per_sqft (fill_missing_coords r) = price_per_sqft r"
  by (simp_all add: fill_missing_coords_def)

lemma coordinates_keep:
  "map price (rows (sample_coordinates (blank_coordinates d))) = map price (rows d)"
  "map location (rows (sample_coordinates (blank_coordinates d))) = map location (rows d)"
  "map furnishing (rows (sample_coordinates (blank_coordinates d))) = map furnishing (rows d)"
  "map area_sqft (rows (sample_coordinates (blank_coordinates d))) = map area_sqft (rows d)"
  "map title (rows (sample_coordinates (blank_coordinates d))) = map title (rows d)"
  by (simp_all add: sample_coordinates_def Let_def comp_def)

lemma coordinates_columns:
  "has_column c (sample_coordinates (blank_coordinates d))
     \<longleftrightarrow> c = Latitude \<or> c = Longitude \<or> has_column c d"
  by simp

lemma survives_csv_coordinates:
  "survives_csv d \<Longrightarrow> survives_csv (sample_coordinates (blank_coordinates d))"
  unfolding survives_csv_iff coordinates_keep
  by (simp add: has_column_columns [of Latitude])

lemma pipeline_rows:
  assumes "pipeline wx d = Inr d'" and "r' \<in> set (rows d')"
  shows "price r' \<noteq> None \<and> location r' \<noteq> None \<and> title r' \<noteq> None
    \<and> (\<not> has_column Furnishing d \<longrightarrow> furnishing r' \<noteq> None)"
proof -
  from assms(1) obtain f where f: "resolve d = Inr f" and d': "d' = enrich wx f"
    by (auto simp: pipeline_eq_Inr_iff)
  from assms(2) [unfolded d'] obtain r where r: "r \<in> set (rows f)"
    and r': "(has_column Furnishing f \<and> r' = final_row f r)
       \<or> (\<not> has_column Furnishing f
          \<and> (\<exists>v \<in> set furnishing_options. r' = (final_row f r)\<lparr>furnishing := Some v\<rparr>))"
    by (rule enrich_rowE)
  from resolve_rows(1) [OF f] r have "has_critical r" by (simp add: list_all_iff)
  with r' has_column_resolve(1) [OF f, of Furnishing] show ?thesis
    by (auto simp: has_critical_def)
qed

lemma pipeline_columns:
  assumes "pipeline wx d = Inr d'" and "has_column Bhk d" and "has_column Area_sqft d"
  shows "\<forall>c. has_column c (sample_coordinates (blank_coordinates d'))"
proof -
  from assms(1) obtain f where f: "resolve d = Inr f" and d': "d' = enrich wx f"
    by (auto simp: pipeline_eq_Inr_iff)
  from has_column_resolve [OF f] assms(2,3) pipeline_display_columns [OF assms]
  show ?thesis
    by (intro allI) (case_tac c, simp_all)
qed

lemma pipeline_output_presentable:
  assumes "pipeline wx d = Inr d'" and "has_column Bhk d" and "has_column Area_sqft d"
    and "\<not> has_column Furnishing d" and "rows d' \<noteq> []"
  shows "presentable (sample_coordinates (blank_coordinates d'))"
proof -
  note rows = pipeline_rows [OF assms(1)]
  from rows assms(4) have "None \<notin> set (map location (rows d'))"
    "None \<notin> set (map furnishing (rows d'))"
    by force+
  moreover from rows assms(5) have "numbers price (rows d') \<noteq> []"
    by (cases "rows d'") (force simp: numbers_def)+
  ultimately show ?thesis
    using pipeline_columns [OF assms(1-3)]
    by (simp add: presentable_def sortable_def coordinates_keep numbers_def list_all_iff)
qed

lemma pipeline_output_comparable:
  assumes "pipeline wx d = Inr d'" and "has_column Bhk d" and "has_column Area_sqft d"
    and "\<forall>r \<in> set (rows d'). area_sqft r \<noteq> None"
  shows "comparable (sample_coordinates (blank_coordinates d'))"
proof -
  let ?x = "sample_coordinates (blank_coordinates d')"
  have "location r \<noteq> None \<and> price r \<noteq> None \<and> area_sqft r \<noteq> None"
    if "r \<in> set (rows ?x)" for r
  proof -
    from that have "location r \<in> set (map location (rows ?x))"
      "price r \<in> set (map price (rows ?x))" "area_sqft r \<in> set (map area_sqft (rows ?x))"
      by simp_all
    with pipeline_rows [OF assms(1)] assms(4) show ?thesis
      unfolding coordinates_keep by fastforce
  qed
  with pipeline_columns [OF assms(1-3)] show ?thesis
    by (simp add: comparable_def list_all_iff)
qed

lemma pages_show_pipeline_output:
  assumes "pipeline wx d = Inr d'" and "has_column Bhk d" and "has_column Area_sqft d"
    and "\<not> has_column Furnishing d" and "rows d' \<noteq> []"
    and "\<forall>r \<in> set (rows d'). area_sqft r \<noteq> None"
  shows "snd (render (home_steps (sample_coordinates (blank_coordinates d')))) = None"
    and "snd (explorer_view st (sample_coordinates (blank_coordinates d'))) = None"
    and "snd (compare_view st' (sample_coordinates (blank_coordinates d'))) = None"
  using pipeline_columns [OF assms(1-3)]
    explorer_view_presentable [OF pipeline_output_presentable [OF assms(1-5)]]
    compare_view_comparable [OF pipeline_output_comparable [OF assms(1-3,6)]]
  by (simp_all add: home_steps_return_iff)

text \<open>
  C11. What the pipeline returns for a frame with a bhk and an area column and without
  a furnishing column is shown by the three pages once the geocoder has added the
  coordinates: if a listing is left and every listing has an area, no page raises,
  whatever the widgets hold.
\<close>

theorem pipeline_output_is_shown:
  assumes "pipeline wx d = Inr d'" and "has_column Bhk d" and "has_column Area_sqft d"
    and "\<not> has_column Furnishing d" and "rows d' \<noteq> []"
    and "\<forall>r \<in> set (rows d'). area_sqft r \<noteq> None"
  shows "snd (render (home_steps (sample_coordinates (blank_coordinates d')))) = None
    \<and> snd (explorer_view st (sample_coordinates (blank_coordinates d'))) = None
    \<and> snd (compare_view st' (sample_coordinates (blank_coordinates d'))) = None"
  using pages_show_pipeline_output [OF assms] by simp

text \<open>
  The processed file as the processor leaves it has no coordinates: the Explorer page
  shows its four metrics and raises KeyError for latitude as soon as a listing passes
  its filter.
\<close>

lemma unlocated_file_breaks_explorer:
  assumes "pipeline wx d = Inr d'" and "has_column Bhk d" and "has_column Area_sqft d"
    and "\<not> has_column Furnishing d" and "\<not> has_column Latitude d" and "rows d' \<noteq> []"
    and "\<forall>r \<in> set (rows d'). \<exists>p \<in> \<int>. price r = Some p"
  shows "snd (explorer_view first_run d') = Some (key_error [Latitude])
    \<and> length (fst (explorer_view first_run d')) = 4"
proof -
  note cols = pipeline_display_columns [OF assms(1-3)]
  note rows = pipeline_rows [OF assms(1)]
  from has_column_resolve(2-4) assms(1) have base: "has_column Price d" "has_column Location d"
    by (auto simp: pipeline_eq_Inr_iff)
  from rows assms(4) have "None \<notin> set (map location (rows d'))"
    "None \<notin> set (map furnishing (rows d'))"
    by force+
  moreover from rows assms(6) have "numbers price (rows d') \<noteq> []"
    by (cases "rows d'") (force simp: numbers_def)+
  ultimately obtain sel where sel: "explorer_widgets first_run d' = Inr sel"
    using explorer_widgets_eq_Inr_iff [of first_run d'] cols assms(2) base
    by (auto simp: sortable_def)
  from explorer_view_without_coordinates [OF sel first_run_filter [OF sel assms(7)] assms(6)]
    cols assms(3,5)
  show ?thesis by simp
qed

section \<open>What the file does not keep\<close>

text \<open>
  The pipeline keeps a listing whose location is a text such as \<open>N/A\<close> or, after
  \<open>strip\<close>, the empty text: for \<open>dropna\<close> it is a value. \<open>read_csv\<close> reads it as a
  missing value, so that the location column the dashboard loads mixes missing values
  and strings.
\<close>

lemma pipeline_priced:
  assumes "pipeline wx d = Inr d'" and "rows d' \<noteq> []"
  shows "numbers price (rows d') \<noteq> []"
  using assms(2) pipeline_rows [OF assms(1)]
  by (cases "rows d'") (force simp: numbers_def)+

lemma pipeline_base_columns:
  assumes "pipeline wx d = Inr d'"
  shows "has_column Price d'" "has_column Location d'" "has_column c d \<Longrightarrow> has_column c d'"
  using assms has_column_resolve
  by (auto simp: pipeline_eq_Inr_iff has_column_enrich)

text \<open>
  C25. A location that read_csv reads as a missing value (N/A, None, the empty text) is
  a value for the pipeline and stays in its result; when the result, with another
  listing whose location is readable, is the processed file and the geocoder has run on
  it, the Explorer and the Compare page show nothing and raise the TypeError of
  sorted(), whatever the widgets hold.
\<close>

theorem unreadable_location_breaks_pages:
  assumes "pipeline wx d = Inr d'" and "has_column Bhk d"
    and "tables w1 processed_file = Some d'"
    and "geocoder_main service w1 = (Returned (), w2)"
    and "Some l \<in> set (map location (rows d'))" and "l \<in> set na_values"
    and "Some l' \<in> set (map location (rows d'))" and "l' \<notin> set na_values"
  shows "(\<exists>m. explorer_page st w2 = ([], Some (TypeError m)))
    \<and> (\<exists>m. compare_page st' w2 = ([], Some (TypeError m)))"
proof -
  let ?x = "sample_coordinates (blank_coordinates (parse_frame d'))"
  let ?d = "parse_frame ?x"
  from geocoder_main_Returned [OF assms(4)] assms(3)
  have "tables w2 processed_file = Some ?x"
    by auto
  moreover have "columns ?x \<noteq> []"
    by (rule has_column_columns [of Latitude]) simp
  ultimately have load: "page_load_data w2 = ?d"
    by (simp add: page_load_data_present)
  have "map location (rows ?d) = map parse_text (map location (rows ?x))"
    by (simp add: comp_def)
  also have "\<dots> = map parse_text (map location (rows (parse_frame d')))"
    by (simp only: coordinates_keep)
  also have "\<dots> = map parse_text (map location (rows d'))"
    by (simp add: comp_def)
  finally have locs: "map location (rows ?d) = map parse_text (map location (rows d'))" .
  from assms(5,6) have "parse_text (Some l) \<in> set (map location (rows ?d))"
    unfolding locs by (metis image_eqI set_map)
  with assms(6) have none: "None \<in> set (map location (rows ?d))"
    by simp
  from assms(7) have "parse_text (Some l') \<in> set (map location (rows ?d))"
    unfolding locs by (metis image_eqI set_map)
  with assms(8) have some: "Some l' \<in> set (map location (rows ?d))"
    by simp
  from assms(5) have "rows d' \<noteq> []" by auto
  have "map price (rows ?x) = map price (rows (parse_frame d'))"
    by (simp only: coordinates_keep)
  then have "numbers price (rows ?d) = numbers price (rows d')"
    by (simp add: numbers_def comp_def)
  with pipeline_priced [OF assms(1) \<open>rows d' \<noteq> []\<close>]
  have prices: "numbers price (rows ?d) \<noteq> []"
    by simp
  from pipeline_base_columns [OF assms(1)] assms(2)
  have cols: "has_column Bhk ?d" "has_column Price ?d" "has_column Location ?d"
    by simp_all
  from explorer_view_mixed_location [OF cols prices none some, of st]
    compare_view_mixed_location [OF cols(3) none some, of st']
  show ?thesis
    by (simp add: explorer_page_def compare_page_def load)
qed

section \<open>The example run\<close>

lemma modes_sample: "modes [2, 3, 1, 2, 3, 1, 2, 4 :: rat] = [2]"
  by (simp add: modes_def max_count_def)

lemma resolve_sample: "resolve sample_data = Inr sample_data"
  by (simp add: resolve_def sample_data_def modes_sample frame_eval)

lemma outliers_sample: "remove_outliers sample_data = sample_data"
  by (simp add: sample_data_def frame_eval)

lemma main_returns:
  "\<exists>self w1 d. main w = (Returned processed_file, self, w1) \<and> df self = Some d
    \<and> tables w1 processed_file = Some d \<and> ''data/processed'' \<in> dirs w1
    \<and> len d = 8 \<and> has_column Location d"
proof -
  let ?w2 = "(mkdir_p ''data/raw'' w)
    \<lparr>tables := (tables w)(''data/raw/raw_rentals.csv'' \<mapsto> sample_data)\<rparr>"
  let ?self = "(init (Some ''data/raw/raw_rentals.csv''))\<lparr>df := Some sample_data\<rparr>"
  let ?d = "enrich ?w2 sample_data"
  have load: "load_data None (init (Some ''data/raw/raw_rentals.csv'')) ?w2
      = (Returned sample_data, ?self, ?w2)"
    by (rule load_sample_data) simp
  have p: "pipeline ?w2 sample_data = Inr ?d"
    by (simp add: pipeline_def resolve_sample)
  with process_all_run [of ?self sample_data ?w2] obtain w3 where
    run: "process_all ?self ?w2 = (Returned ?d, ?self\<lparr>df := Some ?d\<rparr>, w3)"
    by auto
  have "''data/processed'' \<in> set (ancestors ''data/processed'')"
    by (rule ancestors_self)
  then have save: "\<exists>w4. save_processed_data ''rentals_processed.csv'' (?self\<lparr>df := Some ?d\<rparr>) w3
      = (Returned processed_file, ?self\<lparr>df := Some ?d\<rparr>, w4)
    \<and> tables w4 processed_file = Some ?d \<and> ''data/processed'' \<in> dirs w4"
    by (simp add: save_processed_data_def Let_def path_join_def to_csv_def processed_file_def
        parent_def)
  have "len ?d = 8" "has_column Location ?d"
    by (simp_all add: len_enrich outliers_sample has_column_enrich)
       (simp_all add: sample_data_def len_def has_column_def)
  with load run save show ?thesis
    by (auto simp: main_def raw_file_written Let_def printing_def returns_def current_df_def
        bind_def)
qed

lemma geocoder_main_returns:
  assumes "tables w1 processed_file = Some d0" and "has_column Location d0"
    and "''data/processed'' \<in> dirs w1"
  shows "\<exists>w2. geocoder_main service w1 = (Returned (), w2)"
  using assms has_column_columns [OF assms(2)]
  by (simp add: geocoder_main_def read_csv_def processed_file_def add_sample_coordinates_def
      to_csv_def parent_def Let_def)

lemma pipeline_sample: "pipeline wx sample_data = Inr (enrich wx sample_data)"
  by (simp add: pipeline_def resolve_sample)

lemma enrich_sample_fields:
  "map area_sqft (rows (enrich wx sample_data)) = map area_sqft (rows sample_data)"
  "map price (rows (enrich wx sample_data)) = map price (rows sample_data)"
  using map_rows_enrich [of area_sqft wx sample_data] map_rows_enrich [of price wx sample_data]
  by (simp_all add: outliers_sample comp_def del: rows_remove_outliers)

lemma enrich_sample:
  "rows (enrich wx sample_data) \<noteq> []"
  "\<forall>r \<in> set (rows (enrich wx sample_data)). area_sqft r \<noteq> None"
  "\<forall>r \<in> set (rows (enrich wx sample_data)). \<exists>p \<in> \<int>. price r = Some p"
proof -
  have "len (enrich wx sample_data) = 8"
    by (simp add: len_enrich outliers_sample) (simp add: sample_data_def len_def)
  then show "rows (enrich wx sample_data) \<noteq> []" by (auto simp: len_def)
  have "\<forall>a \<in> set (map area_sqft (rows (enrich wx sample_data))). a \<noteq> None"
    "\<forall>p \<in> set (map price (rows (enrich wx sample_data))). \<exists>q \<in> \<int>. p = Some q"
    unfolding enrich_sample_fields by (simp_all add: sample_data_def sample_row_def)
  then show "\<forall>r \<in> set (rows (enrich wx sample_data)). area_sqft r \<noteq> None"
    "\<forall>r \<in> set (rows (enrich wx sample_data)). \<exists>p \<in> \<int>. price r = Some p"
    by simp_all
qed

lemma enrich_sample_texts:
  "map title (rows (enrich wx sample_data)) = map title (rows sample_data)"
  "map location (rows (enrich wx sample_data)) = map location (rows sample_data)"
  using map_rows_enrich [of title wx sample_data] map_rows_enrich [of location wx sample_data]
  by (simp_all add: outliers_sample comp_def del: rows_remove_outliers)
     (simp_all add: sample_data_def sample_row_def clean_row_def frame_eval char_eval)

lemma readable_furnishing_options: "v \<in> set furnishing_options \<Longrightarrow> readable_text (Some v)"
  by (auto simp: furnishing_options_def readable_text_def na_values_def)

lemma sample_columns_present:
  "has_column Bhk sample_data" "has_column Area_sqft sample_data"
  "\<not> has_column Furnishing sample_data" "\<not> has_column Latitude sample_data"
  by (simp_all add: sample_data_def has_column_def)

lemma survives_csv_enrich_sample: "survives_csv (enrich wx sample_data)"
proof -
  have "readable_text (furnishing r)" if "r \<in> set (rows (enrich wx sample_data))" for r
    using that sample_columns_present(3)
    by (auto elim!: enrich_rowE intro: readable_furnishing_options)
  then have "\<forall>v \<in> set (map furnishing (rows (enrich wx sample_data))). readable_text v"
    by simp
  moreover have "\<forall>v \<in> set (map title (rows sample_data)). readable_text v"
    "\<forall>v \<in> set (map location (rows sample_data)). readable_text v"
    by (simp_all add: sample_data_def sample_row_def blank_listing_def readable_text_def
        na_values_def)
  moreover have "has_column Title (enrich wx sample_data)"
    by (simp add: has_column_enrich) (simp add: sample_data_def has_column_def)
  then have "columns (enrich wx sample_data) \<noteq> []"
    by (rule has_column_columns)
  ultimately show ?thesis
    unfolding survives_csv_iff enrich_sample_texts by simp
qed

text \<open>
  C27. The example runs return: in every world and for every geocoding service, the
  __main__ block of the processor returns the path of the processed file, that of the
  geocoder returns after it, and the dashboard then loads a frame of eight rows, which
  the three pages show without raising, whatever their widgets hold.
\<close>

theorem example_run_reaches_dashboard:
  "\<exists>self w1 w2 d. main w = (Returned processed_file, self, w1)
    \<and> geocoder_main service w1 = (Returned (), w2)
    \<and> app_load_data w2 = (Inr d, w2) \<and> len d = 8
    \<and> snd (fst (home_page w2)) = None \<and> snd (explorer_page st w2) = None
    \<and> snd (compare_page st' w2) = None"
proof -
  from main_returns [of w] obtain self w1 d0 where m: "main w = (Returned processed_file, self, w1)"
    and d0: "df self = Some d0" "tables w1 processed_file = Some d0" "''data/processed'' \<in> dirs w1"
    "len d0 = 8" "has_column Location d0"
    by blast
  from main_Returned [OF m] d0(2) obtain wx where d0': "d0 = enrich wx sample_data"
    by (auto simp: pipeline_sample)
  from geocoder_main_returns [OF d0(2,5,3)] obtain w2
    where g: "geocoder_main service w1 = (Returned (), w2)"
    by blast
  let ?x = "sample_coordinates (blank_coordinates d0)"
  have s: "survives_csv d0" "survives_csv ?x"
    by (simp_all add: d0' survives_csv_enrich_sample survives_csv_coordinates)
  from geocoder_main_Returned [OF g] d0(2) have t: "tables w2 processed_file = Some ?x"
    by (simp add: parse_frame_survives [OF s(1)])
  from read_csv_stored [OF t s(2)] have load: "app_load_data w2 = (Inr ?x, w2)"
    "page_load_data w2 = ?x"
    by (simp_all add: app_load_data_def page_load_data_def)
  from pages_show_pipeline_output [OF pipeline_sample sample_columns_present(1-3) enrich_sample(1,2)]
  have "snd (render (home_steps ?x)) = None" "snd (explorer_view st ?x) = None"
    "snd (compare_view st' ?x) = None"
    by (simp_all add: d0')
  with m g d0(4) load show ?thesis
    by (simp add: sample_coordinates_simps home_page_def explorer_page_def compare_page_def)
qed

text \<open>
  C28. On the processed file as the example run of the processor leaves it, before the
  geocoder has run, the first run of the Explorer page shows its four metrics and then
  raises KeyError for latitude.
\<close>

theorem example_run_needs_geocoder:
  "\<exists>self w1. main w = (Returned processed_file, self, w1)
    \<and> snd (explorer_page first_run w1) = Some (key_error [Latitude])
    \<and> length (fst (explorer_page first_run w1)) = 4"
proof -
  from main_returns [of w] obtain self w1 d0 where m: "main w = (Returned processed_file, self, w1)"
    and d0: "tables w1 processed_file = Some d0"
    by blast
  from main_Returned [OF m] d0 obtain wx where d0': "d0 = enrich wx sample_data"
    by (auto simp: pipeline_sample)
  from read_csv_stored [OF d0] have "page_load_data w1 = d0"
    by (simp add: d0' survives_csv_enrich_sample page_load_data_def)
  with unlocated_file_breaks_explorer
    [OF pipeline_sample sample_columns_present enrich_sample(1,3)] m
  show ?thesis
    by (auto simp: d0' explorer_page_def)
qed

lemma main_example:
  "main (empty_world id)
     = (Returned processed_file, fst (snd (main (empty_world id))),
        snd (snd (main (empty_world id))))"
  using main_returns [of "empty_world id"] by auto

lemma geocoder_main_example:
  "geocoder_main unreachable (snd (snd (main (empty_world id))))
     = (Returned (), snd (geocoder_main unreachable (snd (snd (main (empty_world id))))))"
proof -
  from main_returns [of "empty_world id"] obtain d0 where
    "tables (snd (snd (main (empty_world id)))) processed_file = Some d0"
    "has_column Location d0" "''data/processed'' \<in> dirs (snd (snd (main (empty_world id))))"
    by auto
  from geocoder_main_returns [OF this, of unreachable] show ?thesis
    by auto
qed

theorem processed_file_reaches_dashboard_witness:
  "\<exists>d0 d. df (fst (snd (main (empty_world id)))) = Some d0
    \<and> app_load_data (snd (geocoder_main unreachable (snd (snd (main (empty_world id))))))
        = (Inr d, snd (geocoder_main unreachable (snd (snd (main (empty_world id))))))
    \<and> page_load_data (snd (geocoder_main unreachable (snd (snd (main (empty_world id)))))) = d
    \<and> (\<exists>shown. display_df d = Inr shown) \<and> len d = len d0
    \<and> (\<forall>i < len d. price (rows d ! i) = price (rows d0 ! i)
          \<and> latitude (rows d ! i) \<noteq> None \<and> longitude (rows d ! i) \<noteq> None)"
  by (rule processed_file_reaches_dashboard [OF main_example geocoder_main_example])


lemma survives_csv_scraper_sample: "survives_csv scraper_sample"
  by (simp add: survives_csv_def readable_text_def na_values_def scraper_sample_def
      scraped_row_def blank_listing_def)

lemma scraper_saves:
  "save_data scraper_sample ''raw_rentals.csv'' (new_scraper None offline) (empty_world id)
     = (Returned ''data/raw/raw_rentals.csv'', new_scraper None offline,
        snd (snd (save_data scraper_sample ''raw_rentals.csv'' (new_scraper None offline)
          (empty_world id))))"
  using save_data_Returned [of "''raw_rentals.csv''" scraper_sample "new_scraper None offline"
      "empty_world id"]
  by auto

theorem scraped_data_is_loaded_witness:
  "load_data (Some ''data/raw/raw_rentals.csv'') (init None)
      (snd (snd (save_data scraper_sample ''raw_rentals.csv'' (new_scraper None offline)
        (empty_world id))))
     = (Returned scraper_sample, (init None)\<lparr>df := Some scraper_sample\<rparr>,
        snd (snd (save_data scraper_sample ''raw_rentals.csv'' (new_scraper None offline)
          (empty_world id))))"
  using scraped_data_is_loaded [OF scraper_saves, of "init None"]
  by (simp add: parse_frame_survives [OF survives_csv_scraper_sample])
     (simp add: scraper_sample_def)

theorem pipeline_output_is_shown_witness:
  "snd (render (home_steps (sample_coordinates (blank_coordinates
      (enrich (empty_world id) sample_data))))) = None
    \<and> snd (explorer_view first_run (sample_coordinates (blank_coordinates
      (enrich (empty_world id) sample_data)))) = None
    \<and> snd (compare_view compare_first_run (sample_coordinates (blank_coordinates
      (enrich (empty_world id) sample_data)))) = None"
  by (rule pipeline_output_is_shown
      [OF pipeline_sample sample_columns_present(1-3) enrich_sample(1,2)])

lemma geocoder_scenario_n:
  "geocoder_main unreachable
      ((mkdir_p ''data/processed'' (empty_world id))
        \<lparr>tables := [processed_file \<mapsto> enrich (empty_world id) scenario_n]\<rparr>)
     = (Returned (),
        snd (geocoder_main unreachable
          ((mkdir_p ''data/processed'' (empty_world id))
            \<lparr>tables := [processed_file \<mapsto> enrich (empty_world id) scenario_n]\<rparr>)))"
proof -
  let ?w = "(mkdir_p ''data/processed'' (empty_world id))
    \<lparr>tables := [processed_file \<mapsto> enrich (empty_world id) scenario_n]\<rparr>"
  have "tables ?w processed_file = Some (enrich (empty_world id) scenario_n)"
    by simp
  moreover have "has_column Location (enrich (empty_world id) scenario_n)"
    by (simp add: has_column_enrich) (simp add: scenario_n_def has_column_def)
  moreover have "''data/processed'' \<in> dirs ?w"
    by (simp add: ancestors_self)
  ultimately obtain w2 where "geocoder_main unreachable ?w = (Returned (), w2)"
    using geocoder_main_returns [of ?w _ unreachable] by blast
  then show ?thesis by simp
qed

theorem unreadable_location_breaks_pages_witness:
  "(\<exists>m. explorer_page first_run
      (snd (geocoder_main unreachable
        ((mkdir_p ''data/processed'' (empty_world id))
          \<lparr>tables := [processed_file \<mapsto> enrich (empty_world id) scenario_n]\<rparr>)))
      = ([], Some (TypeError m)))
    \<and> (\<exists>m. compare_page compare_first_run
      (snd (geocoder_main unreachable
        ((mkdir_p ''data/processed'' (empty_world id))
          \<lparr>tables := [processed_file \<mapsto> enrich (empty_world id) scenario_n]\<rparr>)))
      = ([], Some (TypeError m)))"
  by (rule unreadable_location_breaks_pages
        [OF pipeline_scenario_n _ _ geocoder_scenario_n, where l = "''N/A''" and l' = "''Saket''"])
     (simp_all add: locations_scenario_n na_values_def, simp add: scenario_n_def has_column_def)

end
